(* ===== verification/PyText.thy ===== *)
theory PyText
  imports Prelude
begin

text \<open>
  Python text as the source uses it. A Python \<open>str\<close> is a list of characters; the model's
  \<^typ>\<open>char\<close> is a code point below 256 (Latin-1, the range of an HTTP header value), and the
  classification functions of \<open>str\<close> are written out on exactly that range. Byte strings
  (\<open>bytes\<close>) are lists of \<^typ>\<open>char\<close> too.
\<close>

type_synonym bytes = string

subsection \<open>Character classes\<close>

definition py_isspace :: "char \<Rightarrow> bool" where
  "py_isspace c = (let n = (of_char c :: nat) in
     (9 \<le> n \<and> n \<le> 13) \<or> (28 \<le> n \<and> n \<le> 31) \<or> n = 32 \<or> n = 133 \<or> n = 160)"

definition is_ascii_digit :: "char \<Rightarrow> bool" where
  "is_ascii_digit c = (let n = (of_char c :: nat) in 48 \<le> n \<and> n \<le> 57)"

text \<open>\<open>str.isdigit\<close> also accepts the superscript digits (U+00B2, U+00B3, U+00B9), which
  \<open>int\<close> does not.\<close>

definition py_isdigit_char :: "char \<Rightarrow> bool" where
  "py_isdigit_char c = (let n = (of_char c :: nat) in is_ascii_digit c \<or> n = 178 \<or> n = 179 \<or> n = 185)"

definition is_ascii_letter :: "char \<Rightarrow> bool" where
  "is_ascii_letter c = (let n = (of_char c :: nat) in (65 \<le> n \<and> n \<le> 90) \<or> (97 \<le> n \<and> n \<le> 122))"

definition is_hex_letter :: "char \<Rightarrow> bool" where
  "is_hex_letter c = (let n = (of_char c :: nat) in (65 \<le> n \<and> n \<le> 70) \<or> (97 \<le> n \<and> n \<le> 102))"

definition py_lower_char :: "char \<Rightarrow> char" where
  "py_lower_char c = (let n = (of_char c :: nat) in
     if (65 \<le> n \<and> n \<le> 90) \<or> (192 \<le> n \<and> n \<le> 222 \<and> n \<noteq> 215) then char_of (n + 32) else c)"

subsection \<open>Methods of \<open>str\<close>\<close>

definition lstrip :: "string \<Rightarrow> string" where
  "lstrip s = dropWhile py_isspace s"

definition rstrip :: "string \<Rightarrow> string" where
  "rstrip s = rev (dropWhile py_isspace (rev s))"

definition strip :: "string \<Rightarrow> string" where
  "strip s = rstrip (lstrip s)"

definition py_isdigit :: "string \<Rightarrow> bool" where
  "py_isdigit s = (s \<noteq> [] \<and> list_all py_isdigit_char s)"

definition py_lower :: "string \<Rightarrow> string" where
  "py_lower s = map py_lower_char s"

definition startswith :: "string \<Rightarrow> string \<Rightarrow> bool" where
  "startswith s p = (take (length p) s = p)"

text \<open>\<open>s.split(sep)\<close> for a one-character separator: the pieces between separators.\<close>

fun split_on :: "char \<Rightarrow> string \<Rightarrow> string list" where
  "split_on sep [] = [[]]"
| "split_on sep (c # cs) =
     (if c = sep then [] # split_on sep cs
      else (case split_on sep cs of [] \<Rightarrow> [[c]] | p # ps \<Rightarrow> (c # p) # ps))"

text \<open>\<open>needle in haystack\<close>.\<close>

fun contains :: "string \<Rightarrow> string \<Rightarrow> bool" where
  "contains needle [] = (needle = [])"
| "contains needle (c # cs) = (startswith (c # cs) needle \<or> contains needle cs)"

text \<open>The test \<open>not v or not v.strip()\<close> that the validators share.\<close>

definition is_blank :: "string \<Rightarrow> bool" where
  "is_blank s = (s = [] \<or> strip s = [])"

lemma strip_Nil [simp]: "strip [] = []"
  by (simp add: strip_def lstrip_def rstrip_def)

lemma strip_eq_Nil_iff: "strip s = [] \<longleftrightarrow> list_all py_isspace s"
proof -
  have "strip s = [] \<longleftrightarrow> (\<forall>c \<in> set (dropWhile py_isspace s). py_isspace c)"
    by (simp add: strip_def rstrip_def lstrip_def dropWhile_eq_Nil_conv)
  also have "\<dots> \<longleftrightarrow> dropWhile py_isspace s = []"
    by (metis dropWhile_eq_Nil_conv hd_dropWhile hd_in_set list.distinct(1) neq_Nil_conv empty_iff
        empty_set)
  finally show ?thesis by (simp add: dropWhile_eq_Nil_conv list_all_iff)
qed

lemma is_blank_iff: "is_blank s \<longleftrightarrow> list_all py_isspace s"
  by (auto simp: is_blank_def strip_eq_Nil_iff)

lemma startswith_iff: "startswith s p \<longleftrightarrow> (\<exists>t. s = p @ t)"
  by (metis append_eq_conv_conj append_take_drop_id startswith_def)

lemma startswith_append [simp]: "startswith (p @ t) p"
  by (auto simp: startswith_iff)

lemma split_on_nonempty [simp]: "split_on sep s \<noteq> []"
  by (cases s) (auto split: list.splits)

lemma split_on_hd: "hd (split_on sep s) = takeWhile (\<lambda>c. c \<noteq> sep) s"
  by (induction s) (auto split: list.splits)

lemma strip_unpadded:
  assumes "s \<noteq> []" and "\<not> py_isspace (hd s)" and "\<not> py_isspace (last s)"
  shows "strip s = s"
proof -
  have "dropWhile py_isspace s = s" using assms by (cases s) auto
  moreover have "dropWhile py_isspace (rev s) = rev s"
    using assms by (cases s rule: rev_cases) auto
  ultimately show ?thesis by (simp add: strip_def lstrip_def rstrip_def)
qed

lemma strip_no_space: "list_all (\<lambda>c. \<not> py_isspace c) s \<Longrightarrow> strip s = s"
  by (cases "s = []") (auto simp: list_all_iff intro!: strip_unpadded)

lemma is_ascii_digit_isdigit: "is_ascii_digit c \<Longrightarrow> py_isdigit_char c"
  by (simp add: py_isdigit_char_def Let_def)

lemma digit_not_space: "is_ascii_digit c \<Longrightarrow> \<not> py_isspace c"
  by (auto simp: is_ascii_digit_def py_isspace_def Let_def)

lemma letter_not_space: "is_ascii_letter c \<Longrightarrow> \<not> py_isspace c"
  by (auto simp: is_ascii_letter_def py_isspace_def Let_def)

subsection \<open>Decimal numbers\<close>

definition digit_char :: "nat \<Rightarrow> char" where
  "digit_char d = char_of (48 + d)"

definition digit_val :: "char \<Rightarrow> nat" where
  "digit_val c = of_char c - 48"

lemma of_digit_char: "d < 10 \<Longrightarrow> (of_char (digit_char d) :: nat) = 48 + d"
  by (simp add: digit_char_def)

lemma digit_val_char [simp]: "d < 10 \<Longrightarrow> digit_val (digit_char d) = d"
  by (simp add: digit_val_def of_digit_char)

lemma is_ascii_digit_char [simp]: "d < 10 \<Longrightarrow> is_ascii_digit (digit_char d)"
  by (simp add: is_ascii_digit_def of_digit_char Let_def)

lemma digit_char_val: "is_ascii_digit c \<Longrightarrow> digit_char (digit_val c) = c"
  by (auto simp: is_ascii_digit_def digit_char_def digit_val_def Let_def)

lemma digit_val_less: "is_ascii_digit c \<Longrightarrow> digit_val c < 10"
  by (auto simp: is_ascii_digit_def digit_val_def Let_def)

lemma digit_char_less: "d < 10 \<Longrightarrow> e < 10 \<Longrightarrow> digit_char d < digit_char e \<longleftrightarrow> d < e"
  by (simp add: less_char_def of_digit_char)

lemma digit_char_inj: "d < 10 \<Longrightarrow> e < 10 \<Longrightarrow> digit_char d = digit_char e \<longleftrightarrow> d = e"
  by (metis digit_val_char)

text \<open>\<open>f"{n:0kd}"\<close> for \<open>n < 10 ^ k\<close>, and the value of a run of digits.\<close>

fun padn :: "nat \<Rightarrow> nat \<Rightarrow> string" where
  "padn 0 n = []"
| "padn (Suc k) n = padn k (n div 10) @ [digit_char (n mod 10)]"

fun digits_val :: "nat \<Rightarrow> string \<Rightarrow> nat" where
  "digits_val acc [] = acc"
| "digits_val acc (c # cs) = digits_val (acc * 10 + digit_val c) cs"

lemma length_padn [simp]: "length (padn k n) = k"
  by (induction k arbitrary: n) auto

lemma padn_digits: "list_all is_ascii_digit (padn k n)"
  by (induction k arbitrary: n) auto

lemma digits_val_append: "digits_val acc (xs @ ys) = digits_val (digits_val acc xs) ys"
  by (induction xs arbitrary: acc) auto

lemma digits_val_padn: "n < 10 ^ k \<Longrightarrow> digits_val 0 (padn k n) = n"
  by (induction k arbitrary: n) (auto simp: digits_val_append)

lemma padn_inj: "m < 10 ^ k \<Longrightarrow> n < 10 ^ k \<Longrightarrow> padn k m = padn k n \<longleftrightarrow> m = n"
  by (metis digits_val_padn)

lemma div_mod_less: "(m::nat) div 10 < n div 10 \<or> (m div 10 = n div 10 \<and> m mod 10 < n mod 10) \<longleftrightarrow> m < n"
proof -
  define a b c d where "a = m div 10" and "b = m mod 10" and "c = n div 10" and "d = n mod 10"
  then have "m = 10 * a + b" "n = 10 * c + d" "b < 10" "d < 10" by auto
  then have "a < c \<or> (a = c \<and> b < d) \<longleftrightarrow> m < n" by auto
  then show ?thesis by (simp only: a_def b_def c_def d_def)
qed

lemma padn_less: "m < 10 ^ k \<Longrightarrow> n < 10 ^ k \<Longrightarrow> padn k m < padn k n \<longleftrightarrow> m < n"
proof (induction k arbitrary: m n)
  case 0
  then show ?case by simp
next
  case (Suc k)
  have lt: "m div 10 < 10 ^ k" "n div 10 < 10 ^ k" using Suc.prems by auto
  have "padn (Suc k) m < padn (Suc k) n \<longleftrightarrow>
      m div 10 < n div 10 \<or> (m div 10 = n div 10 \<and> m mod 10 < n mod 10)"
    using Suc.IH [OF lt] padn_inj [OF lt]
    by (auto simp: less_append_same_length digit_char_less)
  also have "\<dots> \<longleftrightarrow> m < n" by (rule div_mod_less)
  finally show ?case .
qed

text \<open>\<open>str(n)\<close> for a natural number.\<close>

fun show_nat :: "nat \<Rightarrow> string" where
  "show_nat n = (if n < 10 then [digit_char n] else show_nat (n div 10) @ [digit_char (n mod 10)])"

declare show_nat.simps [simp del]

lemma show_nat_nonempty [simp]: "show_nat n \<noteq> []"
  by (subst show_nat.simps) simp

lemma show_nat_digits: "list_all is_ascii_digit (show_nat n)"
proof (induction n rule: show_nat.induct)
  case (1 n)
  then show ?case by (subst show_nat.simps) auto
qed

lemma digits_val_show_nat [simp]: "digits_val 0 (show_nat n) = n"
proof (induction n rule: show_nat.induct)
  case (1 n)
  then show ?case by (subst show_nat.simps) (auto simp: digits_val_append)
qed

text \<open>
  \<open>int(s)\<close> with its default base: surrounding whitespace, one optional sign, ASCII digits with
  single underscores between them, at most \<open>sys.get_int_max_str_digits()\<close> digits
  (4300 by default); anything else is a \<open>ValueError\<close> (\<^const>\<open>None\<close>).
\<close>

definition int_max_str_digits :: nat where
  "int_max_str_digits = 4300"

fun strip_underscores :: "string \<Rightarrow> string option" where
  "strip_underscores [] = None"
| "strip_underscores [c] = (if is_ascii_digit c then Some [c] else None)"
| "strip_underscores (c # d # cs) =
     (if \<not> is_ascii_digit c then None
      else map_option ((#) c) (strip_underscores (if d = CHR ''_'' then cs else d # cs)))"

definition parse_digits :: "string \<Rightarrow> nat option" where
  "parse_digits s = (case strip_underscores s of
       None \<Rightarrow> None
     | Some ds \<Rightarrow> if length ds > int_max_str_digits then None else Some (digits_val 0 ds))"

definition py_int :: "string \<Rightarrow> int option" where
  "py_int s = (case strip s of
       [] \<Rightarrow> None
     | c # cs \<Rightarrow>
         if c = CHR ''-'' then map_option (\<lambda>n. - int n) (parse_digits cs)
         else if c = CHR ''+'' then map_option int (parse_digits cs)
         else map_option int (parse_digits (c # cs)))"

lemma strip_underscores_digits: "s \<noteq> [] \<Longrightarrow> list_all is_ascii_digit s \<Longrightarrow> strip_underscores s = Some s"
proof (induction s rule: strip_underscores.induct)
  case (3 c d cs)
  moreover have "d \<noteq> CHR ''_''" using 3 by (auto simp: is_ascii_digit_def)
  ultimately show ?case by simp
qed auto

lemma strip_underscores_superscript:
  "strip_underscores s = Some ds \<Longrightarrow> c \<in> set s \<Longrightarrow> is_ascii_digit c \<or> c = CHR ''_''"
proof (induction s arbitrary: ds rule: strip_underscores.induct)
  case (3 c' d cs)
  then show ?case by (auto split: if_splits)
qed (auto split: if_splits)

lemma py_int_digits:
  assumes "s \<noteq> []" and "list_all is_ascii_digit s" and "length s \<le> int_max_str_digits"
  shows "py_int s = Some (int (digits_val 0 s))"
proof -
  from assms(2) have "list_all (\<lambda>c. \<not> py_isspace c) s"
    by (auto simp: list_all_iff digit_not_space)
  then have "strip s = s" by (rule strip_no_space)
  moreover obtain c cs where s: "s = c # cs" using assms(1) by (cases s) auto
  moreover have "c \<noteq> CHR ''-''" "c \<noteq> CHR ''+''"
    using assms(2) s by (auto simp: is_ascii_digit_def)
  ultimately show ?thesis
    using assms by (auto simp: py_int_def parse_digits_def strip_underscores_digits)
qed

end
