(* ===== verification/Errors.thy ===== *)
theory Errors
  imports PyText
begin

text \<open>
  The exception hierarchy of \<open>src/cer/contract/errors.py\<close>: the classes, their base class, the
  stable \<open>code\<close> attribute, and the exceptions of other origin (the Python runtime, pydantic and
  SQLite) that can leave an operation of the model. Messages are not modelled; the \<open>code\<close> of an
  instance is, because handlers and the client dispatch on it.
\<close>

datatype exc_class =
    CERError
  | ContractViolationError
  | IncompatibleSchemaVersionError
  | UnknownEvidenceTypeError
  | IdentityError
  | ValidationError
  | ImmutabilityError
  | IdempotencyConflictError
  | NotFoundError
  | MetadataStoreError
  | ArtifactStoreError
  | ChecksumMismatchError

fun base_class :: "exc_class \<Rightarrow> exc_class option" where
  "base_class CERError = None"
| "base_class ContractViolationError = Some CERError"
| "base_class IncompatibleSchemaVersionError = Some ContractViolationError"
| "base_class UnknownEvidenceTypeError = Some ContractViolationError"
| "base_class IdentityError = Some ContractViolationError"
| "base_class ValidationError = Some ContractViolationError"
| "base_class ImmutabilityError = Some CERError"
| "base_class IdempotencyConflictError = Some CERError"
| "base_class NotFoundError = Some CERError"
| "base_class MetadataStoreError = Some CERError"
| "base_class ArtifactStoreError = Some CERError"
| "base_class ChecksumMismatchError = Some ArtifactStoreError"

fun class_code :: "exc_class \<Rightarrow> string" where
  "class_code CERError = ''cer_error''"
| "class_code ContractViolationError = ''contract_violation''"
| "class_code IncompatibleSchemaVersionError = ''incompatible_schema_version''"
| "class_code UnknownEvidenceTypeError = ''unknown_evidence_type''"
| "class_code IdentityError = ''identity_error''"
| "class_code ValidationError = ''validation_error''"
| "class_code ImmutabilityError = ''immutability_violation''"
| "class_code IdempotencyConflictError = ''idempotency_conflict''"
| "class_code NotFoundError = ''not_found''"
| "class_code MetadataStoreError = ''metadata_store_error''"
| "class_code ArtifactStoreError = ''artifact_store_error''"
| "class_code ChecksumMismatchError = ''checksum_mismatch''"

definition all_classes :: "exc_class list" where
  "all_classes =
     [ContractViolationError, IncompatibleSchemaVersionError, UnknownEvidenceTypeError, IdentityError,
      ValidationError, ImmutabilityError, IdempotencyConflictError, NotFoundError, MetadataStoreError,
      ArtifactStoreError, ChecksumMismatchError, CERError]"

lemma all_classes_complete: "c \<in> set all_classes"
  by (cases c) (auto simp: all_classes_def)

text \<open>\<open>isinstance(exc, c)\<close>: the class itself or one of its bases; the hierarchy is three deep.\<close>

definition is_subclass :: "exc_class \<Rightarrow> exc_class \<Rightarrow> bool" where
  "is_subclass c d = (c = d \<or> base_class c = Some d \<or>
     (case base_class c of None \<Rightarrow> False | Some b \<Rightarrow> base_class b = Some d))"

lemma is_subclass_refl [simp]: "is_subclass c c"
  by (simp add: is_subclass_def)

lemma is_subclass_root [simp]: "is_subclass c CERError"
  by (cases c) (auto simp: is_subclass_def)

lemma is_subclass_trans: "is_subclass a b \<Longrightarrow> is_subclass b c \<Longrightarrow> is_subclass a c"
  by (cases a; cases b; cases c) (simp_all add: is_subclass_def)

lemma class_code_inj: "class_code c = class_code d \<Longrightarrow> c = d"
  by (cases c; cases d) simp_all

text \<open>Exceptions in flight. \<open>CERExn c code\<close> is an instance of \<open>c\<close> with its \<open>code\<close> attribute.\<close>

datatype exn =
    CERExn exc_class string
  | PyValueError
  | PyOverflowError
  | PyTypeError
  | PyOSError
  | PyFileNotFoundError
  | PyNotADirectoryError
  | RequestValidationError \<comment> \<open>FastAPI rejected the request before the handler ran\<close>
  | PydanticError "string list" \<comment> \<open>the names of the fields that failed\<close>
  | SqlError

text \<open>\<open>except OSError\<close> also catches the two subclasses the source tells apart.\<close>

fun is_os_error :: "exn \<Rightarrow> bool" where
  "is_os_error PyOSError = True"
| "is_os_error PyFileNotFoundError = True"
| "is_os_error PyNotADirectoryError = True"
| "is_os_error _ = False"

text \<open>\<open>CERError.__init__\<close>: the class's code unless the raiser passes one.\<close>

definition new_exn :: "exc_class \<Rightarrow> string option \<Rightarrow> exn" where
  "new_exn c code = CERExn c (case code of None \<Rightarrow> class_code c | Some s \<Rightarrow> s)"

definition raise_cer :: "exc_class \<Rightarrow> exn + 'a" where
  "raise_cer c = Inl (new_exn c None)"

definition raised :: "exc_class \<Rightarrow> exn + 'a \<Rightarrow> bool" where
  "raised c r = (r = raise_cer c)"

lemma raise_cer_simps [simp]:
  "raise_cer c \<noteq> Inr x" "Inr x \<noteq> raise_cer c"
  "(raise_cer c = (raise_cer d :: exn + 'a)) = (c = d)"
  by (auto simp: raise_cer_def new_exn_def)

lemma cer_not_os [simp]: "\<not> is_os_error (new_exn c k)"
  by (simp add: new_exn_def)

lemma rbind_raise [simp]: "rbind (raise_cer c) k = raise_cer c"
  by (simp add: raise_cer_def)

end
