(* ===== verification/Version.thy ===== *)
theory Version
  imports Errors
begin

text \<open>
  Contract and schema versions: \<open>src/cer/contract/version.py\<close>. A caller's value can be any
  Python object; \<open>pyobj\<close> keeps the kinds the functions tell apart.
\<close>

datatype pyobj = OInt int | OBool bool | OStr string | OOther

definition CONTRACT_VERSION :: string where
  "CONTRACT_VERSION = ''1.0.0''"

definition SCHEMA_VERSION :: int where
  "SCHEMA_VERSION = 1"

definition SUPPORTED_SCHEMA_VERSIONS :: "int list" where
  "SUPPORTED_SCHEMA_VERSIONS = [SCHEMA_VERSION]"

fun validate_schema_version :: "pyobj \<Rightarrow> exn + int" where
  "validate_schema_version (OInt v) =
     (if v \<in> set SUPPORTED_SCHEMA_VERSIONS then Inr v else raise_cer IncompatibleSchemaVersionError)"
| "validate_schema_version _ = raise_cer IncompatibleSchemaVersionError"

definition major :: "string \<Rightarrow> exn + int" where
  "major v = (let parts = split_on (CHR ''.'') (strip v) in
     if parts = [] \<or> \<not> py_isdigit (hd parts) then raise_cer IncompatibleSchemaVersionError
     else (case py_int (hd parts) of None \<Rightarrow> Inl PyValueError | Some n \<Rightarrow> Inr n))"

fun validate_contract_version :: "pyobj \<Rightarrow> exn + string" where
  "validate_contract_version (OStr v) =
     (if strip v = [] then raise_cer IncompatibleSchemaVersionError
      else rbind (major v) (\<lambda>caller_major.
           rbind (major CONTRACT_VERSION) (\<lambda>current_major.
             if caller_major \<noteq> current_major then raise_cer IncompatibleSchemaVersionError
             else Inr v)))"
| "validate_contract_version _ = raise_cer IncompatibleSchemaVersionError"

lemma major_current: "major CONTRACT_VERSION = Inr 1"
  by code_simp

lemma major_digits:
  assumes "strip v = ds @ CHR ''.'' # r" and "ds \<noteq> []" and "list_all is_ascii_digit ds"
    and "length ds \<le> int_max_str_digits"
  shows "major v = Inr (int (digits_val 0 ds))"
proof -
  have "CHR ''.'' \<notin> set ds" using assms(3) by (auto simp: list_all_iff is_ascii_digit_def)
  then have "hd (split_on (CHR ''.'') (strip v)) = ds"
    using assms(1) by (auto simp: split_on_hd takeWhile_append intro: takeWhile_eq_all_conv [THEN iffD2])
  then show ?thesis using assms
    by (auto simp: major_def Let_def py_int_digits py_isdigit_def list_all_iff is_ascii_digit_isdigit)
qed

lemma validate_contract_version_ok:
  "validate_contract_version x = Inr v \<longleftrightarrow> x = OStr v \<and> strip v \<noteq> [] \<and> major v = Inr 1"
  by (cases x) (auto simp: rbind_eq_Inr major_current)

end
