(* ===== verification/Identity.thy ===== *)
theory Identity
  imports Version
begin

text \<open>
  Identity kinds and their validation: \<open>src/cer/contract/identity.py\<close>. The random part of a
  generated id (\<open>uuid.uuid4().hex\<close>) is an argument.
\<close>

definition MAX_IDENTIFIER_LENGTH :: nat where
  "MAX_IDENTIFIER_LENGTH = 128"

record id_kind =
  kind_name :: string
  kind_prefix :: "string option"
  kind_generated :: bool

definition ID_KINDS :: "(string \<times> id_kind) list" where
  "ID_KINDS =
    [(''strategy_id'', \<lparr>kind_name = ''strategy_id'', kind_prefix = None, kind_generated = False\<rparr>),
     (''strategy_version'', \<lparr>kind_name = ''strategy_version'', kind_prefix = None, kind_generated = False\<rparr>),
     (''experiment_id'', \<lparr>kind_name = ''experiment_id'', kind_prefix = Some ''exp_'', kind_generated = True\<rparr>),
     (''run_id'', \<lparr>kind_name = ''run_id'', kind_prefix = Some ''run_'', kind_generated = True\<rparr>),
     (''evidence_id'', \<lparr>kind_name = ''evidence_id'', kind_prefix = Some ''ev_'', kind_generated = True\<rparr>),
     (''artifact_id'', \<lparr>kind_name = ''artifact_id'', kind_prefix = Some ''art_'', kind_generated = True\<rparr>),
     (''trade_id'', \<lparr>kind_name = ''trade_id'', kind_prefix = Some ''trd_'', kind_generated = True\<rparr>),
     (''decision_id'', \<lparr>kind_name = ''decision_id'', kind_prefix = Some ''dec_'', kind_generated = True\<rparr>),
     (''execution_id'', \<lparr>kind_name = ''execution_id'', kind_prefix = Some ''exe_'', kind_generated = True\<rparr>),
     (''strategy_instance_id'',
        \<lparr>kind_name = ''strategy_instance_id'', kind_prefix = Some ''si_'', kind_generated = True\<rparr>)]"

definition V1_ID_KINDS :: "string list" where
  "V1_ID_KINDS = [''strategy_id'', ''strategy_version'', ''experiment_id'', ''run_id'', ''evidence_id'',
     ''artifact_id'']"

definition lookup_kind :: "string \<Rightarrow> exn + id_kind" where
  "lookup_kind k = (case map_of ID_KINDS k of None \<Rightarrow> raise_cer IdentityError | Some d \<Rightarrow> Inr d)"

text \<open>\<open>[A-Za-z0-9][A-Za-z0-9._-]*\<close> and \<open>[0-9a-fA-F-]+\<close>, both full matches.\<close>

definition is_alnum :: "char \<Rightarrow> bool" where
  "is_alnum c = (is_ascii_letter c \<or> is_ascii_digit c)"

definition logical_id_re :: "string \<Rightarrow> bool" where
  "logical_id_re s = (case s of [] \<Rightarrow> False
     | c # cs \<Rightarrow> is_alnum c \<and> list_all (\<lambda>d. is_alnum d \<or> d \<in> set ''._-'') cs)"

definition suffix_char :: "char \<Rightarrow> bool" where
  "suffix_char c = (is_ascii_digit c \<or> is_hex_letter c \<or> c = CHR ''-'')"

fun reject_empty_or_padded :: "pyobj \<Rightarrow> exn + string" where
  "reject_empty_or_padded (OStr v) =
     (if v = [] then raise_cer IdentityError
      else if v \<noteq> strip v then raise_cer IdentityError
      else if strip v = [] then raise_cer IdentityError
      else Inr v)"
| "reject_empty_or_padded _ = raise_cer IdentityError"

definition reject_over_long :: "string \<Rightarrow> exn + unit" where
  "reject_over_long v =
     (if length v > MAX_IDENTIFIER_LENGTH then raise_cer IdentityError else Inr ())"

text \<open>\<open>assert kind.prefix is not None\<close> holds for every generated kind of the registry; a kind
  without a prefix would end in the \<open>AssertionError\<close> the last branch stands for.\<close>

definition generate_id :: "string \<Rightarrow> string \<Rightarrow> exn + string" where
  "generate_id k uuid_hex = rbind (lookup_kind k) (\<lambda>kind.
     if \<not> kind_generated kind then raise_cer IdentityError
     else (case kind_prefix kind of Some p \<Rightarrow> Inr (p @ uuid_hex) | None \<Rightarrow> Inl PyTypeError))"

definition validate_generated_id :: "string \<Rightarrow> pyobj \<Rightarrow> exn + string" where
  "validate_generated_id k value = rbind (lookup_kind k) (\<lambda>kind.
     if \<not> kind_generated kind then raise_cer IdentityError
     else rbind (reject_empty_or_padded value) (\<lambda>v.
          rbind (reject_over_long v) (\<lambda>_.
            case kind_prefix kind of
              None \<Rightarrow> Inl PyTypeError
            | Some p \<Rightarrow>
                if \<not> startswith v p then raise_cer IdentityError
                else (let suffix = drop (length p) v in
                  if suffix = [] \<or> \<not> list_all suffix_char suffix then raise_cer IdentityError
                  else Inr v))))"

definition validate_logical_id :: "string \<Rightarrow> pyobj \<Rightarrow> exn + string" where
  "validate_logical_id k value = rbind (lookup_kind k) (\<lambda>kind.
     if kind_generated kind then raise_cer IdentityError
     else rbind (reject_empty_or_padded value) (\<lambda>v.
          rbind (reject_over_long v) (\<lambda>_.
            if \<not> logical_id_re v then raise_cer IdentityError else Inr v)))"

definition validate_id :: "string \<Rightarrow> pyobj \<Rightarrow> exn + string" where
  "validate_id k value = rbind (lookup_kind k) (\<lambda>kind.
     if kind_generated kind then validate_generated_id k value else validate_logical_id k value)"

definition validate_strategy_id :: "string \<Rightarrow> exn + string" where
  "validate_strategy_id v = validate_logical_id ''strategy_id'' (OStr v)"

definition validate_strategy_version :: "string \<Rightarrow> exn + string" where
  "validate_strategy_version v = validate_logical_id ''strategy_version'' (OStr v)"

definition validate_experiment_id :: "string \<Rightarrow> exn + string" where
  "validate_experiment_id v = validate_generated_id ''experiment_id'' (OStr v)"

definition validate_run_id :: "string \<Rightarrow> exn + string" where
  "validate_run_id v = validate_generated_id ''run_id'' (OStr v)"

definition validate_evidence_id :: "string \<Rightarrow> exn + string" where
  "validate_evidence_id v = validate_generated_id ''evidence_id'' (OStr v)"

definition validate_artifact_id :: "string \<Rightarrow> exn + string" where
  "validate_artifact_id v = validate_generated_id ''artifact_id'' (OStr v)"

lemmas validate_id_defs =
  validate_strategy_id_def validate_strategy_version_def validate_experiment_id_def
  validate_run_id_def validate_evidence_id_def validate_artifact_id_def

definition new_experiment_id :: "string \<Rightarrow> exn + string" where
  "new_experiment_id uuid_hex = generate_id ''experiment_id'' uuid_hex"

definition new_run_id :: "string \<Rightarrow> exn + string" where
  "new_run_id uuid_hex = generate_id ''run_id'' uuid_hex"

definition new_evidence_id :: "string \<Rightarrow> exn + string" where
  "new_evidence_id uuid_hex = generate_id ''evidence_id'' uuid_hex"

definition new_artifact_id :: "string \<Rightarrow> exn + string" where
  "new_artifact_id uuid_hex = generate_id ''artifact_id'' uuid_hex"

subsection \<open>What a validated id looks like\<close>

lemma lookup_kind_eq: "lookup_kind k = Inr kind \<longleftrightarrow> map_of ID_KINDS k = Some kind"
  by (auto simp: lookup_kind_def split: option.splits)

lemma kinds_of_registry:
  assumes "map_of ID_KINDS k = Some kind"
  shows "(kind_generated kind \<longleftrightarrow> kind_prefix kind \<noteq> None) \<and> kind_name kind = k"
  using assms by (auto simp: ID_KINDS_def split: if_splits)

text \<open>A validator returns its argument unchanged or raises.\<close>

lemma reject_empty_or_padded_ok:
  "reject_empty_or_padded x = Inr v \<longleftrightarrow> x = OStr v \<and> v \<noteq> [] \<and> strip v = v"
  by (cases x) auto

lemma reject_over_long_ok: "reject_over_long v = Inr u \<longleftrightarrow> length v \<le> MAX_IDENTIFIER_LENGTH"
  by (auto simp: reject_over_long_def)

lemma validate_generated_id_ok:
  "validate_generated_id k x = Inr v \<longleftrightarrow>
     (\<exists>kind p s. map_of ID_KINDS k = Some kind \<and> kind_generated kind \<and> kind_prefix kind = Some p \<and>
        x = OStr v \<and> v = p @ s \<and> s \<noteq> [] \<and> list_all suffix_char s \<and> strip v = v \<and>
        length v \<le> MAX_IDENTIFIER_LENGTH)"
proof (cases "map_of ID_KINDS k")
  case None
  then show ?thesis by (simp add: validate_generated_id_def lookup_kind_def)
next
  case (Some kind)
  then have l: "lookup_kind k = Inr kind" by (simp add: lookup_kind_eq)
  show ?thesis
  proof (cases "kind_generated kind")
    case True
    then obtain p where p: "kind_prefix kind = Some p" using kinds_of_registry [OF Some] by auto
    show ?thesis
      by (auto simp: validate_generated_id_def l Some True p rbind_eq_Inr reject_empty_or_padded_ok
          reject_over_long_ok startswith_iff Let_def)
  qed (simp add: validate_generated_id_def l Some)
qed

lemma validate_logical_id_ok:
  "validate_logical_id k x = Inr v \<longleftrightarrow>
     (\<exists>kind. map_of ID_KINDS k = Some kind \<and> \<not> kind_generated kind \<and> x = OStr v \<and> logical_id_re v \<and>
        strip v = v \<and> v \<noteq> [] \<and> length v \<le> MAX_IDENTIFIER_LENGTH)"
  by (auto simp: validate_logical_id_def rbind_eq_Inr lookup_kind_eq reject_empty_or_padded_ok
      reject_over_long_ok split: if_splits)

lemma alnum_not_space: "is_alnum c \<Longrightarrow> \<not> py_isspace c"
  by (auto simp: is_alnum_def digit_not_space letter_not_space)

lemma suffix_char_not_space: "suffix_char c \<Longrightarrow> \<not> py_isspace c"
  by (auto simp: suffix_char_def is_ascii_digit_def is_hex_letter_def py_isspace_def Let_def)

lemma logical_id_re_strip: "logical_id_re v \<Longrightarrow> strip v = v"
proof (rule strip_no_space)
  assume v: "logical_id_re v"
  have "\<not> py_isspace c" if "is_alnum c \<or> c \<in> set ''._-''" for c
    using that by (auto simp: alnum_not_space) (simp_all add: py_isspace_def)
  with v show "list_all (\<lambda>c. \<not> py_isspace c) v"
    by (auto simp: logical_id_re_def list_all_iff split: list.splits)
qed

text \<open>A raised error is always an \<open>IdentityError\<close> for a kind of the registry.\<close>

lemma validate_generated_id_err:
  assumes "validate_generated_id k x = Inl e"
  shows "e = new_exn IdentityError None"
proof -
  have p: "kind_prefix kind \<noteq> None" if "lookup_kind k = Inr kind" "kind_generated kind" for kind
    using that kinds_of_registry [of k kind] by (auto simp: lookup_kind_eq)
  have r: "reject_empty_or_padded x = Inl e' \<Longrightarrow> e' = new_exn IdentityError None" for e'
    by (cases x) (auto simp: raise_cer_def split: if_splits)
  show ?thesis
  proof (cases "lookup_kind k")
    case (Inl e')
    with assms show ?thesis
      by (auto simp: validate_generated_id_def lookup_kind_def raise_cer_def split: option.splits)
  next
    case (Inr kind)
    with assms p [OF Inr] show ?thesis
      by (auto simp: validate_generated_id_def rbind_eq_Inl r reject_over_long_def raise_cer_def Let_def
          split: option.splits if_splits)
  qed
qed

lemma validate_logical_id_err:
  assumes "validate_logical_id k x = Inl e"
  shows "e = new_exn IdentityError None"
proof -
  have r: "reject_empty_or_padded x = Inl e' \<Longrightarrow> e' = new_exn IdentityError None" for e'
    by (cases x) (auto simp: raise_cer_def split: if_splits)
  show ?thesis using assms
    by (auto simp: validate_logical_id_def rbind_eq_Inl r reject_over_long_def raise_cer_def
        lookup_kind_def split: option.splits if_splits)
qed

text \<open>The prefixes of the registry are pairwise incomparable, so a text is an id of one kind at most.\<close>

lemma prefix_free:
  assumes "map_of ID_KINDS j = Some a" "map_of ID_KINDS k = Some b"
    and "kind_prefix a = Some p" "kind_prefix b = Some q" and "p @ s = q @ t"
  shows "j = k"
  using assms by (auto simp: ID_KINDS_def split: if_splits)

lemma validated_kind_unique:
  assumes "validate_generated_id j x = Inr v" "validate_generated_id k x = Inr w"
  shows "j = k"
  using assms prefix_free [of j _ k] by (auto simp: validate_generated_id_ok)

text \<open>A freshly generated id is accepted by its own kind's validator.\<close>

lemma generated_id_valid:
  assumes "generate_id k h = Inr v" and "h \<noteq> []" and "list_all suffix_char h" and "length h \<le> 120"
  shows "validate_generated_id k (OStr v) = Inr v"
proof -
  from assms(1) obtain kind p where kind: "map_of ID_KINDS k = Some kind" "kind_generated kind"
      "kind_prefix kind = Some p" and v: "v = p @ h"
    by (auto simp: generate_id_def rbind_eq_Inr lookup_kind_eq split: if_splits option.splits)
  have "length p \<le> 5 \<and> list_all (\<lambda>c. \<not> py_isspace c) p"
    using kind(1,3) by (auto simp: ID_KINDS_def py_isspace_def split: if_splits)
  then have "strip v = v" "length v \<le> MAX_IDENTIFIER_LENGTH"
    using assms(3,4) by (auto simp: v MAX_IDENTIFIER_LENGTH_def list_all_iff suffix_char_not_space
        intro!: strip_no_space)
  with kind v assms(2,3) show ?thesis by (auto simp: validate_generated_id_ok)
qed

end
