(* ===== verification/Enums.thy ===== *)
theory Enums
  imports Errors
begin

text \<open>
  The controlled vocabularies of \<open>src/cer/contract/enums.py\<close>. Each \<open>class X(str, Enum)\<close> is a
  datatype with its \<open>.value\<close> text; \<open>X(text)\<close> looks a member up by value. The locale
  \<open>str_enum\<close> is the contract the rest of the model uses of such a class.
\<close>

subsection \<open>Members and values\<close>

datatype evidence_type =
    SOURCE_ANALYSIS | STRATEGY_HYPOTHESIS
  | BACKTEST | OUT_OF_SAMPLE | WALK_FORWARD | MONTE_CARLO | PARAMETER_SWEEP | ABLATION
  | SHADOW | PAPER | MT5_DEMO | PLUTUS
  | TINY_LIVE | PERSONAL_LIVE | FUNDED_LIVE
  | NEO_OBSERVATION | NEO_HYPOTHESIS | REGIME_ANALYSIS | DRIFT_ALERT | STRATEGY_HEALTH

fun evidence_type_value :: "evidence_type \<Rightarrow> string" where
  "evidence_type_value SOURCE_ANALYSIS = ''SOURCE_ANALYSIS''"
| "evidence_type_value STRATEGY_HYPOTHESIS = ''STRATEGY_HYPOTHESIS''"
| "evidence_type_value BACKTEST = ''BACKTEST''"
| "evidence_type_value OUT_OF_SAMPLE = ''OUT_OF_SAMPLE''"
| "evidence_type_value WALK_FORWARD = ''WALK_FORWARD''"
| "evidence_type_value MONTE_CARLO = ''MONTE_CARLO''"
| "evidence_type_value PARAMETER_SWEEP = ''PARAMETER_SWEEP''"
| "evidence_type_value ABLATION = ''ABLATION''"
| "evidence_type_value SHADOW = ''SHADOW''"
| "evidence_type_value PAPER = ''PAPER''"
| "evidence_type_value MT5_DEMO = ''MT5_DEMO''"
| "evidence_type_value PLUTUS = ''PLUTUS''"
| "evidence_type_value TINY_LIVE = ''TINY_LIVE''"
| "evidence_type_value PERSONAL_LIVE = ''PERSONAL_LIVE''"
| "evidence_type_value FUNDED_LIVE = ''FUNDED_LIVE''"
| "evidence_type_value NEO_OBSERVATION = ''NEO_OBSERVATION''"
| "evidence_type_value NEO_HYPOTHESIS = ''NEO_HYPOTHESIS''"
| "evidence_type_value REGIME_ANALYSIS = ''REGIME_ANALYSIS''"
| "evidence_type_value DRIFT_ALERT = ''DRIFT_ALERT''"
| "evidence_type_value STRATEGY_HEALTH = ''STRATEGY_HEALTH''"

definition evidence_types :: "evidence_type list" where
  "evidence_types =
     [SOURCE_ANALYSIS, STRATEGY_HYPOTHESIS, BACKTEST, OUT_OF_SAMPLE, WALK_FORWARD, MONTE_CARLO,
      PARAMETER_SWEEP, ABLATION, SHADOW, PAPER, MT5_DEMO, PLUTUS, TINY_LIVE, PERSONAL_LIVE, FUNDED_LIVE,
      NEO_OBSERVATION, NEO_HYPOTHESIS, REGIME_ANALYSIS, DRIFT_ALERT, STRATEGY_HEALTH]"

datatype evidence_group = RESEARCH | HISTORICAL | FORWARD | LIVE | LEARNING

fun evidence_group_of :: "evidence_type \<Rightarrow> evidence_group" where
  "evidence_group_of SOURCE_ANALYSIS = RESEARCH"
| "evidence_group_of STRATEGY_HYPOTHESIS = RESEARCH"
| "evidence_group_of BACKTEST = HISTORICAL"
| "evidence_group_of OUT_OF_SAMPLE = HISTORICAL"
| "evidence_group_of WALK_FORWARD = HISTORICAL"
| "evidence_group_of MONTE_CARLO = HISTORICAL"
| "evidence_group_of PARAMETER_SWEEP = HISTORICAL"
| "evidence_group_of ABLATION = HISTORICAL"
| "evidence_group_of SHADOW = FORWARD"
| "evidence_group_of PAPER = FORWARD"
| "evidence_group_of MT5_DEMO = FORWARD"
| "evidence_group_of PLUTUS = FORWARD"
| "evidence_group_of TINY_LIVE = LIVE"
| "evidence_group_of PERSONAL_LIVE = LIVE"
| "evidence_group_of FUNDED_LIVE = LIVE"
| "evidence_group_of NEO_OBSERVATION = LEARNING"
| "evidence_group_of NEO_HYPOTHESIS = LEARNING"
| "evidence_group_of REGIME_ANALYSIS = LEARNING"
| "evidence_group_of DRIFT_ALERT = LEARNING"
| "evidence_group_of STRATEGY_HEALTH = LEARNING"

datatype promotion_state =
    DRAFT | IMPLEMENTED | BACKTESTED | VALIDATED | FORWARD_TEST | LIVE_CANDIDATE
  | P_TINY_LIVE | APPROVED | P_SUSPENDED | RETIRED

fun promotion_state_value :: "promotion_state \<Rightarrow> string" where
  "promotion_state_value DRAFT = ''DRAFT''"
| "promotion_state_value IMPLEMENTED = ''IMPLEMENTED''"
| "promotion_state_value BACKTESTED = ''BACKTESTED''"
| "promotion_state_value VALIDATED = ''VALIDATED''"
| "promotion_state_value FORWARD_TEST = ''FORWARD_TEST''"
| "promotion_state_value LIVE_CANDIDATE = ''LIVE_CANDIDATE''"
| "promotion_state_value P_TINY_LIVE = ''TINY_LIVE''"
| "promotion_state_value APPROVED = ''APPROVED''"
| "promotion_state_value P_SUSPENDED = ''SUSPENDED''"
| "promotion_state_value RETIRED = ''RETIRED''"

definition promotion_states :: "promotion_state list" where
  "promotion_states =
     [DRAFT, IMPLEMENTED, BACKTESTED, VALIDATED, FORWARD_TEST, LIVE_CANDIDATE, P_TINY_LIVE, APPROVED,
      P_SUSPENDED, RETIRED]"

datatype health_state = HEALTHY | DORMANT | WATCH | DEGRADED | SUSPENDED

fun health_state_value :: "health_state \<Rightarrow> string" where
  "health_state_value HEALTHY = ''HEALTHY''"
| "health_state_value DORMANT = ''DORMANT''"
| "health_state_value WATCH = ''WATCH''"
| "health_state_value DEGRADED = ''DEGRADED''"
| "health_state_value SUSPENDED = ''SUSPENDED''"

definition health_states :: "health_state list" where
  "health_states = [HEALTHY, DORMANT, WATCH, DEGRADED, SUSPENDED]"

datatype run_status = OPEN | CLOSED | FAILED

fun run_status_value :: "run_status \<Rightarrow> string" where
  "run_status_value OPEN = ''OPEN''"
| "run_status_value CLOSED = ''CLOSED''"
| "run_status_value FAILED = ''FAILED''"

definition run_statuses :: "run_status list" where
  "run_statuses = [OPEN, CLOSED, FAILED]"

datatype completeness = COMPLETE | INCOMPLETE

fun completeness_value :: "completeness \<Rightarrow> string" where
  "completeness_value COMPLETE = ''COMPLETE''"
| "completeness_value INCOMPLETE = ''INCOMPLETE''"

subsection \<open>Lookup by value\<close>

text \<open>\<open>X(text)\<close>: the member with that value, \<open>ValueError\<close> when there is none.\<close>

definition enum_of :: "('a \<Rightarrow> string) \<Rightarrow> 'a list \<Rightarrow> string \<Rightarrow> exn + 'a" where
  "enum_of val members s =
     (case List.find (\<lambda>x. val x = s) members of None \<Rightarrow> Inl PyValueError | Some x \<Rightarrow> Inr x)"

locale str_enum =
  fixes val :: "'a \<Rightarrow> string" and members :: "'a list"
  assumes val_inj: "val x = val y \<Longrightarrow> x = y"
    and members_complete: "x \<in> set members"
begin

lemma of_value_value: "enum_of val members (val x) = Inr x"
proof -
  have "List.find (\<lambda>y. val y = val x) members = Some x"
    by (rule find_unique) (auto simp: members_complete dest: val_inj)
  then show ?thesis by (simp add: enum_of_def)
qed

lemma of_value_sound: "enum_of val members s = Inr x \<Longrightarrow> val x = s"
  by (auto simp: enum_of_def split: option.splits dest: find_Some_iff_in)

lemma of_value_unknown: "enum_of val members s = Inl e \<Longrightarrow> s \<noteq> val x"
  using of_value_value by force

lemma of_value_error: "enum_of val members s = Inl e \<Longrightarrow> e = PyValueError"
  by (auto simp: enum_of_def split: option.splits)

end

interpretation et: str_enum evidence_type_value evidence_types
proof
  fix x y show "evidence_type_value x = evidence_type_value y \<Longrightarrow> x = y"
    by (cases x; cases y) simp_all
  show "x \<in> set evidence_types" by (cases x) (simp_all add: evidence_types_def)
qed

interpretation ps: str_enum promotion_state_value promotion_states
proof
  fix x y show "promotion_state_value x = promotion_state_value y \<Longrightarrow> x = y"
    by (cases x; cases y) simp_all
  show "x \<in> set promotion_states" by (cases x) (simp_all add: promotion_states_def)
qed

interpretation hs: str_enum health_state_value health_states
proof
  fix x y show "health_state_value x = health_state_value y \<Longrightarrow> x = y"
    by (cases x; cases y) simp_all
  show "x \<in> set health_states" by (cases x) (simp_all add: health_states_def)
qed

interpretation rs: str_enum run_status_value run_statuses
proof
  fix x y show "run_status_value x = run_status_value y \<Longrightarrow> x = y"
    by (cases x; cases y) simp_all
  show "x \<in> set run_statuses" by (cases x) (simp_all add: run_statuses_def)
qed

text \<open>A \<open>(str, Enum)\<close> member compares as its value; \<open>sorted(...)\<close> in the error message uses it.\<close>

instantiation evidence_type :: linorder
begin

definition less_eq_evidence_type :: "evidence_type \<Rightarrow> evidence_type \<Rightarrow> bool" where
  "less_eq_evidence_type x y = (evidence_type_value x \<le> evidence_type_value y)"

definition less_evidence_type :: "evidence_type \<Rightarrow> evidence_type \<Rightarrow> bool" where
  "less_evidence_type x y = (evidence_type_value x < evidence_type_value y)"

instance
  by standard (auto simp: less_eq_evidence_type_def less_evidence_type_def dest: et.val_inj)

end

subsection \<open>\<open>parse_evidence_type\<close>\<close>

text \<open>The three kinds of argument the function tells apart.\<close>

datatype type_arg = AsEnum evidence_type | AsText string | AsOther

fun parse_evidence_type :: "type_arg \<Rightarrow> exn + evidence_type" where
  "parse_evidence_type (AsEnum t) = Inr t"
| "parse_evidence_type AsOther = raise_cer UnknownEvidenceTypeError"
| "parse_evidence_type (AsText s) =
     (case enum_of evidence_type_value evidence_types s of
        Inr t \<Rightarrow> Inr t
      | Inl _ \<Rightarrow> raise_cer UnknownEvidenceTypeError)"

lemma parse_evidence_type_value [simp]: "parse_evidence_type (AsText (evidence_type_value t)) = Inr t"
  by (simp add: et.of_value_value)

lemma parse_evidence_type_ok: "parse_evidence_type (AsText s) = Inr t \<longleftrightarrow> s = evidence_type_value t"
  by (auto split: sum.splits simp: et.of_value_value dest: et.of_value_sound)

lemma parse_evidence_type_err:
  "parse_evidence_type (AsText s) = Inl e \<Longrightarrow> e = new_exn UnknownEvidenceTypeError None"
  by (auto simp: raise_cer_def split: sum.splits)

end
