(* ===== verification/PyTime.thy ===== *)
theory PyTime
  imports Errors "HOL-Library.Product_Lexorder"
begin

text \<open>
  Timestamps: Python's \<open>datetime\<close> with its calendar arithmetic, \<open>src/cer/runtime/clock.py\<close>, and
  the text form in which the metadata store keeps a timestamp (\<open>_dt_to_str\<close>, \<open>_str_to_dt\<close> of
  \<open>src/cer/metadata/sqlite_store.py\<close>). The lemmas show that normalising to UTC keeps the
  instant, that the stored text reads back exactly, and that it sorts chronologically, which
  is what \<open>ORDER BY\<close> and the \<open>since\<close>/\<open>until\<close> filters of the store rely on.
\<close>

subsection \<open>The proleptic Gregorian calendar of \<open>datetime\<close>\<close>

definition is_leap :: "nat \<Rightarrow> bool" where
  "is_leap y = (y mod 4 = 0 \<and> (y mod 100 \<noteq> 0 \<or> y mod 400 = 0))"

definition days_before_year :: "nat \<Rightarrow> nat" where
  "days_before_year y = (let p = y - 1 in p * 365 + p div 4 - p div 100 + p div 400)"

definition month_table :: "nat list" where
  "month_table = [0, 0, 31, 59, 90, 120, 151, 181, 212, 243, 273, 304, 334]"

definition days_before_month :: "bool \<Rightarrow> nat \<Rightarrow> nat" where
  "days_before_month leap m = month_table ! m + (if m > 2 \<and> leap then 1 else 0)"

definition days_in_month :: "bool \<Rightarrow> nat \<Rightarrow> nat" where
  "days_in_month leap m = (if m = 2 \<and> leap then 29
     else [0, 31, 28, 31, 30, 31, 30, 31, 31, 30, 31, 30, 31] ! m)"

definition ymd2ord :: "nat \<Rightarrow> nat \<Rightarrow> nat \<Rightarrow> nat" where
  "ymd2ord y m d = days_before_year y + days_before_month (is_leap y) m + d"

text \<open>Month and day of the day number \<open>r\<close> (from 0) of a year, as \<open>_ord2ymd\<close> finds them.\<close>

definition month_day :: "bool \<Rightarrow> nat \<Rightarrow> nat \<times> nat" where
  "month_day leap r = (let m = (r + 50) div 32; p = days_before_month leap m in
     if p > r then (m - 1, r - (p - days_in_month leap (m - 1)) + 1) else (m, r - p + 1))"

definition ord2ymd :: "nat \<Rightarrow> nat \<times> nat \<times> nat" where
  "ord2ymd ord =
     (let n = ord - 1;
          n400 = n div 146097; a = n mod 146097;
          n100 = a div 36524; b = a mod 36524;
          n4 = b div 1461; c = b mod 1461;
          n1 = c div 365; r = c mod 365;
          y = n400 * 400 + 1 + n100 * 100 + n4 * 4 + n1
      in if n1 = 4 \<or> n100 = 4 then (y - 1, 12, 31)
         else (y, month_day (n1 = 3 \<and> (n4 \<noteq> 24 \<or> n100 = 3)) r))"

definition maxordinal :: nat where
  "maxordinal = 3652059"

subsection \<open>\<open>datetime\<close>\<close>

text \<open>The fields of a \<open>datetime\<close> and its \<open>utcoffset()\<close> in microseconds (\<open>None\<close>: naive).\<close>

record pydt =
  year :: nat
  month :: nat
  day :: nat
  hour :: nat
  minute :: nat
  second :: nat
  microsecond :: nat
  utcoffset :: "int option"

definition valid_pydt :: "pydt \<Rightarrow> bool" where
  "valid_pydt t \<longleftrightarrow> 1 \<le> year t \<and> year t \<le> 9999 \<and> 1 \<le> month t \<and> month t \<le> 12 \<and>
     1 \<le> day t \<and> day t \<le> days_in_month (is_leap (year t)) (month t) \<and>
     hour t < 24 \<and> minute t < 60 \<and> second t < 60 \<and> microsecond t < 1000000 \<and>
     (case utcoffset t of None \<Rightarrow> True | Some z \<Rightarrow> \<bar>z\<bar> < 86400000000)"

text \<open>The fields Python compares two datetimes of the same timezone by, most significant first.\<close>

definition civil :: "pydt \<Rightarrow> nat \<times> nat \<times> nat \<times> nat \<times> nat \<times> nat \<times> nat" where
  "civil t = (year t, month t, day t, hour t, minute t, second t, microsecond t)"

text \<open>Microseconds since 0001-01-01T00:00 of the local reading, and back.\<close>

definition local_us :: "pydt \<Rightarrow> int" where
  "local_us t = (((int (ymd2ord (year t) (month t) (day t)) - 1) * 24 + int (hour t)) * 60
      + int (minute t)) * 60000000 + int (second t) * 1000000 + int (microsecond t)"

definition of_us :: "int \<Rightarrow> int option \<Rightarrow> exn + pydt" where
  "of_us u tz =
     (let days = u div 86400000000; r = nat (u mod 86400000000) in
      if days < 0 \<or> days \<ge> int maxordinal then Inl PyOverflowError
      else (case ord2ymd (nat days + 1) of (y, m, d) \<Rightarrow>
        Inr \<lparr>year = y, month = m, day = d, hour = r div 3600000000,
             minute = r div 60000000 mod 60, second = r div 1000000 mod 60,
             microsecond = r mod 1000000, utcoffset = tz\<rparr>))"

text \<open>The instant an aware datetime denotes.\<close>

definition instant :: "pydt \<Rightarrow> int" where
  "instant t = local_us t - (case utcoffset t of None \<Rightarrow> 0 | Some z \<Rightarrow> z)"

text \<open>\<open>dt.astimezone(timezone.utc)\<close> for an aware \<open>dt\<close>: the identity on a UTC datetime, else
  subtract the offset, which may leave the range of years.\<close>

definition astimezone_utc :: "pydt \<Rightarrow> exn + pydt" where
  "astimezone_utc t = (case utcoffset t of
       None \<Rightarrow> Inl PyValueError
     | Some z \<Rightarrow> if z = 0 then Inr t else of_us (local_us t - z) (Some 0))"

subsection \<open>\<open>clock.py\<close>\<close>

definition to_utc :: "pydt \<Rightarrow> exn + pydt" where
  "to_utc dt = (if utcoffset dt = None then Inl PyValueError else astimezone_utc dt)"

text \<open>\<open>isoformat_utc\<close>: \<open>strftime\<close> with microseconds, the last three digits cut, and a \<open>Z\<close>.\<close>

definition date_part :: "pydt \<Rightarrow> string" where
  "date_part t = padn 4 (year t) @ ''-'' @ padn 2 (month t) @ ''-'' @ padn 2 (day t)"

definition time_part :: "pydt \<Rightarrow> string" where
  "time_part t = padn 2 (hour t) @ '':'' @ padn 2 (minute t) @ '':'' @ padn 2 (second t)"

definition isoformat_utc :: "pydt \<Rightarrow> exn + string" where
  "isoformat_utc dt = rbind (to_utc dt) (\<lambda>u.
     Inr (let s = date_part u @ ''T'' @ time_part u @ ''.'' @ padn 6 (microsecond u)
          in take (length s - 3) s @ ''Z''))"

subsection \<open>The stored text form\<close>

text \<open>\<open>datetime.isoformat()\<close>: microseconds only when nonzero; then the offset, its seconds and
  microseconds only when nonzero.\<close>

definition iso_offset :: "int \<Rightarrow> string" where
  "iso_offset z = (let a = nat \<bar>z\<bar>; s = a div 1000000; u = a mod 1000000 in
     (if z < 0 then ''-'' else ''+'') @ padn 2 (s div 3600) @ '':'' @ padn 2 (s div 60 mod 60) @
     (if s mod 60 = 0 \<and> u = 0 then []
      else '':'' @ padn 2 (s mod 60) @ (if u = 0 then [] else ''.'' @ padn 6 u)))"

definition isoformat :: "pydt \<Rightarrow> string" where
  "isoformat t = date_part t @ ''T'' @ time_part t @
     (if microsecond t = 0 then [] else ''.'' @ padn 6 (microsecond t)) @
     (case utcoffset t of None \<Rightarrow> [] | Some z \<Rightarrow> iso_offset z)"

definition dt_to_str :: "pydt \<Rightarrow> string" where
  "dt_to_str dt = isoformat dt"

text \<open>\<open>datetime.fromisoformat\<close>, on the form the store writes: a UTC datetime's \<open>isoformat\<close>.\<close>

definition number :: "nat \<Rightarrow> string \<Rightarrow> nat option" where
  "number k s = (if length s = k \<and> list_all is_ascii_digit s then Some (digits_val 0 s) else None)"

definition parse_civil :: "string \<Rightarrow> pydt option" where
  "parse_civil s =
     (case (number 4 (take 4 s), number 2 (take 2 (drop 5 s)), number 2 (take 2 (drop 8 s)),
            number 2 (take 2 (drop 11 s)), number 2 (take 2 (drop 14 s)), number 2 (take 2 (drop 17 s))) of
       (Some y, Some mo, Some d, Some h, Some mi, Some se) \<Rightarrow>
         if drop 4 (take 5 s) = ''-'' \<and> drop 7 (take 8 s) = ''-'' \<and> drop 10 (take 11 s) = ''T''
            \<and> drop 13 (take 14 s) = '':'' \<and> drop 16 (take 17 s) = '':''
         then Some \<lparr>year = y, month = mo, day = d, hour = h, minute = mi, second = se,
                    microsecond = 0, utcoffset = None\<rparr>
         else None
     | _ \<Rightarrow> None)"

definition fromisoformat :: "string \<Rightarrow> exn + pydt" where
  "fromisoformat s = (case parse_civil (take 19 s) of
       None \<Rightarrow> Inl PyValueError
     | Some t \<Rightarrow>
         let tl = drop 19 s;
             r = (if tl = ''+00:00'' then Some (t\<lparr>utcoffset := Some 0\<rparr>)
                  else if take 1 tl = ''.'' \<and> drop 7 tl = ''+00:00''
                  then map_option (\<lambda>u. t\<lparr>microsecond := u, utcoffset := Some 0\<rparr>) (number 6 (take 6 (drop 1 tl)))
                  else None)
         in (case r of None \<Rightarrow> Inl PyValueError
             | Some t' \<Rightarrow> if valid_pydt t' then Inr t' else Inl PyValueError))"

definition str_to_dt :: "string \<Rightarrow> exn + pydt" where
  "str_to_dt s = rbind (fromisoformat s) to_utc"

subsection \<open>\<open>_ord2ymd\<close> inverts \<open>_ymd2ord\<close>\<close>


lemma month_day_spec:
  assumes "r < 365 \<or> (leap \<and> r < 366)" and "month_day leap r = (m, d)"
  shows "1 \<le> m \<and> m \<le> 12 \<and> 1 \<le> d \<and> d \<le> days_in_month leap m \<and> days_before_month leap m + d = r + 1"
proof -
  define k where "k = (r + 50) div 32"
  have k: "32 * k \<le> r + 50" "r + 50 < 32 * k + 32" using assms(1) by (auto simp: k_def)
  have "1 \<le> k" "k \<le> 12" using assms(1) k by auto
  then have "k = 1 \<or> k = 2 \<or> k = 3 \<or> k = 4 \<or> k = 5 \<or> k = 6 \<or> k = 7 \<or> k = 8 \<or> k = 9
    \<or> k = 10 \<or> k = 11 \<or> k = 12" by presburger
  then consider "k = 1" | "k = 2" | "k = 3" | "k = 4" | "k = 5" | "k = 6" | "k = 7" | "k = 8" | "k = 9"
    | "k = 10" | "k = 11" | "k = 12" by auto
  then show ?thesis
    using assms k
    by cases (simp_all add: month_day_def k_def [symmetric] Let_def days_before_month_def
        days_in_month_def month_table_def split: if_splits; arith?)+
qed

lemma mod_eq_0_top: "0 < x \<Longrightarrow> x \<le> k \<Longrightarrow> x mod k = 0 \<longleftrightarrow> x = (k::nat)"
  by (cases "x = k") auto

lemma is_leap_split:
  assumes "n1 \<le> 3" "n4 \<le> 24" "n100 \<le> 3"
  shows "is_leap (n400 * 400 + 1 + n100 * 100 + n4 * 4 + n1) \<longleftrightarrow> n1 = 3 \<and> (n4 \<noteq> 24 \<or> n100 = 3)"
proof -
  define y where "y = n400 * 400 + 1 + n100 * 100 + n4 * 4 + n1"
  have "y = (n1 + 1) + 4 * (n400 * 100 + n100 * 25 + n4)" by (simp add: y_def)
  then have "y mod 4 = (n1 + 1) mod 4" by (metis mod_mult_self2)
  moreover have "y = (n4 * 4 + n1 + 1) + 100 * (n400 * 4 + n100)" by (simp add: y_def)
  then have "y mod 100 = (n4 * 4 + n1 + 1) mod 100" by (metis mod_mult_self2)
  moreover have "y = (n100 * 100 + n4 * 4 + n1 + 1) + 400 * n400" by (simp add: y_def)
  then have "y mod 400 = (n100 * 100 + n4 * 4 + n1 + 1) mod 400" by (metis mod_mult_self2)
  moreover have "(n1 + 1) mod 4 = 0 \<longleftrightarrow> n1 = 3" using assms by (subst mod_eq_0_top) auto
  moreover have "n4 * 4 + n1 = 99 \<longleftrightarrow> n4 = 24 \<and> n1 = 3" using assms(1) by presburger
  then have "(n4 * 4 + n1 + 1) mod 100 = 0 \<longleftrightarrow> n4 = 24 \<and> n1 = 3"
    using assms by (subst mod_eq_0_top) auto
  moreover have "n100 * 100 + n4 * 4 + n1 = 399 \<longleftrightarrow> n100 = 3 \<and> n4 = 24 \<and> n1 = 3"
    using assms by (cases "n100 = 3"; cases "n4 = 24") auto
  then have "(n100 * 100 + n4 * 4 + n1 + 1) mod 400 = 0 \<longleftrightarrow> n100 = 3 \<and> n4 = 24 \<and> n1 = 3"
    using assms by (subst mod_eq_0_top) auto
  ultimately have "is_leap y \<longleftrightarrow> n1 = 3 \<and> (n4 \<noteq> 24 \<or> n100 = 3)" unfolding is_leap_def by metis
  then show ?thesis by (simp only: y_def)
qed

lemma days_before_year_split:
  assumes "n1 \<le> 3" "n4 \<le> 24" "n100 \<le> 3"
  shows "days_before_year (n400 * 400 + 1 + n100 * 100 + n4 * 4 + n1)
       = 146097 * n400 + 36524 * n100 + 1461 * n4 + 365 * n1"
proof -
  let ?p = "n400 * 400 + n100 * 100 + n4 * 4 + n1"
  have "?p div 4 = n400 * 100 + n100 * 25 + n4" using assms by simp
  moreover have "?p div 100 = n400 * 4 + n100" using assms by simp
  moreover have "?p div 400 = n400" using assms by simp
  ultimately show ?thesis by (simp add: days_before_year_def Let_def)
qed

lemma ord2ymd_spec:
  assumes "1 \<le> ord" and "ord2ymd ord = (y, m, d)"
  shows "1 \<le> y \<and> 1 \<le> m \<and> m \<le> 12 \<and> 1 \<le> d \<and> d \<le> days_in_month (is_leap y) m \<and> ymd2ord y m d = ord"
proof -
  define n where "n = ord - 1"
  define n400 a n100 b n4 c n1 r where
    "n400 = n div 146097" and "a = n mod 146097" and "n100 = a div 36524" and "b = a mod 36524"
    and "n4 = b div 1461" and "c = b mod 1461" and "n1 = c div 365" and "r = c mod 365"
  have n: "n = 146097 * n400 + a" "a < 146097" "a = 36524 * n100 + b" "b < 36524"
     "b = 1461 * n4 + c" "c < 1461" "c = 365 * n1 + r" "r < 365"
    by (simp_all add: n400_def a_def n100_def b_def n4_def c_def n1_def r_def)
  have bounds: "n100 \<le> 4" "n4 \<le> 24" "n1 \<le> 4" using n by linarith+
  let ?y = "n400 * 400 + 1 + n100 * 100 + n4 * 4 + n1"
  have o: "(y, m, d) = (if n1 = 4 \<or> n100 = 4 then (?y - 1, 12, 31)
      else (?y, month_day (n1 = 3 \<and> (n4 \<noteq> 24 \<or> n100 = 3)) r))"
    unfolding assms(2) [symmetric] ord2ymd_def Let_def r_def n1_def c_def n4_def b_def n100_def a_def
      n400_def n_def by (rule refl)
  consider (last) "n1 = 4 \<or> n100 = 4" | (usual) "n1 \<le> 3" "n100 \<le> 3" using bounds by linarith
  then show ?thesis
  proof cases
    case usual
    let ?leap = "n1 = 3 \<and> (n4 \<noteq> 24 \<or> n100 = 3)"
    from o usual have y: "y = ?y" and md: "month_day ?leap r = (m, d)" by auto
    have leap: "is_leap y = ?leap" unfolding y using usual bounds(2) by (intro is_leap_split)
    have "days_before_year y = 146097 * n400 + 36524 * n100 + 1461 * n4 + 365 * n1"
      unfolding y using usual bounds(2) by (intro days_before_year_split)
    moreover have "1 \<le> m \<and> m \<le> 12 \<and> 1 \<le> d \<and> d \<le> days_in_month ?leap m \<and> days_before_month ?leap m + d = r + 1"
      using md n(8) by (intro month_day_spec) auto
    moreover have "ord = 146097 * n400 + 36524 * n100 + 1461 * n4 + 365 * n1 + (r + 1)"
      using n assms(1) by (simp add: n_def)
    moreover have "1 \<le> y" by (simp add: y)
    ultimately show ?thesis unfolding ymd2ord_def leap by linarith
  next
    case last
    have "\<exists>h q. h \<le> 3 \<and> q \<le> 24 \<and> (q \<noteq> 24 \<or> h = 3) \<and> ?y - 1 = n400 * 400 + 1 + h * 100 + q * 4 + 3 \<and>
        n = 146097 * n400 + 36524 * h + 1461 * q + 1460"
    proof (cases "n100 = 4")
      case True
      with n have "b = 0" "n4 = 0" "c = 0" "n1 = 0" "a = 146096" by auto
      with True n(1) show ?thesis by (intro exI [of _ 3] exI [of _ 24]) simp
    next
      case False
      with last have "n1 = 4" by simp
      with n have "r = 0" "c = 1460" by auto
      then have "n4 \<noteq> 24" using n by auto
      with False bounds n \<open>n1 = 4\<close> \<open>c = 1460\<close> show ?thesis
        by (intro exI [of _ n100] exI [of _ n4]) auto
    qed
    then obtain h q where hq: "h \<le> 3" "q \<le> 24" "q \<noteq> 24 \<or> h = 3"
      "?y - 1 = n400 * 400 + 1 + h * 100 + q * 4 + 3"
      "n = 146097 * n400 + 36524 * h + 1461 * q + 1460" by blast
    from o last hq(4) have ymd: "y = n400 * 400 + 1 + h * 100 + q * 4 + 3" "m = 12" "d = 31"
      by (auto split: if_splits)
    have "is_leap y" unfolding ymd using hq by (subst is_leap_split) auto
    moreover have "days_before_year y = 146097 * n400 + 36524 * h + 1461 * q + 365 * 3"
      unfolding ymd using hq by (intro days_before_year_split) auto
    ultimately show ?thesis
      using hq(5) ymd assms(1)
      by (simp add: ymd2ord_def days_before_month_def days_in_month_def month_table_def n_def)
  qed
qed


lemma days_before_year_Suc:
  assumes "1 \<le> y"
  shows "days_before_year (Suc y) = days_before_year y + (if is_leap y then 366 else 365)"
proof -
  obtain p where p: "y = Suc p" using assms by (cases y) auto
  have "p div 100 \<le> p div 4" by (rule div_le_mono2) auto
  then obtain k where k: "p div 4 = p div 100 + k" by (auto simp: le_iff_add)
  have "(4::nat) dvd 100" "(4::nat) dvd 400" "(100::nat) dvd 400" by simp_all
  then have d: "100 dvd Suc p \<Longrightarrow> 4 dvd Suc p" "400 dvd Suc p \<Longrightarrow> 100 dvd Suc p"
    by (blast intro: dvd_trans)+
  then show ?thesis using k
    by (cases "4 dvd Suc p"; cases "100 dvd Suc p"; cases "400 dvd Suc p")
      (simp_all add: p days_before_year_def is_leap_def Let_def div_Suc mod_eq_0_iff_dvd)
qed

lemma days_before_year_mono:
  assumes "1 \<le> y"
  shows "y \<le> y' \<Longrightarrow> days_before_year y \<le> days_before_year y'"
proof (induction y' rule: dec_induct)
  case (step n)
  then show ?case using days_before_year_Suc [of n] assms by simp
qed simp

definition month_step_ok :: "bool \<Rightarrow> nat \<Rightarrow> bool" where
  "month_step_ok leap m = (days_before_month leap (Suc m) = days_before_month leap m + days_in_month leap m)"

lemma month_cases:
  "1 \<le> m \<Longrightarrow> m \<le> (12::nat) \<Longrightarrow> m = 1 \<or> m = 2 \<or> m = 3 \<or> m = 4 \<or> m = 5 \<or> m = 6 \<or> m = 7 \<or> m = 8
    \<or> m = 9 \<or> m = 10 \<or> m = 11 \<or> m = 12"
  by presburger

lemma month_step_ok_all: "\<forall>leap. \<forall>m \<in> {1..<12}. month_step_ok leap m"
proof (intro allI ballI)
  fix leap m assume "m \<in> {1..<12::nat}"
  then have "1 \<le> m" "m \<le> 12" "m \<noteq> 12" by auto
  with month_cases [of m] have "m = 1 \<or> m = 2 \<or> m = 3 \<or> m = 4 \<or> m = 5 \<or> m = 6 \<or> m = 7 \<or> m = 8
      \<or> m = 9 \<or> m = 10 \<or> m = 11" by blast
  then show "month_step_ok leap m"
    by (elim disjE) (simp_all add: month_step_ok_def days_before_month_def days_in_month_def month_table_def)
qed

lemma days_before_month_le:
  assumes "1 \<le> m"
  shows "Suc m \<le> m' \<Longrightarrow> m' \<le> 12 \<Longrightarrow>
    days_before_month leap m + days_in_month leap m \<le> days_before_month leap m'"
proof (induction m' rule: dec_induct)
  case base
  then show ?case using month_step_ok_all assms by (auto simp: month_step_ok_def)
next
  case (step n)
  then have "days_before_month leap (Suc n) = days_before_month leap n + days_in_month leap n"
    using month_step_ok_all assms by (auto simp: month_step_ok_def)
  with step show ?case by simp
qed

lemma days_before_month_year:
  assumes "1 \<le> m" "m \<le> 12"
  shows "days_before_month leap m + days_in_month leap m \<le> (if leap then 366 else 365)"
proof -
  have last: "days_before_month leap 12 + days_in_month leap 12 = (if leap then 366 else 365)"
    by (simp add: days_before_month_def days_in_month_def month_table_def)
  show ?thesis
  proof (cases "m = 12")
    case False
    then show ?thesis using days_before_month_le [of m 12 leap] assms last by linarith
  qed (use last in simp)
qed

definition valid_ymd :: "nat \<Rightarrow> nat \<Rightarrow> nat \<Rightarrow> bool" where
  "valid_ymd y m d = (1 \<le> y \<and> 1 \<le> m \<and> m \<le> 12 \<and> 1 \<le> d \<and> d \<le> days_in_month (is_leap y) m)"

lemma ymd2ord_less:
  assumes "valid_ymd y m d" "valid_ymd y' m' d'" "(y, m, d) < (y', m', d')"
  shows "ymd2ord y m d < ymd2ord y' m' d'"
proof -
  have v: "1 \<le> y" "1 \<le> m" "m \<le> 12" "d \<le> days_in_month (is_leap y) m" "1 \<le> d'" "m' \<le> 12"
    using assms(1,2) by (auto simp: valid_ymd_def)
  from assms(3) consider "y < y'" | "y = y'" "m < m'" | "y = y'" "m = m'" "d < d'"
    by (auto simp: less_prod_def le_less)
  then show ?thesis
  proof cases
    case 1
    have "days_before_year y + (if is_leap y then 366 else 365) \<le> days_before_year y'"
      using days_before_year_mono [of "Suc y" y'] days_before_year_Suc [of y] v(1) 1 by simp
    then show ?thesis
      using days_before_month_year [OF v(2,3), of "is_leap y"] v(4,5) unfolding ymd2ord_def by linarith
  next
    case 2
    then show ?thesis
      using days_before_month_le [of m m' "is_leap y"] v by (simp add: ymd2ord_def)
  next
    case 3
    then show ?thesis by (simp add: ymd2ord_def)
  qed
qed

lemma ymd2ord_inj:
  assumes "valid_ymd y m d" "valid_ymd y' m' d'" "ymd2ord y m d = ymd2ord y' m' d'"
  shows "(y, m, d) = (y', m', d')"
  using ymd2ord_less [OF assms(1,2)] ymd2ord_less [OF assms(2,1)] assms(3)
  by (metis less_irrefl linorder_neqE)

lemma year_le_9999:
  assumes "valid_ymd y m d" and "ymd2ord y m d \<le> maxordinal"
  shows "y \<le> 9999"
proof (rule ccontr)
  assume "\<not> y \<le> 9999"
  then have "days_before_year 10000 \<le> days_before_year y" by (intro days_before_year_mono) auto
  moreover have "days_before_year 10000 = maxordinal" by (simp add: days_before_year_def maxordinal_def)
  ultimately show False using assms by (simp add: ymd2ord_def valid_ymd_def)
qed

lemma of_us_spec:
  assumes "of_us u tz = Inr t" and "\<And>z. tz = Some z \<Longrightarrow> \<bar>z\<bar> < 86400000000"
  shows "valid_pydt t \<and> local_us t = u \<and> utcoffset t = tz"
proof -
  define days r where "days = u div 86400000000" and "r = nat (u mod 86400000000)"
  have u: "u = days * 86400000000 + int r" by (simp add: days_def r_def)
  have r: "r < 86400000000" by (simp add: r_def nat_less_iff)
  from assms(1) have rng: "0 \<le> days" "days < int maxordinal"
    by (auto simp: of_us_def Let_def days_def [symmetric] split: if_splits)
  obtain y m d where ymd: "ord2ymd (nat days + 1) = (y, m, d)" by (metis prod.exhaust)
  have s: "valid_ymd y m d" "ymd2ord y m d = nat days + 1"
    using ord2ymd_spec [OF _ ymd] by (auto simp: valid_ymd_def)
  have y: "y \<le> 9999" using s rng by (intro year_le_9999 [of y m d]) auto
  have t: "t = \<lparr>year = y, month = m, day = d, hour = r div 3600000000,
             minute = r div 60000000 mod 60, second = r div 1000000 mod 60,
             microsecond = r mod 1000000, utcoffset = tz\<rparr>"
    using assms(1) rng ymd by (simp add: of_us_def Let_def days_def [symmetric] r_def [symmetric])
  have h: "r div 3600000000 < 24" using r by simp
  have "r = ((r div 3600000000 * 60 + r div 60000000 mod 60) * 60 + r div 1000000 mod 60) * 1000000 + r mod 1000000"
  proof -
    have "r div 60000000 = r div 1000000 div 60" "r div 3600000000 = r div 1000000 div 60 div 60"
      by (simp_all add: div_mult2_eq [symmetric])
    then show ?thesis by (metis div_mult_mod_eq)
  qed
  then have "int r = int (((r div 3600000000 * 60 + r div 60000000 mod 60) * 60 + r div 1000000 mod 60) * 1000000 + r mod 1000000)"
    by (rule arg_cong)
  then have "int r = (int (r div 3600000000) * 60 + int (r div 60000000 mod 60)) * 60000000
      + int (r div 1000000 mod 60) * 1000000 + int (r mod 1000000)"
    by (simp only: of_nat_add of_nat_mult of_nat_numeral algebra_simps)
  then have "local_us t = u" using s(2) rng(1) by (simp add: t local_us_def u)
  moreover have "valid_pydt t"
    using s(1) y h assms(2) by (auto simp: t valid_pydt_def valid_ymd_def split: option.splits)
  ultimately show ?thesis by (simp add: t)
qed


subsection \<open>Normalising to UTC\<close>

text \<open>A datetime as the contract models keep it: valid, and aware with offset zero.\<close>

definition utc_pydt :: "pydt \<Rightarrow> bool" where
  "utc_pydt t \<longleftrightarrow> valid_pydt t \<and> utcoffset t = Some 0"

lemma to_utc_spec:
  assumes "valid_pydt t" and "to_utc t = Inr u"
  shows "utc_pydt u \<and> instant u = instant t"
proof -
  obtain z where z: "utcoffset t = Some z" using assms(2) by (auto simp: to_utc_def split: if_splits)
  show ?thesis
  proof (cases "z = 0")
    case True
    with assms z have "u = t" by (simp add: to_utc_def astimezone_utc_def)
    with assms(1) z True show ?thesis by (simp add: utc_pydt_def)
  next
    case False
    with assms(2) z have "of_us (local_us t - z) (Some 0) = Inr u"
      by (simp add: to_utc_def astimezone_utc_def)
    from of_us_spec [OF this] show ?thesis by (simp add: utc_pydt_def instant_def z)
  qed
qed

lemma to_utc_naive: "utcoffset t = None \<Longrightarrow> to_utc t = Inl PyValueError"
  by (simp add: to_utc_def)

lemma to_utc_id: "utcoffset t = Some 0 \<Longrightarrow> to_utc t = Inr t"
  by (simp add: to_utc_def astimezone_utc_def)

lemma to_utc_utc [simp]: "utc_pydt t \<Longrightarrow> to_utc t = Inr t"
  by (simp add: to_utc_id utc_pydt_def)

lemma astimezone_utc_idem: "astimezone_utc t = Inr u \<Longrightarrow> utcoffset u = Some 0"
  by (auto simp: astimezone_utc_def of_us_def Let_def split: option.splits if_splits prod.splits)

subsection \<open>Chronological order\<close>

lemma us_bound:
  fixes a b :: int
  assumes "a + 1 \<le> b" "h \<le> 23" "m \<le> 59" "s \<le> 59" "u \<le> 999999" "0 \<le> h'" "0 \<le> m'" "0 \<le> s'" "0 \<le> u'"
  shows "(((a - 1) * 24 + h) * 60 + m) * 60000000 + s * 1000000 + u
       < (((b - 1) * 24 + h') * 60 + m') * 60000000 + s' * 1000000 + u'"
proof -
  have "(a - 1) * 24 + h + 1 \<le> (b - 1) * 24 + h'" using assms by (simp add: algebra_simps)
  then have "((a - 1) * 24 + h) * 60 + m + 1 \<le> ((b - 1) * 24 + h') * 60 + m'"
    using assms by (simp add: algebra_simps)
  then show ?thesis using assms by (simp add: algebra_simps)
qed

lemma utc_civil_less_instant:
  assumes "utc_pydt s" "utc_pydt t" "civil s < civil t"
  shows "instant s < instant t"
proof -
  have vs: "valid_ymd (year s) (month s) (day s)" and vt: "valid_ymd (year t) (month t) (day t)"
    using assms(1,2) by (auto simp: utc_pydt_def valid_pydt_def valid_ymd_def)
  have b: "int (hour s) \<le> 23" "int (minute s) \<le> 59" "int (second s) \<le> 59" "int (microsecond s) \<le> 999999"
    "0 \<le> int (hour t)" "0 \<le> int (minute t)" "0 \<le> int (second t)" "0 \<le> int (microsecond t)"
    using assms(1) by (auto simp: utc_pydt_def valid_pydt_def)
  have i: "instant x = local_us x" if "utc_pydt x" for x using that by (simp add: utc_pydt_def instant_def)
  show ?thesis
  proof (cases "(year s, month s, day s) < (year t, month t, day t)")
    case True
    with vs vt have "ymd2ord (year s) (month s) (day s) < ymd2ord (year t) (month t) (day t)"
      by (intro ymd2ord_less)
    then have "int (ymd2ord (year s) (month s) (day s)) + 1 \<le> int (ymd2ord (year t) (month t) (day t))" by simp
    then show ?thesis using b unfolding i [OF assms(1)] i [OF assms(2)] local_us_def by (intro us_bound)
  next
    case False
    with assms(3) have eq: "year s = year t" "month s = month t" "day s = day t"
      and lt: "(hour s, minute s, second s, microsecond s) < (hour t, minute t, second t, microsecond t)"
      by (auto simp: civil_def less_prod_def le_less)
    from lt consider "int (hour s) + 1 \<le> int (hour t)"
      | "hour s = hour t" "int (minute s) + 1 \<le> int (minute t)"
      | "hour s = hour t" "minute s = minute t" "int (second s) + 1 \<le> int (second t)"
      | "hour s = hour t" "minute s = minute t" "second s = second t" "microsecond s < microsecond t"
      by (force simp: less_prod_def)
    then show ?thesis using b unfolding i [OF assms(1)] i [OF assms(2)] local_us_def eq
      by cases auto
  qed
qed

lemma civil_eq_iff: "utc_pydt s \<Longrightarrow> utc_pydt t \<Longrightarrow> civil s = civil t \<longleftrightarrow> s = t"
  by (cases s; cases t) (auto simp: civil_def utc_pydt_def)

lemma utc_civil_less_iff:
  assumes "utc_pydt s" "utc_pydt t"
  shows "civil s < civil t \<longleftrightarrow> instant s < instant t"
  using utc_civil_less_instant [OF assms] utc_civil_less_instant [OF assms(2,1)] civil_eq_iff [OF assms]
  by (metis less_irrefl less_asym linorder_neqE)

subsection \<open>The stored text\<close>

definition micro_part :: "nat \<Rightarrow> string" where
  "micro_part u = (if u = 0 then ''+00:00'' else ''.'' @ padn 6 u @ ''+00:00'')"

lemma digit_char_0: "digit_char 0 = CHR ''0''"
  by code_simp

lemma iso_offset_0: "iso_offset 0 = ''+00:00''"
  by (simp add: iso_offset_def Let_def numeral_2_eq_2 digit_char_0)

lemma dt_to_str_utc: "utc_pydt t \<Longrightarrow> dt_to_str t = date_part t @ ''T'' @ time_part t @ micro_part (microsecond t)"
  by (simp add: dt_to_str_def isoformat_def utc_pydt_def iso_offset_0 micro_part_def)

lemma length_date_part [simp]: "length (date_part t) = 10"
  and length_time_part [simp]: "length (time_part t) = 8"
  by (simp_all add: date_part_def time_part_def)

lemma utc_bounds:
  assumes "utc_pydt t"
  shows "year t < 10 ^ 4" "month t < 10 ^ 2" "day t < 10 ^ 2" "hour t < 10 ^ 2" "minute t < 10 ^ 2"
    "second t < 10 ^ 2" "microsecond t < 10 ^ 6"
proof -
  have "days_in_month leap m \<le> 31" if "1 \<le> m" "m \<le> 12" for leap m
    using month_cases [OF that] by (elim disjE) (simp_all add: days_in_month_def)
  then have "days_in_month (is_leap (year t)) (month t) \<le> 31"
    using assms by (simp add: utc_pydt_def valid_pydt_def)
  then have "day t \<le> 31" using assms by (simp add: utc_pydt_def valid_pydt_def)
  then show "year t < 10 ^ 4" "month t < 10 ^ 2" "day t < 10 ^ 2" "hour t < 10 ^ 2" "minute t < 10 ^ 2"
    "second t < 10 ^ 2" "microsecond t < 10 ^ 6"
    using assms by (auto simp: utc_pydt_def valid_pydt_def)
qed

lemma number_padn: "n < 10 ^ k \<Longrightarrow> number k (padn k n) = Some n"
  by (simp add: number_def padn_digits digits_val_padn)

lemma parse_civil_text:
  assumes "utc_pydt t"
  shows "parse_civil (date_part t @ ''T'' @ time_part t) = Some (t\<lparr>microsecond := 0, utcoffset := None\<rparr>)"
  using utc_bounds [OF assms]
  by (simp add: parse_civil_def date_part_def time_part_def number_padn
      del: padn.simps)

lemma str_to_dt_dt_to_str:
  assumes "utc_pydt t"
  shows "str_to_dt (dt_to_str t) = Inr t"
proof -
  let ?p = "date_part t @ ''T'' @ time_part t"
  have d: "dt_to_str t = ?p @ micro_part (microsecond t)" by (simp add: dt_to_str_utc [OF assms])
  have len: "length ?p = 19" by simp
  have tk: "take 19 (dt_to_str t) = ?p" and dr: "drop 19 (dt_to_str t) = micro_part (microsecond t)"
    unfolding d using len by (metis append_eq_conv_conj)+
  have v: "valid_pydt t" "utcoffset t = Some 0" using assms by (auto simp: utc_pydt_def)
  have "fromisoformat (dt_to_str t) = Inr t"
  proof (cases "microsecond t = 0")
    case True
    then have "t\<lparr>microsecond := 0, utcoffset := Some 0\<rparr> = t" using v by (cases t) simp
    with True show ?thesis
      unfolding fromisoformat_def tk dr parse_civil_text [OF assms] using v by (cases t) (simp add: micro_part_def)
  next
    case False
    have "number 6 (padn 6 (microsecond t)) = Some (microsecond t)"
      using utc_bounds(7) [OF assms] by (rule number_padn)
    moreover have "t\<lparr>utcoffset := Some 0\<rparr> = t" using v by (cases t) simp
    ultimately show ?thesis using False v(1)
      unfolding fromisoformat_def tk dr parse_civil_text [OF assms]
      by (simp add: micro_part_def del: padn.simps)
  qed
  then show ?thesis using assms by (simp add: str_to_dt_def)
qed

lemma micro_part_less:
  assumes "u < 10 ^ 6" "v < 10 ^ 6"
  shows "micro_part u < micro_part v \<longleftrightarrow> u < v"
  using assms padn_less [OF assms] padn_inj [OF assms]
  by (auto simp: micro_part_def less_append_same_length less_char_def simp del: padn.simps)

lemma dt_to_str_less_iff:
  assumes "utc_pydt s" "utc_pydt t"
  shows "dt_to_str s < dt_to_str t \<longleftrightarrow> civil s < civil t"
  using utc_bounds [OF assms(1)] utc_bounds [OF assms(2)]
  by (auto simp: dt_to_str_utc assms date_part_def time_part_def less_append_same_length padn_less
      padn_inj micro_part_less civil_def less_prod_def simp del: padn.simps)

lemma dt_to_str_inj: "utc_pydt s \<Longrightarrow> utc_pydt t \<Longrightarrow> dt_to_str s = dt_to_str t \<longleftrightarrow> s = t"
  by (metis str_to_dt_dt_to_str Inr_inject)

end
