(* ===== verification/PyJson.thy ===== *)
theory PyJson
  imports PyText
begin

text \<open>
  JSON values, the canonical text the store writes (\<open>_dumps\<close>: \<open>json.dumps\<close> with
  \<open>sort_keys=True\<close> and separators \<open>(",", ":")\<close>) and the reader \<open>_loads\<close>
  (\<open>src/cer/metadata/sqlite_store.py\<close>). A finite Python float is carried as its \<open>repr\<close>, which
  determines it (\<open>repr\<close> and \<open>float\<close> round-trip). A dict is an association list in insertion
  order with distinct keys. The main lemma is that reading a written value gives the value
  back with every dict in key order, so the canonical text determines a value up to dict order.
\<close>

datatype json =
    JNull
  | JBool bool
  | JInt int
  | JFloat string
  | JStr string
  | JList "json list"
  | JObj "(string \<times> json) list"

subsection \<open>Writing\<close>

definition hex_digit :: "nat \<Rightarrow> char" where
  "hex_digit d = (if d < 10 then char_of (48 + d) else char_of (87 + d))"

definition unhex :: "char \<Rightarrow> nat" where
  "unhex c = (let n = of_char c in if n < 58 then n - 48 else n - 87)"

text \<open>One character of a string with \<open>ensure_ascii\<close>.\<close>

definition json_esc :: "char \<Rightarrow> string" where
  "json_esc c = (let n = (of_char c :: nat) in
     if n = 34 \<or> n = 92 then [CHR 0x5C, c]
     else if n = 8 then [CHR 0x5C, CHR ''b'']
     else if n = 9 then [CHR 0x5C, CHR ''t'']
     else if n = 10 then [CHR 0x5C, CHR ''n'']
     else if n = 12 then [CHR 0x5C, CHR ''f'']
     else if n = 13 then [CHR 0x5C, CHR ''r'']
     else if 32 \<le> n \<and> n \<le> 126 then [c]
     else [CHR 0x5C, CHR ''u'', CHR ''0'', CHR ''0'', hex_digit (n div 16), hex_digit (n mod 16)])"

definition json_quote :: "string \<Rightarrow> string" where
  "json_quote s = CHR 0x22 # concat (map json_esc s) @ [CHR 0x22]"

definition show_int :: "int \<Rightarrow> string" where
  "show_int i = (if i < 0 then CHR ''-'' # show_nat (nat (- i)) else show_nat (nat i))"

fun join_with :: "string list \<Rightarrow> string" where
  "join_with [] = []"
| "join_with [s] = s"
| "join_with (s # ss) = s @ CHR '','' # join_with ss"

fun show_json :: "json \<Rightarrow> string" where
  "show_json JNull = ''null''"
| "show_json (JBool b) = (if b then ''true'' else ''false'')"
| "show_json (JInt i) = show_int i"
| "show_json (JFloat s) = s"
| "show_json (JStr s) = json_quote s"
| "show_json (JList xs) = CHR ''['' # join_with (map show_json xs) @ [CHR '']'']"
| "show_json (JObj kvs) =
     CHR ''{'' # join_with (map (\<lambda>(k, v). json_quote k @ CHR '':'' # show_json v) kvs) @ [CHR ''}'']"

text \<open>\<open>sort_keys=True\<close>.\<close>

fun canon :: "json \<Rightarrow> json" where
  "canon (JList xs) = JList (map canon xs)"
| "canon (JObj kvs) = JObj (sort_key fst (map (\<lambda>(k, v). (k, canon v)) kvs))"
| "canon v = v"

definition json_dumps :: "json \<Rightarrow> string" where
  "json_dumps v = show_json (canon v)"

subsection \<open>Reading\<close>

fun parse_quoted :: "string \<Rightarrow> (string \<times> string) option" where
  "parse_quoted [] = None"
| "parse_quoted (c # cs) =
     (if c = CHR 0x22 then Some ([], cs)
      else if c = CHR 0x5C then
        (case cs of
           [] \<Rightarrow> None
         | e # r \<Rightarrow>
             if e = CHR ''u'' then
               (case r of
                  z # z' # h # l # r' \<Rightarrow>
                    if z = CHR ''0'' \<and> z' = CHR ''0''
                    then map_option (apfst ((#) (char_of (unhex h * 16 + unhex l)))) (parse_quoted r')
                    else None
                | _ \<Rightarrow> None)
             else
               (let d = (if e = CHR ''b'' then char_of (8::nat) else if e = CHR ''t'' then char_of (9::nat)
                         else if e = CHR ''n'' then char_of (10::nat) else if e = CHR ''f'' then char_of (12::nat)
                         else if e = CHR ''r'' then char_of (13::nat) else e)
                in map_option (apfst ((#) d)) (parse_quoted r)))
      else map_option (apfst ((#) c)) (parse_quoted cs))"

definition number_char :: "char \<Rightarrow> bool" where
  "number_char c = (is_ascii_digit c \<or> c \<in> set ''+-.eE'')"

definition int_token :: "string \<Rightarrow> int option" where
  "int_token t = (case t of [] \<Rightarrow> None
     | c # cs \<Rightarrow> if list_all is_ascii_digit t then Some (int (digits_val 0 t))
                else if c = CHR ''-'' \<and> cs \<noteq> [] \<and> list_all is_ascii_digit cs
                then Some (- int (digits_val 0 cs)) else None)"

fun parse_val :: "nat \<Rightarrow> string \<Rightarrow> (json \<times> string) option"
  and parse_elems :: "nat \<Rightarrow> string \<Rightarrow> (json list \<times> string) option"
  and parse_members :: "nat \<Rightarrow> string \<Rightarrow> ((string \<times> json) list \<times> string) option" where
  "parse_val 0 s = None"
| "parse_val (Suc n) s =
     (case s of
        [] \<Rightarrow> None
      | c # cs \<Rightarrow>
          if c = CHR 0x22 then map_option (\<lambda>(t, r). (JStr t, r)) (parse_quoted cs)
          else if c = CHR ''['' then
            (if take 1 cs = '']'' then Some (JList [], drop 1 cs)
             else map_option (\<lambda>(xs, r). (JList xs, r)) (parse_elems n cs))
          else if c = CHR ''{'' then
            (if take 1 cs = ''}'' then Some (JObj [], drop 1 cs)
             else map_option (\<lambda>(kvs, r). (JObj kvs, r)) (parse_members n cs))
          else if startswith s ''null'' then Some (JNull, drop 4 s)
          else if startswith s ''true'' then Some (JBool True, drop 4 s)
          else if startswith s ''false'' then Some (JBool False, drop 5 s)
          else (let t = takeWhile number_char s; r = dropWhile number_char s in
            if t = [] then None
            else Some (case int_token t of Some i \<Rightarrow> JInt i | None \<Rightarrow> JFloat t, r)))"
| "parse_elems 0 s = None"
| "parse_elems (Suc n) s =
     (case parse_val n s of
        Some (v, d # r) \<Rightarrow>
          if d = CHR '']'' then Some ([v], r)
          else if d = CHR '','' then map_option (apfst ((#) v)) (parse_elems n r)
          else None
      | _ \<Rightarrow> None)"
| "parse_members 0 s = None"
| "parse_members (Suc n) s =
     (case s of
        [] \<Rightarrow> None
      | q # cs \<Rightarrow>
          if q \<noteq> CHR 0x22 then None
          else (case parse_quoted cs of
             Some (k, d # r) \<Rightarrow>
               if d \<noteq> CHR '':'' then None
               else (case parse_val n r of
                  Some (v, e # r') \<Rightarrow>
                    if e = CHR ''}'' then Some ([(k, v)], r')
                    else if e = CHR '','' then map_option (apfst ((#) (k, v))) (parse_members n r')
                    else None
                | _ \<Rightarrow> None)
           | _ \<Rightarrow> None))"

text \<open>\<open>json.loads\<close> on canonical text: what the store writes, and all it reads. No whitespace, no \<open>NaN\<close>, no limit on
  the nesting; on any other text the definition says nothing of Python.\<close>

definition json_loads :: "string \<Rightarrow> json option" where
  "json_loads s = (case parse_val (Suc (length s)) s of Some (v, []) \<Rightarrow> Some v | _ \<Rightarrow> None)"

subsection \<open>Well-formed values\<close>

text \<open>A float's \<open>repr\<close> is a number token that is not an integer's; dict keys are distinct.\<close>

definition float_repr :: "string \<Rightarrow> bool" where
  "float_repr s \<longleftrightarrow> s \<noteq> [] \<and> list_all number_char s \<and> (is_ascii_digit (hd s) \<or> hd s = CHR ''-'') \<and> int_token s = None"

fun wf_json :: "json \<Rightarrow> bool" where
  "wf_json (JFloat s) = float_repr s"
| "wf_json (JList xs) = list_all wf_json xs"
| "wf_json (JObj kvs) = (distinct (map fst kvs) \<and> list_all (\<lambda>(k, v). wf_json v) kvs)"
| "wf_json v = True"


subsection \<open>Quoted strings read back\<close>

lemma hex_digit_code: "d < 16 \<Longrightarrow> (of_char (hex_digit d) :: nat) = (if d < 10 then 48 + d else 87 + d)"
  by (simp add: hex_digit_def)

lemma unhex_hex_digit: "d < 16 \<Longrightarrow> unhex (hex_digit d) = d"
  by (simp add: unhex_def hex_digit_code Let_def)

lemma char_of_hex: "char_of (unhex (hex_digit (of_char c div 16)) * 16 + unhex (hex_digit (of_char c mod 16))) = c"
proof -
  have "(of_char c :: nat) < 16 * 16" by simp
  then have "of_char c div 16 < (16::nat)" by (rule less_mult_imp_div_less)
  then show ?thesis by (simp add: unhex_hex_digit)
qed

lemma of_char_eq_iff: "c = d \<longleftrightarrow> (of_char c :: nat) = of_char d"
  by simp

lemma parse_quoted_esc: "parse_quoted (json_esc c @ r) = map_option (apfst ((#) c)) (parse_quoted r)"
proof -
  let ?n = "of_char c :: nat"
  consider "?n = 34 \<or> ?n = 92" | "?n = 8" | "?n = 9" | "?n = 10" | "?n = 12" | "?n = 13"
    | "32 \<le> ?n" "?n \<le> 126" "?n \<noteq> 34" "?n \<noteq> 92"
    | "?n \<noteq> 34" "?n \<noteq> 92" "?n \<noteq> 8" "?n \<noteq> 9" "?n \<noteq> 10" "?n \<noteq> 12" "?n \<noteq> 13" "\<not> (32 \<le> ?n \<and> ?n \<le> 126)"
    by argo
  then show ?thesis
    by cases (auto simp: json_esc_def Let_def char_of_hex of_char_eq_iff simp flip: of_char_eq_iff;
        metis char_of_char)+
qed

lemma parse_quoted_quote: "parse_quoted (concat (map json_esc s) @ CHR 0x22 # r) = Some (s, r)"
  by (induction s) (simp_all add: parse_quoted_esc)

subsection \<open>Number tokens\<close>

lemma number_char_digit: "is_ascii_digit c \<Longrightarrow> number_char c"
  by (simp add: number_char_def)

lemma show_int_nonempty [simp]: "show_int i \<noteq> []"
  by (simp add: show_int_def)

lemma show_int_chars: "list_all number_char (show_int i)"
  using show_nat_digits by (auto simp: show_int_def list_all_iff number_char_def)

lemma int_token_show_int: "int_token (show_int i) = Some i"
proof (cases "i < 0")
  case True
  have "\<not> is_ascii_digit CHR ''-''" by (simp add: is_ascii_digit_def)
  with True show ?thesis using show_nat_digits [of "nat (- i)"]
    by (simp add: show_int_def int_token_def)
next
  case False
  then have "show_int i = show_nat (nat i)" by (simp add: show_int_def)
  moreover have "int_token (show_nat n) = Some (int (digits_val 0 (show_nat n)))" for n
    using show_nat_digits [of n] by (cases "show_nat n") (simp_all add: int_token_def)
  ultimately show ?thesis using False by simp
qed

lemma show_int_hd: "is_ascii_digit (hd (show_int i)) \<or> hd (show_int i) = CHR ''-''"
  using show_nat_digits [of "nat i"] show_nat_nonempty [of "nat i"]
  by (cases "show_nat (nat i)") (auto simp: show_int_def)

text \<open>What may follow a value: nothing, or a character that does not extend a number.\<close>

definition ends_number :: "string \<Rightarrow> bool" where
  "ends_number r = (case r of [] \<Rightarrow> True | c # cs \<Rightarrow> \<not> number_char c)"

lemma takeWhile_number: "list_all number_char t \<Longrightarrow> ends_number r \<Longrightarrow> takeWhile number_char (t @ r) = t"
  and dropWhile_number: "list_all number_char t \<Longrightarrow> ends_number r \<Longrightarrow> dropWhile number_char (t @ r) = r"
  by (induction t) (auto simp: ends_number_def split: list.splits)

lemma parse_number:
  assumes "t \<noteq> []" "list_all number_char t" "is_ascii_digit (hd t) \<or> hd t = CHR ''-''" "ends_number r"
  shows "parse_val (Suc n) (t @ r) = Some (case int_token t of Some i \<Rightarrow> JInt i | None \<Rightarrow> JFloat t, r)"
proof -
  obtain c cs where t: "t = c # cs" using assms(1) by (cases t) auto
  have c: "c \<noteq> CHR 0x22" "c \<noteq> CHR ''[''" "c \<noteq> CHR ''{''" "c \<noteq> CHR ''n''" "c \<noteq> CHR ''t''" "c \<noteq> CHR ''f''"
    using assms(3) by (auto simp: t is_ascii_digit_def)
  then have "\<not> startswith (t @ r) ''null''" "\<not> startswith (t @ r) ''true''" "\<not> startswith (t @ r) ''false''"
    by (auto simp: t startswith_def)
  with c show ?thesis
    using takeWhile_number [OF assms(2,4)] dropWhile_number [OF assms(2,4)]
    by (simp add: t Let_def split: option.split)
qed

subsection \<open>Reading what was written\<close>

text \<open>The recursion depth the reader needs.\<close>

fun need :: "json \<Rightarrow> nat" and needs :: "json list \<Rightarrow> nat" and need_members :: "(string \<times> json) list \<Rightarrow> nat" where
  "need (JList xs) = Suc (needs xs)"
| "need (JObj kvs) = Suc (need_members kvs)"
| "need v = 1"
| "needs [] = 0"
| "needs (x # xs) = Suc (max (need x) (needs xs))"
| "need_members [] = 0"
| "need_members ((k, x) # xs) = Suc (max (need x) (need_members xs))"

definition show_member :: "string \<times> json \<Rightarrow> string" where
  "show_member = (\<lambda>(k, v). json_quote k @ CHR '':'' # show_json v)"

lemma show_json_Obj: "show_json (JObj kvs) = CHR ''{'' # join_with (map show_member kvs) @ [CHR ''}'']"
  by (simp add: show_member_def)

lemma parse_elems_show:
  assumes "\<And>v n r. v \<in> set xs \<Longrightarrow> need v \<le> n \<Longrightarrow> ends_number r \<Longrightarrow> parse_val n (show_json v @ r) = Some (v, r)"
    and "xs \<noteq> []" and "needs xs \<le> n"
  shows "parse_elems n (join_with (map show_json xs) @ CHR '']'' # r) = Some (xs, r)"
  using assms
proof (induction xs arbitrary: n)
  case (Cons x xs)
  then obtain m where n: "n = Suc m" and m: "need x \<le> m" "needs xs \<le> m" by (cases n) auto
  have e: "ends_number (CHR '']'' # s)" "ends_number (CHR '','' # s)" for s
    by (auto simp: ends_number_def number_char_def is_ascii_digit_def)
  show ?case
  proof (cases xs)
    case Nil
    then show ?thesis using Cons.prems(1) [of x m] m e by (simp add: n)
  next
    case (Cons y ys)
    have "parse_elems m (join_with (map show_json xs) @ CHR '']'' # r) = Some (xs, r)"
      using Cons.IH [OF _ _ m(2)] Cons.prems(1) Cons by simp
    then show ?thesis using Cons.prems(1) [of x m] m e Cons by (simp add: n)
  qed
qed simp

lemma parse_members_show:
  assumes "\<And>k v n r. (k, v) \<in> set kvs \<Longrightarrow> need v \<le> n \<Longrightarrow> ends_number r \<Longrightarrow> parse_val n (show_json v @ r) = Some (v, r)"
    and "kvs \<noteq> []" and "need_members kvs \<le> n"
  shows "parse_members n (join_with (map show_member kvs) @ CHR ''}'' # r) = Some (kvs, r)"
  using assms
proof (induction kvs arbitrary: n)
  case (Cons kv kvs)
  obtain k v where kv: "kv = (k, v)" by (cases kv)
  from Cons.prems obtain m where n: "n = Suc m" and m: "need v \<le> m" "need_members kvs \<le> m"
    by (cases n) (auto simp: kv)
  have e: "ends_number (CHR ''}'' # s)" "ends_number (CHR '','' # s)" for s
    by (auto simp: ends_number_def number_char_def is_ascii_digit_def)
  show ?case
  proof (cases kvs)
    case Nil
    then show ?thesis using Cons.prems(1) [of k v m] m e
      by (simp add: n kv show_member_def json_quote_def parse_quoted_quote)
  next
    case (Cons y ys)
    have "parse_members m (join_with (map show_member kvs) @ CHR ''}'' # r) = Some (kvs, r)"
    proof (rule Cons.IH [OF _ _ m(2)])
      fix k v n r assume "(k, v) \<in> set kvs" "need v \<le> n" "ends_number r"
      then show "parse_val n (show_json v @ r) = Some (v, r)" by (intro Cons.prems(1) [of k]) simp_all
    qed (simp add: Cons)
    then show ?thesis using Cons.prems(1) [of k v m] m e Cons
      by (simp add: n kv show_member_def json_quote_def parse_quoted_quote)
  qed
qed simp

lemma show_member_first: "\<exists>t. join_with (map show_member ((k, v) # kvs)) = CHR 0x22 # t"
  by (cases kvs) (auto simp: show_member_def json_quote_def)

lemma show_json_first:
  "wf_json v \<Longrightarrow> \<exists>c t. show_json v = c # t \<and> c \<noteq> CHR '']'' \<and> c \<noteq> CHR ''}''"
proof (cases v)
  case (JInt i)
  obtain c t where ct: "show_int i = c # t" by (metis show_int_nonempty neq_Nil_conv)
  with show_int_hd [of i] have "c \<noteq> CHR '']'' \<and> c \<noteq> CHR ''}''" by (auto simp: is_ascii_digit_def)
  with ct JInt show ?thesis by simp
next
  case (JFloat s)
  moreover assume "wf_json v"
  ultimately show ?thesis by (cases s) (auto simp: float_repr_def is_ascii_digit_def)
qed (auto simp: json_quote_def)

lemma join_first: "xs \<noteq> [] \<Longrightarrow> wf_json (hd xs) \<Longrightarrow>
    \<exists>c t. join_with (map show_json xs) = c # t \<and> c \<noteq> CHR '']''"
  using show_json_first [of "hd xs"] by (cases xs rule: list.exhaust; cases "tl xs") auto

lemma need_pos: "1 \<le> need v"
  by (cases v) auto

lemma parse_val_show:
  "wf_json v \<Longrightarrow> need v \<le> n \<Longrightarrow> ends_number r \<Longrightarrow> parse_val n (show_json v @ r) = Some (v, r)"
proof (induction v arbitrary: n r)
  case (JInt i)
  then obtain m where "n = Suc m" by (cases n) auto
  then show ?case
    using parse_number [OF show_int_nonempty show_int_chars show_int_hd JInt.prems(3)]
    by (simp add: int_token_show_int del: parse_val.simps)
next
  case (JFloat s)
  then obtain m where "n = Suc m" by (cases n) auto
  then show ?case
    using parse_number [of s r m] JFloat.prems by (simp add: float_repr_def del: parse_val.simps)
next
  case (JStr s)
  then obtain m where "n = Suc m" by (cases n) auto
  then show ?case by (simp add: json_quote_def parse_quoted_quote)
next
  case (JList xs)
  then obtain m where n: "n = Suc m" and m: "needs xs \<le> m" by (cases n) auto
  show ?case
  proof (cases "xs = []")
    case False
    have "parse_elems m (join_with (map show_json xs) @ CHR '']'' # r) = Some (xs, r)"
    proof (rule parse_elems_show [OF _ False m])
      fix v n r assume "v \<in> set xs" "need v \<le> n" "ends_number r"
      then show "parse_val n (show_json v @ r) = Some (v, r)"
        using JList.prems(1) by (intro JList.IH) (auto simp: list_all_iff)
    qed
    moreover obtain c t where "join_with (map show_json xs) = c # t" "c \<noteq> CHR '']''"
      using join_first [OF False] JList.prems(1) False by (auto simp: list_all_iff)
    ultimately show ?thesis by (simp add: n)
  qed (simp add: n)
next
  case (JObj kvs)
  then obtain m where n: "n = Suc m" and m: "need_members kvs \<le> m" by (cases n) auto
  show ?case
  proof (cases kvs)
    case (Cons kv kvs')
    have "parse_members m (join_with (map show_member kvs) @ CHR ''}'' # r) = Some (kvs, r)"
    proof (rule parse_members_show [OF _ _ m])
      fix k v n r assume kv: "(k, v) \<in> set kvs" "need v \<le> n" "ends_number r"
      then show "parse_val n (show_json v @ r) = Some (v, r)"
        using JObj.prems(1) by (intro JObj.IH [of "(k, v)" v]) (auto simp: list_all_iff)
    qed (simp add: Cons)
    moreover obtain t where "join_with (map show_member kvs) = CHR 0x22 # t"
      using show_member_first [of "fst kv" "snd kv" kvs'] Cons by auto
    ultimately show ?thesis by (simp add: n show_json_Obj del: show_json.simps)
  qed (simp add: n)
qed (auto simp: startswith_def elim: less_eq_Suc_le [THEN iffD2] dest: Suc_le_D)

lemma needs_le_length:
  "(\<And>v. v \<in> set xs \<Longrightarrow> need v \<le> Suc (length (show_json v))) \<Longrightarrow>
    needs xs \<le> length (join_with (map show_json xs)) + 2"
proof (induction xs)
  case (Cons x xs)
  from Cons.prems have x: "need x \<le> Suc (length (show_json x))" by simp
  have "needs xs \<le> length (join_with (map show_json xs)) + 2" by (rule Cons.IH) (simp add: Cons.prems)
  with x show ?case by (cases xs) auto
qed simp

lemma need_members_le_length:
  "(\<And>k v. (k, v) \<in> set kvs \<Longrightarrow> need v \<le> Suc (length (show_json v))) \<Longrightarrow>
    need_members kvs \<le> length (join_with (map show_member kvs)) + 2"
proof (induction kvs)
  case (Cons kv kvs)
  obtain k v where kv: "kv = (k, v)" by (cases kv)
  from Cons.prems have x: "need v \<le> Suc (length (show_json v))" by (auto simp: kv)
  have "need_members kvs \<le> length (join_with (map show_member kvs)) + 2"
    using Cons.prems by (intro Cons.IH) (meson list.set_intros(2))
  with x show ?case by (cases kvs) (auto simp: kv show_member_def)
qed simp

lemma need_le_length: "need v \<le> Suc (length (show_json v))"
proof (induction v)
  case (JList xs)
  then show ?case using needs_le_length [of xs] by simp
next
  case (JObj kvs)
  then have "need_members kvs \<le> length (join_with (map show_member kvs)) + 2"
    by (intro need_members_le_length) auto
  then show ?case by (simp add: show_json_Obj del: show_json.simps)
qed (auto simp: json_quote_def)

subsection \<open>Canonical form\<close>

lemma distinct_map_sort_key: "distinct (map f (sort_key g xs)) = distinct (map f xs)"
  by (simp add: distinct_map)

lemma wf_canon: "wf_json v \<Longrightarrow> wf_json (canon v)"
proof (induction v)
  case (JObj kvs)
  have keys: "map fst (map (\<lambda>(k, v). (k, canon v)) kvs) = map fst kvs" by (auto intro: map_cong)
  have "distinct (map fst (map (\<lambda>(k, v). (k, canon v)) kvs))" unfolding keys using JObj.prems by simp
  then have "distinct (map fst (sort_key fst (map (\<lambda>(k, v). (k, canon v)) kvs)))"
    by (simp only: distinct_map_sort_key)
  moreover have "list_all (\<lambda>(k, v). wf_json v) (map (\<lambda>(k, v). (k, canon v)) kvs)"
    using JObj by (auto simp: list_all_iff)
  ultimately show ?case by (simp add: list_all_iff)
qed (auto simp: list_all_iff)

lemma canon_idem: "canon (canon v) = canon v"
proof (induction v)
  case (JList xs)
  then show ?case by simp
next
  case (JObj kvs)
  let ?s = "sort_key fst (map (\<lambda>(k, v). (k, canon v)) kvs)"
  have "map (\<lambda>(k, v). (k, canon v)) ?s = ?s"
    using JObj by (intro map_idI) auto
  moreover have "sort_key fst ?s = ?s" by (simp add: sort_key_id_if_sorted)
  ultimately show ?case by simp
qed auto

lemma json_loads_show: "wf_json v \<Longrightarrow> json_loads (show_json v) = Some v"
  using parse_val_show [of v "Suc (length (show_json v))" "[]"] need_le_length [of v]
  by (simp add: json_loads_def ends_number_def del: parse_val.simps)

lemma json_loads_dumps: "wf_json v \<Longrightarrow> json_loads (json_dumps v) = Some (canon v)"
  by (simp add: json_dumps_def json_loads_show wf_canon)

lemma json_dumps_eq_iff: "wf_json v \<Longrightarrow> wf_json w \<Longrightarrow> json_dumps v = json_dumps w \<longleftrightarrow> canon v = canon w"
  by (metis json_loads_dumps json_dumps_def option.inject)

end
