(* ===== verification/Models.thy ===== *)
theory Models
  imports Identity Enums PyTime PyJson
begin

text \<open>
  The contract models of \<open>src/cer/contract/models.py\<close>: one record per pydantic model and one
  validating constructor per class. A constructor takes the arguments as an unvalidated record
  and runs the class's field validators in field order, then the \<open>after\<close> validator.
  Unknown fields and wrongly typed fields (\<open>extra="forbid"\<close>, pydantic's own type checks) are
  excluded by typing.

  pydantic collects the \<open>ValueError\<close>s of the field validators into one \<open>ValidationError\<close>;
  any other exception of a validator (the \<open>CERError\<close>s of \<open>identity\<close> and \<open>enums\<close>, an
  \<open>OverflowError\<close>) leaves the constructor at once, in field order.
\<close>

subsection \<open>How a constructor reports its validators' exceptions\<close>

fun wrapped :: "exn \<Rightarrow> bool" where
  "wrapped PyValueError = True"
| "wrapped _ = False"

definition field :: "string \<Rightarrow> exn + 'a \<Rightarrow> string \<times> exn option" where
  "field name r = (name, err_of r)"

fun escaping :: "(string \<times> exn option) list \<Rightarrow> exn option" where
  "escaping [] = None"
| "escaping ((n, Some e) # fs) = (if wrapped e then escaping fs else Some e)"
| "escaping ((n, None) # fs) = escaping fs"

fun failed :: "(string \<times> exn option) list \<Rightarrow> string list" where
  "failed [] = []"
| "failed ((n, Some e) # fs) = n # failed fs"
| "failed ((n, None) # fs) = failed fs"

definition pydantic :: "(string \<times> exn option) list \<Rightarrow> exn option" where
  "pydantic fs = (case escaping fs of
       Some e \<Rightarrow> Some e
     | None \<Rightarrow> if failed fs = [] then None else Some (PydanticError (failed fs)))"

lemma failed_Nil: "failed fs = [] \<longleftrightarrow> list_all (\<lambda>f. snd f = None) fs"
  by (induction fs rule: failed.induct) auto

lemma escaping_None: "list_all (\<lambda>f. snd f = None) fs \<Longrightarrow> escaping fs = None"
  by (induction fs rule: escaping.induct) auto

lemma pydantic_None: "pydantic fs = None \<longleftrightarrow> list_all (\<lambda>f. snd f = None) fs"
  by (auto simp: pydantic_def failed_Nil escaping_None split: option.splits)

lemma snd_field [simp]: "snd (field n r) = err_of r"
  by (simp add: field_def)

definition construct :: "(string \<times> exn option) list \<Rightarrow> 'a \<Rightarrow> exn + 'a" where
  "construct fs x = (case pydantic fs of Some e \<Rightarrow> Inl e | None \<Rightarrow> Inr x)"

lemma construct_ok: "construct fs x = Inr y \<longleftrightarrow> list_all (\<lambda>f. snd f = None) fs \<and> y = x"
  by (auto simp: construct_def pydantic_None [symmetric] split: option.splits)

subsection \<open>Field validators\<close>

text \<open>\<open>_reject_naive_and_normalize_utc\<close>, and the value it leaves in the field.\<close>

definition normalize_utc :: "pydt \<Rightarrow> exn + pydt" where
  "normalize_utc v = (if utcoffset v = None then Inl PyValueError else astimezone_utc v)"

definition utc_of :: "pydt \<Rightarrow> pydt" where
  "utc_of v = (case normalize_utc v of Inr u \<Rightarrow> u | Inl _ \<Rightarrow> v)"

definition non_empty :: "string \<Rightarrow> exn + string" where
  "non_empty v = (if is_blank v then Inl PyValueError else Inr v)"

definition optional :: "('a \<Rightarrow> exn + 'b) \<Rightarrow> 'a option \<Rightarrow> exn + 'b option" where
  "optional f v = (case v of None \<Rightarrow> Inr None | Some x \<Rightarrow> rbind (f x) (\<lambda>y. Inr (Some y)))"

text \<open>\<open>_v_optional_non_empty_if_present\<close>.\<close>

definition optional_non_empty :: "string option \<Rightarrow> exn + string option" where
  "optional_non_empty v = (case v of None \<Rightarrow> Inr None
     | Some s \<Rightarrow> if strip s = [] then Inl PyValueError else Inr (Some s))"

definition sha256_field :: "string \<Rightarrow> exn + string" where
  "sha256_field v =
     (if length v \<noteq> 64 \<or> \<not> list_all (\<lambda>c. c \<in> set ''0123456789abcdef'') (py_lower v) then Inl PyValueError
      else Inr (py_lower v))"

lemma normalize_utc_eq: "normalize_utc v = to_utc v"
  by (simp add: normalize_utc_def to_utc_def)

lemma utc_of_spec:
  assumes "valid_pydt v" "err_of (normalize_utc v) = None"
  shows "utc_pydt (utc_of v)" "instant (utc_of v) = instant v"
  using assms to_utc_spec [of v] by (auto simp: utc_of_def normalize_utc_eq err_of_None)

lemma normalize_utc_id [simp]: "utc_pydt v \<Longrightarrow> normalize_utc v = Inr v"
  by (simp add: normalize_utc_eq)

lemma utc_of_id [simp]: "utc_pydt v \<Longrightarrow> utc_of v = v"
  by (simp add: utc_of_def)

lemma err_of_optional [simp]:
  "err_of (optional f None) = None" "err_of (optional f (Some x)) = err_of (f x)"
  by (cases "f x"; simp add: optional_def)+

subsection \<open>\<open>Strategy\<close>, \<open>StrategyVersion\<close>\<close>

record strategy =
  st_strategy_id :: string
  st_name :: string
  st_thesis :: string
  st_created_at :: pydt

definition mk_strategy :: "strategy \<Rightarrow> exn + strategy" where
  "mk_strategy s = construct
     [field ''strategy_id'' (validate_strategy_id (st_strategy_id s)),
      field ''name'' (non_empty (st_name s)),
      field ''thesis'' (non_empty (st_thesis s)),
      field ''created_at'' (normalize_utc (st_created_at s))]
     (s\<lparr>st_created_at := utc_of (st_created_at s)\<rparr>)"

record strategy_version =
  sv_strategy_id :: string
  sv_strategy_version :: string
  sv_git_repo :: string
  sv_git_commit :: string
  sv_created_at :: pydt
  sv_notes :: "string option"

definition mk_strategy_version :: "strategy_version \<Rightarrow> exn + strategy_version" where
  "mk_strategy_version s = construct
     [field ''strategy_id'' (validate_strategy_id (sv_strategy_id s)),
      field ''strategy_version'' (validate_strategy_version (sv_strategy_version s)),
      field ''git_repo'' (non_empty (sv_git_repo s)),
      field ''git_commit'' (non_empty (sv_git_commit s)),
      field ''created_at'' (normalize_utc (sv_created_at s))]
     (s\<lparr>sv_created_at := utc_of (sv_created_at s)\<rparr>)"

subsection \<open>\<open>Experiment\<close>\<close>

record experiment_record =
  ex_experiment_id :: string
  ex_objective :: string
  ex_strategy_id :: "string option"
  ex_strategy_version :: "string option"
  ex_producer :: string
  ex_created_at :: pydt

definition mk_experiment :: "experiment_record \<Rightarrow> exn + experiment_record" where
  "mk_experiment x = construct
     [field ''experiment_id'' (validate_experiment_id (ex_experiment_id x)),
      field ''objective'' (non_empty (ex_objective x)),
      field ''strategy_id'' (optional validate_strategy_id (ex_strategy_id x)),
      field ''strategy_version'' (optional validate_strategy_version (ex_strategy_version x)),
      field ''producer'' (non_empty (ex_producer x)),
      field ''created_at'' (normalize_utc (ex_created_at x))]
     (x\<lparr>ex_created_at := utc_of (ex_created_at x)\<rparr>)"

subsection \<open>Provenance completeness\<close>

text \<open>What \<open>_is_absent\<close> looks at: \<open>None\<close>, a text, a container of some length, anything else.\<close>

datatype attr = ANone | AStr string | AContainer nat | AOther

fun is_absent :: "attr \<Rightarrow> bool" where
  "is_absent ANone = True"
| "is_absent (AStr s) = (strip s = [])"
| "is_absent (AContainer n) = (n = 0)"
| "is_absent AOther = False"

definition attr_text :: "string option \<Rightarrow> attr" where
  "attr_text v = (case v of None \<Rightarrow> ANone | Some s \<Rightarrow> AStr s)"

text \<open>\<open>_completeness_for\<close>: an object is its attributes by name.\<close>

definition completeness_for :: "(string \<times> attr) list \<Rightarrow> string list \<Rightarrow> completeness \<times> string list" where
  "completeness_for obj names =
     (let missing = filter (\<lambda>f. case map_of obj f of None \<Rightarrow> True | Some a \<Rightarrow> is_absent a) names
      in (if missing \<noteq> [] then INCOMPLETE else COMPLETE, missing))"

definition REQUIRED_RUN_PROVENANCE_FIELDS :: "string list" where
  "REQUIRED_RUN_PROVENANCE_FIELDS =
     [''producer_version'', ''git_repo'', ''git_commit'', ''dataset_id'', ''dataset_version'',
      ''dataset_ref'', ''config_hash'', ''config_ref'', ''environment'']"

definition REQUIRED_PROVENANCE_FIELDS :: "string list" where
  "REQUIRED_PROVENANCE_FIELDS =
     [''strategy_id'', ''strategy_version'', ''experiment_id'', ''run_id'', ''producer_version'',
      ''observed_at_utc'', ''git_repo'', ''git_commit'', ''dataset_id'', ''dataset_version'',
      ''dataset_ref'', ''config_hash'', ''config_ref'', ''environment'', ''instruments'',
      ''timeframes'', ''metrics'', ''verdict'', ''status'', ''regime_tags'', ''notes'']"

subsection \<open>\<open>Run\<close>\<close>

record run =
  rn_run_id :: string
  rn_experiment_id :: string
  rn_status :: run_status
  rn_started_at :: pydt
  rn_ended_at :: "pydt option"
  rn_producer :: string
  rn_producer_version :: "string option"
  rn_git_repo :: "string option"
  rn_git_commit :: "string option"
  rn_dataset_id :: "string option"
  rn_dataset_version :: "string option"
  rn_dataset_ref :: "string option"
  rn_config_hash :: "string option"
  rn_config_ref :: "string option"
  rn_environment :: "string option"
  rn_provenance_completeness :: completeness
  rn_missing_provenance :: "string list"

definition run_attrs :: "run \<Rightarrow> (string \<times> attr) list" where
  "run_attrs r =
     [(''producer_version'', attr_text (rn_producer_version r)),
      (''git_repo'', attr_text (rn_git_repo r)),
      (''git_commit'', attr_text (rn_git_commit r)),
      (''dataset_id'', attr_text (rn_dataset_id r)),
      (''dataset_version'', attr_text (rn_dataset_version r)),
      (''dataset_ref'', attr_text (rn_dataset_ref r)),
      (''config_hash'', attr_text (rn_config_hash r)),
      (''config_ref'', attr_text (rn_config_ref r)),
      (''environment'', attr_text (rn_environment r))]"

definition compute_run_provenance_completeness :: "run \<Rightarrow> completeness \<times> string list" where
  "compute_run_provenance_completeness r = completeness_for (run_attrs r) REQUIRED_RUN_PROVENANCE_FIELDS"

definition run_after :: "run \<Rightarrow> run" where
  "run_after r = (case compute_run_provenance_completeness r of (c, missing) \<Rightarrow>
     r\<lparr>rn_provenance_completeness := c, rn_missing_provenance := missing\<rparr>)"

definition mk_run :: "run \<Rightarrow> exn + run" where
  "mk_run r = construct
     [field ''run_id'' (validate_run_id (rn_run_id r)),
      field ''experiment_id'' (validate_experiment_id (rn_experiment_id r)),
      field ''started_at'' (normalize_utc (rn_started_at r)),
      field ''ended_at'' (optional normalize_utc (rn_ended_at r)),
      field ''producer'' (non_empty (rn_producer r)),
      field ''producer_version'' (optional_non_empty (rn_producer_version r)),
      field ''git_repo'' (optional_non_empty (rn_git_repo r)),
      field ''git_commit'' (optional_non_empty (rn_git_commit r)),
      field ''dataset_id'' (optional_non_empty (rn_dataset_id r)),
      field ''dataset_version'' (optional_non_empty (rn_dataset_version r)),
      field ''dataset_ref'' (optional_non_empty (rn_dataset_ref r)),
      field ''config_hash'' (optional_non_empty (rn_config_hash r)),
      field ''config_ref'' (optional_non_empty (rn_config_ref r)),
      field ''environment'' (optional_non_empty (rn_environment r))]
     (run_after (r\<lparr>rn_started_at := utc_of (rn_started_at r),
                   rn_ended_at := map_option utc_of (rn_ended_at r)\<rparr>))"

subsection \<open>\<open>EvidenceRecord\<close>\<close>

record evidence =
  ev_evidence_id :: string
  ev_idempotency_key :: string
  ev_evidence_type :: evidence_type
  ev_schema_version :: int
  ev_strategy_id :: "string option"
  ev_strategy_version :: "string option"
  ev_experiment_id :: "string option"
  ev_run_id :: "string option"
  ev_producer :: string
  ev_producer_version :: "string option"
  ev_created_at_utc :: pydt
  ev_observed_at_utc :: "pydt option"
  ev_git_repo :: "string option"
  ev_git_commit :: "string option"
  ev_dataset_id :: "string option"
  ev_dataset_version :: "string option"
  ev_dataset_ref :: "string option"
  ev_config_hash :: "string option"
  ev_config_ref :: "string option"
  ev_environment :: "string option"
  ev_instruments :: "string list"
  ev_timeframes :: "string list"
  ev_metrics :: "(string \<times> json) list"
  ev_verdict :: "string option"
  ev_status :: "string option"
  ev_regime_tags :: "string list"
  ev_parent_evidence_ids :: "string list"
  ev_parent_run_ids :: "string list"
  ev_artifact_ids :: "string list"
  ev_notes :: json
  ev_provenance_completeness :: completeness
  ev_missing_provenance :: "string list"

definition json_len :: "json \<Rightarrow> nat" where
  "json_len v = (case v of JList xs \<Rightarrow> length xs | JObj kvs \<Rightarrow> length kvs | _ \<Rightarrow> 0)"

definition evidence_attrs :: "evidence \<Rightarrow> (string \<times> attr) list" where
  "evidence_attrs e =
     [(''strategy_id'', attr_text (ev_strategy_id e)),
      (''strategy_version'', attr_text (ev_strategy_version e)),
      (''experiment_id'', attr_text (ev_experiment_id e)),
      (''run_id'', attr_text (ev_run_id e)),
      (''producer_version'', attr_text (ev_producer_version e)),
      (''observed_at_utc'', (case ev_observed_at_utc e of None \<Rightarrow> ANone | Some _ \<Rightarrow> AOther)),
      (''git_repo'', attr_text (ev_git_repo e)),
      (''git_commit'', attr_text (ev_git_commit e)),
      (''dataset_id'', attr_text (ev_dataset_id e)),
      (''dataset_version'', attr_text (ev_dataset_version e)),
      (''dataset_ref'', attr_text (ev_dataset_ref e)),
      (''config_hash'', attr_text (ev_config_hash e)),
      (''config_ref'', attr_text (ev_config_ref e)),
      (''environment'', attr_text (ev_environment e)),
      (''instruments'', AContainer (length (ev_instruments e))),
      (''timeframes'', AContainer (length (ev_timeframes e))),
      (''metrics'', AContainer (length (ev_metrics e))),
      (''verdict'', attr_text (ev_verdict e)),
      (''status'', attr_text (ev_status e)),
      (''regime_tags'', AContainer (length (ev_regime_tags e))),
      (''notes'', AContainer (json_len (ev_notes e)))]"

definition compute_provenance_completeness :: "evidence \<Rightarrow> completeness \<times> string list" where
  "compute_provenance_completeness e = completeness_for (evidence_attrs e) REQUIRED_PROVENANCE_FIELDS"

definition evidence_after :: "evidence \<Rightarrow> evidence" where
  "evidence_after e = (case compute_provenance_completeness e of (c, missing) \<Rightarrow>
     e\<lparr>ev_provenance_completeness := c, ev_missing_provenance := missing\<rparr>)"

text \<open>\<open>EvidenceRecord(evidence_type=t, ...)\<close>: \<open>evidence_type\<close> arrives as text or member and is
  parsed by the \<open>before\<close> validator, so it is an argument of its own.\<close>

definition parsed_type :: "type_arg \<Rightarrow> evidence \<Rightarrow> evidence_type" where
  "parsed_type t e = (case parse_evidence_type t of Inr ty \<Rightarrow> ty | Inl _ \<Rightarrow> ev_evidence_type e)"

definition mk_evidence :: "type_arg \<Rightarrow> evidence \<Rightarrow> exn + evidence" where
  "mk_evidence t e = construct
     [field ''evidence_id'' (validate_evidence_id (ev_evidence_id e)),
      field ''idempotency_key'' (non_empty (ev_idempotency_key e)),
      field ''evidence_type'' (parse_evidence_type t),
      field ''strategy_id'' (optional validate_strategy_id (ev_strategy_id e)),
      field ''strategy_version'' (optional validate_strategy_version (ev_strategy_version e)),
      field ''experiment_id'' (optional validate_experiment_id (ev_experiment_id e)),
      field ''run_id'' (optional validate_run_id (ev_run_id e)),
      field ''producer'' (non_empty (ev_producer e)),
      field ''created_at_utc'' (normalize_utc (ev_created_at_utc e)),
      field ''observed_at_utc'' (optional normalize_utc (ev_observed_at_utc e)),
      field ''parent_evidence_ids'' (map_result validate_evidence_id (ev_parent_evidence_ids e)),
      field ''parent_run_ids'' (map_result validate_run_id (ev_parent_run_ids e)),
      field ''artifact_ids'' (map_result validate_artifact_id (ev_artifact_ids e))]
     (evidence_after (e\<lparr>ev_evidence_type := parsed_type t e,
        ev_created_at_utc := utc_of (ev_created_at_utc e),
        ev_observed_at_utc := map_option utc_of (ev_observed_at_utc e)\<rparr>))"

subsection \<open>\<open>ArtifactRecord\<close>\<close>

record artifact =
  ar_artifact_id :: string
  ar_sha256 :: string
  ar_size_bytes :: int
  ar_content_type :: string
  ar_filename :: string
  ar_uri :: string
  ar_registered_at :: pydt
  ar_run_id :: "string option"
  ar_evidence_id :: "string option"

definition size_field :: "int \<Rightarrow> exn + int" where
  "size_field n = (if n < 0 then Inl PyValueError else Inr n)"

definition mk_artifact :: "artifact \<Rightarrow> exn + artifact" where
  "mk_artifact a = construct
     [field ''artifact_id'' (validate_artifact_id (ar_artifact_id a)),
      field ''sha256'' (sha256_field (ar_sha256 a)),
      field ''size_bytes'' (size_field (ar_size_bytes a)),
      field ''content_type'' (non_empty (ar_content_type a)),
      field ''filename'' (non_empty (ar_filename a)),
      field ''uri'' (non_empty (ar_uri a)),
      field ''registered_at'' (normalize_utc (ar_registered_at a)),
      field ''run_id'' (optional validate_run_id (ar_run_id a)),
      field ''evidence_id'' (optional validate_evidence_id (ar_evidence_id a))]
     (a\<lparr>ar_sha256 := py_lower (ar_sha256 a), ar_registered_at := utc_of (ar_registered_at a)\<rparr>)"

subsection \<open>\<open>PromotionTransition\<close>\<close>

record promotion =
  pt_transition_id :: string
  pt_strategy_id :: string
  pt_strategy_version :: string
  pt_from_state :: promotion_state
  pt_to_state :: promotion_state
  pt_at_utc :: pydt
  pt_authority :: string
  pt_producer :: string
  pt_evidence_ids :: "string list"
  pt_reason :: string

text \<open>\<open>Field(min_length=1)\<close> before the element validator.\<close>

definition cited_evidence :: "string list \<Rightarrow> exn + string list" where
  "cited_evidence ids = (if ids = [] then Inl PyValueError else map_result validate_evidence_id ids)"

definition mk_promotion :: "promotion \<Rightarrow> exn + promotion" where
  "mk_promotion p = construct
     [field ''strategy_id'' (validate_strategy_id (pt_strategy_id p)),
      field ''strategy_version'' (validate_strategy_version (pt_strategy_version p)),
      field ''at_utc'' (normalize_utc (pt_at_utc p)),
      field ''authority'' (non_empty (pt_authority p)),
      field ''producer'' (non_empty (pt_producer p)),
      field ''evidence_ids'' (cited_evidence (pt_evidence_ids p)),
      field ''reason'' (non_empty (pt_reason p))]
     (p\<lparr>pt_at_utc := utc_of (pt_at_utc p)\<rparr>)"

subsection \<open>\<open>StrategyHealthRecord\<close>\<close>

text \<open>A metric is an optional float, carried as its \<open>repr\<close>.\<close>

record health =
  hr_health_id :: string
  hr_strategy_id :: string
  hr_strategy_version :: string
  hr_health_state :: health_state
  hr_observed_at_utc :: pydt
  hr_producer :: string
  hr_observed_trigger_rate :: "string option"
  hr_regime_conditioned_expected_trigger_rate :: "string option"
  hr_expectancy_r :: "string option"
  hr_win_rate :: "string option"
  hr_drawdown :: "string option"
  hr_mae :: "string option"
  hr_mfe :: "string option"
  hr_holding_time :: "string option"
  hr_execution_slippage_quality :: "string option"
  hr_regime_distribution :: "(string \<times> string) list option"
  hr_strategy_chain_strength_distribution :: "(string \<times> string) list option"
  hr_baseline_comparison :: "(string \<times> json) list option"
  hr_confidence :: "string option"
  hr_reason :: string
  hr_evidence_ids :: "string list"

definition mk_health :: "health \<Rightarrow> exn + health" where
  "mk_health h = construct
     [field ''strategy_id'' (validate_strategy_id (hr_strategy_id h)),
      field ''strategy_version'' (validate_strategy_version (hr_strategy_version h)),
      field ''observed_at_utc'' (normalize_utc (hr_observed_at_utc h)),
      field ''producer'' (non_empty (hr_producer h)),
      field ''reason'' (non_empty (hr_reason h)),
      field ''evidence_ids'' (cited_evidence (hr_evidence_ids h))]
     (h\<lparr>hr_observed_at_utc := utc_of (hr_observed_at_utc h)\<rparr>)"

end
