(* ===== verification/Valid.thy ===== *)
theory Valid
  imports Models
begin

text \<open>
  Well-typed and valid contract objects. \<open>typed_*\<close> is what the type annotations give: datetimes
  inside Python's range, JSON values with distinct keys. \<open>valid_*\<close> is what an object that exists
  satisfies: constructing it again returns it unchanged. Every constructor returns valid objects.
\<close>

definition typed_opt :: "('a \<Rightarrow> bool) \<Rightarrow> 'a option \<Rightarrow> bool" where
  "typed_opt P v = (case v of None \<Rightarrow> True | Some x \<Rightarrow> P x)"

lemma typed_opt_simps [simp]: "typed_opt P None" "typed_opt P (Some x) = P x"
  by (simp_all add: typed_opt_def)

text \<open>\<open>MetricValue\<close>, and the two containers \<open>notes\<close> may be.\<close>

fun is_metric :: "json \<Rightarrow> bool" where
  "is_metric (JInt _) = True"
| "is_metric (JFloat _) = True"
| "is_metric (JStr _) = True"
| "is_metric (JBool _) = True"
| "is_metric _ = False"

fun is_container :: "json \<Rightarrow> bool" where
  "is_container (JObj _) = True"
| "is_container (JList _) = True"
| "is_container _ = False"

subsection \<open>Datetime fields\<close>

lemma utc_of_utc: "valid_pydt v \<Longrightarrow> err_of (normalize_utc v) = None \<Longrightarrow> utc_pydt (utc_of v)"
  by (rule utc_of_spec)

lemma utc_field:
  assumes "valid_pydt v" "err_of (normalize_utc v) = None"
  shows "err_of (normalize_utc (utc_of v)) = None" "utc_of (utc_of v) = utc_of v" "valid_pydt (utc_of v)"
  using utc_of_utc [OF assms] by (simp_all add: utc_pydt_def)

lemma utc_opt_field:
  assumes "typed_opt valid_pydt v" "err_of (optional normalize_utc v) = None"
  shows "err_of (optional normalize_utc (map_option utc_of v)) = None"
    "map_option utc_of (map_option utc_of v) = map_option utc_of v"
    "typed_opt valid_pydt (map_option utc_of v)"
proof -
  show "err_of (optional normalize_utc (map_option utc_of v)) = None"
    using assms by (cases v) (simp_all add: utc_field(1))
  show "map_option utc_of (map_option utc_of v) = map_option utc_of v"
    using assms by (cases v) (simp_all add: utc_field(2))
  show "typed_opt valid_pydt (map_option utc_of v)"
    using assms by (cases v) (simp_all add: utc_field(3))
qed

lemma utc_fixed: "valid_pydt v \<Longrightarrow> err_of (normalize_utc v) = None \<Longrightarrow> utc_of v = v \<Longrightarrow> utc_pydt v"
  using utc_of_utc [of v] by simp

lemma utc_opt_fixed:
  "typed_opt valid_pydt v \<Longrightarrow> err_of (optional normalize_utc v) = None \<Longrightarrow> map_option utc_of v = v \<Longrightarrow>
     typed_opt utc_pydt v"
  by (cases v) (auto intro: utc_fixed)

subsection \<open>Strategies and versions\<close>

definition typed_strategy :: "strategy \<Rightarrow> bool" where
  "typed_strategy s = valid_pydt (st_created_at s)"

definition valid_strategy :: "strategy \<Rightarrow> bool" where
  "valid_strategy s = (typed_strategy s \<and> mk_strategy s = Inr s)"

lemma mk_strategy_valid: "typed_strategy s \<Longrightarrow> mk_strategy s = Inr t \<Longrightarrow> valid_strategy t"
  by (auto simp: valid_strategy_def typed_strategy_def mk_strategy_def construct_ok utc_field)

lemma valid_strategy_utc: "valid_strategy s \<Longrightarrow> utc_pydt (st_created_at s)"
  by (auto simp: valid_strategy_def typed_strategy_def mk_strategy_def construct_ok
      dest!: arg_cong [where f = st_created_at] intro: utc_fixed)

definition typed_strategy_version :: "strategy_version \<Rightarrow> bool" where
  "typed_strategy_version s = valid_pydt (sv_created_at s)"

definition valid_strategy_version :: "strategy_version \<Rightarrow> bool" where
  "valid_strategy_version s = (typed_strategy_version s \<and> mk_strategy_version s = Inr s)"

lemma mk_strategy_version_valid:
  "typed_strategy_version s \<Longrightarrow> mk_strategy_version s = Inr t \<Longrightarrow> valid_strategy_version t"
  by (auto simp: valid_strategy_version_def typed_strategy_version_def mk_strategy_version_def construct_ok
      utc_field)

lemma valid_strategy_version_utc: "valid_strategy_version s \<Longrightarrow> utc_pydt (sv_created_at s)"
  by (auto simp: valid_strategy_version_def typed_strategy_version_def mk_strategy_version_def construct_ok
      dest!: arg_cong [where f = sv_created_at] intro: utc_fixed)

subsection \<open>Experiments and runs\<close>

definition typed_experiment :: "experiment_record \<Rightarrow> bool" where
  "typed_experiment x = valid_pydt (ex_created_at x)"

definition valid_experiment :: "experiment_record \<Rightarrow> bool" where
  "valid_experiment x = (typed_experiment x \<and> mk_experiment x = Inr x)"

lemma mk_experiment_valid: "typed_experiment x \<Longrightarrow> mk_experiment x = Inr y \<Longrightarrow> valid_experiment y"
  by (auto simp: valid_experiment_def typed_experiment_def mk_experiment_def construct_ok utc_field)

lemma valid_experiment_utc: "valid_experiment x \<Longrightarrow> utc_pydt (ex_created_at x)"
  by (auto simp: valid_experiment_def typed_experiment_def mk_experiment_def construct_ok
      dest!: arg_cong [where f = ex_created_at] intro: utc_fixed)

definition typed_run :: "run \<Rightarrow> bool" where
  "typed_run r = (valid_pydt (rn_started_at r) \<and> typed_opt valid_pydt (rn_ended_at r))"

definition valid_run :: "run \<Rightarrow> bool" where
  "valid_run r = (typed_run r \<and> mk_run r = Inr r)"

lemma run_after_eq:
  "run_after r = r\<lparr>rn_provenance_completeness := fst (compute_run_provenance_completeness r),
     rn_missing_provenance := snd (compute_run_provenance_completeness r)\<rparr>"
  by (simp add: run_after_def split: prod.split)

lemma run_completeness_update [simp]:
  "compute_run_provenance_completeness (r\<lparr>rn_provenance_completeness := c\<rparr>) = compute_run_provenance_completeness r"
  "compute_run_provenance_completeness (r\<lparr>rn_missing_provenance := m\<rparr>) = compute_run_provenance_completeness r"
  "compute_run_provenance_completeness (r\<lparr>rn_status := s\<rparr>) = compute_run_provenance_completeness r"
  "compute_run_provenance_completeness (r\<lparr>rn_started_at := t\<rparr>) = compute_run_provenance_completeness r"
  "compute_run_provenance_completeness (r\<lparr>rn_ended_at := u\<rparr>) = compute_run_provenance_completeness r"
  by (simp_all add: compute_run_provenance_completeness_def run_attrs_def)

lemma mk_run_valid:
  assumes "typed_run r" "mk_run r = Inr s"
  shows "valid_run s"
proof -
  have d: "valid_pydt (rn_started_at r)" "err_of (normalize_utc (rn_started_at r)) = None"
      "typed_opt valid_pydt (rn_ended_at r)" "err_of (optional normalize_utc (rn_ended_at r)) = None"
    using assms by (simp_all add: typed_run_def mk_run_def construct_ok)
  note t = utc_field [OF d(1,2)] utc_opt_field [OF d(3,4)]
  from assms(2) show ?thesis
    by (auto simp: valid_run_def typed_run_def mk_run_def construct_ok run_after_eq t)
qed

lemma valid_run_utc: "valid_run r \<Longrightarrow> utc_pydt (rn_started_at r) \<and> typed_opt utc_pydt (rn_ended_at r)"
proof -
  assume v: "valid_run r"
  then have "run_after (r\<lparr>rn_started_at := utc_of (rn_started_at r),
      rn_ended_at := map_option utc_of (rn_ended_at r)\<rparr>) = r"
    by (simp add: valid_run_def mk_run_def construct_ok)
  then have "utc_of (rn_started_at r) = rn_started_at r" "map_option utc_of (rn_ended_at r) = rn_ended_at r"
    by (auto simp: run_after_eq dest: arg_cong [where f = rn_started_at] arg_cong [where f = rn_ended_at])
  with v show ?thesis
    by (auto simp: valid_run_def typed_run_def mk_run_def construct_ok intro: utc_fixed utc_opt_fixed)
qed

subsection \<open>Evidence\<close>

definition typed_evidence :: "evidence \<Rightarrow> bool" where
  "typed_evidence e = (valid_pydt (ev_created_at_utc e) \<and> typed_opt valid_pydt (ev_observed_at_utc e) \<and>
     wf_json (JObj (ev_metrics e)) \<and> (\<forall>m \<in> set (ev_metrics e). is_metric (snd m)) \<and>
     wf_json (ev_notes e) \<and> is_container (ev_notes e))"

definition valid_evidence :: "evidence \<Rightarrow> bool" where
  "valid_evidence e = (typed_evidence e \<and> mk_evidence (AsEnum (ev_evidence_type e)) e = Inr e)"

lemma evidence_after_eq:
  "evidence_after e = e\<lparr>ev_provenance_completeness := fst (compute_provenance_completeness e),
     ev_missing_provenance := snd (compute_provenance_completeness e)\<rparr>"
  by (simp add: evidence_after_def split: prod.split)

lemma evidence_completeness_update [simp]:
  "compute_provenance_completeness (e\<lparr>ev_provenance_completeness := c\<rparr>) = compute_provenance_completeness e"
  "compute_provenance_completeness (e\<lparr>ev_missing_provenance := m\<rparr>) = compute_provenance_completeness e"
  "compute_provenance_completeness (e\<lparr>ev_created_at_utc := t\<rparr>) = compute_provenance_completeness e"
  "compute_provenance_completeness (e\<lparr>ev_evidence_type := ty\<rparr>) = compute_provenance_completeness e"
  by (simp_all add: compute_provenance_completeness_def evidence_attrs_def)

lemma evidence_completeness_observed [simp]:
  "(u = None) = (ev_observed_at_utc e = None) \<Longrightarrow>
     compute_provenance_completeness (e\<lparr>ev_observed_at_utc := u\<rparr>) = compute_provenance_completeness e"
  by (cases u; cases "ev_observed_at_utc e") (simp_all add: compute_provenance_completeness_def evidence_attrs_def)

lemma mk_evidence_valid:
  assumes "typed_evidence e" "mk_evidence t e = Inr f"
  shows "valid_evidence f"
proof -
  have d: "valid_pydt (ev_created_at_utc e)" "err_of (normalize_utc (ev_created_at_utc e)) = None"
      "typed_opt valid_pydt (ev_observed_at_utc e)" "err_of (optional normalize_utc (ev_observed_at_utc e)) = None"
    using assms by (simp_all add: typed_evidence_def mk_evidence_def construct_ok)
  note u = utc_field [OF d(1,2)] utc_opt_field [OF d(3,4)]
  from assms show ?thesis
    by (auto simp: valid_evidence_def typed_evidence_def mk_evidence_def construct_ok evidence_after_eq u
        parsed_type_def)
qed

lemma valid_evidence_utc:
  "valid_evidence e \<Longrightarrow> utc_pydt (ev_created_at_utc e) \<and> typed_opt utc_pydt (ev_observed_at_utc e)"
proof -
  assume v: "valid_evidence e"
  then have "evidence_after (e\<lparr>ev_evidence_type := parsed_type (AsEnum (ev_evidence_type e)) e,
      ev_created_at_utc := utc_of (ev_created_at_utc e),
      ev_observed_at_utc := map_option utc_of (ev_observed_at_utc e)\<rparr>) = e"
    by (simp add: valid_evidence_def mk_evidence_def construct_ok)
  then have "utc_of (ev_created_at_utc e) = ev_created_at_utc e"
      "map_option utc_of (ev_observed_at_utc e) = ev_observed_at_utc e"
    by (auto simp: evidence_after_eq
        dest: arg_cong [where f = ev_created_at_utc] arg_cong [where f = ev_observed_at_utc])
  with v show ?thesis
    by (auto simp: valid_evidence_def typed_evidence_def mk_evidence_def construct_ok
        intro: utc_fixed utc_opt_fixed)
qed

text \<open>The type may be given as text or as a member.\<close>

lemma mk_evidence_text:
  "mk_evidence (AsText (evidence_type_value (ev_evidence_type e))) e = mk_evidence (AsEnum (ev_evidence_type e)) e"
  by (simp add: mk_evidence_def parsed_type_def del: parse_evidence_type.simps(3))

subsection \<open>Artifacts, promotions, health records\<close>

definition typed_artifact :: "artifact \<Rightarrow> bool" where
  "typed_artifact a = valid_pydt (ar_registered_at a)"

definition valid_artifact :: "artifact \<Rightarrow> bool" where
  "valid_artifact a = (typed_artifact a \<and> mk_artifact a = Inr a)"

lemma py_lower_hex:
  "list_all (\<lambda>c. c \<in> set ''0123456789abcdef'') (py_lower v) \<Longrightarrow> py_lower (py_lower v) = py_lower v"
  by (auto simp: py_lower_def list_all_iff py_lower_char_def)

lemma sha256_field_idem: "err_of (sha256_field v) = None \<Longrightarrow> err_of (sha256_field (py_lower v)) = None"
  by (auto simp: sha256_field_def py_lower_hex simp del: set_simps list.set split: if_splits)
     (simp_all add: py_lower_def)

lemma sha256_field_lower: "err_of (sha256_field v) = None \<Longrightarrow> py_lower (py_lower v) = py_lower v"
  by (auto simp: sha256_field_def py_lower_hex simp del: set_simps list.set split: if_splits)

lemma mk_artifact_valid: "typed_artifact a \<Longrightarrow> mk_artifact a = Inr b \<Longrightarrow> valid_artifact b"
  by (auto simp: valid_artifact_def typed_artifact_def mk_artifact_def construct_ok utc_field
      sha256_field_idem sha256_field_lower)

lemma valid_artifact_utc: "valid_artifact a \<Longrightarrow> utc_pydt (ar_registered_at a)"
  by (auto simp: valid_artifact_def typed_artifact_def mk_artifact_def construct_ok
      dest!: arg_cong [where f = ar_registered_at] intro: utc_fixed)

definition typed_promotion :: "promotion \<Rightarrow> bool" where
  "typed_promotion p = valid_pydt (pt_at_utc p)"

definition valid_promotion :: "promotion \<Rightarrow> bool" where
  "valid_promotion p = (typed_promotion p \<and> mk_promotion p = Inr p)"

lemma mk_promotion_valid: "typed_promotion p \<Longrightarrow> mk_promotion p = Inr q \<Longrightarrow> valid_promotion q"
  by (auto simp: valid_promotion_def typed_promotion_def mk_promotion_def construct_ok utc_field)

lemma valid_promotion_utc: "valid_promotion p \<Longrightarrow> utc_pydt (pt_at_utc p)"
  by (auto simp: valid_promotion_def typed_promotion_def mk_promotion_def construct_ok
      dest!: arg_cong [where f = pt_at_utc] intro: utc_fixed)

text \<open>Promotions and health records always cite evidence.\<close>

lemma valid_promotion_cites: "valid_promotion p \<Longrightarrow> pt_evidence_ids p \<noteq> []"
  by (auto simp: valid_promotion_def mk_promotion_def construct_ok cited_evidence_def)

definition float_dict :: "(string \<times> string) list \<Rightarrow> json" where
  "float_dict kvs = JObj (map (\<lambda>(k, v). (k, JFloat v)) kvs)"

definition health_floats :: "health \<Rightarrow> string option list" where
  "health_floats h = [hr_observed_trigger_rate h, hr_regime_conditioned_expected_trigger_rate h,
     hr_expectancy_r h, hr_win_rate h, hr_drawdown h, hr_mae h, hr_mfe h, hr_holding_time h,
     hr_execution_slippage_quality h, hr_confidence h]"

definition typed_health :: "health \<Rightarrow> bool" where
  "typed_health h = (valid_pydt (hr_observed_at_utc h) \<and> list_all (typed_opt float_repr) (health_floats h) \<and>
     typed_opt (\<lambda>d. wf_json (float_dict d)) (hr_regime_distribution h) \<and>
     typed_opt (\<lambda>d. wf_json (float_dict d)) (hr_strategy_chain_strength_distribution h) \<and>
     typed_opt (\<lambda>d. wf_json (JObj d)) (hr_baseline_comparison h))"

definition valid_health :: "health \<Rightarrow> bool" where
  "valid_health h = (typed_health h \<and> mk_health h = Inr h)"

lemma mk_health_valid: "typed_health h \<Longrightarrow> mk_health h = Inr g \<Longrightarrow> valid_health g"
  by (auto simp: valid_health_def typed_health_def health_floats_def mk_health_def construct_ok utc_field)

lemma valid_health_utc: "valid_health h \<Longrightarrow> utc_pydt (hr_observed_at_utc h)"
  by (auto simp: valid_health_def typed_health_def mk_health_def construct_ok
      dest!: arg_cong [where f = hr_observed_at_utc] intro: utc_fixed)

lemma valid_health_cites: "valid_health h \<Longrightarrow> hr_evidence_ids h \<noteq> []"
  by (auto simp: valid_health_def mk_health_def construct_ok cited_evidence_def)

subsection \<open>Provenance completeness\<close>

lemma completeness_for_iff:
  "fst (completeness_for obj names) = COMPLETE \<longleftrightarrow> snd (completeness_for obj names) = []"
  by (simp add: completeness_for_def Let_def)

lemma completeness_for_missing:
  "f \<in> set (snd (completeness_for obj names)) \<longleftrightarrow>
     f \<in> set names \<and> (\<forall>a. map_of obj f = Some a \<longrightarrow> is_absent a)"
  by (auto simp: completeness_for_def Let_def split: option.splits)

lemma completeness_for_order:
  "\<exists>P. snd (completeness_for obj names) = filter P names"
  by (auto simp: completeness_for_def Let_def)

end
