(* ===== verification/Sql.thy ===== *)
theory Sql
  imports Errors PyText
begin

text \<open>
  The part of SQLite the metadata store uses: tables of rows with dynamically typed columns,
  conjunctive equality and range conditions, \<open>ORDER BY ... DESC LIMIT ? OFFSET ?\<close>, and an
  \<open>INSERT\<close> that enforces the constraints of \<open>src/cer/metadata/schema/\<close> (primary keys,
  \<open>NOT NULL\<close>, foreign keys, the partial unique indexes on \<open>(producer, idempotency_key)\<close>).
  A violated constraint is the exception \<open>SqlError\<close> (\<open>sqlite3.Error\<close>), an integer parameter
  outside 64 bits Python's \<open>OverflowError\<close>. A \<open>REAL\<close> is carried as the \<open>repr\<close> of the float.
\<close>

datatype sqlv = Null | Text string | Integer int | Real string

type_synonym row = "(string \<times> sqlv) list"

datatype table = strategies | strategy_versions | experiments | runs | evidence_t | artifacts
  | promotions | health_records

type_synonym db = "table \<Rightarrow> row list"

definition empty_db :: db where
  "empty_db = (\<lambda>_. [])"

text \<open>\<open>row[c]\<close>.\<close>

definition col :: "row \<Rightarrow> string \<Rightarrow> sqlv" where
  "col r c = (case map_of r c of None \<Rightarrow> Null | Some v \<Rightarrow> v)"

lemma col_simps [simp]:
  "col ((c, v) # r) c' = (if c = c' then v else col r c')" "col [] c = Null"
  by (simp_all add: col_def)

text \<open>\<open>UPDATE ... SET c = v\<close> on one row.\<close>

definition set_col :: "string \<Rightarrow> sqlv \<Rightarrow> row \<Rightarrow> row" where
  "set_col c v r = map (\<lambda>(d, w). (d, if d = c then v else w)) r"

lemma set_col_simps [simp]:
  "set_col c v [] = []" "set_col c v ((d, w) # r) = (d, if d = c then v else w) # set_col c v r"
  by (simp_all add: set_col_def)

lemma col_set_col_other [simp]: "c \<noteq> d \<Longrightarrow> col (set_col c v r) d = col r d"
  by (induction r) auto

lemma col_set_col_same: "c \<in> fst ` set r \<Longrightarrow> col (set_col c v r) c = v"
  by (induction r) force+

subsection \<open>Conditions\<close>

text \<open>A comparison with \<open>NULL\<close> is never true.\<close>

definition sql_eq :: "sqlv \<Rightarrow> sqlv \<Rightarrow> bool" where
  "sql_eq v w = (v \<noteq> Null \<and> w \<noteq> Null \<and> v = w)"

fun sql_le :: "sqlv \<Rightarrow> sqlv \<Rightarrow> bool" where
  "sql_le (Text s) (Text t) = (s \<le> t)"
| "sql_le (Integer i) (Integer j) = (i \<le> j)"
| "sql_le _ _ = False"

datatype clause = Eq string sqlv | Ge string sqlv | Le string sqlv

fun holds :: "clause \<Rightarrow> row \<Rightarrow> bool" where
  "holds (Eq c v) r = sql_eq (col r c) v"
| "holds (Ge c v) r = sql_le v (col r c)"
| "holds (Le c v) r = sql_le (col r c) v"

definition matches :: "clause list \<Rightarrow> row \<Rightarrow> bool" where
  "matches cs r = list_all (\<lambda>c. holds c r) cs"

text \<open>\<open>execute(SELECT ... WHERE ...).fetchone()\<close> and the unordered rows of a \<open>SELECT\<close>.\<close>

definition select_one :: "clause list \<Rightarrow> row list \<Rightarrow> row option" where
  "select_one cs rows = List.find (matches cs) rows"

definition select_all :: "clause list \<Rightarrow> row list \<Rightarrow> row list" where
  "select_all cs rows = filter (matches cs) rows"

lemma sql_eq_Text [simp]: "sql_eq v (Text s) = (v = Text s)"
  by (auto simp: sql_eq_def)

lemma sql_eq_Integer [simp]: "sql_eq v (Integer i) = (v = Integer i)"
  by (auto simp: sql_eq_def)

lemma sql_eq_Null [simp]: "\<not> sql_eq Null v" "\<not> sql_eq v Null"
  by (auto simp: sql_eq_def)

lemma matches_simps [simp]: "matches [] r" "matches (c # cs) r = (holds c r \<and> matches cs r)"
  by (simp_all add: matches_def)

lemma select_one_None: "select_one cs rows = None \<longleftrightarrow> (\<forall>r \<in> set rows. \<not> matches cs r)"
  by (auto simp: select_one_def find_None_iff)

lemma select_one_Some: "select_one cs rows = Some r \<Longrightarrow> r \<in> set rows \<and> matches cs r"
  by (auto simp: select_one_def dest: find_Some_iff_in)

lemma select_one_append: "select_one cs rows = Some r \<Longrightarrow> select_one cs (rows @ rows') = Some r"
  by (simp add: select_one_def find_append)

lemma select_one_new: "select_one cs rows = None \<Longrightarrow> select_one cs (rows @ [r]) = (if matches cs r then Some r else None)"
  by (simp add: select_one_def find_append)

lemma select_one_map:
  assumes "\<And>r. r \<in> set rows \<Longrightarrow> matches cs (f r) = matches cs r"
  shows "select_one cs (map f rows) = map_option f (select_one cs rows)"
  unfolding select_one_def using assms by (rule find_map_preserved)

subsection \<open>Ordering and paging\<close>

fun text_of :: "sqlv \<Rightarrow> string" where
  "text_of (Text s) = s"
| "text_of _ = []"

text \<open>\<open>ORDER BY c DESC, d DESC\<close> on two text columns, binary collation.\<close>

definition order_desc :: "string \<Rightarrow> string \<Rightarrow> row list \<Rightarrow> row list" where
  "order_desc c d rows = rev (sort_key (\<lambda>r. [text_of (col r c), text_of (col r d)]) rows)"

text \<open>\<open>LIMIT l OFFSET o\<close>: a negative limit is no limit, a negative offset is zero.\<close>

definition page :: "int \<Rightarrow> int \<Rightarrow> 'a list \<Rightarrow> 'a list" where
  "page l off xs = (let ys = drop (nat off) xs in if l < 0 then ys else take (nat l) ys)"

lemma set_order_desc [simp]: "set (order_desc c d rows) = set rows"
  by (simp add: order_desc_def)

lemma length_order_desc [simp]: "length (order_desc c d rows) = length rows"
  by (simp add: order_desc_def)

lemma order_desc_sorted:
  "sorted_wrt (\<lambda>r s. [text_of (col s c), text_of (col s d)] \<le> [text_of (col r c), text_of (col r d)])
     (order_desc c d rows)"
proof -
  let ?k = "\<lambda>r. [text_of (col r c), text_of (col r d)]"
  have "sorted (map ?k (sort_key ?k rows))" by simp
  then show ?thesis by (simp add: order_desc_def sorted_wrt_rev sorted_map)
qed

lemma page_subset: "set (page l off xs) \<subseteq> set xs"
  by (auto simp: page_def Let_def dest: in_set_takeD in_set_dropD)

lemma sorted_wrt_page: "sorted_wrt P xs \<Longrightarrow> sorted_wrt P (page l off xs)"
  by (auto simp: page_def Let_def sorted_wrt_take sorted_wrt_drop)

lemma page_pages: "0 \<le> l \<Longrightarrow> 0 \<le> off \<Longrightarrow> page l 0 xs @ page (-1) l xs = xs"
  by (simp add: page_def Let_def)

text \<open>Consecutive pages tile the result: no row is skipped or repeated.\<close>

lemma pages_tile:
  "0 \<le> l \<Longrightarrow> concat (map (\<lambda>i. page l (int i * l) xs) [0..<n]) = take (n * nat l) xs"
proof (induction n)
  case (Suc n)
  have "nat (int n * l) = n * nat l" using Suc.prems by (simp add: nat_mult_distrib)
  with Suc show ?case
    by (simp add: page_def Let_def take_add [symmetric] add.commute)
qed simp

subsection \<open>Constraints and \<open>INSERT\<close>\<close>

definition int64 :: "sqlv \<Rightarrow> bool" where
  "int64 v = (case v of Integer i \<Rightarrow> - (2 ^ 63) \<le> i \<and> i < 2 ^ 63 | _ \<Rightarrow> True)"

fun primary_key :: "table \<Rightarrow> string list" where
  "primary_key strategies = [''strategy_id'']"
| "primary_key strategy_versions = [''strategy_id'', ''strategy_version'']"
| "primary_key experiments = [''experiment_id'']"
| "primary_key runs = [''run_id'']"
| "primary_key evidence_t = [''evidence_id'']"
| "primary_key artifacts = [''artifact_id'']"
| "primary_key promotions = [''transition_id'']"
| "primary_key health_records = [''health_id'']"

text \<open>The tables with a unique index on \<open>(producer, idempotency_key)\<close> after migration 4.\<close>

fun keyed :: "table \<Rightarrow> bool" where
  "keyed strategies = False"
| "keyed strategy_versions = False"
| "keyed _ = True"

text \<open>A foreign key: column, referenced table, its primary key column.\<close>

fun foreign_keys :: "table \<Rightarrow> (string \<times> table \<times> string) list" where
  "foreign_keys strategy_versions = [(''strategy_id'', strategies, ''strategy_id'')]"
| "foreign_keys runs = [(''experiment_id'', experiments, ''experiment_id'')]"
| "foreign_keys evidence_t = [(''run_id'', runs, ''run_id''), (''experiment_id'', experiments, ''experiment_id'')]"
| "foreign_keys artifacts = [(''run_id'', runs, ''run_id''), (''evidence_id'', evidence_t, ''evidence_id'')]"
| "foreign_keys _ = []"

fun not_null :: "table \<Rightarrow> string list" where
  "not_null strategies = [''name'', ''thesis'', ''created_at'']"
| "not_null strategy_versions = [''strategy_id'', ''strategy_version'', ''git_repo'', ''git_commit'', ''created_at'']"
| "not_null experiments = [''objective'', ''producer'', ''created_at'']"
| "not_null runs = [''experiment_id'', ''status'', ''started_at'', ''producer'', ''provenance_completeness'',
     ''missing_provenance_json'']"
| "not_null evidence_t = [''idempotency_key'', ''evidence_type'', ''schema_version'', ''producer'',
     ''created_at_utc'', ''instruments_json'', ''timeframes_json'', ''metrics_json'', ''regime_tags_json'',
     ''parent_evidence_ids_json'', ''parent_run_ids_json'', ''artifact_ids_json'', ''notes_json'',
     ''provenance_completeness'', ''missing_provenance_json'', ''content_fingerprint'']"
| "not_null artifacts = [''sha256'', ''size_bytes'', ''content_type'', ''filename'', ''uri'', ''registered_at'',
     ''content_fingerprint'']"
| "not_null promotions = [''strategy_id'', ''strategy_version'', ''from_state'', ''to_state'', ''at_utc'',
     ''authority'', ''producer'', ''evidence_ids_json'', ''reason'']"
| "not_null health_records = [''strategy_id'', ''strategy_version'', ''health_state'', ''observed_at_utc'',
     ''producer'', ''reason'', ''evidence_ids_json'']"

definition same_on :: "string list \<Rightarrow> row \<Rightarrow> row \<Rightarrow> bool" where
  "same_on cs r s = list_all (\<lambda>c. sql_eq (col r c) (col s c)) cs"

definition key_cols :: "string list" where
  "key_cols = [''producer'', ''idempotency_key'']"

definition refers :: "db \<Rightarrow> row \<Rightarrow> string \<times> table \<times> string \<Rightarrow> bool" where
  "refers d r fk = (case fk of (c, t, pk) \<Rightarrow> col r c = Null \<or> (\<exists>s \<in> set (d t). sql_eq (col s pk) (col r c)))"

definition insert_ok :: "table \<Rightarrow> row \<Rightarrow> db \<Rightarrow> bool" where
  "insert_ok t r d =
     ((\<forall>s \<in> set (d t). \<not> same_on (primary_key t) r s) \<and>
      (keyed t \<longrightarrow> (\<forall>s \<in> set (d t). \<not> same_on key_cols r s)) \<and>
      list_all (\<lambda>c. col r c \<noteq> Null) (not_null t) \<and>
      list_all (refers d r) (foreign_keys t))"

end
