(* ===== verification/Rows.thy ===== *)
theory Rows
  imports Valid Sql
begin

text \<open>
  How a contract object becomes a row (the parameter tuples of the \<open>INSERT\<close> statements of
  \<open>src/cer/metadata/sqlite_store.py\<close>) and how a row is read back (\<open>_row_to_*\<close>, which run the
  object through its constructor again). The lemmas are the round trips: what is read is what
  was written, every JSON-valued field with its dicts in key order.
\<close>

subsection \<open>Columns\<close>

definition opt_text :: "string option \<Rightarrow> sqlv" where
  "opt_text v = (case v of None \<Rightarrow> Null | Some s \<Rightarrow> Text s)"

definition opt_real :: "string option \<Rightarrow> sqlv" where
  "opt_real v = (case v of None \<Rightarrow> Null | Some s \<Rightarrow> Real s)"

definition opt_time :: "pydt option \<Rightarrow> sqlv" where
  "opt_time v = (case v of None \<Rightarrow> Null | Some t \<Rightarrow> Text (dt_to_str t))"

definition opt_json :: "json option \<Rightarrow> sqlv" where
  "opt_json v = (case v of None \<Rightarrow> Null | Some j \<Rightarrow> Text (json_dumps j))"

definition str_list :: "string list \<Rightarrow> json" where
  "str_list xs = JList (map JStr xs)"

text \<open>Reading: a text column, a nullable text or real column, a timestamp, a JSON column.\<close>

definition text_col :: "row \<Rightarrow> string \<Rightarrow> string" where
  "text_col r c = text_of (col r c)"

fun opt_of :: "sqlv \<Rightarrow> string option" where
  "opt_of (Text s) = Some s"
| "opt_of (Real s) = Some s"
| "opt_of _ = None"

fun int_of :: "sqlv \<Rightarrow> int" where
  "int_of (Integer i) = i"
| "int_of _ = 0"

definition time_of :: "row \<Rightarrow> string \<Rightarrow> exn + pydt" where
  "time_of r c = str_to_dt (text_col r c)"

definition opt_time_of :: "row \<Rightarrow> string \<Rightarrow> exn + pydt option" where
  "opt_time_of r c = (if col r c = Null then Inr None else rbind (time_of r c) (\<lambda>t. Inr (Some t)))"

definition loads :: "row \<Rightarrow> string \<Rightarrow> exn + json" where
  "loads r c = (case json_loads (text_col r c) of None \<Rightarrow> Inl PyValueError | Some v \<Rightarrow> Inr v)"

definition opt_loads :: "row \<Rightarrow> string \<Rightarrow> exn + json option" where
  "opt_loads r c = (if col r c = Null then Inr None else rbind (loads r c) (\<lambda>v. Inr (Some v)))"

text \<open>The type checks of the model fields a JSON value is passed to.\<close>

definition as_strings :: "string \<Rightarrow> json \<Rightarrow> exn + string list" where
  "as_strings c v = (case v of
       JList xs \<Rightarrow> map_result (\<lambda>x. case x of JStr s \<Rightarrow> Inr s | _ \<Rightarrow> Inl (PydanticError [c])) xs
     | _ \<Rightarrow> Inl (PydanticError [c]))"

definition as_dict :: "string \<Rightarrow> json \<Rightarrow> exn + (string \<times> json) list" where
  "as_dict c v = (case v of JObj kvs \<Rightarrow> Inr kvs | _ \<Rightarrow> Inl (PydanticError [c]))"

definition as_metrics :: "string \<Rightarrow> json \<Rightarrow> exn + (string \<times> json) list" where
  "as_metrics c v = rbind (as_dict c v) (\<lambda>kvs.
     if list_all (\<lambda>m. is_metric (snd m)) kvs then Inr kvs else Inl (PydanticError [c]))"

definition as_floats :: "string \<Rightarrow> json \<Rightarrow> exn + (string \<times> string) list" where
  "as_floats c v = rbind (as_dict c v) (map_result (\<lambda>(k, x).
     case x of JFloat s \<Rightarrow> Inr (k, s) | _ \<Rightarrow> Inl (PydanticError [c])))"

definition as_notes :: "string \<Rightarrow> json \<Rightarrow> exn + json" where
  "as_notes c v = (if is_container v then Inr v else Inl (PydanticError [c]))"

definition strings_of :: "row \<Rightarrow> string \<Rightarrow> exn + string list" where
  "strings_of r c = rbind (loads r c) (as_strings c)"

definition opt_result :: "('a \<Rightarrow> exn + 'b) \<Rightarrow> 'a option \<Rightarrow> exn + 'b option" where
  "opt_result f v = (case v of None \<Rightarrow> Inr None | Some x \<Rightarrow> rbind (f x) (\<lambda>y. Inr (Some y)))"

subsection \<open>Column round trips\<close>

lemma opt_of_opt_text [simp]: "opt_of (opt_text v) = v"
  by (cases v) (simp_all add: opt_text_def)

lemma opt_of_opt_real [simp]: "opt_of (opt_real v) = v"
  by (cases v) (simp_all add: opt_real_def)

lemma time_of_written: "col r c = Text (dt_to_str t) \<Longrightarrow> utc_pydt t \<Longrightarrow> time_of r c = Inr t"
  by (simp add: time_of_def text_col_def str_to_dt_dt_to_str)

lemma opt_time_of_written: "col r c = opt_time v \<Longrightarrow> typed_opt utc_pydt v \<Longrightarrow> opt_time_of r c = Inr v"
  by (cases v) (simp_all add: opt_time_of_def opt_time_def time_of_written)

lemma loads_written: "col r c = Text (json_dumps v) \<Longrightarrow> wf_json v \<Longrightarrow> loads r c = Inr (canon v)"
  by (simp add: loads_def text_col_def json_loads_dumps)

lemma opt_loads_written:
  "col r c = opt_json v \<Longrightarrow> typed_opt wf_json v \<Longrightarrow> opt_loads r c = Inr (map_option canon v)"
  by (cases v) (simp_all add: opt_loads_def opt_json_def loads_written)

lemma wf_str_list [simp]: "wf_json (str_list xs)"
  by (simp add: str_list_def list_all_iff)

lemma canon_str_list [simp]: "canon (str_list xs) = str_list xs"
  by (simp add: str_list_def)

lemma as_strings_str_list [simp]: "as_strings c (str_list xs) = Inr xs"
  by (induction xs) (simp_all add: as_strings_def str_list_def)

lemma strings_of_written: "col r c = Text (json_dumps (str_list xs)) \<Longrightarrow> strings_of r c = Inr xs"
  by (simp add: strings_of_def loads_written)

text \<open>A dict after the round trip: its items in key order.\<close>

definition canon_dict :: "(string \<times> json) list \<Rightarrow> (string \<times> json) list" where
  "canon_dict kvs = sort_key fst (map (\<lambda>(k, v). (k, canon v)) kvs)"

lemma canon_JObj: "canon (JObj kvs) = JObj (canon_dict kvs)"
  by (simp add: canon_dict_def)

lemma length_canon_dict [simp]: "length (canon_dict kvs) = length kvs"
  by (simp add: canon_dict_def)

lemma set_canon_dict: "set (canon_dict kvs) = (\<lambda>(k, v). (k, canon v)) ` set kvs"
  by (simp add: canon_dict_def)

lemma canon_dict_idem [simp]: "canon_dict (canon_dict kvs) = canon_dict kvs"
  using canon_idem [of "JObj kvs"] by (simp add: canon_JObj del: canon.simps)

lemma is_metric_canon [simp]: "is_metric (canon v) = is_metric v"
  by (cases v) simp_all

lemma is_container_canon [simp]: "is_container (canon v) = is_container v"
  by (cases v) simp_all

lemma json_len_canon [simp]: "json_len (canon v) = json_len v"
  by (cases v) (simp_all add: json_len_def)

lemma as_metrics_canon:
  "\<forall>m \<in> set kvs. is_metric (snd m) \<Longrightarrow> as_metrics c (canon (JObj kvs)) = Inr (canon_dict kvs)"
  by (auto simp: as_metrics_def as_dict_def canon_JObj list_all_iff set_canon_dict simp del: canon.simps)

definition sort_floats :: "(string \<times> string) list \<Rightarrow> (string \<times> string) list" where
  "sort_floats kvs = sort_key fst kvs"

lemma as_floats_dict: "as_floats c (float_dict kvs) = Inr kvs"
  by (induction kvs) (auto simp: as_floats_def as_dict_def float_dict_def split: prod.splits)

lemma sort_key_map_snd: "sort_key fst (map (\<lambda>(k, v). (k, f v)) kvs) = map (\<lambda>(k, v). (k, f v)) (sort_key fst kvs)"
proof -
  have *: "insort_key fst (k, f v) (map (\<lambda>(k, v). (k, f v)) xs) = map (\<lambda>(k, v). (k, f v)) (insort_key fst (k, v) xs)"
    for k v xs
    by (induction xs) auto
  show ?thesis by (induction kvs) (auto simp: *)
qed

lemma canon_float_dict: "canon (float_dict kvs) = float_dict (sort_floats kvs)"
  by (simp add: float_dict_def sort_floats_def comp_def case_prod_unfold
      sort_key_map_snd [where f = JFloat, unfolded case_prod_unfold])

subsection \<open>Strategies, versions, experiments\<close>

definition strategy_row :: "strategy \<Rightarrow> row" where
  "strategy_row s =
     [(''strategy_id'', Text (st_strategy_id s)),
      (''name'', Text (st_name s)),
      (''thesis'', Text (st_thesis s)),
      (''created_at'', Text (dt_to_str (st_created_at s)))]"

definition row_to_strategy :: "string \<Rightarrow> row \<Rightarrow> exn + strategy" where
  "row_to_strategy i r = rbind (time_of r ''created_at'') (\<lambda>t.
     mk_strategy \<lparr>st_strategy_id = i, st_name = text_col r ''name'', st_thesis = text_col r ''thesis'',
       st_created_at = t\<rparr>)"

lemma row_to_strategy_row: "valid_strategy s \<Longrightarrow> row_to_strategy (st_strategy_id s) (strategy_row s) = Inr s"
  by (simp add: row_to_strategy_def time_of_written [where t = "st_created_at s"] strategy_row_def
      valid_strategy_utc text_col_def)
     (cases s, simp add: valid_strategy_def)

definition strategy_version_row :: "strategy_version \<Rightarrow> row" where
  "strategy_version_row s =
     [(''strategy_id'', Text (sv_strategy_id s)),
      (''strategy_version'', Text (sv_strategy_version s)),
      (''git_repo'', Text (sv_git_repo s)),
      (''git_commit'', Text (sv_git_commit s)),
      (''created_at'', Text (dt_to_str (sv_created_at s))),
      (''notes'', opt_text (sv_notes s))]"

definition row_to_strategy_version :: "string \<Rightarrow> string \<Rightarrow> row \<Rightarrow> exn + strategy_version" where
  "row_to_strategy_version i v r = rbind (time_of r ''created_at'') (\<lambda>t.
     mk_strategy_version \<lparr>sv_strategy_id = i, sv_strategy_version = v, sv_git_repo = text_col r ''git_repo'',
       sv_git_commit = text_col r ''git_commit'', sv_created_at = t, sv_notes = opt_of (col r ''notes'')\<rparr>)"

lemma row_to_strategy_version_row:
  "valid_strategy_version s \<Longrightarrow>
     row_to_strategy_version (sv_strategy_id s) (sv_strategy_version s) (strategy_version_row s) = Inr s"
  by (simp add: row_to_strategy_version_def time_of_written [where t = "sv_created_at s"]
      strategy_version_row_def valid_strategy_version_utc text_col_def)
     (cases s, simp add: valid_strategy_version_def)

definition experiment_row :: "string option \<Rightarrow> string \<Rightarrow> experiment_record \<Rightarrow> row" where
  "experiment_row key fp x =
     [(''experiment_id'', Text (ex_experiment_id x)),
      (''objective'', Text (ex_objective x)),
      (''strategy_id'', opt_text (ex_strategy_id x)),
      (''strategy_version'', opt_text (ex_strategy_version x)),
      (''producer'', Text (ex_producer x)),
      (''created_at'', Text (dt_to_str (ex_created_at x))),
      (''idempotency_key'', opt_text key),
      (''content_fingerprint'', Text fp)]"

definition row_to_experiment :: "row \<Rightarrow> exn + experiment_record" where
  "row_to_experiment r = rbind (time_of r ''created_at'') (\<lambda>t.
     mk_experiment \<lparr>ex_experiment_id = text_col r ''experiment_id'', ex_objective = text_col r ''objective'',
       ex_strategy_id = opt_of (col r ''strategy_id''), ex_strategy_version = opt_of (col r ''strategy_version''),
       ex_producer = text_col r ''producer'', ex_created_at = t\<rparr>)"

lemma row_to_experiment_row: "valid_experiment x \<Longrightarrow> row_to_experiment (experiment_row key fp x) = Inr x"
  by (simp add: row_to_experiment_def time_of_written [where t = "ex_created_at x"]
      experiment_row_def valid_experiment_utc text_col_def)
     (cases x, simp add: valid_experiment_def)

subsection \<open>Runs\<close>

definition run_row :: "string option \<Rightarrow> string \<Rightarrow> run \<Rightarrow> row" where
  "run_row key fp r =
     [(''run_id'', Text (rn_run_id r)),
      (''experiment_id'', Text (rn_experiment_id r)),
      (''status'', Text (run_status_value (rn_status r))),
      (''started_at'', Text (dt_to_str (rn_started_at r))),
      (''ended_at'', opt_time (rn_ended_at r)),
      (''producer'', Text (rn_producer r)),
      (''producer_version'', opt_text (rn_producer_version r)),
      (''git_repo'', opt_text (rn_git_repo r)),
      (''git_commit'', opt_text (rn_git_commit r)),
      (''dataset_id'', opt_text (rn_dataset_id r)),
      (''dataset_version'', opt_text (rn_dataset_version r)),
      (''dataset_ref'', opt_text (rn_dataset_ref r)),
      (''config_hash'', opt_text (rn_config_hash r)),
      (''config_ref'', opt_text (rn_config_ref r)),
      (''environment'', opt_text (rn_environment r)),
      (''provenance_completeness'', Text (completeness_value (rn_provenance_completeness r))),
      (''missing_provenance_json'', Text (json_dumps (str_list (rn_missing_provenance r)))),
      (''idempotency_key'', opt_text key),
      (''content_fingerprint'', Text fp)]"

text \<open>The stored completeness columns are not read back: the constructor recomputes them.\<close>

definition row_to_run :: "row \<Rightarrow> exn + run" where
  "row_to_run r = rbind (enum_of run_status_value run_statuses (text_col r ''status'')) (\<lambda>st.
     rbind (time_of r ''started_at'') (\<lambda>started. rbind (opt_time_of r ''ended_at'') (\<lambda>ended.
       mk_run \<lparr>rn_run_id = text_col r ''run_id'', rn_experiment_id = text_col r ''experiment_id'', rn_status = st,
         rn_started_at = started, rn_ended_at = ended, rn_producer = text_col r ''producer'',
         rn_producer_version = opt_of (col r ''producer_version''),
         rn_git_repo = opt_of (col r ''git_repo''),
         rn_git_commit = opt_of (col r ''git_commit''),
         rn_dataset_id = opt_of (col r ''dataset_id''),
         rn_dataset_version = opt_of (col r ''dataset_version''),
         rn_dataset_ref = opt_of (col r ''dataset_ref''),
         rn_config_hash = opt_of (col r ''config_hash''),
         rn_config_ref = opt_of (col r ''config_ref''),
         rn_environment = opt_of (col r ''environment''),
         rn_provenance_completeness = INCOMPLETE, rn_missing_provenance = []\<rparr>)))"

text \<open>Constructing does not look at the derived fields, nor at a status.\<close>

lemma mk_run_derived: "mk_run (r\<lparr>rn_provenance_completeness := c, rn_missing_provenance := m\<rparr>) = mk_run r"
  by (simp add: mk_run_def run_after_eq)

lemma row_to_run_row:
  assumes v: "valid_run r"
  shows "row_to_run (run_row key fp r) = Inr r"
proof -
  note t = valid_run_utc [OF v]
  have "row_to_run (run_row key fp r) = mk_run (r\<lparr>rn_provenance_completeness := INCOMPLETE, rn_missing_provenance := []\<rparr>)"
    using t by (simp add: row_to_run_def time_of_written [where t = "rn_started_at r"]
        opt_time_of_written [where v = "rn_ended_at r"] run_row_def text_col_def rs.of_value_value)
      (cases r, simp)
  then show ?thesis using v by (simp add: mk_run_derived valid_run_def)
qed


subsection \<open>Evidence\<close>

definition evidence_row :: "string \<Rightarrow> evidence \<Rightarrow> row" where
  "evidence_row fp e =
     [(''evidence_id'', Text (ev_evidence_id e)),
      (''idempotency_key'', Text (ev_idempotency_key e)),
      (''evidence_type'', Text (evidence_type_value (ev_evidence_type e))),
      (''schema_version'', Integer (ev_schema_version e)),
      (''strategy_id'', opt_text (ev_strategy_id e)),
      (''strategy_version'', opt_text (ev_strategy_version e)),
      (''experiment_id'', opt_text (ev_experiment_id e)),
      (''run_id'', opt_text (ev_run_id e)),
      (''producer'', Text (ev_producer e)),
      (''producer_version'', opt_text (ev_producer_version e)),
      (''created_at_utc'', Text (dt_to_str (ev_created_at_utc e))),
      (''observed_at_utc'', opt_time (ev_observed_at_utc e)),
      (''git_repo'', opt_text (ev_git_repo e)),
      (''git_commit'', opt_text (ev_git_commit e)),
      (''dataset_id'', opt_text (ev_dataset_id e)),
      (''dataset_version'', opt_text (ev_dataset_version e)),
      (''dataset_ref'', opt_text (ev_dataset_ref e)),
      (''config_hash'', opt_text (ev_config_hash e)),
      (''config_ref'', opt_text (ev_config_ref e)),
      (''environment'', opt_text (ev_environment e)),
      (''instruments_json'', Text (json_dumps (str_list (ev_instruments e)))),
      (''timeframes_json'', Text (json_dumps (str_list (ev_timeframes e)))),
      (''metrics_json'', Text (json_dumps (JObj (ev_metrics e)))),
      (''verdict'', opt_text (ev_verdict e)),
      (''status'', opt_text (ev_status e)),
      (''regime_tags_json'', Text (json_dumps (str_list (ev_regime_tags e)))),
      (''parent_evidence_ids_json'', Text (json_dumps (str_list (ev_parent_evidence_ids e)))),
      (''parent_run_ids_json'', Text (json_dumps (str_list (ev_parent_run_ids e)))),
      (''artifact_ids_json'', Text (json_dumps (str_list (ev_artifact_ids e)))),
      (''notes_json'', Text (json_dumps (ev_notes e))),
      (''provenance_completeness'', Text (completeness_value (ev_provenance_completeness e))),
      (''missing_provenance_json'', Text (json_dumps (str_list (ev_missing_provenance e)))),
      (''content_fingerprint'', Text fp)]"

definition row_to_evidence :: "row \<Rightarrow> exn + evidence" where
  "row_to_evidence r =
     rbind (time_of r ''created_at_utc'') (\<lambda>created. rbind (opt_time_of r ''observed_at_utc'') (\<lambda>observed.
     rbind (strings_of r ''instruments_json'') (\<lambda>instruments. rbind (strings_of r ''timeframes_json'') (\<lambda>timeframes.
     rbind (rbind (loads r ''metrics_json'') (as_metrics ''metrics'')) (\<lambda>metrics.
     rbind (strings_of r ''regime_tags_json'') (\<lambda>regime_tags.
     rbind (strings_of r ''parent_evidence_ids_json'') (\<lambda>parents.
     rbind (strings_of r ''parent_run_ids_json'') (\<lambda>parent_runs.
     rbind (strings_of r ''artifact_ids_json'') (\<lambda>arts.
     rbind (rbind (loads r ''notes_json'') (as_notes ''notes'')) (\<lambda>notes.
       mk_evidence (AsText (text_col r ''evidence_type''))
         \<lparr>ev_evidence_id = text_col r ''evidence_id'', ev_idempotency_key = text_col r ''idempotency_key'',
          ev_evidence_type = evidence_types ! 0, ev_schema_version = int_of (col r ''schema_version''),
          ev_strategy_id = opt_of (col r ''strategy_id''), ev_strategy_version = opt_of (col r ''strategy_version''),
          ev_experiment_id = opt_of (col r ''experiment_id''), ev_run_id = opt_of (col r ''run_id''),
          ev_producer = text_col r ''producer'', ev_producer_version = opt_of (col r ''producer_version''),
          ev_created_at_utc = created, ev_observed_at_utc = observed,
          ev_git_repo = opt_of (col r ''git_repo''), ev_git_commit = opt_of (col r ''git_commit''),
          ev_dataset_id = opt_of (col r ''dataset_id''), ev_dataset_version = opt_of (col r ''dataset_version''),
          ev_dataset_ref = opt_of (col r ''dataset_ref''), ev_config_hash = opt_of (col r ''config_hash''),
          ev_config_ref = opt_of (col r ''config_ref''), ev_environment = opt_of (col r ''environment''),
          ev_instruments = instruments, ev_timeframes = timeframes, ev_metrics = metrics,
          ev_verdict = opt_of (col r ''verdict''), ev_status = opt_of (col r ''status''),
          ev_regime_tags = regime_tags, ev_parent_evidence_ids = parents, ev_parent_run_ids = parent_runs,
          ev_artifact_ids = arts, ev_notes = notes,
          ev_provenance_completeness = INCOMPLETE, ev_missing_provenance = []\<rparr>))))))))))"

definition canon_evidence :: "evidence \<Rightarrow> evidence" where
  "canon_evidence e = e\<lparr>ev_metrics := canon_dict (ev_metrics e), ev_notes := canon (ev_notes e)\<rparr>"

lemma evidence_completeness_canon:
  "compute_provenance_completeness (e\<lparr>ev_metrics := canon_dict (ev_metrics e), ev_notes := canon (ev_notes e)\<rparr>) =
     compute_provenance_completeness e"
  by (simp add: compute_provenance_completeness_def evidence_attrs_def)

lemma mk_evidence_derived:
  "mk_evidence t (e\<lparr>ev_provenance_completeness := c, ev_missing_provenance := m\<rparr>) = mk_evidence t e"
  by (simp add: mk_evidence_def evidence_after_eq parsed_type_def split: sum.split)

lemma mk_evidence_type_field:
  "is_ok (parse_evidence_type t) \<Longrightarrow> mk_evidence t (e\<lparr>ev_evidence_type := ty\<rparr>) = mk_evidence t e"
  by (cases "parse_evidence_type t") (simp_all add: mk_evidence_def evidence_after_eq parsed_type_def)

lemma mk_evidence_canon:
  "mk_evidence t (canon_evidence e) = map_sum id canon_evidence (mk_evidence t e)"
  by (simp add: mk_evidence_def canon_evidence_def construct_def evidence_after_eq parsed_type_def
      evidence_completeness_canon split: option.split sum.split)

text \<open>The columns of a written evidence row, read back.\<close>

lemma evidence_row_read:
  assumes v: "valid_evidence e"
  shows "row_to_evidence (evidence_row fp e) = Inr (canon_evidence e)"
proof -
  let ?t = "AsText (evidence_type_value (ev_evidence_type e))"
  let ?r = "evidence_row fp e"
  note u = valid_evidence_utc [OF v]
  have m: "wf_json (JObj (ev_metrics e))" "\<forall>m \<in> set (ev_metrics e). is_metric (snd m)"
    and n: "wf_json (ev_notes e)" "is_container (ev_notes e)"
    using v by (auto simp: valid_evidence_def typed_evidence_def)
  have times: "time_of ?r ''created_at_utc'' = Inr (ev_created_at_utc e)"
      "opt_time_of ?r ''observed_at_utc'' = Inr (ev_observed_at_utc e)"
    using u by (simp_all add: time_of_written opt_time_of_written evidence_row_def)
  have lists: "strings_of ?r ''instruments_json'' = Inr (ev_instruments e)"
      "strings_of ?r ''timeframes_json'' = Inr (ev_timeframes e)"
      "strings_of ?r ''regime_tags_json'' = Inr (ev_regime_tags e)"
      "strings_of ?r ''parent_evidence_ids_json'' = Inr (ev_parent_evidence_ids e)"
      "strings_of ?r ''parent_run_ids_json'' = Inr (ev_parent_run_ids e)"
      "strings_of ?r ''artifact_ids_json'' = Inr (ev_artifact_ids e)"
    by (simp_all add: strings_of_written evidence_row_def)
  have dicts: "loads ?r ''metrics_json'' = Inr (canon (JObj (ev_metrics e)))"
      "loads ?r ''notes_json'' = Inr (canon (ev_notes e))"
    using m(1) n(1) by (simp_all add: loads_written evidence_row_def del: wf_json.simps canon.simps)
  have "row_to_evidence ?r = mk_evidence ?t ((canon_evidence e)\<lparr>ev_evidence_type := evidence_types ! 0,
          ev_provenance_completeness := INCOMPLETE, ev_missing_provenance := []\<rparr>)"
    using n(2) unfolding row_to_evidence_def times lists dicts
    by (simp add: as_metrics_canon m(2) as_notes_def evidence_row_def text_col_def canon_evidence_def
        del: canon.simps) (cases e, simp)
  also have "\<dots> = mk_evidence ?t (canon_evidence e)"
    using mk_evidence_derived [where t = ?t and c = INCOMPLETE and m = "[]"
        and e = "(canon_evidence e)\<lparr>ev_evidence_type := evidence_types ! 0\<rparr>"]
    by (simp only: mk_evidence_type_field parse_evidence_type_value is_ok_simps)
  also have "\<dots> = Inr (canon_evidence e)"
    using v mk_evidence_text [of e] by (simp add: mk_evidence_canon valid_evidence_def)
  finally show ?thesis .
qed


subsection \<open>Artifacts\<close>

text \<open>The producer and the second fingerprint are columns of the row, not fields of the record.\<close>

definition artifact_row :: "string option \<Rightarrow> string option \<Rightarrow> string \<Rightarrow> string option \<Rightarrow> artifact \<Rightarrow> row" where
  "artifact_row producer key fp idem_fp a =
     [(''artifact_id'', Text (ar_artifact_id a)),
      (''sha256'', Text (ar_sha256 a)),
      (''size_bytes'', Integer (ar_size_bytes a)),
      (''content_type'', Text (ar_content_type a)),
      (''filename'', Text (ar_filename a)),
      (''uri'', Text (ar_uri a)),
      (''registered_at'', Text (dt_to_str (ar_registered_at a))),
      (''run_id'', opt_text (ar_run_id a)),
      (''evidence_id'', opt_text (ar_evidence_id a)),
      (''content_fingerprint'', Text fp),
      (''producer'', opt_text producer),
      (''idempotency_key'', opt_text key),
      (''idempotency_fingerprint'', opt_text idem_fp)]"

definition row_to_artifact :: "row \<Rightarrow> exn + artifact" where
  "row_to_artifact r = rbind (time_of r ''registered_at'') (\<lambda>t.
     mk_artifact \<lparr>ar_artifact_id = text_col r ''artifact_id'', ar_sha256 = text_col r ''sha256'',
       ar_size_bytes = int_of (col r ''size_bytes''), ar_content_type = text_col r ''content_type'',
       ar_filename = text_col r ''filename'', ar_uri = text_col r ''uri'', ar_registered_at = t,
       ar_run_id = opt_of (col r ''run_id''), ar_evidence_id = opt_of (col r ''evidence_id'')\<rparr>)"

lemma row_to_artifact_row:
  "valid_artifact a \<Longrightarrow> row_to_artifact (artifact_row producer key fp idem_fp a) = Inr a"
  by (simp add: row_to_artifact_def time_of_written [where t = "ar_registered_at a"]
      artifact_row_def valid_artifact_utc text_col_def)
     (cases a, simp add: valid_artifact_def)

subsection \<open>Promotions\<close>

definition promotion_row :: "string option \<Rightarrow> string \<Rightarrow> promotion \<Rightarrow> row" where
  "promotion_row key fp p =
     [(''transition_id'', Text (pt_transition_id p)),
      (''strategy_id'', Text (pt_strategy_id p)),
      (''strategy_version'', Text (pt_strategy_version p)),
      (''from_state'', Text (promotion_state_value (pt_from_state p))),
      (''to_state'', Text (promotion_state_value (pt_to_state p))),
      (''at_utc'', Text (dt_to_str (pt_at_utc p))),
      (''authority'', Text (pt_authority p)),
      (''producer'', Text (pt_producer p)),
      (''evidence_ids_json'', Text (json_dumps (str_list (pt_evidence_ids p)))),
      (''reason'', Text (pt_reason p)),
      (''idempotency_key'', opt_text key),
      (''content_fingerprint'', Text fp)]"

definition row_to_promotion :: "row \<Rightarrow> exn + promotion" where
  "row_to_promotion r =
     rbind (enum_of promotion_state_value promotion_states (text_col r ''from_state'')) (\<lambda>frm.
     rbind (enum_of promotion_state_value promotion_states (text_col r ''to_state'')) (\<lambda>to.
     rbind (time_of r ''at_utc'') (\<lambda>t. rbind (strings_of r ''evidence_ids_json'') (\<lambda>ids.
       mk_promotion \<lparr>pt_transition_id = text_col r ''transition_id'', pt_strategy_id = text_col r ''strategy_id'',
         pt_strategy_version = text_col r ''strategy_version'', pt_from_state = frm, pt_to_state = to, pt_at_utc = t,
         pt_authority = text_col r ''authority'', pt_producer = text_col r ''producer'', pt_evidence_ids = ids,
         pt_reason = text_col r ''reason''\<rparr>))))"

lemma row_to_promotion_row: "valid_promotion p \<Longrightarrow> row_to_promotion (promotion_row key fp p) = Inr p"
  by (simp add: row_to_promotion_def time_of_written [where t = "pt_at_utc p"]
      strings_of_written [where xs = "pt_evidence_ids p"] promotion_row_def valid_promotion_utc text_col_def
      ps.of_value_value)
     (cases p, simp add: valid_promotion_def)

subsection \<open>Health records\<close>

definition health_row :: "string option \<Rightarrow> string \<Rightarrow> health \<Rightarrow> row" where
  "health_row key fp h =
     [(''health_id'', Text (hr_health_id h)),
      (''strategy_id'', Text (hr_strategy_id h)),
      (''strategy_version'', Text (hr_strategy_version h)),
      (''health_state'', Text (health_state_value (hr_health_state h))),
      (''observed_at_utc'', Text (dt_to_str (hr_observed_at_utc h))),
      (''producer'', Text (hr_producer h)),
      (''observed_trigger_rate'', opt_real (hr_observed_trigger_rate h)),
      (''regime_conditioned_expected_trigger_rate'', opt_real (hr_regime_conditioned_expected_trigger_rate h)),
      (''expectancy_r'', opt_real (hr_expectancy_r h)),
      (''win_rate'', opt_real (hr_win_rate h)),
      (''drawdown'', opt_real (hr_drawdown h)),
      (''mae'', opt_real (hr_mae h)),
      (''mfe'', opt_real (hr_mfe h)),
      (''holding_time'', opt_real (hr_holding_time h)),
      (''execution_slippage_quality'', opt_real (hr_execution_slippage_quality h)),
      (''regime_distribution_json'', opt_json (map_option float_dict (hr_regime_distribution h))),
      (''strategy_chain_strength_distribution_json'', opt_json (map_option float_dict (hr_strategy_chain_strength_distribution h))),
      (''baseline_comparison_json'', opt_json (map_option JObj (hr_baseline_comparison h))),
      (''confidence'', opt_real (hr_confidence h)),
      (''reason'', Text (hr_reason h)),
      (''evidence_ids_json'', Text (json_dumps (str_list (hr_evidence_ids h)))),
      (''idempotency_key'', opt_text key),
      (''content_fingerprint'', Text fp)]"

definition row_to_health :: "row \<Rightarrow> exn + health" where
  "row_to_health r =
     rbind (enum_of health_state_value health_states (text_col r ''health_state'')) (\<lambda>st.
     rbind (time_of r ''observed_at_utc'') (\<lambda>t.
     rbind (rbind (opt_loads r ''regime_distribution_json'') (opt_result (as_floats ''regime_distribution''))) (\<lambda>regime.
     rbind (rbind (opt_loads r ''strategy_chain_strength_distribution_json'')
       (opt_result (as_floats ''strategy_chain_strength_distribution''))) (\<lambda>chain.
     rbind (rbind (opt_loads r ''baseline_comparison_json'') (opt_result (as_dict ''baseline_comparison''))) (\<lambda>base.
     rbind (strings_of r ''evidence_ids_json'') (\<lambda>ids.
       mk_health \<lparr>hr_health_id = text_col r ''health_id'', hr_strategy_id = text_col r ''strategy_id'',
         hr_strategy_version = text_col r ''strategy_version'', hr_health_state = st, hr_observed_at_utc = t,
         hr_producer = text_col r ''producer'',
         hr_observed_trigger_rate = opt_of (col r ''observed_trigger_rate''),
         hr_regime_conditioned_expected_trigger_rate = opt_of (col r ''regime_conditioned_expected_trigger_rate''),
         hr_expectancy_r = opt_of (col r ''expectancy_r''),
         hr_win_rate = opt_of (col r ''win_rate''),
         hr_drawdown = opt_of (col r ''drawdown''),
         hr_mae = opt_of (col r ''mae''),
         hr_mfe = opt_of (col r ''mfe''),
         hr_holding_time = opt_of (col r ''holding_time''),
         hr_execution_slippage_quality = opt_of (col r ''execution_slippage_quality''),
         hr_regime_distribution = regime, hr_strategy_chain_strength_distribution = chain,
         hr_baseline_comparison = base, hr_confidence = opt_of (col r ''confidence''),
         hr_reason = text_col r ''reason'', hr_evidence_ids = ids\<rparr>))))))"

definition canon_health :: "health \<Rightarrow> health" where
  "canon_health h = h\<lparr>hr_regime_distribution := map_option sort_floats (hr_regime_distribution h),
     hr_strategy_chain_strength_distribution :=
       map_option sort_floats (hr_strategy_chain_strength_distribution h),
     hr_baseline_comparison := map_option canon_dict (hr_baseline_comparison h)\<rparr>"

lemma mk_health_canon: "mk_health (canon_health h) = map_sum id canon_health (mk_health h)"
  by (simp add: mk_health_def canon_health_def construct_def split: option.split)

lemma opt_floats_written:
  assumes "col r c = opt_json (map_option float_dict d)" "typed_opt (\<lambda>d. wf_json (float_dict d)) d"
  shows "rbind (opt_loads r c) (opt_result (as_floats n)) = Inr (map_option sort_floats d)"
  using opt_loads_written [OF assms(1)] assms(2)
  by (cases d) (simp_all add: opt_result_def canon_float_dict as_floats_dict)

lemma opt_dict_written:
  assumes "col r c = opt_json (map_option JObj d)" "typed_opt (\<lambda>d. wf_json (JObj d)) d"
  shows "rbind (opt_loads r c) (opt_result (as_dict n)) = Inr (map_option canon_dict d)"
  using opt_loads_written [OF assms(1)] assms(2)
  by (cases d) (simp_all add: opt_result_def canon_JObj as_dict_def del: canon.simps wf_json.simps)

lemma row_to_health_row:
  assumes v: "valid_health h"
  shows "row_to_health (health_row key fp h) = Inr (canon_health h)"
proof -
  let ?r = "health_row key fp h"
  have ty: "typed_opt (\<lambda>d. wf_json (float_dict d)) (hr_regime_distribution h)"
      "typed_opt (\<lambda>d. wf_json (float_dict d)) (hr_strategy_chain_strength_distribution h)"
      "typed_opt (\<lambda>d. wf_json (JObj d)) (hr_baseline_comparison h)"
    using v by (simp_all add: valid_health_def typed_health_def)
  have "row_to_health ?r = mk_health (canon_health h)"
    unfolding row_to_health_def
    by (simp add: opt_floats_written [OF _ ty(1)] opt_floats_written [OF _ ty(2)] opt_dict_written [OF _ ty(3)]
        time_of_written [where t = "hr_observed_at_utc h"] valid_health_utc [OF v]
        strings_of_written [where xs = "hr_evidence_ids h"] health_row_def text_col_def hs.of_value_value
        canon_health_def)
       (cases h, simp)
  then show ?thesis using v by (simp add: mk_health_canon valid_health_def)
qed


end
