(* ===== verification/Fingerprint.thy ===== *)
theory Fingerprint
  imports Rows
begin

text \<open>
  The content fingerprint of \<open>src/cer/metadata/sqlite_store.py\<close>: \<open>model_dump(mode="json")\<close>
  without the excluded fields, as canonical JSON, through SHA-256. The hash and the text pydantic
  gives a datetime are parameters (\<open>libs\<close>). The lemmas say which submissions the fingerprint
  tells apart: those whose authored content differs, whatever id and time of arrival they carry.
\<close>

record libs =
  sha256_hex :: "string \<Rightarrow> string"
  json_time :: "pydt \<Rightarrow> string"

subsection \<open>\<open>model_dump(mode="json")\<close>\<close>

definition opt_json_text :: "string option \<Rightarrow> json" where
  "opt_json_text v = (case v of None \<Rightarrow> JNull | Some s \<Rightarrow> JStr s)"

definition opt_json_float :: "string option \<Rightarrow> json" where
  "opt_json_float v = (case v of None \<Rightarrow> JNull | Some s \<Rightarrow> JFloat s)"

definition opt_json_time :: "libs \<Rightarrow> pydt option \<Rightarrow> json" where
  "opt_json_time L v = (case v of None \<Rightarrow> JNull | Some t \<Rightarrow> JStr (json_time L t))"

definition opt_json_dict :: "json option \<Rightarrow> json" where
  "opt_json_dict v = (case v of None \<Rightarrow> JNull | Some j \<Rightarrow> j)"

definition strategy_dump :: "libs \<Rightarrow> strategy \<Rightarrow> (string \<times> json) list" where
  "strategy_dump L s =
     [(''strategy_id'', JStr (st_strategy_id s)),
      (''name'', JStr (st_name s)),
      (''thesis'', JStr (st_thesis s)),
      (''created_at'', JStr (json_time L (st_created_at s)))]"

definition strategy_version_dump :: "libs \<Rightarrow> strategy_version \<Rightarrow> (string \<times> json) list" where
  "strategy_version_dump L s =
     [(''strategy_id'', JStr (sv_strategy_id s)),
      (''strategy_version'', JStr (sv_strategy_version s)),
      (''git_repo'', JStr (sv_git_repo s)),
      (''git_commit'', JStr (sv_git_commit s)),
      (''created_at'', JStr (json_time L (sv_created_at s))),
      (''notes'', opt_json_text (sv_notes s))]"

definition experiment_dump :: "libs \<Rightarrow> experiment_record \<Rightarrow> (string \<times> json) list" where
  "experiment_dump L x =
     [(''experiment_id'', JStr (ex_experiment_id x)),
      (''objective'', JStr (ex_objective x)),
      (''strategy_id'', opt_json_text (ex_strategy_id x)),
      (''strategy_version'', opt_json_text (ex_strategy_version x)),
      (''producer'', JStr (ex_producer x)),
      (''created_at'', JStr (json_time L (ex_created_at x)))]"

definition run_dump :: "libs \<Rightarrow> run \<Rightarrow> (string \<times> json) list" where
  "run_dump L r =
     [(''run_id'', JStr (rn_run_id r)),
      (''experiment_id'', JStr (rn_experiment_id r)),
      (''status'', JStr (run_status_value (rn_status r))),
      (''started_at'', JStr (json_time L (rn_started_at r))),
      (''ended_at'', opt_json_time L (rn_ended_at r)),
      (''producer'', JStr (rn_producer r)),
      (''producer_version'', opt_json_text (rn_producer_version r)),
      (''git_repo'', opt_json_text (rn_git_repo r)),
      (''git_commit'', opt_json_text (rn_git_commit r)),
      (''dataset_id'', opt_json_text (rn_dataset_id r)),
      (''dataset_version'', opt_json_text (rn_dataset_version r)),
      (''dataset_ref'', opt_json_text (rn_dataset_ref r)),
      (''config_hash'', opt_json_text (rn_config_hash r)),
      (''config_ref'', opt_json_text (rn_config_ref r)),
      (''environment'', opt_json_text (rn_environment r)),
      (''provenance_completeness'', JStr (completeness_value (rn_provenance_completeness r))),
      (''missing_provenance'', str_list (rn_missing_provenance r))]"

definition evidence_dump :: "libs \<Rightarrow> evidence \<Rightarrow> (string \<times> json) list" where
  "evidence_dump L e =
     [(''evidence_id'', JStr (ev_evidence_id e)),
      (''idempotency_key'', JStr (ev_idempotency_key e)),
      (''evidence_type'', JStr (evidence_type_value (ev_evidence_type e))),
      (''schema_version'', JInt (ev_schema_version e)),
      (''strategy_id'', opt_json_text (ev_strategy_id e)),
      (''strategy_version'', opt_json_text (ev_strategy_version e)),
      (''experiment_id'', opt_json_text (ev_experiment_id e)),
      (''run_id'', opt_json_text (ev_run_id e)),
      (''producer'', JStr (ev_producer e)),
      (''producer_version'', opt_json_text (ev_producer_version e)),
      (''created_at_utc'', JStr (json_time L (ev_created_at_utc e))),
      (''observed_at_utc'', opt_json_time L (ev_observed_at_utc e)),
      (''git_repo'', opt_json_text (ev_git_repo e)),
      (''git_commit'', opt_json_text (ev_git_commit e)),
      (''dataset_id'', opt_json_text (ev_dataset_id e)),
      (''dataset_version'', opt_json_text (ev_dataset_version e)),
      (''dataset_ref'', opt_json_text (ev_dataset_ref e)),
      (''config_hash'', opt_json_text (ev_config_hash e)),
      (''config_ref'', opt_json_text (ev_config_ref e)),
      (''environment'', opt_json_text (ev_environment e)),
      (''instruments'', str_list (ev_instruments e)),
      (''timeframes'', str_list (ev_timeframes e)),
      (''metrics'', JObj (ev_metrics e)),
      (''verdict'', opt_json_text (ev_verdict e)),
      (''status'', opt_json_text (ev_status e)),
      (''regime_tags'', str_list (ev_regime_tags e)),
      (''parent_evidence_ids'', str_list (ev_parent_evidence_ids e)),
      (''parent_run_ids'', str_list (ev_parent_run_ids e)),
      (''artifact_ids'', str_list (ev_artifact_ids e)),
      (''notes'', ev_notes e),
      (''provenance_completeness'', JStr (completeness_value (ev_provenance_completeness e))),
      (''missing_provenance'', str_list (ev_missing_provenance e))]"

definition artifact_dump :: "libs \<Rightarrow> artifact \<Rightarrow> (string \<times> json) list" where
  "artifact_dump L a =
     [(''artifact_id'', JStr (ar_artifact_id a)),
      (''sha256'', JStr (ar_sha256 a)),
      (''size_bytes'', JInt (ar_size_bytes a)),
      (''content_type'', JStr (ar_content_type a)),
      (''filename'', JStr (ar_filename a)),
      (''uri'', JStr (ar_uri a)),
      (''registered_at'', JStr (json_time L (ar_registered_at a))),
      (''run_id'', opt_json_text (ar_run_id a)),
      (''evidence_id'', opt_json_text (ar_evidence_id a))]"

definition promotion_dump :: "libs \<Rightarrow> promotion \<Rightarrow> (string \<times> json) list" where
  "promotion_dump L p =
     [(''transition_id'', JStr (pt_transition_id p)),
      (''strategy_id'', JStr (pt_strategy_id p)),
      (''strategy_version'', JStr (pt_strategy_version p)),
      (''from_state'', JStr (promotion_state_value (pt_from_state p))),
      (''to_state'', JStr (promotion_state_value (pt_to_state p))),
      (''at_utc'', JStr (json_time L (pt_at_utc p))),
      (''authority'', JStr (pt_authority p)),
      (''producer'', JStr (pt_producer p)),
      (''evidence_ids'', str_list (pt_evidence_ids p)),
      (''reason'', JStr (pt_reason p))]"

definition health_dump :: "libs \<Rightarrow> health \<Rightarrow> (string \<times> json) list" where
  "health_dump L h =
     [(''health_id'', JStr (hr_health_id h)),
      (''strategy_id'', JStr (hr_strategy_id h)),
      (''strategy_version'', JStr (hr_strategy_version h)),
      (''health_state'', JStr (health_state_value (hr_health_state h))),
      (''observed_at_utc'', JStr (json_time L (hr_observed_at_utc h))),
      (''producer'', JStr (hr_producer h)),
      (''observed_trigger_rate'', opt_json_float (hr_observed_trigger_rate h)),
      (''regime_conditioned_expected_trigger_rate'', opt_json_float (hr_regime_conditioned_expected_trigger_rate h)),
      (''expectancy_r'', opt_json_float (hr_expectancy_r h)),
      (''win_rate'', opt_json_float (hr_win_rate h)),
      (''drawdown'', opt_json_float (hr_drawdown h)),
      (''mae'', opt_json_float (hr_mae h)),
      (''mfe'', opt_json_float (hr_mfe h)),
      (''holding_time'', opt_json_float (hr_holding_time h)),
      (''execution_slippage_quality'', opt_json_float (hr_execution_slippage_quality h)),
      (''regime_distribution'', opt_json_dict (map_option float_dict (hr_regime_distribution h))),
      (''strategy_chain_strength_distribution'', opt_json_dict (map_option float_dict (hr_strategy_chain_strength_distribution h))),
      (''baseline_comparison'', opt_json_dict (map_option JObj (hr_baseline_comparison h))),
      (''confidence'', opt_json_float (hr_confidence h)),
      (''reason'', JStr (hr_reason h)),
      (''evidence_ids'', str_list (hr_evidence_ids h))]"

subsection \<open>\<open>_fingerprint\<close> and its exclusions\<close>

definition RUN_FP_EXCLUDE :: "string list" where
  "RUN_FP_EXCLUDE = [''run_id'', ''started_at'', ''provenance_completeness'', ''missing_provenance'']"

definition EVIDENCE_FP_EXCLUDE :: "string list" where
  "EVIDENCE_FP_EXCLUDE = [''evidence_id'', ''created_at_utc'', ''provenance_completeness'', ''missing_provenance'']"

definition STRATEGY_FP_EXCLUDE :: "string list" where
  "STRATEGY_FP_EXCLUDE = [''created_at'']"

definition STRATEGY_VERSION_FP_EXCLUDE :: "string list" where
  "STRATEGY_VERSION_FP_EXCLUDE = [''created_at'']"

definition EXPERIMENT_FP_EXCLUDE :: "string list" where
  "EXPERIMENT_FP_EXCLUDE = [''experiment_id'', ''created_at'']"

definition PROMOTION_FP_EXCLUDE :: "string list" where
  "PROMOTION_FP_EXCLUDE = [''transition_id'', ''at_utc'']"

definition HEALTH_FP_EXCLUDE :: "string list" where
  "HEALTH_FP_EXCLUDE = [''health_id'', ''observed_at_utc'']"

definition ARTIFACT_FP_EXCLUDE :: "string list" where
  "ARTIFACT_FP_EXCLUDE = [''artifact_id'', ''run_id'', ''evidence_id'']"

definition ARTIFACT_IDEM_FP_EXCLUDE :: "string list" where
  "ARTIFACT_IDEM_FP_EXCLUDE = ARTIFACT_FP_EXCLUDE @ [''registered_at'', ''uri'']"

definition payload :: "(string \<times> json) list \<Rightarrow> string list \<Rightarrow> (string \<times> json) list" where
  "payload dump exclude = filter (\<lambda>(k, v). k \<notin> set exclude) dump"

definition fingerprint :: "libs \<Rightarrow> (string \<times> json) list \<Rightarrow> string list \<Rightarrow> string" where
  "fingerprint L dump exclude = sha256_hex L (json_dumps (JObj (payload dump exclude)))"

definition strategy_fp :: "libs \<Rightarrow> strategy \<Rightarrow> string" where
  "strategy_fp L s = fingerprint L (strategy_dump L s) STRATEGY_FP_EXCLUDE"

definition strategy_version_fp :: "libs \<Rightarrow> strategy_version \<Rightarrow> string" where
  "strategy_version_fp L s = fingerprint L (strategy_version_dump L s) STRATEGY_VERSION_FP_EXCLUDE"

definition experiment_fp :: "libs \<Rightarrow> experiment_record \<Rightarrow> string" where
  "experiment_fp L x = fingerprint L (experiment_dump L x) EXPERIMENT_FP_EXCLUDE"

definition run_fp :: "libs \<Rightarrow> run \<Rightarrow> string" where
  "run_fp L r = fingerprint L (run_dump L r) RUN_FP_EXCLUDE"

definition evidence_fp :: "libs \<Rightarrow> evidence \<Rightarrow> string" where
  "evidence_fp L e = fingerprint L (evidence_dump L e) EVIDENCE_FP_EXCLUDE"

definition artifact_fp :: "libs \<Rightarrow> artifact \<Rightarrow> string" where
  "artifact_fp L a = fingerprint L (artifact_dump L a) ARTIFACT_FP_EXCLUDE"

definition artifact_idem_fp :: "libs \<Rightarrow> artifact \<Rightarrow> string" where
  "artifact_idem_fp L a = fingerprint L (artifact_dump L a) ARTIFACT_IDEM_FP_EXCLUDE"

definition promotion_fp :: "libs \<Rightarrow> promotion \<Rightarrow> string" where
  "promotion_fp L p = fingerprint L (promotion_dump L p) PROMOTION_FP_EXCLUDE"

definition health_fp :: "libs \<Rightarrow> health \<Rightarrow> string" where
  "health_fp L h = fingerprint L (health_dump L h) HEALTH_FP_EXCLUDE"

lemmas fp_excludes =
  RUN_FP_EXCLUDE_def EVIDENCE_FP_EXCLUDE_def STRATEGY_FP_EXCLUDE_def STRATEGY_VERSION_FP_EXCLUDE_def
  EXPERIMENT_FP_EXCLUDE_def PROMOTION_FP_EXCLUDE_def HEALTH_FP_EXCLUDE_def ARTIFACT_FP_EXCLUDE_def
  ARTIFACT_IDEM_FP_EXCLUDE_def

subsection \<open>When two payloads are the same text\<close>

lemma map_of_canon_dict: "distinct (map fst kvs) \<Longrightarrow> map_of (canon_dict kvs) k = map_option canon (map_of kvs k)"
proof -
  assume d: "distinct (map fst kvs)"
  have "distinct (map fst (canon_dict kvs))"
    using d by (simp add: canon_dict_def distinct_map_sort_key comp_def case_prod_unfold)
  then have "map_of (canon_dict kvs) = map_of (map (\<lambda>(k, v). (k, canon v)) kvs)"
    using d by (subst map_of_inject_set) (auto simp: canon_dict_def comp_def case_prod_unfold)
  then show ?thesis by (simp add: map_of_map)
qed

lemma canon_dict_eq_iff:
  assumes "map fst a = map fst b" "distinct (map fst a)"
  shows "canon_dict a = canon_dict b \<longleftrightarrow> map (canon \<circ> snd) a = map (canon \<circ> snd) b"
proof
  assume "canon_dict a = canon_dict b"
  then have *: "map_option canon (map_of a k) = map_option canon (map_of b k)" for k
    using assms map_of_canon_dict [of a k] map_of_canon_dict [of b k] by metis
  have len: "length a = length b" using assms(1) map_eq_imp_length_eq by blast
  show "map (canon \<circ> snd) a = map (canon \<circ> snd) b"
  proof (rule nth_equalityI)
    fix i assume "i < length (map (canon \<circ> snd) a)"
    then have i: "i < length a" by simp
    then have k: "fst (a ! i) = fst (b ! i)" using assms(1) len by (metis nth_map)
    have "map_of a (fst (a ! i)) = Some (snd (a ! i))" "map_of b (fst (b ! i)) = Some (snd (b ! i))"
      using i len assms by (auto intro: map_of_is_SomeI)
    with * [of "fst (a ! i)"] k i len show "map (canon \<circ> snd) a ! i = map (canon \<circ> snd) b ! i" by simp
  qed (simp add: len)
next
  assume e: "map (canon \<circ> snd) a = map (canon \<circ> snd) b"
  have z: "map (\<lambda>(k, v). (k, canon v)) xs = zip (map fst xs) (map (canon \<circ> snd) xs)" for xs
    by (induction xs) auto
  show "canon_dict a = canon_dict b" unfolding canon_dict_def z e assms(1) ..
qed

lemma dumps_eq_iff:
  assumes "map fst a = map fst b" "wf_json (JObj a)" "wf_json (JObj b)"
  shows "json_dumps (JObj a) = json_dumps (JObj b) \<longleftrightarrow> map (canon \<circ> snd) a = map (canon \<circ> snd) b"
  using assms canon_dict_eq_iff [of a b]
  by (simp add: json_dumps_eq_iff canon_JObj del: canon.simps)

subsection \<open>Fields of a payload\<close>

lemma opt_json_text_eq [simp]: "opt_json_text v = opt_json_text w \<longleftrightarrow> v = w"
  by (cases v; cases w) (simp_all add: opt_json_text_def)

lemma canon_opt_json_text [simp]: "canon (opt_json_text v) = opt_json_text v" "wf_json (opt_json_text v)"
  by (cases v; simp add: opt_json_text_def)+

lemma opt_json_float_eq [simp]: "opt_json_float v = opt_json_float w \<longleftrightarrow> v = w"
  by (cases v; cases w) (simp_all add: opt_json_float_def)

lemma canon_opt_json_float [simp]:
  "canon (opt_json_float v) = opt_json_float v" "wf_json (opt_json_float v) = typed_opt float_repr v"
  by (cases v; simp add: opt_json_float_def)+

lemma str_list_eq [simp]: "str_list xs = str_list ys \<longleftrightarrow> xs = ys"
  by (simp add: str_list_def inj_map_eq_map inj_def)

lemma float_dict_eq [simp]: "float_dict c = float_dict d \<longleftrightarrow> c = d"
  by (auto simp: float_dict_def inj_def intro!: inj_map_eq_map [THEN iffD1, of "\<lambda>(k, v). (k, JFloat v)"])

lemma canon_opt_json_time [simp]: "canon (opt_json_time L v) = opt_json_time L v" "wf_json (opt_json_time L v)"
  by (cases v; simp add: opt_json_time_def)+

lemma float_dict_not_null [simp]: "float_dict d \<noteq> JNull" "JNull \<noteq> float_dict d"
  by (simp_all add: float_dict_def)

lemma opt_floats_eq [simp]:
  "opt_json_dict (map_option float_dict v) = opt_json_dict (map_option float_dict w) \<longleftrightarrow> v = w"
  by (cases v; cases w) (simp_all add: opt_json_dict_def)

lemma wf_opt_floats [simp]:
  "wf_json (opt_json_dict (map_option float_dict v)) = typed_opt (\<lambda>d. wf_json (float_dict d)) v"
  by (cases v) (simp_all add: opt_json_dict_def)

lemma canon_opt_floats [simp]:
  "canon (opt_json_dict (map_option float_dict v)) = opt_json_dict (map_option float_dict (map_option sort_floats v))"
  by (cases v) (simp_all add: opt_json_dict_def canon_float_dict)

lemma opt_JObj_eq [simp]:
  "opt_json_dict (map_option JObj v) = opt_json_dict (map_option JObj w) \<longleftrightarrow> v = w"
  by (cases v; cases w) (simp_all add: opt_json_dict_def)

lemma wf_opt_JObj [simp]:
  "wf_json (opt_json_dict (map_option JObj v)) = typed_opt (\<lambda>d. wf_json (JObj d)) v"
  by (cases v) (simp_all add: opt_json_dict_def)

lemma canon_opt_JObj [simp]:
  "canon (opt_json_dict (map_option JObj v)) = opt_json_dict (map_option JObj (map_option canon_dict v))"
  by (cases v) (simp_all add: opt_json_dict_def canon_dict_def)

text \<open>
  What is asked of the libraries: pydantic gives different UTC datetimes different texts (it
  writes ISO 8601), and SHA-256 does not collide on the two texts that are compared.
\<close>

definition times_distinct :: "libs \<Rightarrow> bool" where
  "times_distinct L \<longleftrightarrow> (\<forall>s t. utc_pydt s \<longrightarrow> utc_pydt t \<longrightarrow> json_time L s = json_time L t \<longrightarrow> s = t)"

definition no_collision :: "libs \<Rightarrow> string \<Rightarrow> string \<Rightarrow> bool" where
  "no_collision L s t \<longleftrightarrow> (sha256_hex L s = sha256_hex L t \<longrightarrow> s = t)"

lemma json_time_eq: "times_distinct L \<Longrightarrow> utc_pydt s \<Longrightarrow> utc_pydt t \<Longrightarrow> json_time L s = json_time L t \<longleftrightarrow> s = t"
  by (auto simp: times_distinct_def)

lemma opt_json_time_eq:
  "times_distinct L \<Longrightarrow> typed_opt utc_pydt v \<Longrightarrow> typed_opt utc_pydt w \<Longrightarrow>
     opt_json_time L v = opt_json_time L w \<longleftrightarrow> v = w"
  by (cases v; cases w) (simp_all add: opt_json_time_def json_time_eq)

definition payload_text :: "(string \<times> json) list \<Rightarrow> string list \<Rightarrow> string" where
  "payload_text dump exclude = json_dumps (JObj (payload dump exclude))"

lemma fingerprint_eq_iff:
  assumes "map fst (payload a x) = map fst (payload b x)"
    and "wf_json (JObj (payload a x))" "wf_json (JObj (payload b x))"
    and "no_collision L (payload_text a x) (payload_text b x)"
  shows "fingerprint L a x = fingerprint L b x \<longleftrightarrow> map (canon \<circ> snd) (payload a x) = map (canon \<circ> snd) (payload b x)"
  using assms dumps_eq_iff [OF assms(1-3)]
  by (auto simp: fingerprint_def no_collision_def payload_text_def)

subsection \<open>What a submission says: its content without identity, arrival time and derived fields\<close>

definition epoch :: pydt where
  "epoch = \<lparr>year = 1970, month = 1, day = 1, hour = 0, minute = 0, second = 0, microsecond = 0, utcoffset = Some 0\<rparr>"

definition content_strategy :: "strategy \<Rightarrow> strategy" where
  "content_strategy s = s\<lparr>st_created_at := epoch\<rparr>"

definition content_strategy_version :: "strategy_version \<Rightarrow> strategy_version" where
  "content_strategy_version s = s\<lparr>sv_created_at := epoch\<rparr>"

definition content_experiment :: "experiment_record \<Rightarrow> experiment_record" where
  "content_experiment x = x\<lparr>ex_experiment_id := [], ex_created_at := epoch\<rparr>"

definition content_run :: "run \<Rightarrow> run" where
  "content_run r = r\<lparr>rn_run_id := [], rn_started_at := epoch, rn_provenance_completeness := INCOMPLETE,
     rn_missing_provenance := []\<rparr>"

definition content_evidence :: "evidence \<Rightarrow> evidence" where
  "content_evidence e = (canon_evidence e)\<lparr>ev_evidence_id := [], ev_created_at_utc := epoch,
     ev_provenance_completeness := INCOMPLETE, ev_missing_provenance := []\<rparr>"

text \<open>An artifact registration under a key: what the producer submitted, the blob and its labels.\<close>

definition content_artifact :: "artifact \<Rightarrow> string \<times> int \<times> string \<times> string" where
  "content_artifact a = (ar_sha256 a, ar_size_bytes a, ar_content_type a, ar_filename a)"

definition content_promotion :: "promotion \<Rightarrow> promotion" where
  "content_promotion p = p\<lparr>pt_transition_id := [], pt_at_utc := epoch\<rparr>"

definition content_health :: "health \<Rightarrow> health" where
  "content_health h = (canon_health h)\<lparr>hr_health_id := [], hr_observed_at_utc := epoch\<rparr>"

lemmas payload_simps = payload_def fp_excludes

lemma strategy_fp_eq_iff:
  assumes "no_collision L (payload_text (strategy_dump L s) STRATEGY_FP_EXCLUDE)
      (payload_text (strategy_dump L t) STRATEGY_FP_EXCLUDE)"
  shows "strategy_fp L s = strategy_fp L t \<longleftrightarrow> content_strategy s = content_strategy t"
  unfolding strategy_fp_def
  by (subst fingerprint_eq_iff [OF _ _ _ assms])
     (cases s; cases t; simp add: payload_simps strategy_dump_def content_strategy_def)+

lemma strategy_version_fp_eq_iff:
  assumes "no_collision L (payload_text (strategy_version_dump L s) STRATEGY_VERSION_FP_EXCLUDE)
      (payload_text (strategy_version_dump L t) STRATEGY_VERSION_FP_EXCLUDE)"
  shows "strategy_version_fp L s = strategy_version_fp L t \<longleftrightarrow>
      content_strategy_version s = content_strategy_version t"
  unfolding strategy_version_fp_def
  by (subst fingerprint_eq_iff [OF _ _ _ assms])
     (cases s; cases t; auto simp: payload_simps strategy_version_dump_def content_strategy_version_def)+

lemma experiment_fp_eq_iff:
  assumes "no_collision L (payload_text (experiment_dump L x) EXPERIMENT_FP_EXCLUDE)
      (payload_text (experiment_dump L y) EXPERIMENT_FP_EXCLUDE)"
  shows "experiment_fp L x = experiment_fp L y \<longleftrightarrow> content_experiment x = content_experiment y"
  unfolding experiment_fp_def
  by (subst fingerprint_eq_iff [OF _ _ _ assms])
     (cases x; cases y; auto simp: payload_simps experiment_dump_def content_experiment_def)+

lemma run_fp_eq_iff:
  assumes v: "valid_run r" "valid_run s" and t: "times_distinct L"
    and "no_collision L (payload_text (run_dump L r) RUN_FP_EXCLUDE) (payload_text (run_dump L s) RUN_FP_EXCLUDE)"
  shows "run_fp L r = run_fp L s \<longleftrightarrow> content_run r = content_run s"
proof -
  have e: "opt_json_time L (rn_ended_at r) = opt_json_time L (rn_ended_at s) \<longleftrightarrow> rn_ended_at r = rn_ended_at s"
    using v [THEN valid_run_utc] t by (simp add: opt_json_time_eq)
  have st: "run_status_value (rn_status r) = run_status_value (rn_status s) \<longleftrightarrow> rn_status r = rn_status s"
    by (auto dest: rs.val_inj)
  show ?thesis
    unfolding run_fp_def
    by (subst fingerprint_eq_iff [OF _ _ _ assms(4)])
       (use e st in \<open>cases r; cases s; auto simp: payload_simps run_dump_def content_run_def\<close>)+
qed

lemma evidence_fp_eq_iff:
  assumes v: "valid_evidence d" "valid_evidence e" and t: "times_distinct L"
    and c: "no_collision L (payload_text (evidence_dump L d) EVIDENCE_FP_EXCLUDE)
      (payload_text (evidence_dump L e) EVIDENCE_FP_EXCLUDE)"
  shows "evidence_fp L d = evidence_fp L e \<longleftrightarrow> content_evidence d = content_evidence e"
proof -
  have o: "opt_json_time L (ev_observed_at_utc d) = opt_json_time L (ev_observed_at_utc e) \<longleftrightarrow>
      ev_observed_at_utc d = ev_observed_at_utc e"
    using v [THEN valid_evidence_utc] t by (simp add: opt_json_time_eq)
  have ty: "evidence_type_value (ev_evidence_type d) = evidence_type_value (ev_evidence_type e) \<longleftrightarrow>
      ev_evidence_type d = ev_evidence_type e"
    by (auto dest: et.val_inj)
  have wf: "wf_json (JObj (ev_metrics d))" "wf_json (ev_notes d)" "wf_json (JObj (ev_metrics e))" "wf_json (ev_notes e)"
    using v by (simp_all add: valid_evidence_def typed_evidence_def)
  have p: "map fst (payload (evidence_dump L d) EVIDENCE_FP_EXCLUDE) =
      map fst (payload (evidence_dump L e) EVIDENCE_FP_EXCLUDE)"
    by (simp add: payload_simps evidence_dump_def)
  have w: "wf_json (JObj (payload (evidence_dump L d) EVIDENCE_FP_EXCLUDE))"
      "wf_json (JObj (payload (evidence_dump L e) EVIDENCE_FP_EXCLUDE))"
    using wf by (simp_all add: payload_simps evidence_dump_def)
  show ?thesis
    unfolding evidence_fp_def fingerprint_eq_iff [OF p w c]
    using o ty by (cases d; cases e) (auto simp: payload_simps evidence_dump_def content_evidence_def
        canon_evidence_def canon_JObj simp del: canon.simps(2))
qed

lemma artifact_idem_fp_eq_iff:
  assumes "no_collision L (payload_text (artifact_dump L a) ARTIFACT_IDEM_FP_EXCLUDE)
      (payload_text (artifact_dump L b) ARTIFACT_IDEM_FP_EXCLUDE)"
  shows "artifact_idem_fp L a = artifact_idem_fp L b \<longleftrightarrow> content_artifact a = content_artifact b"
  unfolding artifact_idem_fp_def
  by (subst fingerprint_eq_iff [OF _ _ _ assms])
     (cases a; cases b; auto simp: payload_simps artifact_dump_def content_artifact_def)+

lemma promotion_fp_eq_iff:
  assumes "no_collision L (payload_text (promotion_dump L p) PROMOTION_FP_EXCLUDE)
      (payload_text (promotion_dump L q) PROMOTION_FP_EXCLUDE)"
  shows "promotion_fp L p = promotion_fp L q \<longleftrightarrow> content_promotion p = content_promotion q"
proof -
  have ps: "promotion_state_value a = promotion_state_value b \<longleftrightarrow> a = b" for a b
    by (auto dest: ps.val_inj)
  show ?thesis
    unfolding promotion_fp_def
    by (subst fingerprint_eq_iff [OF _ _ _ assms])
       (cases p; cases q; auto simp: payload_simps promotion_dump_def content_promotion_def ps)+
qed

lemma health_fp_eq_iff:
  assumes v: "valid_health g" "valid_health h"
    and c: "no_collision L (payload_text (health_dump L g) HEALTH_FP_EXCLUDE) (payload_text (health_dump L h) HEALTH_FP_EXCLUDE)"
  shows "health_fp L g = health_fp L h \<longleftrightarrow> content_health g = content_health h"
proof -
  have st: "health_state_value a = health_state_value b \<longleftrightarrow> a = b" for a b
    by (auto dest: hs.val_inj)
  have p: "map fst (payload (health_dump L g) HEALTH_FP_EXCLUDE) = map fst (payload (health_dump L h) HEALTH_FP_EXCLUDE)"
    by (simp add: payload_simps health_dump_def)
  have w: "wf_json (JObj (payload (health_dump L g) HEALTH_FP_EXCLUDE))"
      "wf_json (JObj (payload (health_dump L h) HEALTH_FP_EXCLUDE))"
    using v by (simp_all add: payload_simps health_dump_def valid_health_def typed_health_def health_floats_def)
  show ?thesis
    unfolding health_fp_def fingerprint_eq_iff [OF p w c]
    by (cases g; cases h) (auto simp: payload_simps health_dump_def content_health_def canon_health_def st)
qed

end
