(* ===== verification/MetaStore.thy ===== *)
theory MetaStore
  imports Fingerprint
begin

text \<open>
  The operations of \<open>SQLiteMetadataStore\<close> (\<open>src/cer/metadata/sqlite_store.py\<close>). The state is the
  content of the database (\<open>db\<close>); a write returns its result with the new content, a read its
  result alone. What the file system and SQLite do during a call is an argument (\<open>env\<close>).
  \<open>BEGIN IMMEDIATE\<close> serialises the writers, so a transaction is one step.
\<close>

record env =
  path_exists :: bool \<comment> \<open>\<open>_db_path.exists()\<close>\<close>
  connects :: bool \<comment> \<open>\<open>_open_connection\<close> succeeds\<close>
  begins :: bool \<comment> \<open>\<open>BEGIN IMMEDIATE\<close> succeeds\<close>
  commits :: bool \<comment> \<open>\<open>COMMIT\<close> succeeds\<close>
  reads :: bool \<comment> \<open>a \<open>SELECT\<close> outside a transaction succeeds\<close>

type_synonym 'a outcome = "(exn + 'a) \<times> db"

subsection \<open>Transactions\<close>

definition require_durable_backing :: "env \<Rightarrow> exn + unit" where
  "require_durable_backing v = (if path_exists v then Inr () else raise_cer MetadataStoreError)"

text \<open>\<open>_transaction\<close>: any exception of the body, or of \<open>COMMIT\<close>, rolls back and is re-raised.\<close>

definition transaction :: "env \<Rightarrow> (db \<Rightarrow> 'a outcome) \<Rightarrow> db \<Rightarrow> 'a outcome" where
  "transaction v body d =
     (case require_durable_backing v of
        Inl e \<Rightarrow> (Inl e, d)
      | Inr _ \<Rightarrow>
          if \<not> connects v then (raise_cer MetadataStoreError, d)
          else if \<not> begins v then (raise_cer MetadataStoreError, d)
          else (case body d of
              (Inl e, _) \<Rightarrow> (Inl e, d)
            | (Inr x, d') \<Rightarrow> if commits v then (Inr x, d') else (Inl SqlError, d)))"

definition try_tx :: "exn + 'a \<Rightarrow> db \<Rightarrow> ('a \<Rightarrow> 'b outcome) \<Rightarrow> 'b outcome" where
  "try_tx r d k = (case r of Inl e \<Rightarrow> (Inl e, d) | Inr x \<Rightarrow> k x)"

definition insert_into :: "table \<Rightarrow> row \<Rightarrow> 'a \<Rightarrow> db \<Rightarrow> 'a outcome" where
  "insert_into t r x d =
     (if \<not> list_all (\<lambda>(c, v). int64 v) r then (Inl PyOverflowError, d)
      else if insert_ok t r d then (Inr x, d(t := d t @ [r]))
      else (Inl SqlError, d))"

definition set_cols :: "(string \<times> sqlv) list \<Rightarrow> row \<Rightarrow> row" where
  "set_cols sets r = fold (\<lambda>(c, v). set_col c v) sets r"

definition update_where :: "table \<Rightarrow> clause list \<Rightarrow> (string \<times> sqlv) list \<Rightarrow> db \<Rightarrow> unit outcome" where
  "update_where t cs sets d =
     (let rows = map (\<lambda>r. if matches cs r then set_cols sets r else r) (d t) in
      if list_all (\<lambda>r. list_all (refers d r) (foreign_keys t)) rows then (Inr (), d(t := rows))
      else (Inl SqlError, d))"

subsection \<open>Existence guards\<close>

definition require_row :: "table \<Rightarrow> string \<Rightarrow> string \<Rightarrow> db \<Rightarrow> exn + unit" where
  "require_row t c i d = (case select_one [Eq c (Text i)] (d t) of
     None \<Rightarrow> raise_cer NotFoundError | Some _ \<Rightarrow> Inr ())"

definition require_strategy :: "string \<Rightarrow> db \<Rightarrow> exn + unit" where
  "require_strategy = require_row strategies ''strategy_id''"

definition require_experiment :: "string \<Rightarrow> db \<Rightarrow> exn + unit" where
  "require_experiment = require_row experiments ''experiment_id''"

definition require_run :: "string \<Rightarrow> db \<Rightarrow> exn + unit" where
  "require_run = require_row runs ''run_id''"

definition require_evidence :: "string \<Rightarrow> db \<Rightarrow> exn + unit" where
  "require_evidence = require_row evidence_t ''evidence_id''"

definition if_given :: "('a \<Rightarrow> db \<Rightarrow> exn + unit) \<Rightarrow> 'a option \<Rightarrow> db \<Rightarrow> exn + unit" where
  "if_given f v d = (case v of None \<Rightarrow> Inr () | Some x \<Rightarrow> f x d)"

definition by_key :: "table \<Rightarrow> string \<Rightarrow> string \<Rightarrow> db \<Rightarrow> row option" where
  "by_key t p k d = select_one [Eq ''producer'' (Text p), Eq ''idempotency_key'' (Text k)] (d t)"

definition by_opt_key :: "table \<Rightarrow> string \<Rightarrow> string option \<Rightarrow> db \<Rightarrow> row option" where
  "by_opt_key t p key d = (case key of None \<Rightarrow> None | Some k \<Rightarrow> by_key t p k d)"

subsection \<open>Strategies and versions\<close>

definition register_strategy_tx :: "libs \<Rightarrow> strategy \<Rightarrow> db \<Rightarrow> strategy outcome" where
  "register_strategy_tx L s d =
     (case select_one [Eq ''strategy_id'' (Text (st_strategy_id s))] (d strategies) of
        Some row \<Rightarrow> try_tx (row_to_strategy (st_strategy_id s) row) d (\<lambda>existing.
          if strategy_fp L existing \<noteq> strategy_fp L s then (raise_cer ImmutabilityError, d)
          else (Inr existing, d))
      | None \<Rightarrow> insert_into strategies (strategy_row s) s d)"

definition register_strategy :: "libs \<Rightarrow> env \<Rightarrow> strategy \<Rightarrow> db \<Rightarrow> strategy outcome" where
  "register_strategy L v s = transaction v (register_strategy_tx L s)"

definition register_strategy_version_tx :: "libs \<Rightarrow> strategy_version \<Rightarrow> db \<Rightarrow> strategy_version outcome" where
  "register_strategy_version_tx L s d =
     try_tx (require_strategy (sv_strategy_id s) d) d (\<lambda>_.
       case select_one [Eq ''strategy_id'' (Text (sv_strategy_id s)),
           Eq ''strategy_version'' (Text (sv_strategy_version s))] (d strategy_versions) of
         Some row \<Rightarrow> try_tx (row_to_strategy_version (sv_strategy_id s) (sv_strategy_version s) row) d (\<lambda>existing.
           if strategy_version_fp L existing \<noteq> strategy_version_fp L s then (raise_cer ImmutabilityError, d)
           else (Inr existing, d))
       | None \<Rightarrow> insert_into strategy_versions (strategy_version_row s) s d)"

definition register_strategy_version ::
    "libs \<Rightarrow> env \<Rightarrow> strategy_version \<Rightarrow> db \<Rightarrow> strategy_version outcome" where
  "register_strategy_version L v s = transaction v (register_strategy_version_tx L s)"

subsection \<open>Experiments\<close>

definition create_experiment_tx ::
    "libs \<Rightarrow> string option \<Rightarrow> experiment_record \<Rightarrow> db \<Rightarrow> experiment_record outcome" where
  "create_experiment_tx L key x d =
     (let fp = experiment_fp L x in
      case by_opt_key experiments (ex_producer x) key d of
        Some row \<Rightarrow>
          if col row ''content_fingerprint'' \<noteq> Text fp then (raise_cer IdempotencyConflictError, d)
          else (row_to_experiment row, d)
      | None \<Rightarrow>
          (case select_one [Eq ''experiment_id'' (Text (ex_experiment_id x))] (d experiments) of
             Some row \<Rightarrow> try_tx (row_to_experiment row) d (\<lambda>existing.
               if experiment_fp L existing \<noteq> fp then (raise_cer ImmutabilityError, d) else (Inr existing, d))
           | None \<Rightarrow> insert_into experiments (experiment_row key fp x) x d))"

definition create_experiment ::
    "libs \<Rightarrow> env \<Rightarrow> string option \<Rightarrow> experiment_record \<Rightarrow> db \<Rightarrow> experiment_record outcome" where
  "create_experiment L v key x = transaction v (create_experiment_tx L key x)"

subsection \<open>Runs\<close>

definition fetch_run :: "string \<Rightarrow> db \<Rightarrow> exn + run" where
  "fetch_run i d = (case select_one [Eq ''run_id'' (Text i)] (d runs) of
     None \<Rightarrow> raise_cer NotFoundError | Some row \<Rightarrow> row_to_run row)"

definition create_run_tx :: "libs \<Rightarrow> string option \<Rightarrow> run \<Rightarrow> db \<Rightarrow> run outcome" where
  "create_run_tx L key r d =
     try_tx (require_experiment (rn_experiment_id r) d) d (\<lambda>_.
       let fp = run_fp L r in
       case by_opt_key runs (rn_producer r) key d of
         Some row \<Rightarrow>
           if col row ''content_fingerprint'' \<noteq> Text fp then (raise_cer IdempotencyConflictError, d)
           else (fetch_run (text_col row ''run_id'') d, d)
       | None \<Rightarrow>
           (case select_one [Eq ''run_id'' (Text (rn_run_id r))] (d runs) of
              Some _ \<Rightarrow> (raise_cer ImmutabilityError, d)
            | None \<Rightarrow> insert_into runs (run_row key fp r) r d))"

definition create_run :: "libs \<Rightarrow> env \<Rightarrow> string option \<Rightarrow> run \<Rightarrow> db \<Rightarrow> run outcome" where
  "create_run L v key r = transaction v (create_run_tx L key r)"

definition close_run_tx :: "string \<Rightarrow> run_status \<Rightarrow> pydt \<Rightarrow> db \<Rightarrow> run outcome" where
  "close_run_tx i st ended d =
     (case select_one [Eq ''run_id'' (Text i)] (d runs) of
        None \<Rightarrow> (raise_cer NotFoundError, d)
      | Some row \<Rightarrow>
          if col row ''status'' \<noteq> Text (run_status_value OPEN) then (raise_cer ImmutabilityError, d)
          else (case update_where runs [Eq ''run_id'' (Text i)]
                  [(''status'', Text (run_status_value st)), (''ended_at'', Text (dt_to_str ended))] d of
              (Inl e, d') \<Rightarrow> (Inl e, d')
            | (Inr _, d') \<Rightarrow> (fetch_run i d', d')))"

definition close_run :: "env \<Rightarrow> string \<Rightarrow> run_status \<Rightarrow> pydt \<Rightarrow> db \<Rightarrow> run outcome" where
  "close_run v i st ended d =
     (case to_utc ended of Inl e \<Rightarrow> (Inl e, d) | Inr t \<Rightarrow> transaction v (close_run_tx i st t) d)"

subsection \<open>Evidence\<close>

definition fetch_evidence :: "string \<Rightarrow> db \<Rightarrow> exn + evidence" where
  "fetch_evidence i d = (case select_one [Eq ''evidence_id'' (Text i)] (d evidence_t) of
     None \<Rightarrow> raise_cer NotFoundError | Some row \<Rightarrow> row_to_evidence row)"

definition append_evidence_tx :: "libs \<Rightarrow> evidence \<Rightarrow> db \<Rightarrow> evidence outcome" where
  "append_evidence_tx L e d =
     try_tx (if_given require_run (ev_run_id e) d) d (\<lambda>_.
     try_tx (if_given require_experiment (ev_experiment_id e) d) d (\<lambda>_.
       let fp = evidence_fp L e in
       case by_key evidence_t (ev_producer e) (ev_idempotency_key e) d of
         Some row \<Rightarrow>
           if col row ''content_fingerprint'' \<noteq> Text fp then (raise_cer IdempotencyConflictError, d)
           else (fetch_evidence (text_col row ''evidence_id'') d, d)
       | None \<Rightarrow>
           (case select_one [Eq ''evidence_id'' (Text (ev_evidence_id e))] (d evidence_t) of
              Some row \<Rightarrow>
                if col row ''content_fingerprint'' \<noteq> Text fp then (raise_cer ImmutabilityError, d)
                else (fetch_evidence (ev_evidence_id e) d, d)
            | None \<Rightarrow> insert_into evidence_t (evidence_row fp e) e d)))"

definition append_evidence :: "libs \<Rightarrow> env \<Rightarrow> evidence \<Rightarrow> db \<Rightarrow> evidence outcome" where
  "append_evidence L v e = transaction v (append_evidence_tx L e)"

text \<open>A read: this thread's connection, then the statement.\<close>

definition reading :: "env \<Rightarrow> exn + 'a \<Rightarrow> exn + 'a" where
  "reading v r = (if \<not> connects v then raise_cer MetadataStoreError
     else if \<not> reads v then Inl SqlError else r)"

definition get_evidence :: "env \<Rightarrow> string \<Rightarrow> db \<Rightarrow> exn + evidence" where
  "get_evidence v i d = reading v (fetch_evidence i d)"

text \<open>\<open>SELECT * ... ORDER BY c DESC, d DESC LIMIT ? OFFSET ?\<close>, every row decoded.\<close>

definition run_query ::
    "env \<Rightarrow> table \<Rightarrow> clause list \<Rightarrow> string \<Rightarrow> string \<Rightarrow> int \<Rightarrow> int \<Rightarrow> (row \<Rightarrow> exn + 'a) \<Rightarrow> db \<Rightarrow> exn + 'a list" where
  "run_query v t cs c i limit offset decode d =
     (if \<not> connects v then raise_cer MetadataStoreError
      else if \<not> int64 (Integer limit) \<or> \<not> int64 (Integer offset) then Inl PyOverflowError
      else if \<not> reads v then Inl SqlError
      else map_result decode (page limit offset (order_desc c i (select_all cs (d t)))))"

definition opt_clause :: "string \<Rightarrow> string option \<Rightarrow> clause list" where
  "opt_clause c v = (case v of None \<Rightarrow> [] | Some s \<Rightarrow> [Eq c (Text s)])"

definition opt_time_clause :: "(string \<Rightarrow> sqlv \<Rightarrow> clause) \<Rightarrow> string \<Rightarrow> pydt option \<Rightarrow> exn + clause list" where
  "opt_time_clause op c v = (case v of None \<Rightarrow> Inr []
     | Some t \<Rightarrow> rbind (to_utc t) (\<lambda>u. Inr [op c (Text (dt_to_str u))]))"

record evidence_filter =
  f_strategy_id :: "string option"
  f_strategy_version :: "string option"
  f_run_id :: "string option"
  f_experiment_id :: "string option"
  f_evidence_type :: "evidence_type option"
  f_since :: "pydt option"
  f_until :: "pydt option"

definition evidence_clauses :: "evidence_filter \<Rightarrow> exn + clause list" where
  "evidence_clauses f =
     rbind (opt_time_clause Ge ''created_at_utc'' (f_since f)) (\<lambda>since.
     rbind (opt_time_clause Le ''created_at_utc'' (f_until f)) (\<lambda>until.
       Inr (opt_clause ''strategy_id'' (f_strategy_id f) @
            opt_clause ''strategy_version'' (f_strategy_version f) @
            opt_clause ''run_id'' (f_run_id f) @
            opt_clause ''experiment_id'' (f_experiment_id f) @
            opt_clause ''evidence_type'' (map_option evidence_type_value (f_evidence_type f)) @
            since @ until)))"

definition query_evidence :: "env \<Rightarrow> evidence_filter \<Rightarrow> int \<Rightarrow> int \<Rightarrow> db \<Rightarrow> exn + evidence list" where
  "query_evidence v f limit offset d =
     rbind (evidence_clauses f) (\<lambda>cs.
       run_query v evidence_t cs ''created_at_utc'' ''evidence_id'' limit offset row_to_evidence d)"

subsection \<open>Artifacts\<close>

definition require_producer_for_key :: "string option \<Rightarrow> exn + string" where
  "require_producer_for_key p = (case p of None \<Rightarrow> raise_cer ContractViolationError
     | Some s \<Rightarrow> if strip s = [] then raise_cer ContractViolationError else Inr s)"

definition find_artifact_by_idempotency_key :: "env \<Rightarrow> string \<Rightarrow> string \<Rightarrow> db \<Rightarrow> exn + artifact option" where
  "find_artifact_by_idempotency_key v p k d =
     rbind (require_producer_for_key (Some p)) (\<lambda>_.
       reading v (case by_key artifacts p k d of None \<Rightarrow> Inr None
         | Some row \<Rightarrow> rbind (row_to_artifact row) (\<lambda>a. Inr (Some a))))"

text \<open>The registration once the key, if any, is known to be unused.\<close>

definition register_new_artifact ::
    "libs \<Rightarrow> string option \<Rightarrow> string option \<Rightarrow> artifact \<Rightarrow> db \<Rightarrow> artifact outcome" where
  "register_new_artifact L key producer a d =
     (let fp = artifact_fp L a; idem_fp = artifact_idem_fp L a in
      case select_one [Eq ''artifact_id'' (Text (ar_artifact_id a))] (d artifacts) of
        Some row \<Rightarrow>
          if col row ''content_fingerprint'' \<noteq> Text fp then (raise_cer ImmutabilityError, d)
          else (row_to_artifact row, d)
      | None \<Rightarrow>
          insert_into artifacts
            (artifact_row (if key \<noteq> None then producer else None) key fp
              (if key \<noteq> None then Some idem_fp else None) a) a d)"

definition register_artifact_tx ::
    "libs \<Rightarrow> string option \<Rightarrow> string option \<Rightarrow> artifact \<Rightarrow> db \<Rightarrow> artifact outcome" where
  "register_artifact_tx L key producer a d =
     try_tx (if_given require_run (ar_run_id a) d) d (\<lambda>_.
     try_tx (if_given require_evidence (ar_evidence_id a) d) d (\<lambda>_.
       case key of
         None \<Rightarrow> register_new_artifact L key producer a d
       | Some k \<Rightarrow> try_tx (require_producer_for_key producer) d (\<lambda>p.
           case by_key artifacts p k d of
             Some row \<Rightarrow>
               if col row ''idempotency_fingerprint'' \<noteq> Text (artifact_idem_fp L a)
               then (raise_cer IdempotencyConflictError, d)
               else (row_to_artifact row, d)
           | None \<Rightarrow> register_new_artifact L key producer a d)))"

definition register_artifact ::
    "libs \<Rightarrow> env \<Rightarrow> string option \<Rightarrow> string option \<Rightarrow> artifact \<Rightarrow> db \<Rightarrow> artifact outcome" where
  "register_artifact L v key producer a = transaction v (register_artifact_tx L key producer a)"

text \<open>One of the two links of \<open>attach_artifact\<close>: the column's new value, or the refusal to relink.\<close>

definition link :: "sqlv \<Rightarrow> string option \<Rightarrow> exn + sqlv" where
  "link old new = (case new of None \<Rightarrow> Inr old
     | Some s \<Rightarrow> if old \<noteq> Null \<and> old \<noteq> Text s then raise_cer ImmutabilityError else Inr (Text s))"

definition attach_artifact_tx :: "string \<Rightarrow> string option \<Rightarrow> string option \<Rightarrow> db \<Rightarrow> artifact outcome" where
  "attach_artifact_tx i evidence_id run_id d =
     (case select_one [Eq ''artifact_id'' (Text i)] (d artifacts) of
        None \<Rightarrow> (raise_cer NotFoundError, d)
      | Some row \<Rightarrow>
          try_tx (if_given require_evidence evidence_id d) d (\<lambda>_.
          try_tx (if_given require_run run_id d) d (\<lambda>_.
          try_tx (link (col row ''evidence_id'') evidence_id) d (\<lambda>new_evidence.
          try_tx (link (col row ''run_id'') run_id) d (\<lambda>new_run.
            if new_evidence \<noteq> col row ''evidence_id'' \<or> new_run \<noteq> col row ''run_id'' then
              (case update_where artifacts [Eq ''artifact_id'' (Text i)]
                      [(''evidence_id'', new_evidence), (''run_id'', new_run)] d of
                 (Inl e, d') \<Rightarrow> (Inl e, d')
               | (Inr _, d') \<Rightarrow>
                   ((case select_one [Eq ''artifact_id'' (Text i)] (d' artifacts) of
                       None \<Rightarrow> Inl PyTypeError
                     | Some row' \<Rightarrow> row_to_artifact row'), d'))
            else (row_to_artifact row, d))))))"

definition attach_artifact ::
    "env \<Rightarrow> string \<Rightarrow> string option \<Rightarrow> string option \<Rightarrow> db \<Rightarrow> artifact outcome" where
  "attach_artifact v i evidence_id run_id = transaction v (attach_artifact_tx i evidence_id run_id)"

definition get_artifact :: "env \<Rightarrow> string \<Rightarrow> db \<Rightarrow> exn + artifact" where
  "get_artifact v i d = reading v (case select_one [Eq ''artifact_id'' (Text i)] (d artifacts) of
     None \<Rightarrow> raise_cer NotFoundError | Some row \<Rightarrow> row_to_artifact row)"

definition query_artifacts ::
    "env \<Rightarrow> string option \<Rightarrow> string option \<Rightarrow> int \<Rightarrow> int \<Rightarrow> db \<Rightarrow> exn + artifact list" where
  "query_artifacts v evidence_id run_id limit offset d =
     run_query v artifacts (opt_clause ''evidence_id'' evidence_id @ opt_clause ''run_id'' run_id)
       ''registered_at'' ''artifact_id'' limit offset row_to_artifact d"

subsection \<open>Promotions and health records\<close>

text \<open>
  \<open>==\<close> of two \<open>model_dump\<close>s: dicts compare as maps, and a number equals a number of another
  type with the same value (a float of at most sixteen digits, the ones \<open>repr\<close> writes plainly).
\<close>

definition int_float_eq :: "int \<Rightarrow> string \<Rightarrow> bool" where
  "int_float_eq i s = (s = show_int i @ ''.0'' \<or> i = 0 \<and> s = ''-0.0'')"

fun number_eq :: "json \<Rightarrow> json \<Rightarrow> bool" where
  "number_eq (JFloat s) (JFloat t) = (s = t \<or> s \<in> {''0.0'', ''-0.0''} \<and> t \<in> {''0.0'', ''-0.0''})"
| "number_eq (JFloat s) (JInt i) = int_float_eq i s"
| "number_eq (JInt i) (JFloat s) = int_float_eq i s"
| "number_eq (JFloat s) (JBool b) = int_float_eq (of_bool b) s"
| "number_eq (JBool b) (JFloat s) = int_float_eq (of_bool b) s"
| "number_eq (JInt i) (JBool b) = (i = of_bool b)"
| "number_eq (JBool b) (JInt i) = (i = of_bool b)"
| "number_eq v w = (v = w)"

fun py_eq :: "json \<Rightarrow> json \<Rightarrow> bool" where
  "py_eq (JList xs) w = (case w of JList ys \<Rightarrow> list_all2 py_eq xs ys | _ \<Rightarrow> False)"
| "py_eq (JObj xs) w = (case w of
     JObj ys \<Rightarrow> length xs = length ys \<and>
       list_all (\<lambda>(k, x). case map_of ys k of Some y \<Rightarrow> py_eq x y | None \<Rightarrow> False) xs
   | _ \<Rightarrow> False)"
| "py_eq v w = number_eq v w"

definition record_promotion_tx :: "libs \<Rightarrow> string option \<Rightarrow> promotion \<Rightarrow> db \<Rightarrow> promotion outcome" where
  "record_promotion_tx L key p d =
     (let fp = promotion_fp L p in
      case by_opt_key promotions (pt_producer p) key d of
        Some row \<Rightarrow>
          if col row ''content_fingerprint'' \<noteq> Text fp then (raise_cer IdempotencyConflictError, d)
          else (row_to_promotion row, d)
      | None \<Rightarrow>
          (case select_one [Eq ''transition_id'' (Text (pt_transition_id p))] (d promotions) of
             Some row \<Rightarrow> try_tx (row_to_promotion row) d (\<lambda>existing.
               if \<not> py_eq (JObj (promotion_dump L existing)) (JObj (promotion_dump L p))
               then (raise_cer ImmutabilityError, d) else (Inr existing, d))
           | None \<Rightarrow> insert_into promotions (promotion_row key fp p) p d))"

definition record_promotion :: "libs \<Rightarrow> env \<Rightarrow> string option \<Rightarrow> promotion \<Rightarrow> db \<Rightarrow> promotion outcome" where
  "record_promotion L v key p = transaction v (record_promotion_tx L key p)"

definition query_promotions ::
    "env \<Rightarrow> string option \<Rightarrow> string option \<Rightarrow> int \<Rightarrow> int \<Rightarrow> db \<Rightarrow> exn + promotion list" where
  "query_promotions v strategy_id strategy_version limit offset d =
     run_query v promotions
       (opt_clause ''strategy_id'' strategy_id @ opt_clause ''strategy_version'' strategy_version)
       ''at_utc'' ''transition_id'' limit offset row_to_promotion d"

definition record_health_tx :: "libs \<Rightarrow> string option \<Rightarrow> health \<Rightarrow> db \<Rightarrow> health outcome" where
  "record_health_tx L key h d =
     (let fp = health_fp L h in
      case by_opt_key health_records (hr_producer h) key d of
        Some row \<Rightarrow>
          if col row ''content_fingerprint'' \<noteq> Text fp then (raise_cer IdempotencyConflictError, d)
          else (row_to_health row, d)
      | None \<Rightarrow>
          (case select_one [Eq ''health_id'' (Text (hr_health_id h))] (d health_records) of
             Some row \<Rightarrow> try_tx (row_to_health row) d (\<lambda>existing.
               if \<not> py_eq (JObj (health_dump L existing)) (JObj (health_dump L h))
               then (raise_cer ImmutabilityError, d) else (Inr existing, d))
           | None \<Rightarrow> insert_into health_records (health_row key fp h) h d))"

definition record_health :: "libs \<Rightarrow> env \<Rightarrow> string option \<Rightarrow> health \<Rightarrow> db \<Rightarrow> health outcome" where
  "record_health L v key h = transaction v (record_health_tx L key h)"

definition query_health ::
    "env \<Rightarrow> string option \<Rightarrow> string option \<Rightarrow> int \<Rightarrow> int \<Rightarrow> db \<Rightarrow> exn + health list" where
  "query_health v strategy_id strategy_version limit offset d =
     run_query v health_records
       (opt_clause ''strategy_id'' strategy_id @ opt_clause ''strategy_version'' strategy_version)
       ''observed_at_utc'' ''health_id'' limit offset row_to_health d"

subsection \<open>\<open>health()\<close>\<close>

text \<open>
  The readiness probe on a fresh connection. \<open>applied\<close> is the version column of
  \<open>schema_migrations\<close>, \<open>None\<close> when reading the table fails; \<open>expected\<close> is
  \<open>_expected_schema_version\<close>.
\<close>

definition store_health :: "env \<Rightarrow> nat list option \<Rightarrow> nat option \<Rightarrow> exn + unit" where
  "store_health v applied expected =
     (case require_durable_backing v of
        Inl _ \<Rightarrow> raise_cer MetadataStoreError
      | Inr _ \<Rightarrow>
          if \<not> connects v then raise_cer MetadataStoreError
          else (case applied of
              None \<Rightarrow> raise_cer MetadataStoreError
            | Some vs \<Rightarrow>
                if vs = [] then raise_cer MetadataStoreError
                else if (case expected of None \<Rightarrow> False | Some n \<Rightarrow> n \<notin> set vs) then raise_cer MetadataStoreError
                else if \<not> begins v then raise_cer MetadataStoreError
                else Inr ()))"

end
