(* ===== verification/StoreInv.thy ===== *)
theory StoreInv
  imports MetaStore
begin

text \<open>
  How the content of the database evolves: a step relation with four kinds of step (nothing, a
  row inserted, a run closed, an artifact linked), the invariant that every reachable content
  satisfies, and the order \<open>extends\<close> in which every step goes up. The operations of \<open>MetaStore\<close>
  are shown to be such steps in \<open>StoreOps\<close>.
\<close>

subsection \<open>Integrity: the constraints of the schema hold\<close>

definition unrelated :: "table \<Rightarrow> row \<Rightarrow> row \<Rightarrow> bool" where
  "unrelated t r s = (\<not> same_on (primary_key t) r s \<and> (keyed t \<longrightarrow> \<not> same_on key_cols r s))"

definition table_ok :: "db \<Rightarrow> table \<Rightarrow> bool" where
  "table_ok d t \<longleftrightarrow> sorted_wrt (\<lambda>s r. unrelated t r s) (d t) \<and>
     (\<forall>r \<in> set (d t). list_all (\<lambda>c. col r c \<noteq> Null) (not_null t) \<and> list_all (refers d r) (foreign_keys t))"

definition integrity :: "db \<Rightarrow> bool" where
  "integrity d \<longleftrightarrow> (\<forall>t. table_ok d t)"

lemma insert_ok_eq:
  "insert_ok t r d \<longleftrightarrow> (\<forall>s \<in> set (d t). unrelated t r s) \<and> list_all (\<lambda>c. col r c \<noteq> Null) (not_null t) \<and>
     list_all (refers d r) (foreign_keys t)"
  by (auto simp: insert_ok_def unrelated_def)

lemma foreign_key_primary: "(c, t', pk) \<in> set (foreign_keys t) \<Longrightarrow> pk \<in> set (primary_key t')"
  by (cases t) auto

lemma refers_mono:
  assumes "refers d r (c, t', pk)" "\<And>s. s \<in> set (d t') \<Longrightarrow> \<exists>s' \<in> set (d' t'). col s' pk = col s pk"
  shows "refers d' r (c, t', pk)"
  using assms by (fastforce simp: refers_def)

lemma integrity_empty: "integrity empty_db"
  by (simp add: integrity_def table_ok_def empty_db_def)

lemma integrity_insert:
  assumes d: "integrity d" and i: "insert_ok t r d"
  shows "integrity (d(t := d t @ [r]))"
proof -
  let ?d = "d(t := d t @ [r])"
  have mono: "list_all (refers ?d s) fks" if "list_all (refers d s) fks" for s fks
    using that by (force simp: list_all_iff intro: refers_mono)
  have "table_ok ?d u" for u
  proof (cases "u = t")
    case True
    have "sorted_wrt (\<lambda>s r. unrelated t r s) (d t @ [r])"
      using d i by (auto simp: integrity_def table_ok_def insert_ok_eq sorted_wrt_append)
    moreover have "\<forall>s \<in> set (d t @ [r]). list_all (\<lambda>c. col s c \<noteq> Null) (not_null t) \<and>
        list_all (refers d s) (foreign_keys t)"
      using d i by (auto simp: integrity_def table_ok_def insert_ok_eq)
    ultimately show ?thesis using True mono by (auto simp: table_ok_def)
  next
    case False
    then show ?thesis using d mono by (auto simp: integrity_def table_ok_def)
  qed
  then show ?thesis by (simp add: integrity_def)
qed

lemma same_on_cong:
  "(\<And>c. c \<in> set cs \<Longrightarrow> col r' c = col r c) \<Longrightarrow> (\<And>c. c \<in> set cs \<Longrightarrow> col s' c = col s c) \<Longrightarrow>
     same_on cs r' s' = same_on cs r s"
  by (auto simp: same_on_def list_all_iff)

lemma integrity_update:
  assumes d: "integrity d"
    and keep: "\<And>r c. r \<in> set (d t) \<Longrightarrow> c \<in> set (primary_key t) \<union> set key_cols \<Longrightarrow> col (f r) c = col r c"
    and nn: "\<And>r c. r \<in> set (d t) \<Longrightarrow> c \<in> set (not_null t) \<Longrightarrow> col (f r) c \<noteq> Null"
    and refs: "\<And>r. r \<in> set (d t) \<Longrightarrow> list_all (refers d (f r)) (foreign_keys t)"
  shows "integrity (d(t := map f (d t)))"
proof -
  let ?d = "d(t := map f (d t))"
  have mono: "list_all (refers ?d s) (foreign_keys u)" if "list_all (refers d s) (foreign_keys u)" for s u
  proof -
    have "refers ?d s fk" if "fk \<in> set (foreign_keys u)" for fk
    proof (cases fk)
      case (fields c t' pk)
      with that have pk: "pk \<in> set (primary_key t')" by (auto intro: foreign_key_primary)
      have "refers d s (c, t', pk)"
        using \<open>list_all (refers d s) (foreign_keys u)\<close> that fields by (auto simp: list_all_iff)
      then show ?thesis unfolding fields
        by (rule refers_mono) (use keep pk in \<open>auto split: if_splits\<close>)
    qed
    then show ?thesis by (simp add: list_all_iff)
  qed
  have "sorted_wrt (\<lambda>s r. unrelated t r s) (map f (d t))"
  proof -
    have "sorted_wrt (\<lambda>s r. unrelated t r s) (d t)" using d by (simp add: integrity_def table_ok_def)
    then have "sorted_wrt (\<lambda>s r. unrelated t (f r) (f s)) (d t)"
    proof (rule sorted_wrt_mono_rel [rotated])
      fix s r assume "s \<in> set (d t)" "r \<in> set (d t)" "unrelated t r s"
      moreover have "same_on (primary_key t) (f r) (f s) = same_on (primary_key t) r s"
        "same_on key_cols (f r) (f s) = same_on key_cols r s"
        using calculation keep by (auto intro!: same_on_cong)
      ultimately show "unrelated t (f r) (f s)" by (simp add: unrelated_def)
    qed
    then show ?thesis by (simp add: sorted_wrt_map)
  qed
  moreover have "list_all (\<lambda>c. col r c \<noteq> Null) (not_null u)" if "r \<in> set (?d u)" for u r
    using that d nn by (cases "u = t") (auto simp: integrity_def table_ok_def list_all_iff)
  moreover have "list_all (refers ?d r) (foreign_keys u)" if "r \<in> set (?d u)" for u r
    using that d refs by (cases "u = t") (auto simp: integrity_def table_ok_def intro!: mono)
  ultimately have "table_ok ?d u" for u
    using d by (cases "u = t") (simp_all add: integrity_def table_ok_def)
  then show ?thesis by (simp add: integrity_def)
qed

text \<open>At most one row satisfies a condition that pins the primary key or the idempotency key.\<close>

lemma sql_eq_commute: "sql_eq v w = sql_eq w v"
  by (auto simp: sql_eq_def)

lemma sorted_wrt_unique:
  "sorted_wrt P xs \<Longrightarrow> r \<in> set xs \<Longrightarrow> s \<in> set xs \<Longrightarrow> \<not> P r s \<Longrightarrow> \<not> P s r \<Longrightarrow> r = s"
  by (induction xs) auto

lemma same_on_commute: "same_on cs r s = same_on cs s r"
  by (simp add: same_on_def sql_eq_commute)

lemma unique_row:
  assumes d: "integrity d" and rs: "r \<in> set (d t)" "s \<in> set (d t)"
    and "same_on (primary_key t) r s \<or> keyed t \<and> same_on key_cols r s"
  shows "r = s"
proof (rule sorted_wrt_unique [OF _ rs])
  show "sorted_wrt (\<lambda>s r. unrelated t r s) (d t)" using d by (simp add: integrity_def table_ok_def)
qed (use assms(4) in \<open>auto simp: unrelated_def same_on_commute\<close>)

lemma by_key_Some:
  assumes "by_key t p k d = Some r"
  shows "r \<in> set (d t)" "col r ''producer'' = Text p" "col r ''idempotency_key'' = Text k"
  using assms by (auto simp: by_key_def dest: select_one_Some)

subsection \<open>Stored rows are the rows of valid objects\<close>

text \<open>A run keeps the fingerprint it was created with while its status and end are updated.\<close>

fun stored :: "libs \<Rightarrow> table \<Rightarrow> row \<Rightarrow> bool" where
  "stored L strategies r = (\<exists>s. valid_strategy s \<and> r = strategy_row s)"
| "stored L strategy_versions r = (\<exists>s. valid_strategy_version s \<and> r = strategy_version_row s)"
| "stored L experiments r = (\<exists>key x. valid_experiment x \<and> r = experiment_row key (experiment_fp L x) x)"
| "stored L runs r = (\<exists>key x st en. valid_run x \<and> valid_run (x\<lparr>rn_status := st, rn_ended_at := en\<rparr>) \<and>
     r = run_row key (run_fp L x) (x\<lparr>rn_status := st, rn_ended_at := en\<rparr>))"
| "stored L evidence_t r = (\<exists>e. valid_evidence e \<and> r = evidence_row (evidence_fp L e) e)"
| "stored L artifacts r = (\<exists>producer key a. valid_artifact a \<and>
     r = artifact_row producer key (artifact_fp L a) (map_option (\<lambda>_. artifact_idem_fp L a) key) a \<and>
     (producer = None) = (key = None))"
| "stored L promotions r = (\<exists>key p. valid_promotion p \<and> r = promotion_row key (promotion_fp L p) p)"
| "stored L health_records r = (\<exists>key h. valid_health h \<and> r = health_row key (health_fp L h) h)"

definition wf_db :: "libs \<Rightarrow> db \<Rightarrow> bool" where
  "wf_db L d \<longleftrightarrow> integrity d \<and> (\<forall>t. \<forall>r \<in> set (d t). stored L t r)"

lemma wf_db_empty: "wf_db L empty_db"
  by (simp add: wf_db_def integrity_empty) (simp add: empty_db_def)

lemma wf_db_integrity: "wf_db L d \<Longrightarrow> integrity d"
  by (simp add: wf_db_def)

lemma wf_db_stored: "wf_db L d \<Longrightarrow> r \<in> set (d t) \<Longrightarrow> stored L t r"
  by (simp add: wf_db_def)

lemma valid_run_closed:
  assumes "valid_run x" "utc_pydt t"
  shows "valid_run (x\<lparr>rn_status := st, rn_ended_at := Some t\<rparr>)"
proof -
  have x: "run_after (x\<lparr>rn_started_at := utc_of (rn_started_at x), rn_ended_at := map_option utc_of (rn_ended_at x)\<rparr>) = x"
    using assms(1) by (simp add: valid_run_def mk_run_def construct_ok)
  have s: "utc_of (rn_started_at x) = rn_started_at x" using valid_run_utc [OF assms(1)] by simp
  from x have c: "rn_provenance_completeness x = fst (compute_run_provenance_completeness x)"
      "rn_missing_provenance x = snd (compute_run_provenance_completeness x)"
    by (auto simp: run_after_eq dest: arg_cong [where f = rn_provenance_completeness]
        arg_cong [where f = rn_missing_provenance])
  from assms s c show ?thesis
    by (auto simp: valid_run_def typed_run_def mk_run_def construct_ok run_after_eq utc_pydt_def)
qed

lemma close_row:
  "set_cols [(''status'', Text (run_status_value st)), (''ended_at'', Text (dt_to_str t))] (run_row key fp x) =
     run_row key fp (x\<lparr>rn_status := st, rn_ended_at := Some t\<rparr>)"
  by (simp add: set_cols_def run_row_def opt_time_def)

lemma link_row:
  "set_cols [(''evidence_id'', opt_text e), (''run_id'', opt_text i)] (artifact_row p key fp idem a) =
     artifact_row p key fp idem (a\<lparr>ar_evidence_id := e, ar_run_id := i\<rparr>)"
  by (simp add: set_cols_def artifact_row_def)

lemma artifact_fp_link [simp]:
  "artifact_fp L (a\<lparr>ar_evidence_id := e\<rparr>) = artifact_fp L a" "artifact_fp L (a\<lparr>ar_run_id := i\<rparr>) = artifact_fp L a"
  "artifact_idem_fp L (a\<lparr>ar_evidence_id := e\<rparr>) = artifact_idem_fp L a"
  "artifact_idem_fp L (a\<lparr>ar_run_id := i\<rparr>) = artifact_idem_fp L a"
  by (simp_all add: artifact_fp_def artifact_idem_fp_def fingerprint_def payload_simps artifact_dump_def)

lemma valid_artifact_linked:
  assumes "valid_artifact a" "err_of (optional validate_evidence_id e) = None"
    "err_of (optional validate_run_id i) = None"
  shows "valid_artifact (a\<lparr>ar_evidence_id := e, ar_run_id := i\<rparr>)"
proof -
  have "py_lower (ar_sha256 a) = ar_sha256 a" "utc_of (ar_registered_at a) = ar_registered_at a"
    using assms(1) valid_artifact_utc [OF assms(1)]
    by (auto simp: valid_artifact_def mk_artifact_def construct_ok dest: arg_cong [where f = ar_sha256])
  with assms show ?thesis
    by (auto simp: valid_artifact_def typed_artifact_def mk_artifact_def construct_ok)
qed

subsection \<open>Steps\<close>

inductive db_step :: "libs \<Rightarrow> db \<Rightarrow> db \<Rightarrow> bool" for L where
  same: "db_step L d d"
| insert: "insert_ok t r d \<Longrightarrow> stored L t r \<Longrightarrow> db_step L d (d(t := d t @ [r]))"
| close: "row \<in> set (d runs) \<Longrightarrow> col row ''run_id'' = Text i \<Longrightarrow> col row ''status'' = Text (run_status_value OPEN) \<Longrightarrow>
    utc_pydt t \<Longrightarrow>
    db_step L d (d(runs := map (\<lambda>r. if matches [Eq ''run_id'' (Text i)] r
      then set_cols [(''status'', Text (run_status_value st)), (''ended_at'', Text (dt_to_str t))] r else r) (d runs)))"
| attach: "row \<in> set (d artifacts) \<Longrightarrow> col row ''artifact_id'' = Text i \<Longrightarrow>
    link (col row ''evidence_id'') e = Inr ne \<Longrightarrow> link (col row ''run_id'') n = Inr nr \<Longrightarrow>
    rows = map (\<lambda>r. if matches [Eq ''artifact_id'' (Text i)] r
      then set_cols [(''evidence_id'', ne), (''run_id'', nr)] r else r) (d artifacts) \<Longrightarrow>
    list_all (\<lambda>r. list_all (refers d r) (foreign_keys artifacts)) rows \<Longrightarrow>
    db_step L d (d(artifacts := rows))"

text \<open>What a stored row says in the columns the steps look at.\<close>

lemma stored_run_id: "stored L runs r \<Longrightarrow> \<exists>i. col r ''run_id'' = Text i \<and> err_of (validate_run_id i) = None"
  by (auto simp: run_row_def valid_run_def mk_run_def construct_ok)

lemma stored_evidence_id:
  "stored L evidence_t r \<Longrightarrow> \<exists>i. col r ''evidence_id'' = Text i \<and> err_of (validate_evidence_id i) = None"
  by (auto simp: evidence_row_def valid_evidence_def mk_evidence_def construct_ok)

lemma link_cases:
  "link old new = Inr v \<longleftrightarrow> (new = None \<and> v = old) \<or> (\<exists>s. new = Some s \<and> v = Text s \<and> (old = Null \<or> old = Text s))"
  by (auto simp: link_def split: option.splits)

text \<open>Every step keeps the invariant.\<close>

lemma wf_db_insert: "wf_db L d \<Longrightarrow> insert_ok t r d \<Longrightarrow> stored L t r \<Longrightarrow> wf_db L (d(t := d t @ [r]))"
  by (auto simp: wf_db_def integrity_insert)

lemma integrity_refs: "integrity d \<Longrightarrow> r \<in> set (d t) \<Longrightarrow> list_all (refers d r) (foreign_keys t)"
  by (simp add: integrity_def table_ok_def)

lemma wf_db_update:
  "wf_db L d \<Longrightarrow> integrity (d(t := map f (d t))) \<Longrightarrow> (\<And>r. r \<in> set (d t) \<Longrightarrow> stored L t (f r)) \<Longrightarrow>
     wf_db L (d(t := map f (d t)))"
  unfolding wf_db_def by auto

lemma close_keeps:
  assumes "c \<noteq> ''status''" "c \<noteq> ''ended_at''"
  shows "col (set_cols [(''status'', a), (''ended_at'', b)] r) c = col r c"
  using assms by (simp add: set_cols_def)

lemma attach_keeps:
  assumes "c \<noteq> ''evidence_id''" "c \<noteq> ''run_id''"
  shows "col (set_cols [(''evidence_id'', a), (''run_id'', b)] r) c = col r c"
  using assms by (simp add: set_cols_def)

lemma close_row_cols:
  "stored L runs r \<Longrightarrow> col (set_cols [(''status'', Text a), (''ended_at'', Text b)] r) ''status'' = Text a"
  "stored L runs r \<Longrightarrow> col (set_cols [(''status'', Text a), (''ended_at'', Text b)] r) ''ended_at'' = Text b"
  by (auto simp: set_cols_def run_row_def)

lemma stored_closed:
  assumes "stored L runs r" "utc_pydt t"
  shows "stored L runs (set_cols [(''status'', Text (run_status_value st)), (''ended_at'', Text (dt_to_str t))] r)"
proof -
  from assms(1) obtain key x st' en where x: "valid_run x" "valid_run (x\<lparr>rn_status := st', rn_ended_at := en\<rparr>)"
      "r = run_row key (run_fp L x) (x\<lparr>rn_status := st', rn_ended_at := en\<rparr>)"
    by auto
  have "valid_run (x\<lparr>rn_status := st, rn_ended_at := Some t\<rparr>)"
    using valid_run_closed [OF x(1) assms(2)] .
  with x show ?thesis by (auto simp: close_row)
qed

declare stored.simps [simp del]

lemma wf_db_close:
  assumes wf: "wf_db L d" and t: "utc_pydt t"
  shows "wf_db L (d(runs := map (\<lambda>r. if matches [Eq ''run_id'' (Text i)] r
      then set_cols [(''status'', Text (run_status_value st)), (''ended_at'', Text (dt_to_str t))] r else r) (d runs)))"
    (is "wf_db L (d(runs := map ?f (d runs)))")
proof -
  have st: "stored L runs r" if "r \<in> set (d runs)" for r using wf that by (rule wf_db_stored)
  have keep: "col (?f r) c = col r c" if "c \<noteq> ''status''" "c \<noteq> ''ended_at''" for r c
    using that by (simp add: close_keeps)
  have "integrity (d(runs := map ?f (d runs)))"
  proof (rule integrity_update)
    show "integrity d" using wf by (simp add: wf_db_def)
    fix r assume r: "r \<in> set (d runs)"
    show "col (?f r) c = col r c" if "c \<in> set (primary_key runs) \<union> set key_cols" for c
      using that by (intro keep) (auto simp: key_cols_def)
    have nn: "col r c \<noteq> Null" if "c \<in> set (not_null runs)" for c
      using wf r that by (auto simp: wf_db_def integrity_def table_ok_def list_all_iff)
    show "col (?f r) c \<noteq> Null" if c: "c \<in> set (not_null runs)" for c
    proof (cases "c = ''status''")
      case True
      then show ?thesis using nn [OF c] close_row_cols(1) [OF st [OF r]] by simp
    next
      case False
      moreover have "c \<noteq> ''ended_at''" using c by auto
      ultimately show ?thesis using nn [OF c] keep by metis
    qed
    have "list_all (refers d r) (foreign_keys runs)"
      using integrity_refs [OF wf_db_integrity [OF wf] r] .
    then show "list_all (refers d (?f r)) (foreign_keys runs)"
      using keep [of "''experiment_id''" r] by (simp add: refers_def)
  qed
  then show ?thesis
    by (rule wf_db_update [OF wf]) (use st t in \<open>auto intro: stored_closed\<close>)
qed

lemma stored_linked:
  assumes wf: "wf_db L d" and r: "r \<in> set (d artifacts)"
    and e: "link (col r ''evidence_id'') e = Inr ne" and n: "link (col r ''run_id'') n = Inr nr"
    and refs: "list_all (refers d (set_cols [(''evidence_id'', ne), (''run_id'', nr)] r)) (foreign_keys artifacts)"
  shows "stored L artifacts (set_cols [(''evidence_id'', ne), (''run_id'', nr)] r)"
proof -
  from wf_db_stored [OF wf r] obtain producer key a where a: "valid_artifact a"
      "r = artifact_row producer key (artifact_fp L a) (map_option (\<lambda>_. artifact_idem_fp L a) key) a"
      "(producer = None) = (key = None)"
    by (auto simp: stored.simps)
  have c: "col r ''evidence_id'' = opt_text (ar_evidence_id a)" "col r ''run_id'' = opt_text (ar_run_id a)"
    by (simp_all add: a(2) artifact_row_def)
  have "\<exists>e'. ne = opt_text e'" "\<exists>n'. nr = opt_text n'"
    using e n by (auto simp: link_cases c intro: exI [of _ "Some _"] simp: opt_text_def [of "Some _"])
  then obtain e' n' where en: "ne = opt_text e'" "nr = opt_text n'" by blast
  let ?r = "set_cols [(''evidence_id'', ne), (''run_id'', nr)] r"
  have c': "col ?r ''evidence_id'' = opt_text e'" "col ?r ''run_id'' = opt_text n'"
    unfolding en a(2) link_row by (simp_all add: artifact_row_def)
  have ev: "err_of (optional validate_evidence_id e') = None"
  proof (cases e')
    case (Some i)
    with refs c' obtain s where "s \<in> set (d evidence_t)" "col s ''evidence_id'' = Text i"
      by (auto simp: refers_def opt_text_def)
    then show ?thesis using stored_evidence_id [OF wf_db_stored [OF wf]] Some by force
  qed simp
  have rn: "err_of (optional validate_run_id n') = None"
  proof (cases n')
    case (Some i)
    with refs c' obtain s where "s \<in> set (d runs)" "col s ''run_id'' = Text i"
      by (auto simp: refers_def opt_text_def)
    then show ?thesis using stored_run_id [OF wf_db_stored [OF wf]] Some by force
  qed simp
  have "valid_artifact (a\<lparr>ar_evidence_id := e', ar_run_id := n'\<rparr>)"
    using valid_artifact_linked [OF a(1) ev rn] .
  then show ?thesis unfolding stored.simps en a(2) link_row
    using a(3) by (intro exI [of _ producer] exI [of _ key] exI [of _ "a\<lparr>ar_evidence_id := e', ar_run_id := n'\<rparr>"])
      simp
qed

lemma wf_db_attach:
  assumes wf: "wf_db L d" and row: "row \<in> set (d artifacts)" "col row ''artifact_id'' = Text i"
    and e: "link (col row ''evidence_id'') e = Inr ne" and n: "link (col row ''run_id'') n = Inr nr"
    and rows: "rows = map (\<lambda>r. if matches [Eq ''artifact_id'' (Text i)] r
      then set_cols [(''evidence_id'', ne), (''run_id'', nr)] r else r) (d artifacts)"
    and refs: "list_all (\<lambda>r. list_all (refers d r) (foreign_keys artifacts)) rows"
  shows "wf_db L (d(artifacts := rows))"
proof -
  let ?f = "\<lambda>r. if matches [Eq ''artifact_id'' (Text i)] r
      then set_cols [(''evidence_id'', ne), (''run_id'', nr)] r else r"
  have keep: "col (?f r) c = col r c" if "c \<noteq> ''evidence_id''" "c \<noteq> ''run_id''" for r c
    using that by (simp add: attach_keeps)
  have nn: "''evidence_id'' \<notin> set (not_null artifacts)" "''run_id'' \<notin> set (not_null artifacts)"
    by simp_all
  have "integrity (d(artifacts := map ?f (d artifacts)))"
  proof (rule integrity_update)
    show "integrity d" using wf by (rule wf_db_integrity)
    fix r assume r: "r \<in> set (d artifacts)"
    show "col (?f r) c = col r c" if "c \<in> set (primary_key artifacts) \<union> set key_cols" for c
      using that by (intro keep) (auto simp: key_cols_def)
    show "col (?f r) c \<noteq> Null" if "c \<in> set (not_null artifacts)" for c
    proof -
      have "col r c \<noteq> Null"
        using wf r that by (auto simp: wf_db_def integrity_def table_ok_def list_all_iff)
      then show ?thesis using keep [of c r] nn that by metis
    qed
    show "list_all (refers d (?f r)) (foreign_keys artifacts)"
      using refs r unfolding rows by (simp add: list_all_iff)
  qed
  moreover have "stored L artifacts (?f r)" if r: "r \<in> set (d artifacts)" for r
  proof (cases "col r ''artifact_id'' = Text i")
    case True
    then have "r = row" using r row
      by (intro unique_row [OF wf_db_integrity [OF wf] r row(1)]) (simp add: same_on_def)
    moreover have "list_all (refers d (?f r)) (foreign_keys artifacts)"
      using refs r unfolding rows by (simp add: list_all_iff)
    ultimately show ?thesis using stored_linked [OF wf row(1) e n] True by simp
  next
    case False
    then show ?thesis using wf_db_stored [OF wf r] by simp
  qed
  ultimately show ?thesis unfolding rows by (rule wf_db_update [OF wf])
qed

theorem db_step_wf: "db_step L d d' \<Longrightarrow> wf_db L d \<Longrightarrow> wf_db L d'"
  by (induction rule: db_step.induct) (blast intro: wf_db_insert wf_db_close wf_db_attach)+

definition reaches :: "libs \<Rightarrow> db \<Rightarrow> db \<Rightarrow> bool" where
  "reaches L = (db_step L)\<^sup>*\<^sup>*"

lemma reaches_refl [simp]: "reaches L d d"
  by (simp add: reaches_def)

lemma reaches_step: "reaches L d d' \<Longrightarrow> db_step L d' d'' \<Longrightarrow> reaches L d d''"
  by (simp add: reaches_def)

lemma reaches_wf: "reaches L d d' \<Longrightarrow> wf_db L d \<Longrightarrow> wf_db L d'"
  unfolding reaches_def by (induction rule: rtranclp_induct) (auto intro: db_step_wf)

subsection \<open>What a later content keeps of a row\<close>

text \<open>
  Rows are never removed. A run's status and end change while it is open, an artifact's links are
  written once; everything else of every row stays.
\<close>

fun later :: "table \<Rightarrow> row \<Rightarrow> row \<Rightarrow> bool" where
  "later runs r s = ((\<forall>c. c \<noteq> ''status'' \<and> c \<noteq> ''ended_at'' \<longrightarrow> col s c = col r c) \<and>
     (col r ''status'' \<noteq> Text (run_status_value OPEN) \<longrightarrow> s = r))"
| "later artifacts r s = ((\<forall>c. c \<noteq> ''evidence_id'' \<and> c \<noteq> ''run_id'' \<longrightarrow> col s c = col r c) \<and>
     (\<forall>c. col r c \<noteq> Null \<longrightarrow> col s c = col r c))"
| "later t r s = (s = r)"

fun mutable :: "table \<Rightarrow> string list" where
  "mutable runs = [''status'', ''ended_at'']"
| "mutable artifacts = [''evidence_id'', ''run_id'']"
| "mutable t = []"

lemma later_refl [simp]: "later t r r"
  by (cases t) simp_all

lemma later_trans: "later t r s \<Longrightarrow> later t s u \<Longrightarrow> later t r u"
  by (cases t) auto

lemma later_cols: "later t r s \<Longrightarrow> c \<notin> set (mutable t) \<Longrightarrow> col s c = col r c"
  by (cases t) auto

definition grows :: "db \<Rightarrow> db \<Rightarrow> bool" where
  "grows d d' \<longleftrightarrow> (\<forall>t. \<exists>f new. d' t = map f (d t) @ new \<and> (\<forall>r \<in> set (d t). later t r (f r)))"

lemma grows_refl [simp]: "grows d d"
proof -
  have "d t = map id (d t) @ [] \<and> (\<forall>r \<in> set (d t). later t r (id r))" for t by simp
  then show ?thesis unfolding grows_def by blast
qed

lemma grows_trans:
  assumes "grows d d'" "grows d' d''"
  shows "grows d d''"
  unfolding grows_def
proof
  fix t
  obtain f new where f: "d' t = map f (d t) @ new" "\<forall>r \<in> set (d t). later t r (f r)"
    using assms(1) unfolding grows_def by blast
  obtain g more where g: "d'' t = map g (d' t) @ more" "\<forall>r \<in> set (d' t). later t r (g r)"
    using assms(2) unfolding grows_def by blast
  have "d'' t = map (g \<circ> f) (d t) @ (map g new @ more) \<and> (\<forall>r \<in> set (d t). later t r ((g \<circ> f) r))"
    using f g by (auto intro: later_trans)
  then show "\<exists>h rest. d'' t = map h (d t) @ rest \<and> (\<forall>r \<in> set (d t). later t r (h r))" by blast
qed

lemma grows_insert: "grows d (d(t := d t @ [r]))"
  unfolding grows_def
proof
  fix u
  have "(d(t := d t @ [r])) u = map id (d u) @ (if u = t then [r] else []) \<and> (\<forall>r \<in> set (d u). later u r (id r))"
    by simp
  then show "\<exists>f new. (d(t := d t @ [r])) u = map f (d u) @ new \<and> (\<forall>r \<in> set (d u). later u r (f r))" by blast
qed

lemma grows_update:
  assumes "\<And>r. r \<in> set (d t) \<Longrightarrow> later t r (f r)"
  shows "grows d (d(t := map f (d t)))"
  unfolding grows_def
proof
  fix u
  have "(d(t := map f (d t))) u = map (if u = t then f else id) (d u) @ [] \<and>
      (\<forall>r \<in> set (d u). later u r ((if u = t then f else id) r))"
    using assms by simp
  then show "\<exists>g new. (d(t := map f (d t))) u = map g (d u) @ new \<and> (\<forall>r \<in> set (d u). later u r (g r))" by blast
qed

lemma pinned:
  assumes "wf_db L d" "row \<in> set (d t)" "r \<in> set (d t)" "primary_key t = [c]" "col row c = Text i" "col r c = Text i"
  shows "r = row"
  using assms by (intro unique_row [OF wf_db_integrity [OF assms(1)] assms(3,2)]) (simp add: same_on_def)

theorem db_step_grows:
  assumes "db_step L d d'" "wf_db L d"
  shows "grows d d'"
  using assms
proof (induction rule: db_step.induct)
  case (close row d i t st)
  show ?case
  proof (rule grows_update)
    fix r assume r: "r \<in> set (d runs)"
    show "later runs r (if matches [Eq ''run_id'' (Text i)] r
        then set_cols [(''status'', Text (run_status_value st)), (''ended_at'', Text (dt_to_str t))] r else r)"
    proof (cases "col r ''run_id'' = Text i")
      case True
      then have "r = row" using close r by (intro pinned [of L d row runs r]) simp_all
      then show ?thesis using close(3) by (simp add: close_keeps)
    qed simp
  qed
next
  case (attach row d i e ne n nr rows)
  show ?case unfolding attach(5)
  proof (rule grows_update)
    fix r assume r: "r \<in> set (d artifacts)"
    let ?s = "set_cols [(''evidence_id'', ne), (''run_id'', nr)] r"
    show "later artifacts r (if matches [Eq ''artifact_id'' (Text i)] r then ?s else r)"
    proof (cases "col r ''artifact_id'' = Text i")
      case True
      then have "r = row" using attach r by (intro pinned [of L d row artifacts r]) simp_all
      obtain p k a where a: "r = artifact_row p k (artifact_fp L a) (map_option (\<lambda>_. artifact_idem_fp L a) k) a"
        using wf_db_stored [OF attach(7) r] by (auto simp: stored.simps)
      have "col ?s ''evidence_id'' = ne" "col ?s ''run_id'' = nr"
        by (simp_all add: set_cols_def a artifact_row_def)
      then have "col ?s c = col r c" if "col r c \<noteq> Null" for c
        using that attach(3,4) \<open>r = row\<close>
        by (cases "c = ''evidence_id''"; cases "c = ''run_id''") (auto simp: link_cases attach_keeps)
      then show ?thesis using True by (simp add: attach_keeps)
    qed simp
  qed
qed (simp_all add: grows_insert)

lemma reaches_grows: "reaches L d d' \<Longrightarrow> wf_db L d \<Longrightarrow> grows d d'"
  unfolding reaches_def
proof (induction rule: rtranclp_induct)
  case (step d' d'')
  then have "wf_db L d'" using reaches_wf by (auto simp: reaches_def)
  with step show ?case by (blast intro: grows_trans db_step_grows)
qed simp

fun clause_col :: "clause \<Rightarrow> string" where
  "clause_col (Eq c v) = c"
| "clause_col (Ge c v) = c"
| "clause_col (Le c v) = c"

text \<open>A lookup that found a row finds the same row later.\<close>

lemma select_one_later:
  assumes "grows d d'" "select_one cs (d t) = Some r" "\<forall>c \<in> set cs. clause_col c \<notin> set (mutable t)"
  shows "\<exists>r'. select_one cs (d' t) = Some r' \<and> later t r r'"
proof -
  obtain f new where f: "d' t = map f (d t) @ new" "\<forall>r \<in> set (d t). later t r (f r)"
    using assms(1) unfolding grows_def by blast
  have "matches cs (f s) = matches cs s" if "s \<in> set (d t)" for s
  proof -
    have "holds c (f s) = holds c s" if "c \<in> set cs" for c
      using later_cols [of t s "f s"] f(2) \<open>s \<in> _\<close> assms(3) that by (cases c) auto
    then show ?thesis by (auto simp: matches_def list_all_iff)
  qed
  then have "select_one cs (map f (d t)) = Some (f r)" using assms(2) by (simp add: select_one_map)
  then have "select_one cs (d' t) = Some (f r)" using f(1) by (simp add: select_one_append)
  then show ?thesis using f(2) assms(2) by (blast dest: select_one_Some)
qed

lemma by_key_later:
  assumes "grows d d'" "by_key t p k d = Some r"
  shows "\<exists>r'. by_key t p k d' = Some r' \<and> later t r r'"
  using assms(2) unfolding by_key_def by (intro select_one_later [OF assms(1)]) (cases t; simp)+

end
