(* ===== verification/StoreOps.thy ===== *)
theory StoreOps
  imports StoreInv
begin

text \<open>
  Every write of \<open>MetaStore\<close> is a step of \<open>StoreInv\<close>; so the invariant and the order hold along
  any history of operations. \<open>op\<close> names the writes with their arguments, \<open>exec_op\<close> runs one,
  \<open>exec_ops\<close> a history, each call in its own environment.
\<close>

subsection \<open>Transactions\<close>

lemma transaction_Inr:
  "transaction v body d = (Inr x, d') \<longleftrightarrow>
     path_exists v \<and> connects v \<and> begins v \<and> commits v \<and> body d = (Inr x, d')"
  by (auto simp: transaction_def require_durable_backing_def raise_cer_def split: sum.splits prod.splits)

lemma transaction_Inl: "fst (transaction v body d) = Inl e \<Longrightarrow> snd (transaction v body d) = d"
  by (auto simp: transaction_def require_durable_backing_def raise_cer_def split: sum.splits prod.splits if_splits)

definition healthy :: "env \<Rightarrow> bool" where
  "healthy v = (path_exists v \<and> connects v \<and> begins v \<and> commits v \<and> reads v)"

lemma transaction_healthy:
  "healthy v \<Longrightarrow> transaction v body d = (case body d of (Inl e, _) \<Rightarrow> (Inl e, d) | (Inr x, d') \<Rightarrow> (Inr x, d'))"
  by (auto simp: transaction_def require_durable_backing_def healthy_def split: prod.splits sum.splits)

lemma insert_into_Inr:
  "insert_into t r x d = (Inr y, d') \<longleftrightarrow>
     y = x \<and> d' = d(t := d t @ [r]) \<and> insert_ok t r d \<and> list_all (\<lambda>(c, v). int64 v) r"
  by (auto simp: insert_into_def)

lemma try_tx_simps [simp]: "try_tx (Inl e) d k = (Inl e, d)" "try_tx (Inr x) d k = k x"
  by (simp_all add: try_tx_def)

lemma try_tx_Inr: "try_tx r d k = (Inr y, d') \<longleftrightarrow> (\<exists>x. r = Inr x \<and> k x = (Inr y, d'))"
  by (cases r) auto

lemma raise_pair [simp]: "(raise_cer c, d) \<noteq> (Inr x, d')" "(Inr x, d') \<noteq> (raise_cer c, d)"
  by (simp_all add: raise_cer_def)

lemmas tx_Inr = try_tx_Inr insert_into_Inr

subsection \<open>Each transaction body is a step\<close>

lemma stored_new [intro]:
  "valid_strategy s \<Longrightarrow> stored L strategies (strategy_row s)"
  "valid_strategy_version w \<Longrightarrow> stored L strategy_versions (strategy_version_row w)"
  "valid_experiment x \<Longrightarrow> stored L experiments (experiment_row key (experiment_fp L x) x)"
  "valid_evidence e \<Longrightarrow> stored L evidence_t (evidence_row (evidence_fp L e) e)"
  "valid_promotion p \<Longrightarrow> stored L promotions (promotion_row key (promotion_fp L p) p)"
  "valid_health h \<Longrightarrow> stored L health_records (health_row key (health_fp L h) h)"
  by (auto simp: stored.simps)

lemma register_strategy_step:
  "register_strategy_tx L s d = (Inr y, d') \<Longrightarrow> valid_strategy s \<Longrightarrow> db_step L d d'"
  by (auto simp: register_strategy_tx_def tx_Inr intro: db_step.same
      intro!: db_step.insert split: option.splits if_splits)

lemma register_strategy_version_step:
  "register_strategy_version_tx L s d = (Inr y, d') \<Longrightarrow> valid_strategy_version s \<Longrightarrow> db_step L d d'"
  by (auto simp: register_strategy_version_tx_def tx_Inr intro: db_step.same
      intro!: db_step.insert split: option.splits if_splits)

lemma create_experiment_step:
  "create_experiment_tx L key x d = (Inr y, d') \<Longrightarrow> valid_experiment x \<Longrightarrow> db_step L d d'"
  by (auto simp: create_experiment_tx_def Let_def tx_Inr intro: db_step.same
      intro!: db_step.insert split: option.splits if_splits)

lemma stored_new_run: "valid_run r \<Longrightarrow> stored L runs (run_row key (run_fp L r) r)"
  unfolding stored.simps
  by (intro exI [of _ key] exI [of _ r] exI [of _ "rn_status r"] exI [of _ "rn_ended_at r"]) simp

lemma create_run_step:
  "create_run_tx L key r d = (Inr y, d') \<Longrightarrow> valid_run r \<Longrightarrow> db_step L d d'"
  by (auto simp: create_run_tx_def Let_def tx_Inr intro: db_step.same stored_new_run
      intro!: db_step.insert split: option.splits if_splits)

lemma update_where_Inr:
  "update_where t cs sets d = (Inr u, d') \<longleftrightarrow>
     (\<exists>rows. rows = map (\<lambda>r. if matches cs r then set_cols sets r else r) (d t) \<and>
       list_all (\<lambda>r. list_all (refers d r) (foreign_keys t)) rows \<and> d' = d(t := rows))"
  by (auto simp: update_where_def Let_def)

lemma close_run_step:
  assumes "close_run_tx i st t d = (Inr y, d')" "utc_pydt t"
  shows "db_step L d d'"
proof -
  from assms(1) obtain row where row: "select_one [Eq ''run_id'' (Text i)] (d runs) = Some row"
      "col row ''status'' = Text (run_status_value OPEN)"
      "update_where runs [Eq ''run_id'' (Text i)]
         [(''status'', Text (run_status_value st)), (''ended_at'', Text (dt_to_str t))] d = (Inr (), d')"
    by (auto simp: close_run_tx_def split: option.splits if_splits prod.splits sum.splits)
  from select_one_Some [OF row(1)] row(2) assms(2)
  have "db_step L d (d(runs := map (\<lambda>r. if matches [Eq ''run_id'' (Text i)] r
      then set_cols [(''status'', Text (run_status_value st)), (''ended_at'', Text (dt_to_str t))] r else r) (d runs)))"
    by (intro db_step.close) auto
  with row(3) show ?thesis unfolding update_where_Inr by auto
qed

lemma append_evidence_step:
  "append_evidence_tx L e d = (Inr y, d') \<Longrightarrow> valid_evidence e \<Longrightarrow> db_step L d d'"
  by (auto simp: append_evidence_tx_def Let_def tx_Inr intro: db_step.same
      intro!: db_step.insert split: option.splits if_splits)

lemma stored_new_artifact:
  "valid_artifact a \<Longrightarrow> (producer = None) = (key = None) \<Longrightarrow>
     stored L artifacts (artifact_row producer key (artifact_fp L a) (map_option (\<lambda>_. artifact_idem_fp L a) key) a)"
  by (auto simp: stored.simps)

lemma register_new_artifact_step:
  assumes "register_new_artifact L key producer a d = (Inr y, d')" "valid_artifact a" "key = None \<or> producer \<noteq> None"
  shows "db_step L d d'"
proof (cases "d' = d")
  case False
  with assms(1) have "d' = d(artifacts := d artifacts @ [artifact_row (if key \<noteq> None then producer else None) key
        (artifact_fp L a) (if key \<noteq> None then Some (artifact_idem_fp L a) else None) a])"
      "insert_ok artifacts (artifact_row (if key \<noteq> None then producer else None) key
        (artifact_fp L a) (if key \<noteq> None then Some (artifact_idem_fp L a) else None) a) d"
    by (auto simp: register_new_artifact_def Let_def tx_Inr split: option.splits if_splits)
  with stored_new_artifact [of a "if key \<noteq> None then producer else None" key L] assms(2,3) show ?thesis
    by (cases key) (auto intro!: db_step.insert)
qed (simp add: db_step.same)

lemma register_artifact_step:
  assumes "register_artifact_tx L key producer a d = (Inr y, d')" "valid_artifact a"
  shows "db_step L d d'"
proof (cases key)
  case None
  with assms show ?thesis
    by (auto simp: register_artifact_tx_def tx_Inr intro: register_new_artifact_step)
next
  case (Some k)
  with assms show ?thesis
    by (auto simp: register_artifact_tx_def tx_Inr require_producer_for_key_def
        split: option.splits if_splits intro: db_step.same register_new_artifact_step)
qed

lemma attach_artifact_step:
  assumes "attach_artifact_tx i e n d = (Inr y, d')"
  shows "db_step L d d'"
proof -
  from assms obtain row ne nr where row: "select_one [Eq ''artifact_id'' (Text i)] (d artifacts) = Some row"
      "link (col row ''evidence_id'') e = Inr ne" "link (col row ''run_id'') n = Inr nr"
      "d' = d \<or> update_where artifacts [Eq ''artifact_id'' (Text i)] [(''evidence_id'', ne), (''run_id'', nr)] d = (Inr (), d')"
    by (auto simp: attach_artifact_tx_def tx_Inr split: option.splits if_splits prod.splits sum.splits)
  show ?thesis
  proof (cases "d' = d")
    case False
    with row(4) have "update_where artifacts [Eq ''artifact_id'' (Text i)] [(''evidence_id'', ne), (''run_id'', nr)] d = (Inr (), d')"
      by simp
    with select_one_Some [OF row(1)] row(2,3) show ?thesis
      unfolding update_where_Inr by (auto intro!: db_step.attach)
  qed (simp add: db_step.same)
qed

lemma record_promotion_step:
  "record_promotion_tx L key p d = (Inr y, d') \<Longrightarrow> valid_promotion p \<Longrightarrow> db_step L d d'"
  by (auto simp: record_promotion_tx_def Let_def tx_Inr intro: db_step.same
      intro!: db_step.insert split: option.splits if_splits)

lemma record_health_step:
  "record_health_tx L key h d = (Inr y, d') \<Longrightarrow> valid_health h \<Longrightarrow> db_step L d d'"
  by (auto simp: record_health_tx_def Let_def tx_Inr intro: db_step.same
      intro!: db_step.insert split: option.splits if_splits)

subsection \<open>Histories\<close>

datatype op =
    RegisterStrategy strategy
  | RegisterStrategyVersion strategy_version
  | CreateExperiment "string option" experiment_record
  | CreateRun "string option" run
  | CloseRun string run_status pydt
  | AppendEvidence evidence
  | RegisterArtifact "string option" "string option" artifact
  | AttachArtifact string "string option" "string option"
  | RecordPromotion "string option" promotion
  | RecordHealth "string option" health

text \<open>The arguments of a call are valid contract objects; a timestamp argument is any datetime.\<close>

fun valid_op :: "op \<Rightarrow> bool" where
  "valid_op (RegisterStrategy s) = valid_strategy s"
| "valid_op (RegisterStrategyVersion s) = valid_strategy_version s"
| "valid_op (CreateExperiment key x) = valid_experiment x"
| "valid_op (CreateRun key r) = valid_run r"
| "valid_op (CloseRun i st t) = valid_pydt t"
| "valid_op (AppendEvidence e) = valid_evidence e"
| "valid_op (RegisterArtifact key producer a) = valid_artifact a"
| "valid_op (AttachArtifact i e n) = True"
| "valid_op (RecordPromotion key p) = valid_promotion p"
| "valid_op (RecordHealth key h) = valid_health h"

fun exec_op :: "libs \<Rightarrow> env \<Rightarrow> op \<Rightarrow> db \<Rightarrow> exn option \<times> db" where
  "exec_op L v (RegisterStrategy s) d = apfst err_of (register_strategy L v s d)"
| "exec_op L v (RegisterStrategyVersion s) d = apfst err_of (register_strategy_version L v s d)"
| "exec_op L v (CreateExperiment key x) d = apfst err_of (create_experiment L v key x d)"
| "exec_op L v (CreateRun key r) d = apfst err_of (create_run L v key r d)"
| "exec_op L v (CloseRun i st t) d = apfst err_of (close_run v i st t d)"
| "exec_op L v (AppendEvidence e) d = apfst err_of (append_evidence L v e d)"
| "exec_op L v (RegisterArtifact key producer a) d = apfst err_of (register_artifact L v key producer a d)"
| "exec_op L v (AttachArtifact i e n) d = apfst err_of (attach_artifact v i e n d)"
| "exec_op L v (RecordPromotion key p) d = apfst err_of (record_promotion L v key p d)"
| "exec_op L v (RecordHealth key h) d = apfst err_of (record_health L v key h d)"

fun exec_ops :: "libs \<Rightarrow> (env \<times> op) list \<Rightarrow> db \<Rightarrow> db" where
  "exec_ops L [] d = d"
| "exec_ops L ((v, p) # ps) d = exec_ops L ps (snd (exec_op L v p d))"

lemma transaction_step:
  assumes "\<And>x d'. body d = (Inr x, d') \<Longrightarrow> db_step L d d'"
  shows "db_step L d (snd (transaction v body d))"
proof (cases "transaction v body d")
  case (Pair r d')
  show ?thesis
  proof (cases r)
    case (Inl e)
    then have "d' = d" using transaction_Inl [of v body d e] Pair by simp
    then show ?thesis using Pair by (simp add: db_step.same)
  next
    case (Inr x)
    with Pair have "body d = (Inr x, d')" by (simp add: transaction_Inr)
    from assms [OF this] Pair show ?thesis by simp
  qed
qed

lemma exec_op_step: "valid_op p \<Longrightarrow> db_step L d (snd (exec_op L v p d))"
proof (cases p)
  case (CloseRun i st t)
  assume "valid_op p"
  with CloseRun have "db_step L d (snd (close_run v i st t d))"
    by (auto simp: close_run_def db_step.same dest: to_utc_spec split: sum.split
        intro!: transaction_step elim!: close_run_step)
  then show ?thesis by (simp add: CloseRun)
qed (auto simp: register_strategy_def register_strategy_version_def create_experiment_def create_run_def
       append_evidence_def register_artifact_def attach_artifact_def record_promotion_def record_health_def
       intro: transaction_step [OF register_strategy_step] transaction_step [OF register_strategy_version_step]
         transaction_step [OF create_experiment_step] transaction_step [OF create_run_step]
         transaction_step [OF append_evidence_step] transaction_step [OF register_artifact_step]
         transaction_step [OF attach_artifact_step] transaction_step [OF record_promotion_step]
         transaction_step [OF record_health_step])

lemma exec_ops_reaches: "\<forall>p \<in> set ps. valid_op (snd p) \<Longrightarrow> reaches L d (exec_ops L ps d)"
proof (induction ps arbitrary: d)
  case (Cons p ps)
  obtain v q where p: "p = (v, q)" by fastforce
  then have "db_step L d (snd (exec_op L v q d))" using Cons.prems by (simp add: exec_op_step)
  with Cons p show ?case by (auto simp: reaches_def intro: converse_rtranclp_into_rtranclp)
qed simp

lemma exec_ops_wf: "\<forall>p \<in> set ps. valid_op (snd p) \<Longrightarrow> wf_db L d \<Longrightarrow> wf_db L (exec_ops L ps d)"
  by (rule reaches_wf [OF exec_ops_reaches])

lemma exec_ops_grows: "\<forall>p \<in> set ps. valid_op (snd p) \<Longrightarrow> wf_db L d \<Longrightarrow> grows d (exec_ops L ps d)"
  by (rule reaches_grows [OF exec_ops_reaches])

end
