(* ===== verification/Idempotency.thy ===== *)
theory Idempotency
  imports StoreOps
begin

text \<open>
  Idempotent creation under a producer-scoped key, the contract six operations of the store
  share (\<open>create_experiment\<close>, \<open>create_run\<close>, \<open>append_evidence\<close>, \<open>register_artifact\<close>,
  \<open>record_promotion\<close>, \<open>record_health\<close>). The locale states what such an operation does on a key
  that is used and on one that is not, and proves once what follows for a retry after any
  history; each operation is an interpretation.
\<close>

subsection \<open>The contract\<close>

locale keyed_create =
  fixes L :: libs and tx :: "'s \<Rightarrow> db \<Rightarrow> 'x outcome" and t :: table
    and producer :: "'s \<Rightarrow> string" and key :: "'s \<Rightarrow> string option" and fp :: "'s \<Rightarrow> string"
    and fp_col :: string and guard :: "'s \<Rightarrow> db \<Rightarrow> exn + unit" and decode :: "row \<Rightarrow> exn + 'x"
    and norm :: "'x \<Rightarrow> 'x" and valid :: "'s \<Rightarrow> bool"
  assumes table_keyed: "keyed t"
    and fp_stable: "fp_col \<notin> set (mutable t)"
    and blocked: "guard s d = Inl e \<Longrightarrow> tx s d = (Inl e, d)"
    and hit: "wf_db L d \<Longrightarrow> guard s d = Inr () \<Longrightarrow> key s = Some k \<Longrightarrow> by_key t (producer s) k d = Some r \<Longrightarrow>
      tx s d = (if col r fp_col \<noteq> Text (fp s) then (raise_cer IdempotencyConflictError, d) else (decode r, d))"
    and miss: "valid s \<Longrightarrow> guard s d = Inr () \<Longrightarrow> (\<And>k. key s = Some k \<Longrightarrow> by_key t (producer s) k d = None) \<Longrightarrow>
      tx s d = (Inr y, d') \<Longrightarrow> d' \<noteq> d \<Longrightarrow>
      \<exists>r. d' = d(t := d t @ [r]) \<and> decode r = Inr (norm y) \<and> col r ''idempotency_key'' = opt_text (key s) \<and>
        (\<forall>k. key s = Some k \<longrightarrow> col r ''producer'' = Text (producer s) \<and> col r fp_col = Text (fp s))"
begin

lemma new_row_found:
  assumes "valid s" "guard s d = Inr ()" "key s = Some k" "by_key t (producer s) k d = None"
    and "tx s d = (Inr y, d')" "d' \<noteq> d"
  shows "\<exists>r. by_key t (producer s) k d' = Some r \<and> col r fp_col = Text (fp s) \<and> decode r = Inr (norm y)"
proof -
  have "\<exists>r. d' = d(t := d t @ [r]) \<and> decode r = Inr (norm y) \<and> col r ''idempotency_key'' = opt_text (key s) \<and>
        (\<forall>k. key s = Some k \<longrightarrow> col r ''producer'' = Text (producer s) \<and> col r fp_col = Text (fp s))"
    by (rule miss) (use assms in auto)
  then obtain r where r: "d' = d(t := d t @ [r])" "decode r = Inr (norm y)" "col r ''producer'' = Text (producer s)"
      "col r ''idempotency_key'' = Text k" "col r fp_col = Text (fp s)"
    using assms(3) by (auto simp: opt_text_def)
  then have "by_key t (producer s) k d' = Some r"
    using assms(4) by (simp add: by_key_def select_one_new)
  with r show ?thesis by blast
qed

text \<open>
  A submission that inserted a row binds its key: any later submission under the same producer
  and key leaves the content alone, and is a replay or a conflict by its fingerprint alone.
\<close>

lemma retry:
  assumes new: "valid s" "guard s d = Inr ()" "key s = Some k" "by_key t (producer s) k d = None"
      "tx s d = (Inr y, d1)" "d1 \<noteq> d"
    and later: "grows d1 d2" "wf_db L d2"
    and again: "guard s' d2 = Inr ()" "key s' = Some k" "producer s' = producer s"
  shows "\<exists>r r'. decode r = Inr (norm y) \<and> later t r r' \<and>
    tx s' d2 = (if fp s' \<noteq> fp s then (raise_cer IdempotencyConflictError, d2) else (decode r', d2))"
proof -
  obtain r where r: "by_key t (producer s) k d1 = Some r" "col r fp_col = Text (fp s)" "decode r = Inr (norm y)"
    using new_row_found [OF new] by blast
  obtain r' where r': "by_key t (producer s) k d2 = Some r'" "later t r r'"
    using by_key_later [OF later(1) r(1)] by blast
  have "col r' fp_col = Text (fp s)" using later_cols [OF r'(2) fp_stable] r(2) by simp
  with hit [OF later(2) again(1,2)] r' again(3) r(3) show ?thesis by (intro exI conjI) auto
qed

text \<open>A submission touches no key but its own.\<close>

lemma other_key_untouched:
  assumes "wf_db L d" "valid s" "tx s d = (Inr y, d')" "key s \<noteq> Some k \<or> p \<noteq> producer s"
  shows "by_key t p k d' = by_key t p k d"
proof (cases "d' = d")
  case False
  have g: "guard s d = Inr ()" using blocked [of s d] assms(3) by (cases "guard s d") auto
  have m: "by_key t (producer s) j d = None" if "key s = Some j" for j
  proof (cases "by_key t (producer s) j d")
    case (Some r)
    then show ?thesis using hit [OF assms(1) g that Some] assms(3) False by (auto split: if_splits)
  qed
  have "\<exists>r. d' = d(t := d t @ [r]) \<and> decode r = Inr (norm y) \<and> col r ''idempotency_key'' = opt_text (key s) \<and>
        (\<forall>k. key s = Some k \<longrightarrow> col r ''producer'' = Text (producer s) \<and> col r fp_col = Text (fp s))"
    by (rule miss [OF assms(2) g m assms(3) False])
  then obtain r where r: "d' = d(t := d t @ [r])" "col r ''idempotency_key'' = opt_text (key s)"
      "\<forall>k. key s = Some k \<longrightarrow> col r ''producer'' = Text (producer s)"
    by blast
  then have "\<not> matches [Eq ''producer'' (Text p), Eq ''idempotency_key'' (Text k)] r"
    using assms(4) by (cases "key s") (auto simp: opt_text_def)
  then show ?thesis using r(1)
    by (cases "by_key t p k d") (auto simp: by_key_def select_one_new select_one_append)
qed simp

text \<open>At most one row holds a key.\<close>

lemma key_unique:
  assumes "wf_db L d" "r \<in> set (d t)" "r' \<in> set (d t)"
    and "col r ''producer'' = Text p" "col r' ''producer'' = Text p"
    and "col r ''idempotency_key'' = Text k" "col r' ''idempotency_key'' = Text k"
  shows "r = r'"
  using assms table_keyed
  by (intro unique_row [OF wf_db_integrity [OF assms(1)] assms(2,3)]) (simp add: same_on_def key_cols_def)

end

subsection \<open>Fetching the row a lookup found\<close>

lemma fetch_found:
  assumes "wf_db L d" "r \<in> set (d t)" "primary_key t = [c]" "col r c = Text i"
  shows "select_one [Eq c (Text i)] (d t) = Some r"
proof (cases "select_one [Eq c (Text i)] (d t)")
  case None
  then show ?thesis using assms by (auto simp: select_one_None)
next
  case (Some r')
  then show ?thesis using pinned [OF assms(1,2) _ assms(3,4), of r'] by (auto dest!: select_one_Some)
qed

lemma fetch_run_found: "wf_db L d \<Longrightarrow> r \<in> set (d runs) \<Longrightarrow> fetch_run (text_col r ''run_id'') d = row_to_run r"
  using stored_run_id [OF wf_db_stored, of L d r]
  by (auto simp: fetch_run_def fetch_found text_col_def)

lemma fetch_evidence_found:
  "wf_db L d \<Longrightarrow> r \<in> set (d evidence_t) \<Longrightarrow> fetch_evidence (text_col r ''evidence_id'') d = row_to_evidence r"
  using stored_evidence_id [OF wf_db_stored, of L d r]
  by (auto simp: fetch_evidence_def fetch_found text_col_def)

subsection \<open>The six operations\<close>

lemma by_opt_key_None: "by_opt_key t p key d = None \<longleftrightarrow> (\<forall>k. key = Some k \<longrightarrow> by_key t p k d = None)"
  by (cases key) (simp_all add: by_opt_key_def)

lemma by_opt_key_Some [simp]: "by_opt_key t p (Some k) d = by_key t p k d"
  by (simp add: by_opt_key_def)

lemma row_keys:
  "col (experiment_row key fp x) ''producer'' = Text (ex_producer x)"
  "col (experiment_row key fp x) ''idempotency_key'' = opt_text key"
  "col (experiment_row key fp x) ''content_fingerprint'' = Text fp"
  "col (run_row key fp r) ''producer'' = Text (rn_producer r)"
  "col (run_row key fp r) ''idempotency_key'' = opt_text key"
  "col (run_row key fp r) ''content_fingerprint'' = Text fp"
  "col (evidence_row fp e) ''producer'' = Text (ev_producer e)"
  "col (evidence_row fp e) ''idempotency_key'' = Text (ev_idempotency_key e)"
  "col (evidence_row fp e) ''content_fingerprint'' = Text fp"
  "col (artifact_row producer key fp idem a) ''producer'' = opt_text producer"
  "col (artifact_row producer key fp idem a) ''idempotency_key'' = opt_text key"
  "col (artifact_row producer key fp idem a) ''idempotency_fingerprint'' = opt_text idem"
  "col (promotion_row key fp p) ''producer'' = Text (pt_producer p)"
  "col (promotion_row key fp p) ''idempotency_key'' = opt_text key"
  "col (promotion_row key fp p) ''content_fingerprint'' = Text fp"
  "col (health_row key fp h) ''producer'' = Text (hr_producer h)"
  "col (health_row key fp h) ''idempotency_key'' = opt_text key"
  "col (health_row key fp h) ''content_fingerprint'' = Text fp"
  by (simp_all add: experiment_row_def run_row_def evidence_row_def artifact_row_def promotion_row_def health_row_def)

abbreviation exp_tx :: "libs \<Rightarrow> string option \<times> experiment_record \<Rightarrow> db \<Rightarrow> experiment_record outcome" where
  "exp_tx L s \<equiv> create_experiment_tx L (fst s) (snd s)"

abbreviation run_tx :: "libs \<Rightarrow> string option \<times> run \<Rightarrow> db \<Rightarrow> run outcome" where
  "run_tx L s \<equiv> create_run_tx L (fst s) (snd s)"

abbreviation promotion_tx :: "libs \<Rightarrow> string option \<times> promotion \<Rightarrow> db \<Rightarrow> promotion outcome" where
  "promotion_tx L s \<equiv> record_promotion_tx L (fst s) (snd s)"

abbreviation health_tx :: "libs \<Rightarrow> string option \<times> health \<Rightarrow> db \<Rightarrow> health outcome" where
  "health_tx L s \<equiv> record_health_tx L (fst s) (snd s)"

text \<open>An artifact submission: key, producer header, record.\<close>

type_synonym artifact_submission = "string option \<times> string option \<times> artifact"

abbreviation artifact_tx :: "libs \<Rightarrow> artifact_submission \<Rightarrow> db \<Rightarrow> artifact outcome" where
  "artifact_tx L s \<equiv> register_artifact_tx L (fst s) (fst (snd s)) (snd (snd s))"

definition artifact_guard :: "artifact_submission \<Rightarrow> db \<Rightarrow> exn + unit" where
  "artifact_guard s d = (case s of (key, producer, a) \<Rightarrow>
     rbind (if_given require_run (ar_run_id a) d) (\<lambda>_.
     rbind (if_given require_evidence (ar_evidence_id a) d) (\<lambda>_.
       if key = None then Inr () else rbind (require_producer_for_key producer) (\<lambda>_. Inr ()))))"

definition submitter :: "artifact_submission \<Rightarrow> string" where
  "submitter s = (case fst (snd s) of None \<Rightarrow> [] | Some p \<Rightarrow> p)"

definition evidence_guard :: "evidence \<Rightarrow> db \<Rightarrow> exn + unit" where
  "evidence_guard e d = rbind (if_given require_run (ev_run_id e) d)
     (\<lambda>_. if_given require_experiment (ev_experiment_id e) d)"

interpretation xs: keyed_create L "exp_tx L" experiments "ex_producer \<circ> snd" fst "experiment_fp L \<circ> snd"
    "''content_fingerprint''" "\<lambda>_ _. Inr ()" row_to_experiment id "valid_experiment \<circ> snd" for L
  by unfold_locales
     (auto simp: create_experiment_tx_def Let_def insert_into_Inr row_keys row_to_experiment_row try_tx_Inr
       by_opt_key_None [THEN iffD2] split: option.splits if_splits)

interpretation rn: keyed_create L "run_tx L" runs "rn_producer \<circ> snd" fst "run_fp L \<circ> snd"
    "''content_fingerprint''" "\<lambda>s. require_experiment (rn_experiment_id (snd s))" row_to_run id "valid_run \<circ> snd" for L
  by unfold_locales
     (auto simp: create_run_tx_def Let_def insert_into_Inr row_keys row_to_run_row try_tx_Inr
       fetch_run_found by_opt_key_None [THEN iffD2] dest: by_key_Some(1) split: option.splits if_splits)

interpretation es: keyed_create L "append_evidence_tx L" evidence_t ev_producer "\<lambda>e. Some (ev_idempotency_key e)"
    "evidence_fp L" "''content_fingerprint''" evidence_guard row_to_evidence canon_evidence valid_evidence for L
  by unfold_locales
     (auto simp: append_evidence_tx_def evidence_guard_def Let_def insert_into_Inr row_keys evidence_row_read
       try_tx_Inr rbind_eq_Inl rbind_eq_Inr fetch_evidence_found opt_text_def dest: by_key_Some(1)
       split: option.splits if_splits)

text \<open>\<open>register_artifact\<close> with its three guards in one.\<close>

lemma artifact_tx_guarded:
  "register_artifact_tx L key producer a d =
     try_tx (artifact_guard (key, producer, a) d) d (\<lambda>_. case key of
         None \<Rightarrow> register_new_artifact L key producer a d
       | Some k \<Rightarrow> (case by_key artifacts (submitter (key, producer, a)) k d of
             Some row \<Rightarrow>
               if col row ''idempotency_fingerprint'' \<noteq> Text (artifact_idem_fp L a)
               then (raise_cer IdempotencyConflictError, d)
               else (row_to_artifact row, d)
           | None \<Rightarrow> register_new_artifact L key producer a d))"
proof (cases "if_given require_run (ar_run_id a) d")
  case (Inr u)
  then show ?thesis
    by (cases "if_given require_evidence (ar_evidence_id a) d"; cases key; cases producer)
       (auto simp: register_artifact_tx_def artifact_guard_def submitter_def require_producer_for_key_def
         try_tx_def raise_cer_def)
qed (simp add: register_artifact_tx_def artifact_guard_def)

lemma artifact_guard_producer:
  "artifact_guard (Some k, producer, a) d = Inr () \<Longrightarrow> producer = Some (submitter (Some k, producer, a))"
  by (auto simp: artifact_guard_def submitter_def require_producer_for_key_def rbind_eq_Inr split: option.splits)

lemma register_new_artifact_Inr:
  assumes "register_new_artifact L key producer a d = (Inr y, d')" "d' \<noteq> d"
  shows "y = a \<and> d' = d(artifacts := d artifacts @ [artifact_row (if key \<noteq> None then producer else None) key
      (artifact_fp L a) (if key \<noteq> None then Some (artifact_idem_fp L a) else None) a])"
  using assms by (auto simp: register_new_artifact_def Let_def insert_into_Inr split: option.splits if_splits)

lemma artifact_miss:
  assumes "valid_artifact a" "artifact_guard (key, producer, a) d = Inr ()"
    and "\<And>k. key = Some k \<Longrightarrow> by_key artifacts (submitter (key, producer, a)) k d = None"
    and "register_artifact_tx L key producer a d = (Inr y, d')" "d' \<noteq> d"
  shows "\<exists>r. d' = d(artifacts := d artifacts @ [r]) \<and> row_to_artifact r = Inr y \<and>
      col r ''idempotency_key'' = opt_text key \<and>
      (\<forall>k. key = Some k \<longrightarrow> col r ''producer'' = Text (submitter (key, producer, a)) \<and>
         col r ''idempotency_fingerprint'' = Text (artifact_idem_fp L a))"
proof -
  have n: "register_new_artifact L key producer a d = (Inr y, d')"
    using assms(2-4) by (cases key) (simp_all add: artifact_tx_guarded)
  from register_new_artifact_Inr [OF n assms(5)]
  have y: "y = a" and d': "d' = d(artifacts := d artifacts @ [artifact_row (if key \<noteq> None then producer else None) key
      (artifact_fp L a) (if key \<noteq> None then Some (artifact_idem_fp L a) else None) a])" by blast+
  have p: "opt_text producer = Text (submitter (key, producer, a))" if "key = Some k" for k
    using artifact_guard_producer [of k producer a d] assms(2) that
    by (cases producer) (simp_all add: opt_text_def submitter_def)
  show ?thesis unfolding d' y
    by (rule exI, intro conjI, rule refl)
       (use assms(1) p in \<open>auto simp: row_to_artifact_row row_keys opt_text_def [of "Some _"]\<close>)
qed

interpretation arts: keyed_create L "artifact_tx L" artifacts submitter fst "artifact_idem_fp L \<circ> snd \<circ> snd"
    "''idempotency_fingerprint''" artifact_guard row_to_artifact id "valid_artifact \<circ> snd \<circ> snd" for L
proof
  fix s :: artifact_submission and d e
  show "artifact_guard s d = Inl e \<Longrightarrow> artifact_tx L s d = (Inl e, d)"
    by (cases s) (simp add: artifact_tx_guarded)
next
  fix s :: artifact_submission and d k r
  assume "artifact_guard s d = Inr ()" "fst s = Some k" "by_key artifacts (submitter s) k d = Some r"
  then show "artifact_tx L s d = (if col r ''idempotency_fingerprint'' \<noteq> Text ((artifact_idem_fp L \<circ> snd \<circ> snd) s)
      then (raise_cer IdempotencyConflictError, d) else (row_to_artifact r, d))"
    by (cases s) (simp add: artifact_tx_guarded)
next
  fix s :: artifact_submission and d d' y
  assume a: "(valid_artifact \<circ> snd \<circ> snd) s" "artifact_guard s d = Inr ()"
    "\<And>k. fst s = Some k \<Longrightarrow> by_key artifacts (submitter s) k d = None"
    "artifact_tx L s d = (Inr y, d')" "d' \<noteq> d"
  obtain key producer b where s: "s = (key, producer, b)" using prod_cases3 by blast
  show "\<exists>r. d' = d(artifacts := d artifacts @ [r]) \<and> row_to_artifact r = Inr (id y) \<and>
      col r ''idempotency_key'' = opt_text (fst s) \<and>
      (\<forall>k. fst s = Some k \<longrightarrow> col r ''producer'' = Text (submitter s) \<and>
         col r ''idempotency_fingerprint'' = Text ((artifact_idem_fp L \<circ> snd \<circ> snd) s))"
    using artifact_miss [of b key producer d L y d'] a unfolding s by simp
qed simp_all

interpretation pts: keyed_create L "promotion_tx L" promotions "pt_producer \<circ> snd" fst "promotion_fp L \<circ> snd"
    "''content_fingerprint''" "\<lambda>_ _. Inr ()" row_to_promotion id "valid_promotion \<circ> snd" for L
  by unfold_locales
     (auto simp: record_promotion_tx_def Let_def insert_into_Inr row_keys row_to_promotion_row try_tx_Inr
       by_opt_key_None [THEN iffD2] split: option.splits if_splits)

interpretation hrs: keyed_create L "health_tx L" health_records "hr_producer \<circ> snd" fst "health_fp L \<circ> snd"
    "''content_fingerprint''" "\<lambda>_ _. Inr ()" row_to_health canon_health "valid_health \<circ> snd" for L
  by unfold_locales
     (auto simp: record_health_tx_def Let_def insert_into_Inr row_keys row_to_health_row try_tx_Inr
       by_opt_key_None [THEN iffD2] split: option.splits if_splits)

end
