(* ===== verification/StoreFacts.thy ===== *)
theory StoreFacts
  imports Idempotency
begin

text \<open>
  Facts about single operations the properties of the store rest on: equal content has equal
  fingerprints, an unused id and key is accepted, what is read after a write, which errors a call
  can end in.
\<close>

subsection \<open>Equal content, equal fingerprint\<close>

lemma fingerprint_cong:
  assumes "map fst (payload a x) = map fst (payload b x)"
    and "map (canon \<circ> snd) (payload a x) = map (canon \<circ> snd) (payload b x)"
  shows "fingerprint L a x = fingerprint L b x"
proof -
  have z: "map (\<lambda>(k, v). (k, canon v)) xs = zip (map fst xs) (map (canon \<circ> snd) xs)" for xs
    by (induction xs) auto
  have "canon_dict (payload a x) = canon_dict (payload b x)" unfolding canon_dict_def z assms ..
  then show ?thesis by (simp add: fingerprint_def json_dumps_def canon_JObj del: canon.simps)
qed

lemma evidence_fp_cong: "content_evidence d = content_evidence e \<Longrightarrow> evidence_fp L d = evidence_fp L e"
  unfolding evidence_fp_def
  by (rule fingerprint_cong)
     (cases d; cases e; simp add: payload_simps evidence_dump_def content_evidence_def canon_evidence_def
        canon_JObj del: canon.simps(2))+

lemma experiment_fp_cong: "content_experiment x = content_experiment y \<Longrightarrow> experiment_fp L x = experiment_fp L y"
  unfolding experiment_fp_def
  by (rule fingerprint_cong) (cases x; cases y; simp add: payload_simps experiment_dump_def content_experiment_def)+

lemma run_fp_cong: "content_run r = content_run s \<Longrightarrow> run_fp L r = run_fp L s"
  unfolding run_fp_def
  by (rule fingerprint_cong) (cases r; cases s; simp add: payload_simps run_dump_def content_run_def)+

lemma artifact_idem_fp_cong: "content_artifact a = content_artifact b \<Longrightarrow> artifact_idem_fp L a = artifact_idem_fp L b"
  unfolding artifact_idem_fp_def
  by (rule fingerprint_cong) (cases a; cases b; simp add: payload_simps artifact_dump_def content_artifact_def)+

lemma promotion_fp_cong: "content_promotion p = content_promotion q \<Longrightarrow> promotion_fp L p = promotion_fp L q"
  unfolding promotion_fp_def
  by (rule fingerprint_cong) (cases p; cases q; simp add: payload_simps promotion_dump_def content_promotion_def)+

lemma health_fp_cong: "content_health g = content_health h \<Longrightarrow> health_fp L g = health_fp L h"
  unfolding health_fp_def
  by (rule fingerprint_cong)
     (cases g; cases h; simp add: payload_simps health_dump_def content_health_def canon_health_def)+

lemma strategy_fp_cong: "content_strategy s = content_strategy t \<Longrightarrow> strategy_fp L s = strategy_fp L t"
  unfolding strategy_fp_def
  by (rule fingerprint_cong) (cases s; cases t; simp add: payload_simps strategy_dump_def content_strategy_def)+

subsection \<open>Guards\<close>

lemma require_row_Inr: "require_row t c i d = Inr u \<longleftrightarrow> select_one [Eq c (Text i)] (d t) \<noteq> None"
  by (auto simp: require_row_def split: option.splits)

lemma require_row_Inl: "require_row t c i d = Inl e \<longleftrightarrow> e = new_exn NotFoundError None \<and> select_one [Eq c (Text i)] (d t) = None"
  by (auto simp: require_row_def raise_cer_def split: option.splits)

lemmas require_defs = require_strategy_def require_experiment_def require_run_def require_evidence_def

lemma require_row_later:
  assumes "grows d d'" "require_row t c i d = Inr u" "c \<notin> set (mutable t)"
  shows "require_row t c i d' = Inr u"
  using assms select_one_later [OF assms(1), of "[Eq c (Text i)]" t]
  by (auto simp: require_row_Inr)

lemma if_given_later:
  assumes "grows d d'" "if_given (require_row t c) v d = Inr u" "c \<notin> set (mutable t)"
  shows "if_given (require_row t c) v d' = Inr u"
  using assms by (cases v) (auto simp: if_given_def intro: require_row_later)

lemma evidence_guard_later: "grows d d' \<Longrightarrow> evidence_guard e d = Inr u \<Longrightarrow> evidence_guard e d' = Inr u"
  by (auto simp: evidence_guard_def require_defs rbind_eq_Inr intro: if_given_later)

lemma artifact_guard_later: "grows d d' \<Longrightarrow> artifact_guard s d = Inr u \<Longrightarrow> artifact_guard s d' = Inr u"
  using if_given_later [of d d' runs "''run_id''"] if_given_later [of d d' evidence_t "''evidence_id''"]
  by (cases s) (simp add: artifact_guard_def require_defs rbind_eq_Inr)

lemma require_row_refers: "require_row t c i d = Inr u \<Longrightarrow> \<exists>s \<in> set (d t). col s c = Text i"
  by (auto simp: require_row_Inr dest!: select_one_Some)

lemma if_given_refers:
  "if_given (require_row t pk) v d = Inr u \<Longrightarrow> col r c = opt_text v \<Longrightarrow> refers d r (c, t, pk)"
  by (cases v) (auto simp: if_given_def refers_def opt_text_def dest!: require_row_refers)

subsection \<open>A row with an unused id and key satisfies every constraint\<close>

lemma fresh_pk:
  "select_one [Eq c (Text i)] (d t) = None \<Longrightarrow> primary_key t = [c] \<Longrightarrow> col r c = Text i \<Longrightarrow>
     \<forall>s \<in> set (d t). \<not> same_on (primary_key t) r s"
  by (auto simp: select_one_None same_on_def sql_eq_commute [of "Text i"])

lemma fresh_key:
  assumes "\<And>k. key = Some k \<Longrightarrow> by_key t p k d = None" "col r ''producer'' = Text p"
    "col r ''idempotency_key'' = opt_text key"
  shows "\<forall>s \<in> set (d t). \<not> same_on key_cols r s"
  using assms by (cases key)
    (auto simp: same_on_def key_cols_def opt_text_def by_key_def select_one_None sql_eq_commute [of "Text _"])

lemma insert_ok_strategy:
  "select_one [Eq ''strategy_id'' (Text (st_strategy_id s))] (d strategies) = None \<Longrightarrow>
     insert_ok strategies (strategy_row s) d"
  using fresh_pk [of "''strategy_id''" "st_strategy_id s" d strategies "strategy_row s"]
  by (simp add: insert_ok_def strategy_row_def)

lemma insert_ok_strategy_version:
  assumes "require_strategy (sv_strategy_id s) d = Inr u"
    and "select_one [Eq ''strategy_id'' (Text (sv_strategy_id s)),
      Eq ''strategy_version'' (Text (sv_strategy_version s))] (d strategy_versions) = None"
  shows "insert_ok strategy_versions (strategy_version_row s) d"
proof -
  have "\<forall>r \<in> set (d strategy_versions). \<not> same_on (primary_key strategy_versions) (strategy_version_row s) r"
    using assms(2) by (auto simp: select_one_None same_on_def strategy_version_row_def sql_eq_commute [of "Text _"])
  then show ?thesis
    using require_row_refers assms(1)
    by (fastforce simp: insert_ok_def strategy_version_row_def require_defs refers_def)
qed

lemma insert_ok_experiment:
  assumes "by_opt_key experiments (ex_producer x) key d = None"
    and "select_one [Eq ''experiment_id'' (Text (ex_experiment_id x))] (d experiments) = None"
  shows "insert_ok experiments (experiment_row key fp x) d"
  using fresh_pk [of "''experiment_id''" "ex_experiment_id x" d experiments "experiment_row key fp x"]
    fresh_key [of key experiments "ex_producer x" d "experiment_row key fp x"] assms
  by (simp add: insert_ok_def by_opt_key_None row_keys) (simp add: experiment_row_def)

lemma insert_ok_run:
  assumes "require_experiment (rn_experiment_id r) d = Inr u"
    and "by_opt_key runs (rn_producer r) key d = None"
    and "select_one [Eq ''run_id'' (Text (rn_run_id r))] (d runs) = None"
  shows "insert_ok runs (run_row key fp r) d"
proof -
  have "list_all (refers d (run_row key fp r)) (foreign_keys runs)"
    using require_row_refers [of experiments "''experiment_id''"] assms(1)
    by (fastforce simp: require_defs refers_def run_row_def)
  then show ?thesis
    using fresh_pk [of "''run_id''" "rn_run_id r" d runs "run_row key fp r"]
      fresh_key [of key runs "rn_producer r" d "run_row key fp r"] assms(2,3)
    by (simp add: insert_ok_def by_opt_key_None row_keys) (simp add: run_row_def)
qed

lemma insert_ok_evidence:
  assumes "evidence_guard e d = Inr u"
    and "by_key evidence_t (ev_producer e) (ev_idempotency_key e) d = None"
    and "select_one [Eq ''evidence_id'' (Text (ev_evidence_id e))] (d evidence_t) = None"
  shows "insert_ok evidence_t (evidence_row fp e) d"
proof -
  have c: "col (evidence_row fp e) ''run_id'' = opt_text (ev_run_id e)"
      "col (evidence_row fp e) ''experiment_id'' = opt_text (ev_experiment_id e)"
      "col (evidence_row fp e) ''evidence_id'' = Text (ev_evidence_id e)"
    by (simp_all add: evidence_row_def)
  have "list_all (refers d (evidence_row fp e)) (foreign_keys evidence_t)"
    using assms(1) if_given_refers [OF _ c(1), of runs "''run_id''" d]
      if_given_refers [OF _ c(2), of experiments "''experiment_id''" d]
    by (auto simp: evidence_guard_def require_defs rbind_eq_Inr)
  moreover have "list_all (\<lambda>c. col (evidence_row fp e) c \<noteq> Null) (not_null evidence_t)"
    by (simp add: evidence_row_def)
  moreover have "\<forall>s \<in> set (d evidence_t). \<not> same_on (primary_key evidence_t) (evidence_row fp e) s"
    using assms(3) by (intro fresh_pk [of "''evidence_id''" "ev_evidence_id e"]) (simp_all add: c)
  moreover have "\<forall>s \<in> set (d evidence_t). \<not> same_on key_cols (evidence_row fp e) s"
    by (rule fresh_key [of "Some (ev_idempotency_key e)" evidence_t "ev_producer e"])
       (simp_all add: assms(2) row_keys opt_text_def)
  ultimately show ?thesis by (simp add: insert_ok_def)
qed

lemma insert_ok_artifact:
  assumes "if_given require_run (ar_run_id a) d = Inr u" "if_given require_evidence (ar_evidence_id a) d = Inr w"
    and "\<And>k. key = Some k \<Longrightarrow> \<exists>p. producer = Some p \<and> by_key artifacts p k d = None"
    and "select_one [Eq ''artifact_id'' (Text (ar_artifact_id a))] (d artifacts) = None"
  shows "insert_ok artifacts (artifact_row producer key fp idem a) d"
proof -
  let ?r = "artifact_row producer key fp idem a"
  have c: "col ?r ''run_id'' = opt_text (ar_run_id a)" "col ?r ''evidence_id'' = opt_text (ar_evidence_id a)"
      "col ?r ''artifact_id'' = Text (ar_artifact_id a)"
    by (simp_all add: artifact_row_def)
  have "list_all (refers d ?r) (foreign_keys artifacts)"
    using assms(1,2) if_given_refers [OF _ c(1), of runs "''run_id''" d]
      if_given_refers [OF _ c(2), of evidence_t "''evidence_id''" d]
    by (auto simp: require_defs)
  moreover have "list_all (\<lambda>c. col ?r c \<noteq> Null) (not_null artifacts)"
    by (simp add: artifact_row_def)
  moreover have "\<forall>s \<in> set (d artifacts). \<not> same_on (primary_key artifacts) ?r s"
    using assms(4) by (intro fresh_pk [of "''artifact_id''" "ar_artifact_id a"]) (simp_all add: c)
  moreover have "\<forall>s \<in> set (d artifacts). \<not> same_on key_cols ?r s"
  proof (cases key)
    case None
    then show ?thesis by (simp add: same_on_def key_cols_def row_keys opt_text_def)
  next
    case (Some k)
    with assms(3) obtain p where "producer = Some p" "by_key artifacts p k d = None" by blast
    with Some show ?thesis
      by (intro fresh_key [of key artifacts p]) (simp_all add: row_keys opt_text_def [of "Some p"])
  qed
  ultimately show ?thesis by (simp add: insert_ok_def)
qed

lemma insert_ok_promotion:
  assumes "by_opt_key promotions (pt_producer p) key d = None"
    and "select_one [Eq ''transition_id'' (Text (pt_transition_id p))] (d promotions) = None"
  shows "insert_ok promotions (promotion_row key fp p) d"
  using fresh_pk [of "''transition_id''" "pt_transition_id p" d promotions "promotion_row key fp p"]
    fresh_key [of key promotions "pt_producer p" d "promotion_row key fp p"] assms
  by (simp add: insert_ok_def by_opt_key_None row_keys) (simp add: promotion_row_def)

lemma insert_ok_health:
  assumes "by_opt_key health_records (hr_producer h) key d = None"
    and "select_one [Eq ''health_id'' (Text (hr_health_id h))] (d health_records) = None"
  shows "insert_ok health_records (health_row key fp h) d"
  using fresh_pk [of "''health_id''" "hr_health_id h" d health_records "health_row key fp h"]
    fresh_key [of key health_records "hr_producer h" d "health_row key fp h"] assms
  by (simp add: insert_ok_def by_opt_key_None row_keys) (simp add: health_row_def)

subsection \<open>Stored rows decode\<close>

lemma stored_strategy: "stored L strategies r \<Longrightarrow> \<exists>s. valid_strategy s \<and> r = strategy_row s"
  by (simp add: stored.simps)

lemma stored_run:
  "stored L runs r \<Longrightarrow> \<exists>x. valid_run x \<and> row_to_run r = Inr x \<and> col r ''run_id'' = Text (rn_run_id x) \<and>
     col r ''status'' = Text (run_status_value (rn_status x)) \<and> col r ''producer'' = Text (rn_producer x)"
  by (auto simp: stored.simps row_to_run_row) (auto simp: run_row_def)

lemma stored_evidence:
  "stored L evidence_t r \<Longrightarrow> \<exists>e. valid_evidence e \<and> r = evidence_row (evidence_fp L e) e \<and>
     row_to_evidence r = Inr (canon_evidence e)"
  by (auto simp: stored.simps evidence_row_read)

lemma stored_artifact:
  "stored L artifacts r \<Longrightarrow> \<exists>a. valid_artifact a \<and> row_to_artifact r = Inr a \<and>
     col r ''artifact_id'' = Text (ar_artifact_id a) \<and> col r ''evidence_id'' = opt_text (ar_evidence_id a) \<and>
     col r ''run_id'' = opt_text (ar_run_id a) \<and> col r ''content_fingerprint'' = Text (artifact_fp L a)"
  by (auto simp: stored.simps row_to_artifact_row) (auto simp: artifact_row_def)

lemma stored_decodes:
  "stored L experiments r \<Longrightarrow> \<exists>x. row_to_experiment r = Inr x"
  "stored L promotions r \<Longrightarrow> \<exists>p. row_to_promotion r = Inr p"
  "stored L health_records r \<Longrightarrow> \<exists>h. row_to_health r = Inr h"
  by (auto simp: stored.simps row_to_experiment_row row_to_promotion_row row_to_health_row)

subsection \<open>Closing a run\<close>

lemma status_open: "run_status_value s = ''OPEN'' \<longleftrightarrow> s = OPEN"
  by (cases s) simp_all

lemma fetch_run_row:
  assumes "wf_db L d" "fetch_run i d = Inr r"
  shows "\<exists>row \<in> set (d runs). select_one [Eq ''run_id'' (Text i)] (d runs) = Some row \<and> row_to_run row = Inr r \<and>
    valid_run r \<and> rn_run_id r = i \<and> col row ''status'' = Text (run_status_value (rn_status r))"
proof -
  from assms(2) obtain row where row: "select_one [Eq ''run_id'' (Text i)] (d runs) = Some row" "row_to_run row = Inr r"
    by (auto simp: fetch_run_def split: option.splits)
  with stored_run [OF wf_db_stored [OF assms(1)], of row] show ?thesis
    by (auto dest!: select_one_Some)
qed

lemma close_row_decodes:
  assumes "stored L runs row" "row_to_run row = Inr r" "utc_pydt t"
  shows "row_to_run (set_cols [(''status'', Text (run_status_value st)), (''ended_at'', Text (dt_to_str t))] row) =
    Inr (r\<lparr>rn_status := st, rn_ended_at := Some t\<rparr>)"
proof -
  from assms(1) obtain key x s e where x: "valid_run x" "valid_run (x\<lparr>rn_status := s, rn_ended_at := e\<rparr>)"
      "row = run_row key (run_fp L x) (x\<lparr>rn_status := s, rn_ended_at := e\<rparr>)"
    by (auto simp: stored.simps)
  then have r: "r = x\<lparr>rn_status := s, rn_ended_at := e\<rparr>" using assms(2) by (simp add: row_to_run_row)
  show ?thesis unfolding x(3) close_row
    using row_to_run_row [OF valid_run_closed [OF x(1) assms(3)]] by (simp add: r)
qed

lemma close_run_tx_open:
  assumes wf: "wf_db L d" and f: "fetch_run i d = Inr r" and o: "rn_status r = OPEN" and t: "utc_pydt t"
  shows "\<exists>d'. close_run_tx i st t d = (Inr (r\<lparr>rn_status := st, rn_ended_at := Some t\<rparr>), d') \<and>
    fetch_run i d' = Inr (r\<lparr>rn_status := st, rn_ended_at := Some t\<rparr>)"
proof -
  let ?sets = "[(''status'', Text (run_status_value st)), (''ended_at'', Text (dt_to_str t))]"
  let ?f = "\<lambda>r. if matches [Eq ''run_id'' (Text i)] r then set_cols ?sets r else r"
  obtain row where row: "row \<in> set (d runs)" "select_one [Eq ''run_id'' (Text i)] (d runs) = Some row"
      "row_to_run row = Inr r" "col row ''status'' = Text (run_status_value OPEN)"
    using fetch_run_row [OF wf f] o by auto
  let ?d = "d(runs := map ?f (d runs))"
  have "col (?f s) ''experiment_id'' = col s ''experiment_id''" for s
    by (simp add: close_keeps)
  then have "list_all (refers d (?f s)) (foreign_keys runs)" if "s \<in> set (d runs)" for s
    using integrity_refs [OF wf_db_integrity [OF wf] that] by (simp add: refers_def)
  then have refs: "list_all (\<lambda>r. list_all (refers d r) (foreign_keys runs)) (map ?f (d runs))"
    unfolding list.pred_map list_all_iff [of _ "d runs"] comp_def by blast
  have "matches [Eq ''run_id'' (Text i)] (?f s) = matches [Eq ''run_id'' (Text i)] s" for s
    by (simp add: close_keeps)
  then have "select_one [Eq ''run_id'' (Text i)] (map ?f (d runs)) = Some (?f row)"
    using row(2) by (simp add: select_one_map)
  moreover have "matches [Eq ''run_id'' (Text i)] row" using row(2) by (auto dest: select_one_Some)
  ultimately have "fetch_run i ?d = Inr (r\<lparr>rn_status := st, rn_ended_at := Some t\<rparr>)"
    using close_row_decodes [OF wf_db_stored [OF wf row(1)] row(3) t, of st] by (simp add: fetch_run_def)
  moreover have "close_run_tx i st t d = (fetch_run i ?d, ?d)"
    using refs by (simp add: close_run_tx_def row(2,4) update_where_def)
  ultimately show ?thesis by simp
qed

lemma close_run_tx_not_open:
  assumes "wf_db L d" "fetch_run i d = Inr r" "rn_status r \<noteq> OPEN"
  shows "close_run_tx i st t d = (raise_cer ImmutabilityError, d)"
  using fetch_run_row [OF assms(1,2)] assms(3)
  by (auto simp: close_run_tx_def status_open)

lemma close_run_tx_unknown:
  assumes "select_one [Eq ''run_id'' (Text i)] (d runs) = None"
  shows "close_run_tx i st t d = (raise_cer NotFoundError, d)"
  by (simp add: close_run_tx_def assms)

subsection \<open>Linking an artifact\<close>

definition fetch_artifact :: "string \<Rightarrow> db \<Rightarrow> exn + artifact" where
  "fetch_artifact i d = (case select_one [Eq ''artifact_id'' (Text i)] (d artifacts) of
     None \<Rightarrow> raise_cer NotFoundError | Some row \<Rightarrow> row_to_artifact row)"

lemma fetch_artifact_row:
  assumes "wf_db L d" "fetch_artifact i d = Inr a"
  shows "\<exists>row \<in> set (d artifacts). select_one [Eq ''artifact_id'' (Text i)] (d artifacts) = Some row \<and>
    row_to_artifact row = Inr a \<and> valid_artifact a \<and> ar_artifact_id a = i \<and>
    col row ''evidence_id'' = opt_text (ar_evidence_id a) \<and> col row ''run_id'' = opt_text (ar_run_id a)"
proof -
  from assms(2) obtain row where row: "select_one [Eq ''artifact_id'' (Text i)] (d artifacts) = Some row"
      "row_to_artifact row = Inr a"
    by (auto simp: fetch_artifact_def split: option.splits)
  with stored_artifact [OF wf_db_stored [OF assms(1)], of row] show ?thesis
    by (auto dest!: select_one_Some)
qed

text \<open>What a link may become: the new target when there is none yet or the same.\<close>

definition relink :: "string option \<Rightarrow> string option \<Rightarrow> string option" where
  "relink old new = (if new = None then old else new)"

lemma link_opt_text:
  "link (opt_text old) new =
     (if new = None \<or> old = None \<or> old = new then Inr (opt_text (relink old new)) else raise_cer ImmutabilityError)"
  by (cases old; cases new) (auto simp: link_def opt_text_def relink_def)

lemma row_to_artifact_parts:
  "utc_pydt (ar_registered_at a) \<Longrightarrow> row_to_artifact (artifact_row p k fp idem a) = mk_artifact a"
  by (simp add: row_to_artifact_def time_of_written [where t = "ar_registered_at a"] artifact_row_def text_col_def)
     (cases a, simp)

lemma link_row_decodes:
  assumes wf: "wf_db L d" and row: "row \<in> set (d artifacts)" "row_to_artifact row = Inr a"
    and refs: "list_all (refers d (set_cols [(''evidence_id'', opt_text e), (''run_id'', opt_text n)] row)) (foreign_keys artifacts)"
    and l: "link (col row ''evidence_id'') e' = Inr (opt_text e)" "link (col row ''run_id'') n' = Inr (opt_text n)"
  shows "row_to_artifact (set_cols [(''evidence_id'', opt_text e), (''run_id'', opt_text n)] row) =
    Inr (a\<lparr>ar_evidence_id := e, ar_run_id := n\<rparr>)"
proof -
  from wf_db_stored [OF wf row(1)] obtain p k b where b: "valid_artifact b"
      "row = artifact_row p k (artifact_fp L b) (map_option (\<lambda>_. artifact_idem_fp L b) k) b"
    by (auto simp: stored.simps)
  with row(2) have ab: "a = b" by (simp add: row_to_artifact_row)
  obtain p' k' c where c: "valid_artifact c" "set_cols [(''evidence_id'', opt_text e), (''run_id'', opt_text n)] row =
      artifact_row p' k' (artifact_fp L c) (map_option (\<lambda>_. artifact_idem_fp L c) k') c"
    using stored_linked [OF wf row(1) l refs] by (auto simp: stored.simps)
  let ?b = "b\<lparr>ar_evidence_id := e, ar_run_id := n\<rparr>"
  have "Inr c = row_to_artifact (artifact_row p k (artifact_fp L b) (map_option (\<lambda>_. artifact_idem_fp L b) k) ?b)"
    using row_to_artifact_row [OF c(1)] c(2) unfolding b(2) link_row by simp
  also have "\<dots> = mk_artifact ?b"
    using valid_artifact_utc [OF b(1)] by (simp add: row_to_artifact_parts)
  finally have "mk_artifact ?b = Inr c" by simp
  then have "c = ?b"
    using b(1) valid_artifact_utc [OF b(1)]
    by (auto simp: valid_artifact_def mk_artifact_def construct_ok dest: arg_cong [where f = ar_sha256])
  then show ?thesis using row_to_artifact_row [OF c(1)] c(2) ab by simp
qed

lemma try_tx_raise: "try_tx (raise_cer c) d k = (raise_cer c, d)"
  by (simp add: raise_cer_def)

lemma attach_refs:
  assumes wf: "wf_db L d" and row: "row \<in> set (d artifacts)" "col row ''artifact_id'' = Text i"
    and g: "if_given require_evidence e d = Inr ()" "if_given require_run n d = Inr ()"
    and l: "link (col row ''evidence_id'') e = Inr ne" "link (col row ''run_id'') n = Inr nr"
  shows "list_all (\<lambda>r. list_all (refers d r) (foreign_keys artifacts))
    (map (\<lambda>r. if matches [Eq ''artifact_id'' (Text i)] r
      then set_cols [(''evidence_id'', ne), (''run_id'', nr)] r else r) (d artifacts))"
    (is "list_all _ (map ?f _)")
proof -
  have "list_all (refers d (?f r)) (foreign_keys artifacts)" if r: "r \<in> set (d artifacts)" for r
  proof (cases "col r ''artifact_id'' = Text i")
    case False
    then show ?thesis using integrity_refs [OF wf_db_integrity [OF wf] r] by simp
  next
    case True
    then have rr: "r = row" using pinned [OF wf row(1) r, of "''artifact_id''" i] row(2) by simp
    let ?s = "set_cols [(''evidence_id'', ne), (''run_id'', nr)] row"
    obtain p k x where x: "row = artifact_row p k (artifact_fp L x) (map_option (\<lambda>_. artifact_idem_fp L x) k) x"
      using wf_db_stored [OF wf row(1)] by (auto simp: stored.simps)
    have s: "col ?s ''evidence_id'' = ne" "col ?s ''run_id'' = nr"
      by (simp_all add: set_cols_def x artifact_row_def)
    have o: "refers d row (''run_id'', runs, ''run_id'')" "refers d row (''evidence_id'', evidence_t, ''evidence_id'')"
      using integrity_refs [OF wf_db_integrity [OF wf] row(1)] by simp_all
    have "refers d ?s (''run_id'', runs, ''run_id'')"
    proof (cases n)
      case None
      then show ?thesis using l(2) o(1) s(2) by (simp add: link_cases refers_def)
    next
      case (Some j)
      then have "require_row runs ''run_id'' j d = Inr ()" using g(2) by (simp add: if_given_def require_run_def)
      then show ?thesis using l(2) s(2) Some by (auto simp: link_cases refers_def dest!: require_row_refers)
    qed
    moreover have "refers d ?s (''evidence_id'', evidence_t, ''evidence_id'')"
    proof (cases e)
      case None
      then show ?thesis using l(1) o(2) s(1) by (simp add: link_cases refers_def)
    next
      case (Some j)
      then have "require_row evidence_t ''evidence_id'' j d = Inr ()" using g(1) by (simp add: if_given_def require_evidence_def)
      then show ?thesis using l(1) s(1) Some by (auto simp: link_cases refers_def dest!: require_row_refers)
    qed
    ultimately show ?thesis using True rr by simp
  qed
  then show ?thesis unfolding list.pred_map list_all_iff [of _ "d artifacts"] comp_def by blast
qed

lemma attach_artifact_tx_ok:
  assumes wf: "wf_db L d" and f: "fetch_artifact i d = Inr a"
    and g: "if_given require_evidence e d = Inr ()" "if_given require_run n d = Inr ()"
    and free: "e = None \<or> ar_evidence_id a = None \<or> ar_evidence_id a = e" "n = None \<or> ar_run_id a = None \<or> ar_run_id a = n"
  shows "\<exists>d'. attach_artifact_tx i e n d =
      (Inr (a\<lparr>ar_evidence_id := relink (ar_evidence_id a) e, ar_run_id := relink (ar_run_id a) n\<rparr>), d') \<and>
    fetch_artifact i d' = Inr (a\<lparr>ar_evidence_id := relink (ar_evidence_id a) e, ar_run_id := relink (ar_run_id a) n\<rparr>)"
proof -
  obtain row where row: "row \<in> set (d artifacts)" "select_one [Eq ''artifact_id'' (Text i)] (d artifacts) = Some row"
      "row_to_artifact row = Inr a" "col row ''evidence_id'' = opt_text (ar_evidence_id a)"
      "col row ''run_id'' = opt_text (ar_run_id a)"
    using fetch_artifact_row [OF wf f] by auto
  have i: "col row ''artifact_id'' = Text i" using select_one_Some [OF row(2)] by simp
  let ?e = "relink (ar_evidence_id a) e" and ?n = "relink (ar_run_id a) n"
  have l: "link (col row ''evidence_id'') e = Inr (opt_text ?e)" "link (col row ''run_id'') n = Inr (opt_text ?n)"
    unfolding row(4,5) link_opt_text using free by simp_all
  let ?sets = "[(''evidence_id'', opt_text ?e), (''run_id'', opt_text ?n)]"
  let ?f = "\<lambda>r. if matches [Eq ''artifact_id'' (Text i)] r then set_cols ?sets r else r"
  let ?d = "d(artifacts := map ?f (d artifacts))"
  note refs = attach_refs [OF wf row(1) i g l]
  have new: "row_to_artifact (set_cols ?sets row) = Inr (a\<lparr>ar_evidence_id := ?e, ar_run_id := ?n\<rparr>)"
    using refs row(1) i by (intro link_row_decodes [OF wf row(1,3) _ l]) (force simp: list_all_iff)
  have "matches [Eq ''artifact_id'' (Text i)] (?f s) = matches [Eq ''artifact_id'' (Text i)] s" for s
    by (simp add: attach_keeps)
  then have sel: "select_one [Eq ''artifact_id'' (Text i)] (map ?f (d artifacts)) = Some (set_cols ?sets row)"
    using row(2) i by (simp add: select_one_map)
  show ?thesis
  proof (cases "opt_text ?e \<noteq> col row ''evidence_id'' \<or> opt_text ?n \<noteq> col row ''run_id''")
    case True
    have "attach_artifact_tx i e n d = (row_to_artifact (set_cols ?sets row), ?d)"
      using True refs by (simp add: attach_artifact_tx_def row(2) g l update_where_def Let_def sel
        del: matches_simps foreign_keys.simps)
    then show ?thesis using new sel by (auto simp: fetch_artifact_def)
  next
    case False
    then have same: "?e = ar_evidence_id a" "?n = ar_run_id a"
      unfolding row(4,5) by (metis opt_of_opt_text)+
    then show ?thesis using row f by (simp add: attach_artifact_tx_def g l [unfolded row(4,5)])
  qed
qed

lemma attach_artifact_tx_relink:
  assumes wf: "wf_db L d" and f: "fetch_artifact i d = Inr a"
    and g: "if_given require_evidence e d = Inr ()" "if_given require_run n d = Inr ()"
    and taken: "\<not> (e = None \<or> ar_evidence_id a = None \<or> ar_evidence_id a = e) \<or>
      \<not> (n = None \<or> ar_run_id a = None \<or> ar_run_id a = n)"
  shows "attach_artifact_tx i e n d = (raise_cer ImmutabilityError, d)"
proof -
  obtain row where row: "select_one [Eq ''artifact_id'' (Text i)] (d artifacts) = Some row"
      "col row ''evidence_id'' = opt_text (ar_evidence_id a)" "col row ''run_id'' = opt_text (ar_run_id a)"
    using fetch_artifact_row [OF wf f] by auto
  show ?thesis
  proof (cases "e = None \<or> ar_evidence_id a = None \<or> ar_evidence_id a = e")
    case True
    then have "link (opt_text (ar_evidence_id a)) e = Inr (opt_text (relink (ar_evidence_id a) e))"
        "link (opt_text (ar_run_id a)) n = raise_cer ImmutabilityError"
      using taken unfolding link_opt_text by simp_all
    then show ?thesis by (simp add: attach_artifact_tx_def row g try_tx_raise)
  next
    case False
    then have "link (opt_text (ar_evidence_id a)) e = raise_cer ImmutabilityError"
      unfolding link_opt_text by simp
    then show ?thesis by (simp add: attach_artifact_tx_def row g try_tx_raise)
  qed
qed

lemma int64_simps [simp]: "int64 (Text s)" "int64 (Real s)" "int64 Null" "int64 (opt_text v)" "int64 (opt_time u)"
    "int64 (opt_real v)" "int64 (opt_json j)"
  by (simp_all add: int64_def opt_text_def opt_time_def opt_real_def opt_json_def split: option.split)

subsection \<open>Appending evidence\<close>

lemma append_evidence_new:
  assumes "valid_evidence e" "evidence_guard e d = Inr u" "int64 (Integer (ev_schema_version e))"
    and "by_key evidence_t (ev_producer e) (ev_idempotency_key e) d = None"
    and "select_one [Eq ''evidence_id'' (Text (ev_evidence_id e))] (d evidence_t) = None"
  shows "append_evidence_tx L e d = (Inr e, d(evidence_t := d evidence_t @ [evidence_row (evidence_fp L e) e]))"
proof -
  have "list_all (\<lambda>(c, v). int64 v) (evidence_row (evidence_fp L e) e)"
    using assms(3) by (simp add: evidence_row_def)
  with assms(2,4,5) insert_ok_evidence [OF assms(2,4,5)] show ?thesis
    by (auto simp: append_evidence_tx_def evidence_guard_def rbind_eq_Inr insert_into_def)
qed

lemma fetch_evidence_row:
  assumes "wf_db L d" "fetch_evidence i d = Inr e"
  shows "\<exists>row \<in> set (d evidence_t). select_one [Eq ''evidence_id'' (Text i)] (d evidence_t) = Some row \<and>
    row_to_evidence row = Inr e \<and> ev_evidence_id e = i"
proof -
  from assms(2) obtain row where row: "select_one [Eq ''evidence_id'' (Text i)] (d evidence_t) = Some row"
      "row_to_evidence row = Inr e"
    by (auto simp: fetch_evidence_def split: option.splits)
  with stored_evidence [OF wf_db_stored [OF assms(1)], of row] show ?thesis
    by (auto simp: evidence_row_def canon_evidence_def dest!: select_one_Some)
qed

lemma fetch_evidence_later:
  assumes "grows d d'" "fetch_evidence i d = Inr e"
  shows "fetch_evidence i d' = Inr e"
  using assms(2) select_one_later [OF assms(1), of "[Eq ''evidence_id'' (Text i)]" evidence_t]
  by (auto simp: fetch_evidence_def split: option.splits)

lemma fetch_new_evidence:
  assumes "valid_evidence e" "select_one [Eq ''evidence_id'' (Text (ev_evidence_id e))] (d evidence_t) = None"
  shows "fetch_evidence (ev_evidence_id e) (d(evidence_t := d evidence_t @ [evidence_row fp e])) = Inr (canon_evidence e)"
proof -
  have "matches [Eq ''evidence_id'' (Text (ev_evidence_id e))] (evidence_row fp e)"
    by (simp add: evidence_row_def)
  then show ?thesis using assms by (simp add: fetch_evidence_def select_one_new evidence_row_read)
qed

end
