(* ===== verification/StoreErrors.thy ===== *)
theory StoreErrors
  imports StoreFacts
begin

text \<open>
  The constraints of the schema are a second line of defence: on a content the store itself
  produced, the guards and lookups of an operation catch every case an \<open>INSERT\<close> or \<open>UPDATE\<close>
  would violate, so no constraint error ever leaves a transaction body.
\<close>

lemma raise_not_sql [simp]: "(raise_cer c :: exn + 'a) \<noteq> Inl SqlError" "raise_cer c = Inl e \<Longrightarrow> e \<noteq> SqlError"
  by (auto simp: raise_cer_def new_exn_def)

lemma insert_into_no_sql: "insert_ok t r d \<Longrightarrow> fst (insert_into t r x d) \<noteq> Inl SqlError"
  by (simp add: insert_into_def)

lemma require_row_no_sql [simp]: "require_row t c i d \<noteq> Inl SqlError"
  by (simp add: require_row_def split: option.split)

lemma if_given_no_sql [simp]: "if_given (require_row t c) v d \<noteq> Inl SqlError"
  by (cases v) (simp_all add: if_given_def)

lemma artifact_guard_no_sql [simp]: "artifact_guard s d \<noteq> Inl SqlError"
  by (auto simp: artifact_guard_def require_defs rbind_eq_Inl require_producer_for_key_def split: prod.splits option.splits if_splits)

lemma try_tx_no_sql:
  "r \<noteq> Inl SqlError \<Longrightarrow> (\<And>x. r = Inr x \<Longrightarrow> fst (k x) \<noteq> Inl SqlError) \<Longrightarrow> fst (try_tx r d k) \<noteq> Inl SqlError"
  by (cases r) auto

lemma register_strategy_no_sql:
  assumes "wf_db L d"
  shows "fst (register_strategy_tx L s d) \<noteq> Inl SqlError"
proof (cases "select_one [Eq ''strategy_id'' (Text (st_strategy_id s))] (d strategies)")
  case None
  then show ?thesis by (simp add: register_strategy_tx_def insert_into_no_sql insert_ok_strategy)
next
  case (Some row)
  then obtain s' where "valid_strategy s'" "row = strategy_row s'" "st_strategy_id s' = st_strategy_id s"
    using stored_strategy [OF wf_db_stored [OF assms], of row]
    by (auto simp: strategy_row_def dest!: select_one_Some)
  then have "row_to_strategy (st_strategy_id s) row = Inr s'" using row_to_strategy_row by metis
  with Some show ?thesis by (simp add: register_strategy_tx_def)
qed

lemma register_strategy_version_no_sql:
  assumes "wf_db L d"
  shows "fst (register_strategy_version_tx L s d) \<noteq> Inl SqlError"
  unfolding register_strategy_version_tx_def
proof (rule try_tx_no_sql)
  fix u assume g: "require_strategy (sv_strategy_id s) d = Inr u"
  let ?q = "select_one [Eq ''strategy_id'' (Text (sv_strategy_id s)),
      Eq ''strategy_version'' (Text (sv_strategy_version s))] (d strategy_versions)"
  show "fst (case ?q of
      Some row \<Rightarrow> try_tx (row_to_strategy_version (sv_strategy_id s) (sv_strategy_version s) row) d (\<lambda>existing.
          if strategy_version_fp L existing \<noteq> strategy_version_fp L s then (raise_cer ImmutabilityError, d)
          else (Inr existing, d))
    | None \<Rightarrow> insert_into strategy_versions (strategy_version_row s) s d) \<noteq> Inl SqlError"
  proof (cases ?q)
    case None
    then show ?thesis using insert_ok_strategy_version [OF g] by (simp add: insert_into_no_sql)
  next
    case (Some row)
    then obtain s' where "valid_strategy_version s'" "row = strategy_version_row s'"
        "sv_strategy_id s' = sv_strategy_id s" "sv_strategy_version s' = sv_strategy_version s"
      using wf_db_stored [OF assms, of row strategy_versions]
      by (auto simp: stored.simps strategy_version_row_def dest!: select_one_Some)
    then have "row_to_strategy_version (sv_strategy_id s) (sv_strategy_version s) row = Inr s'"
      using row_to_strategy_version_row by metis
    with Some show ?thesis by simp
  qed
qed (simp add: require_defs)

lemma by_opt_key_in: "by_opt_key t p key d = Some row \<Longrightarrow> row \<in> set (d t)"
  by (auto simp: by_opt_key_def split: option.splits dest: by_key_Some(1))

text \<open>The three creations with an optional key and a comparison by id have one shape.\<close>

lemma keyed_no_sql:
  assumes dec: "\<And>row. row \<in> set (d t) \<Longrightarrow> \<exists>y. dec row = Inr y"
    and ins: "by_opt_key t p key d = None \<Longrightarrow> select_one q (d t) = None \<Longrightarrow> insert_ok t r d"
  shows "fst (case by_opt_key t p key d of
      None \<Rightarrow> (case select_one q (d t) of
          None \<Rightarrow> insert_into t r x d
        | Some row \<Rightarrow> try_tx (dec row) d (\<lambda>e. if b e then (raise_cer I, d) else (Inr e, d)))
    | Some row \<Rightarrow> if c row then (raise_cer C, d) else (dec row, d)) \<noteq> Inl SqlError"
proof (cases "by_opt_key t p key d")
  case None
  show ?thesis
  proof (cases "select_one q (d t)")
    case (Some row)
    then obtain y where "dec row = Inr y" using dec by (blast dest: select_one_Some)
    then show ?thesis using None Some by simp
  qed (use None ins in \<open>simp add: insert_into_no_sql\<close>)
next
  case (Some row)
  then obtain y where "dec row = Inr y" using dec by (blast dest: by_opt_key_in)
  then show ?thesis using Some by simp
qed

lemma create_experiment_no_sql: "wf_db L d \<Longrightarrow> fst (create_experiment_tx L key x d) \<noteq> Inl SqlError"
  unfolding create_experiment_tx_def Let_def
  by (rule keyed_no_sql) (blast intro: stored_decodes(1) wf_db_stored insert_ok_experiment)+

lemma create_run_no_sql:
  assumes "wf_db L d"
  shows "fst (create_run_tx L key r d) \<noteq> Inl SqlError"
  unfolding create_run_tx_def
proof (rule try_tx_no_sql)
  fix u assume g: "require_experiment (rn_experiment_id r) d = Inr u"
  have dec: "fetch_run (text_col row ''run_id'') d \<noteq> Inl SqlError" if "row \<in> set (d runs)" for row
    using stored_run [OF wf_db_stored [OF assms that]] by (auto simp: fetch_run_found [OF assms that])
  show "fst (let fp = run_fp L r in
       case by_opt_key runs (rn_producer r) key d of
         Some row \<Rightarrow>
           if col row ''content_fingerprint'' \<noteq> Text fp then (raise_cer IdempotencyConflictError, d)
           else (fetch_run (text_col row ''run_id'') d, d)
       | None \<Rightarrow>
           (case select_one [Eq ''run_id'' (Text (rn_run_id r))] (d runs) of
              Some _ \<Rightarrow> (raise_cer ImmutabilityError, d)
            | None \<Rightarrow> insert_into runs (run_row key fp r) r d)) \<noteq> Inl SqlError"
    using insert_ok_run [OF g]
    by (auto simp: Let_def insert_into_no_sql dec by_opt_key_def split: option.split dest!: by_key_Some(1))
qed (simp add: require_defs)

lemma close_run_no_sql:
  assumes "wf_db L d" "utc_pydt t"
  shows "fst (close_run_tx i st t d) \<noteq> Inl SqlError"
proof (cases "select_one [Eq ''run_id'' (Text i)] (d runs)")
  case None
  then show ?thesis by (simp add: close_run_tx_unknown)
next
  case (Some row)
  then have "\<exists>x. fetch_run i d = Inr x"
    using stored_run [OF wf_db_stored [OF assms(1)], of row] by (auto simp: fetch_run_def dest!: select_one_Some)
  then obtain x where "fetch_run i d = Inr x" by blast
  then show ?thesis
    using close_run_tx_open [OF assms(1) _ _ assms(2), of i x st] close_run_tx_not_open [OF assms(1), of i x st t]
    by (cases "rn_status x = OPEN") auto
qed

lemma append_evidence_no_sql:
  assumes "wf_db L d"
  shows "fst (append_evidence_tx L e d) \<noteq> Inl SqlError"
  unfolding append_evidence_tx_def
proof (intro try_tx_no_sql)
  fix u w assume g: "if_given require_run (ev_run_id e) d = Inr u" "if_given require_experiment (ev_experiment_id e) d = Inr w"
  then have g: "evidence_guard e d = Inr w" by (simp add: evidence_guard_def)
  have dec: "fetch_evidence (text_col row ''evidence_id'') d \<noteq> Inl SqlError" if "row \<in> set (d evidence_t)" for row
    using stored_evidence [OF wf_db_stored [OF assms that]] by (auto simp: fetch_evidence_found [OF assms that])
  have dec': "fetch_evidence i d \<noteq> Inl SqlError" for i
    using stored_evidence [OF wf_db_stored [OF assms]]
    by (auto simp: fetch_evidence_def split: option.split dest!: select_one_Some) force
  show "fst (let fp = evidence_fp L e in
       case by_key evidence_t (ev_producer e) (ev_idempotency_key e) d of
         Some row \<Rightarrow>
           if col row ''content_fingerprint'' \<noteq> Text fp then (raise_cer IdempotencyConflictError, d)
           else (fetch_evidence (text_col row ''evidence_id'') d, d)
       | None \<Rightarrow>
           (case select_one [Eq ''evidence_id'' (Text (ev_evidence_id e))] (d evidence_t) of
              Some row \<Rightarrow>
                if col row ''content_fingerprint'' \<noteq> Text fp then (raise_cer ImmutabilityError, d)
                else (fetch_evidence (ev_evidence_id e) d, d)
            | None \<Rightarrow> insert_into evidence_t (evidence_row fp e) e d)) \<noteq> Inl SqlError"
    using insert_ok_evidence [OF g]
    by (auto simp: Let_def insert_into_no_sql dec dec' split: option.split)
qed (simp_all add: require_defs)

lemma register_new_artifact_no_sql:
  assumes wf: "wf_db L d" and g: "artifact_guard (key, producer, a) d = Inr u"
    and k: "\<And>k. key = Some k \<Longrightarrow> by_key artifacts (submitter (key, producer, a)) k d = None"
  shows "fst (register_new_artifact L key producer a d) \<noteq> Inl SqlError"
proof (cases "select_one [Eq ''artifact_id'' (Text (ar_artifact_id a))] (d artifacts)")
  case None
  from g obtain u' w where "if_given require_run (ar_run_id a) d = Inr u'" "if_given require_evidence (ar_evidence_id a) d = Inr w"
    by (auto simp: artifact_guard_def rbind_eq_Inr)
  note ok = insert_ok_artifact [OF this]
  have "insert_ok artifacts (artifact_row (if key \<noteq> None then producer else None) key fp idem a) d" for fp idem
  proof (rule ok [OF _ None])
    fix k' assume k': "key = Some k'"
    then have "producer = Some (submitter (key, producer, a))" using artifact_guard_producer [of k' producer a d] g by simp
    then show "\<exists>p. (if key \<noteq> None then producer else None) = Some p \<and> by_key artifacts p k' d = None"
      using k [OF k'] k' by auto
  qed
  then show ?thesis by (simp add: register_new_artifact_def Let_def None insert_into_no_sql)
next
  case (Some row)
  then show ?thesis
    using stored_artifact [OF wf_db_stored [OF wf], of row]
    by (auto simp: register_new_artifact_def Let_def dest!: select_one_Some)
qed

lemma register_artifact_no_sql:
  assumes wf: "wf_db L d"
  shows "fst (register_artifact_tx L key producer a d) \<noteq> Inl SqlError"
  unfolding artifact_tx_guarded
proof (rule try_tx_no_sql)
  fix u assume g: "artifact_guard (key, producer, a) d = Inr u"
  have dec: "row_to_artifact row \<noteq> Inl SqlError" if "row \<in> set (d artifacts)" for row
    using stored_artifact [OF wf_db_stored [OF wf that]] by auto
  show "fst (case key of
         None \<Rightarrow> register_new_artifact L key producer a d
       | Some k \<Rightarrow> (case by_key artifacts (submitter (key, producer, a)) k d of
             Some row \<Rightarrow>
               if col row ''idempotency_fingerprint'' \<noteq> Text (artifact_idem_fp L a)
               then (raise_cer IdempotencyConflictError, d)
               else (row_to_artifact row, d)
           | None \<Rightarrow> register_new_artifact L key producer a d)) \<noteq> Inl SqlError"
    using register_new_artifact_no_sql [OF wf g]
    by (auto simp: dec split: option.split dest: by_key_Some(1))
qed simp

lemma link_no_sql: "link old new \<noteq> Inl SqlError"
  by (auto simp: link_def split: option.split)

lemma attach_artifact_no_sql:
  assumes wf: "wf_db L d"
  shows "fst (attach_artifact_tx i e n d) \<noteq> Inl SqlError"
proof (cases "select_one [Eq ''artifact_id'' (Text i)] (d artifacts)")
  case None
  then show ?thesis by (simp add: attach_artifact_tx_def)
next
  case (Some row)
  then obtain a where f: "fetch_artifact i d = Inr a"
    using stored_artifact [OF wf_db_stored [OF wf], of row] by (auto simp: fetch_artifact_def dest!: select_one_Some)
  show ?thesis
  proof (cases "if_given require_evidence e d = Inr () \<and> if_given require_run n d = Inr ()")
    case True
    then show ?thesis
      using attach_artifact_tx_ok [OF wf f, of e n] attach_artifact_tx_relink [OF wf f, of e n]
      by (cases "(e = None \<or> ar_evidence_id a = None \<or> ar_evidence_id a = e) \<and>
          (n = None \<or> ar_run_id a = None \<or> ar_run_id a = n)") auto
  next
    case False
    then show ?thesis
      by (cases "if_given require_evidence e d"; cases "if_given require_run n d")
         (auto simp: attach_artifact_tx_def Some require_defs)
  qed
qed

lemma record_promotion_no_sql: "wf_db L d \<Longrightarrow> fst (record_promotion_tx L key p d) \<noteq> Inl SqlError"
  unfolding record_promotion_tx_def Let_def
  by (rule keyed_no_sql) (blast intro: stored_decodes(2) wf_db_stored insert_ok_promotion)+

lemma record_health_no_sql: "wf_db L d \<Longrightarrow> fst (record_health_tx L key h d) \<noteq> Inl SqlError"
  unfolding record_health_tx_def Let_def
  by (rule keyed_no_sql) (blast intro: stored_decodes(3) wf_db_stored insert_ok_health)+

lemma transaction_no_sql:
  "commits v \<Longrightarrow> fst (body d) \<noteq> Inl SqlError \<Longrightarrow> fst (transaction v body d) \<noteq> Inl SqlError"
  by (auto simp: transaction_def require_durable_backing_def split: sum.splits prod.splits)

lemma err_of_sql: "err_of r \<noteq> Some SqlError \<longleftrightarrow> r \<noteq> Inl SqlError"
  by (cases r) auto

lemma to_utc_no_sql: "to_utc t \<noteq> Inl SqlError"
  by (auto simp: to_utc_def astimezone_utc_def of_us_def Let_def split: option.splits prod.splits if_splits)

lemma exec_op_no_sql:
  assumes "wf_db L d" "valid_op p" "commits v"
  shows "fst (exec_op L v p d) \<noteq> Some SqlError"
proof (cases p)
  case (CloseRun i st t)
  have "fst (close_run v i st t d) \<noteq> Inl SqlError"
  proof (cases "to_utc t")
    case (Inr u)
    then have "utc_pydt u" using assms(2) CloseRun to_utc_spec [of t u] by simp
    then show ?thesis
      using assms(1,3) Inr by (simp add: close_run_def transaction_no_sql close_run_no_sql)
  qed (use to_utc_no_sql [of t] in \<open>simp add: close_run_def\<close>)
  then show ?thesis by (simp add: CloseRun err_of_sql)
qed (use assms in \<open>simp_all add: err_of_sql register_strategy_def register_strategy_version_def create_experiment_def
    create_run_def append_evidence_def register_artifact_def attach_artifact_def record_promotion_def
    record_health_def transaction_no_sql register_strategy_no_sql register_strategy_version_no_sql
    create_experiment_no_sql create_run_no_sql append_evidence_no_sql register_artifact_no_sql
    attach_artifact_no_sql record_promotion_no_sql record_health_no_sql\<close>)

end
