(* ===== verification/Samples.thy ===== *)
theory Samples
  imports StoreErrors
begin

text \<open>
  Concrete objects the witnesses apply the properties to: libraries whose hash is the identity
  and whose datetime text is \<open>isoformat\<close>, a healthy environment, and one small valid object of
  each kind.
\<close>

definition plain_libs :: libs where
  "plain_libs = \<lparr>sha256_hex = (\<lambda>s. s), json_time = isoformat\<rparr>"

definition all_up :: env where
  "all_up = \<lparr>path_exists = True, connects = True, begins = True, commits = True, reads = True\<rparr>"

definition noon :: pydt where
  "noon = \<lparr>year = 2026, month = 9, day = 4, hour = 12, minute = 0, second = 0, microsecond = 0, utcoffset = Some 0\<rparr>"

definition strategy_1 :: strategy where
  "strategy_1 = \<lparr>st_strategy_id = ''btc'', st_name = ''Sweep'', st_thesis = ''mean reversion'', st_created_at = noon\<rparr>"

definition experiment_1 :: experiment_record where
  "experiment_1 = \<lparr>ex_experiment_id = ''exp_1'', ex_objective = ''validate'', ex_strategy_id = Some ''btc'',
     ex_strategy_version = None, ex_producer = ''hsa'', ex_created_at = noon\<rparr>"

definition raw_run :: run where
  "raw_run = \<lparr>rn_run_id = ''run_1'', rn_experiment_id = ''exp_1'', rn_status = OPEN, rn_started_at = noon,
     rn_ended_at = None, rn_producer = ''hsa'', rn_producer_version = None, rn_git_repo = None,
     rn_git_commit = None, rn_dataset_id = None, rn_dataset_version = None, rn_dataset_ref = None,
     rn_config_hash = None, rn_config_ref = None, rn_environment = None,
     rn_provenance_completeness = INCOMPLETE, rn_missing_provenance = []\<rparr>"

definition run_1 :: run where
  "run_1 = run_after raw_run"

definition raw_evidence :: evidence where
  "raw_evidence = \<lparr>ev_evidence_id = ''ev_1'', ev_idempotency_key = ''k1'', ev_evidence_type = BACKTEST,
     ev_schema_version = 1, ev_strategy_id = Some ''btc'', ev_strategy_version = None, ev_experiment_id = None,
     ev_run_id = None, ev_producer = ''hsa'', ev_producer_version = None, ev_created_at_utc = noon,
     ev_observed_at_utc = None, ev_git_repo = None, ev_git_commit = None, ev_dataset_id = None,
     ev_dataset_version = None, ev_dataset_ref = None, ev_config_hash = None, ev_config_ref = None,
     ev_environment = None, ev_instruments = [''BTC''], ev_timeframes = [],
     ev_metrics = [(''trades'', JInt 12)], ev_verdict = Some ''pass'', ev_status = None, ev_regime_tags = [],
     ev_parent_evidence_ids = [], ev_parent_run_ids = [], ev_artifact_ids = [], ev_notes = JObj [],
     ev_provenance_completeness = INCOMPLETE, ev_missing_provenance = []\<rparr>"

definition evidence_1 :: evidence where
  "evidence_1 = evidence_after raw_evidence"

definition artifact_1 :: artifact where
  "artifact_1 = \<lparr>ar_artifact_id = ''art_1'', ar_sha256 = replicate 64 (CHR ''a''), ar_size_bytes = 3,
     ar_content_type = ''text/csv'', ar_filename = ''a.csv'', ar_uri = ''cer://a'', ar_registered_at = noon,
     ar_run_id = None, ar_evidence_id = None\<rparr>"

definition promotion_1 :: promotion where
  "promotion_1 = \<lparr>pt_transition_id = ''trn_1'', pt_strategy_id = ''btc'', pt_strategy_version = ''1.0'',
     pt_from_state = hd promotion_states, pt_to_state = hd (tl promotion_states), pt_at_utc = noon,
     pt_authority = ''board'', pt_producer = ''hsa'', pt_evidence_ids = [''ev_1''], pt_reason = ''passed''\<rparr>"

definition health_1 :: health where
  "health_1 = \<lparr>hr_health_id = ''hlt_1'', hr_strategy_id = ''btc'', hr_strategy_version = ''1.0'',
     hr_health_state = hd health_states, hr_observed_at_utc = noon, hr_producer = ''neo'',
     hr_observed_trigger_rate = None, hr_regime_conditioned_expected_trigger_rate = None,
     hr_expectancy_r = Some ''0.5'', hr_win_rate = None, hr_drawdown = None, hr_mae = None, hr_mfe = None,
     hr_holding_time = None, hr_execution_slippage_quality = None, hr_regime_distribution = None,
     hr_strategy_chain_strength_distribution = None, hr_baseline_comparison = None, hr_confidence = None,
     hr_reason = ''stable'', hr_evidence_ids = [''ev_1'']\<rparr>"

lemma healthy_all_up [simp]: "healthy all_up"
  by (simp add: healthy_def all_up_def)

lemma times_distinct_plain [simp]: "times_distinct plain_libs"
  using dt_to_str_inj by (auto simp: times_distinct_def plain_libs_def dt_to_str_def)

lemma no_collision_plain [simp]: "no_collision plain_libs s t"
  by (simp add: no_collision_def plain_libs_def)

lemma utc_noon [simp]: "utc_pydt noon" "utc_pydt (noon\<lparr>hour := 13\<rparr>)"
  by (simp_all add: utc_pydt_def valid_pydt_def noon_def days_in_month_def is_leap_def)

lemma valid_noon [simp]: "valid_pydt noon"
  using utc_noon by (simp add: utc_pydt_def)

lemmas text_eval =
  validate_id_defs validate_generated_id_def validate_logical_id_def lookup_kind_def ID_KINDS_def
  reject_over_long_def MAX_IDENTIFIER_LENGTH_def startswith_def suffix_char_def logical_id_re_def is_alnum_def
  is_ascii_digit_def is_ascii_letter_def is_hex_letter_def non_empty_def is_blank_def strip_def lstrip_def
  rstrip_def py_isspace_def Let_def

lemma ids_ok [simp]:
  "err_of (validate_strategy_id ''btc'') = None" "err_of (validate_experiment_id ''exp_1'') = None"
  "err_of (validate_run_id ''run_1'') = None" "err_of (validate_evidence_id ''ev_1'') = None"
  "err_of (validate_artifact_id ''art_1'') = None" "err_of (validate_strategy_version ''1.0'') = None"
  by (simp_all add: text_eval)

lemma err_of_wrap: "err_of (rbind r (\<lambda>y. Inr (f y))) = err_of r"
  by (cases r) simp_all

lemma texts_ok [simp]:
  "err_of (non_empty ''hsa'') = None" "err_of (non_empty ''neo'') = None" "err_of (non_empty ''k1'') = None"
  "err_of (non_empty ''Sweep'') = None" "err_of (non_empty ''mean reversion'') = None"
  "err_of (non_empty ''validate'') = None" "err_of (non_empty ''text/csv'') = None"
  "err_of (non_empty ''a.csv'') = None" "err_of (non_empty ''cer://a'') = None"
  "err_of (non_empty ''board'') = None" "err_of (non_empty ''passed'') = None" "err_of (non_empty ''stable'') = None"
  by (simp_all add: text_eval)

lemma valid_strategy_1 [simp]: "valid_strategy strategy_1"
  by (simp add: valid_strategy_def typed_strategy_def mk_strategy_def construct_ok strategy_1_def)

lemma valid_experiment_1 [simp]: "valid_experiment experiment_1"
  by (simp add: valid_experiment_def typed_experiment_def mk_experiment_def construct_ok experiment_1_def)

lemma valid_run_1 [simp]: "valid_run run_1"
proof (rule mk_run_valid)
  show "typed_run raw_run" by (simp add: typed_run_def raw_run_def)
  have "raw_run\<lparr>rn_started_at := utc_of (rn_started_at raw_run), rn_ended_at := map_option utc_of (rn_ended_at raw_run)\<rparr> = raw_run"
    by (simp add: raw_run_def)
  then show "mk_run raw_run = Inr run_1"
    by (simp add: mk_run_def construct_ok run_1_def) (simp add: raw_run_def optional_non_empty_def)
qed

lemma valid_evidence_1 [simp]: "valid_evidence evidence_1"
proof (rule mk_evidence_valid)
  show "typed_evidence raw_evidence" by (simp add: typed_evidence_def raw_evidence_def)
  have "raw_evidence\<lparr>ev_evidence_type := parsed_type (AsEnum BACKTEST) raw_evidence,
      ev_created_at_utc := utc_of (ev_created_at_utc raw_evidence),
      ev_observed_at_utc := map_option utc_of (ev_observed_at_utc raw_evidence)\<rparr> = raw_evidence"
    by (simp add: raw_evidence_def parsed_type_def)
  then show "mk_evidence (AsEnum BACKTEST) raw_evidence = Inr evidence_1"
    by (simp add: mk_evidence_def construct_ok evidence_1_def) (simp add: raw_evidence_def)
qed

lemma valid_artifact_1 [simp]: "valid_artifact artifact_1"
  by (simp add: valid_artifact_def typed_artifact_def mk_artifact_def construct_ok artifact_1_def size_field_def
      sha256_field_def py_lower_def py_lower_char_def list_all_iff)

lemma valid_promotion_1 [simp]: "valid_promotion promotion_1"
  by (simp add: valid_promotion_def typed_promotion_def mk_promotion_def construct_ok promotion_1_def cited_evidence_def
      err_of_wrap)

lemma valid_health_1 [simp]: "valid_health health_1"
  by (simp add: valid_health_def typed_health_def mk_health_def construct_ok health_1_def cited_evidence_def
      health_floats_def float_repr_def number_char_def is_ascii_digit_def int_token_def err_of_wrap)

end
