(* ===== verification/StoreProps.thy ===== *)
theory StoreProps
  imports Samples
begin

text \<open>
  The properties of the metadata store, each over the operations of \<open>MetaStore\<close> and, where it
  speaks of later calls, over an arbitrary history (\<open>exec_ops\<close>) of valid calls.
\<close>

subsection \<open>Histories\<close>

abbreviation valid_history :: "(env \<times> op) list \<Rightarrow> bool" where
  "valid_history ps \<equiv> list_all (\<lambda>p. valid_op (snd p)) ps"

lemma history_wf: "valid_history ps \<Longrightarrow> wf_db L d \<Longrightarrow> wf_db L (exec_ops L ps d)"
  by (simp add: list_all_iff exec_ops_wf)

lemma history_grows: "valid_history ps \<Longrightarrow> wf_db L d \<Longrightarrow> grows d (exec_ops L ps d)"
  by (simp add: list_all_iff exec_ops_grows)

text \<open>The content after the first submission of \<open>evidence_1\<close>.\<close>

definition db_1 :: db where
  "db_1 = empty_db(evidence_t := [evidence_row (evidence_fp plain_libs evidence_1) evidence_1])"

lemma evidence_1_fields [simp]:
  "ev_run_id evidence_1 = None" "ev_experiment_id evidence_1 = None" "ev_schema_version evidence_1 = 1"
  "ev_producer evidence_1 = ''hsa''" "ev_idempotency_key evidence_1 = ''k1''" "ev_evidence_id evidence_1 = ''ev_1''"
  "ev_verdict evidence_1 = Some ''pass''"
  by (simp_all add: evidence_1_def evidence_after_eq raw_evidence_def)

lemma append_evidence_1: "append_evidence plain_libs all_up evidence_1 empty_db = (Inr evidence_1, db_1)"
proof -
  have "append_evidence_tx plain_libs evidence_1 empty_db =
      (Inr evidence_1, empty_db(evidence_t := empty_db evidence_t @ [evidence_row (evidence_fp plain_libs evidence_1) evidence_1]))"
    by (rule append_evidence_new [where u = "()"])
       (simp_all add: evidence_guard_def if_given_def int64_def by_key_def select_one_def, simp_all add: empty_db_def)
  moreover have "empty_db evidence_t = []" by (simp add: empty_db_def)
  ultimately show ?thesis
    by (simp add: append_evidence_def transaction_healthy db_1_def)
qed

lemma db_1_new: "db_1 \<noteq> empty_db"
  by (auto simp: db_1_def empty_db_def dest: fun_cong [of _ _ evidence_t])

lemma wf_db_1 [simp]: "wf_db plain_libs db_1"
  using exec_op_step [of "AppendEvidence evidence_1" plain_libs empty_db all_up] append_evidence_1
    db_step_wf [OF _ wf_db_empty] by simp

subsection \<open>Idempotent submission\<close>

lemma append_evidence_tx_of:
  "append_evidence L v e d = (Inr y, d') \<Longrightarrow> append_evidence_tx L e d = (Inr y, d')"
  by (simp add: append_evidence_def transaction_Inr)

lemma append_evidence_inserted:
  assumes "wf_db L d" "append_evidence_tx L e d = (Inr y, d')" "d' \<noteq> d"
  shows "y = e" "evidence_guard e d = Inr ()" "by_key evidence_t (ev_producer e) (ev_idempotency_key e) d = None"
    "select_one [Eq ''evidence_id'' (Text (ev_evidence_id e))] (d evidence_t) = None"
    "d' = d(evidence_t := d evidence_t @ [evidence_row (evidence_fp L e) e])"
  using assms(2,3)
  by (auto simp: append_evidence_tx_def Let_def tx_Inr evidence_guard_def rbind_eq_Inr split: option.splits if_splits)

lemma append_evidence_retry:
  assumes wf: "wf_db L d" and e: "valid_evidence e" and first: "append_evidence L v e d = (Inr y, d1)" "d1 \<noteq> d"
    and hist: "valid_history ps" and same: "ev_producer e' = ev_producer e" "ev_idempotency_key e' = ev_idempotency_key e"
    and g: "evidence_guard e' (exec_ops L ps d1) = Inr ()"
  shows "append_evidence_tx L e' (exec_ops L ps d1) =
    (if evidence_fp L e' \<noteq> evidence_fp L e then (raise_cer IdempotencyConflictError, exec_ops L ps d1)
     else (Inr (canon_evidence e), exec_ops L ps d1))"
proof -
  note tx = append_evidence_tx_of [OF first(1)]
  note ins = append_evidence_inserted [OF wf tx first(2)]
  have wf1: "wf_db L d1" using db_step_wf [OF append_evidence_step [OF tx e] wf] .
  obtain r r' where r: "row_to_evidence r = Inr (canon_evidence y)" "later evidence_t r r'"
    "append_evidence_tx L e' (exec_ops L ps d1) =
      (if evidence_fp L e' \<noteq> evidence_fp L e then (raise_cer IdempotencyConflictError, exec_ops L ps d1)
       else (row_to_evidence r', exec_ops L ps d1))"
    using es.retry [OF e ins(2) refl ins(3) tx first(2) history_grows [OF hist wf1] history_wf [OF hist wf1] g] same
    by auto
  then show ?thesis using ins(1) by simp
qed

lemma append_evidence_replay:
  assumes "wf_db L d" "valid_evidence e" "append_evidence L v e d = (Inr y, d1)" "d1 \<noteq> d"
    and "valid_history ps" "healthy w" "content_evidence e' = content_evidence e"
  shows "append_evidence L w e' (exec_ops L ps d1) = (Inr (canon_evidence e), exec_ops L ps d1)"
proof -
  let ?d = "exec_ops L ps d1"
  note tx = append_evidence_tx_of [OF assms(3)]
  have c: "ev_producer e' = ev_producer e" "ev_idempotency_key e' = ev_idempotency_key e" "ev_run_id e' = ev_run_id e"
      "ev_experiment_id e' = ev_experiment_id e"
    using arg_cong [OF assms(7), of ev_producer] arg_cong [OF assms(7), of ev_idempotency_key]
      arg_cong [OF assms(7), of ev_run_id] arg_cong [OF assms(7), of ev_experiment_id]
    by (simp_all add: content_evidence_def canon_evidence_def)
  have wf1: "wf_db L d1" using db_step_wf [OF append_evidence_step [OF tx assms(2)] assms(1)] .
  have "grows d ?d"
    using db_step_grows [OF append_evidence_step [OF tx assms(2)] assms(1)] history_grows [OF assms(5) wf1]
    by (rule grows_trans)
  then have "evidence_guard e ?d = Inr ()"
    using append_evidence_inserted(2) [OF assms(1) tx assms(4)] evidence_guard_later by blast
  then have "evidence_guard e' ?d = Inr ()" using c(3,4) by (simp add: evidence_guard_def)
  from append_evidence_retry [OF assms(1-5) c(1,2) this] show ?thesis
    using assms(6) evidence_fp_cong [OF assms(7), of L] by (simp add: append_evidence_def transaction_healthy)
qed

text \<open>C1 A retry of an acknowledged evidence submission, by the same producer under the same key
  with the same authored content (id and creation time may differ), returns the record stored
  first and writes nothing, whatever valid calls were made in between.\<close>

theorem evidence_retry_returns_stored:
  assumes "wf_db L d" "valid_evidence e" "append_evidence L v e d = (Inr y, d1)" "d1 \<noteq> d"
    and "valid_history ps" "healthy w" "content_evidence e' = content_evidence e"
  shows "append_evidence L w e' (exec_ops L ps d1) = (Inr (canon_evidence e), exec_ops L ps d1)"
  by (rule append_evidence_replay [OF assms])

theorem evidence_retry_returns_stored_witness:
  "append_evidence plain_libs all_up (evidence_1\<lparr>ev_evidence_id := ''ev_2'', ev_created_at_utc := noon\<lparr>hour := 13\<rparr>\<rparr>)
      (exec_ops plain_libs [(all_up, RegisterStrategy strategy_1)] db_1) =
    (Inr (canon_evidence evidence_1), exec_ops plain_libs [(all_up, RegisterStrategy strategy_1)] db_1)"
  by (rule evidence_retry_returns_stored [OF wf_db_empty _ append_evidence_1 db_1_new])
     (simp_all add: content_evidence_def canon_evidence_def)

text \<open>C3 A resubmission under the same producer and key whose authored content differs is refused
  as an idempotency conflict and writes nothing, whatever valid calls were made in between.\<close>

theorem evidence_changed_content_conflicts:
  assumes "wf_db L d" "valid_evidence e" "append_evidence L v e d = (Inr y, d1)" "d1 \<noteq> d"
    and "valid_history ps" "healthy w" "valid_evidence e'"
    and "ev_producer e' = ev_producer e" "ev_idempotency_key e' = ev_idempotency_key e"
    and "evidence_guard e' (exec_ops L ps d1) = Inr ()"
    and "content_evidence e' \<noteq> content_evidence e" "times_distinct L"
    and "no_collision L (payload_text (evidence_dump L e') EVIDENCE_FP_EXCLUDE)
      (payload_text (evidence_dump L e) EVIDENCE_FP_EXCLUDE)"
  shows "append_evidence L w e' (exec_ops L ps d1) = (raise_cer IdempotencyConflictError, exec_ops L ps d1)"
proof -
  have "evidence_fp L e' \<noteq> evidence_fp L e"
    using evidence_fp_eq_iff [OF assms(7,2,12,13)] assms(11) by simp
  with append_evidence_retry [OF assms(1-5,8-10)] assms(6) show ?thesis
    by (simp add: append_evidence_def transaction_healthy raise_cer_def)
qed

definition evidence_2 :: evidence where
  "evidence_2 = evidence_after (raw_evidence\<lparr>ev_verdict := Some ''fail''\<rparr>)"

lemma valid_evidence_2 [simp]: "valid_evidence evidence_2"
proof (rule mk_evidence_valid)
  let ?e = "raw_evidence\<lparr>ev_verdict := Some ''fail''\<rparr>"
  show "typed_evidence ?e" by (simp add: typed_evidence_def raw_evidence_def)
  have "?e\<lparr>ev_evidence_type := parsed_type (AsEnum BACKTEST) ?e, ev_created_at_utc := utc_of (ev_created_at_utc ?e),
      ev_observed_at_utc := map_option utc_of (ev_observed_at_utc ?e)\<rparr> = ?e"
    by (simp add: raw_evidence_def parsed_type_def)
  then show "mk_evidence (AsEnum BACKTEST) ?e = Inr evidence_2"
    by (simp add: mk_evidence_def construct_ok evidence_2_def) (simp add: raw_evidence_def)
qed

lemma evidence_2_fields [simp]:
  "ev_run_id evidence_2 = None" "ev_experiment_id evidence_2 = None" "ev_schema_version evidence_2 = 1"
  "ev_producer evidence_2 = ''hsa''" "ev_idempotency_key evidence_2 = ''k1''" "ev_evidence_id evidence_2 = ''ev_1''"
  "ev_verdict evidence_2 = Some ''fail''"
  by (simp_all add: evidence_2_def evidence_after_eq raw_evidence_def)

theorem evidence_changed_content_conflicts_witness:
  "append_evidence plain_libs all_up evidence_2 (exec_ops plain_libs [(all_up, RegisterStrategy strategy_1)] db_1) =
    (raise_cer IdempotencyConflictError, exec_ops plain_libs [(all_up, RegisterStrategy strategy_1)] db_1)"
proof (rule evidence_changed_content_conflicts [OF wf_db_empty valid_evidence_1 append_evidence_1 db_1_new])
  show "content_evidence evidence_2 \<noteq> content_evidence evidence_1"
    by (auto simp: content_evidence_def canon_evidence_def dest: arg_cong [where f = ev_verdict])
qed (simp_all add: evidence_guard_def if_given_def)

text \<open>Idempotency keys belong to their producer: a submission by another producer under the same
  key string is accepted as a new record.\<close>

theorem same_key_other_producer_accepted:
  assumes "wf_db L d" "valid_evidence e" "append_evidence L v e d = (Inr y, d1)" "healthy w"
    and "valid_evidence e'" "ev_producer e' \<noteq> ev_producer e" "ev_idempotency_key e' = ev_idempotency_key e"
    and "by_key evidence_t (ev_producer e') (ev_idempotency_key e') d = None"
    and "fetch_evidence (ev_evidence_id e') d1 = raise_cer NotFoundError"
    and "evidence_guard e' d1 = Inr ()" "int64 (Integer (ev_schema_version e'))"
  shows "append_evidence L w e' d1 = (Inr e', d1(evidence_t := d1 evidence_t @ [evidence_row (evidence_fp L e') e']))"
proof -
  note tx = append_evidence_tx_of [OF assms(3)]
  have "by_key evidence_t (ev_producer e') (ev_idempotency_key e') d1 = None"
    using es.other_key_untouched [OF assms(1,2) tx, of "ev_idempotency_key e'" "ev_producer e'"] assms(6,8) by simp
  moreover have "select_one [Eq ''evidence_id'' (Text (ev_evidence_id e'))] (d1 evidence_t) = None"
  proof (cases "select_one [Eq ''evidence_id'' (Text (ev_evidence_id e'))] (d1 evidence_t)")
    case (Some row)
    have "wf_db L d1" using db_step_wf [OF append_evidence_step [OF tx assms(2)] assms(1)] .
    then show ?thesis using assms(9) Some stored_evidence [OF wf_db_stored, of L d1 row]
      by (auto simp: fetch_evidence_def dest!: select_one_Some)
  qed
  ultimately show ?thesis
    using append_evidence_new [OF assms(5,10,11), of L] assms(4) by (simp add: append_evidence_def transaction_healthy)
qed

definition evidence_3 :: evidence where
  "evidence_3 = evidence_after (raw_evidence\<lparr>ev_producer := ''neo'', ev_evidence_id := ''ev_3''\<rparr>)"

lemma id_ev_3 [simp]: "err_of (validate_evidence_id ''ev_3'') = None"
  by (simp add: text_eval)

lemma valid_evidence_3 [simp]: "valid_evidence evidence_3"
proof (rule mk_evidence_valid)
  let ?e = "raw_evidence\<lparr>ev_producer := ''neo'', ev_evidence_id := ''ev_3''\<rparr>"
  show "typed_evidence ?e" by (simp add: typed_evidence_def raw_evidence_def)
  have "?e\<lparr>ev_evidence_type := parsed_type (AsEnum BACKTEST) ?e, ev_created_at_utc := utc_of (ev_created_at_utc ?e),
      ev_observed_at_utc := map_option utc_of (ev_observed_at_utc ?e)\<rparr> = ?e"
    by (simp add: raw_evidence_def parsed_type_def)
  then show "mk_evidence (AsEnum BACKTEST) ?e = Inr evidence_3"
    by (simp add: mk_evidence_def construct_ok evidence_3_def) (simp add: raw_evidence_def)
qed

lemma evidence_3_fields [simp]:
  "ev_run_id evidence_3 = None" "ev_experiment_id evidence_3 = None" "ev_schema_version evidence_3 = 1"
  "ev_producer evidence_3 = ''neo''" "ev_idempotency_key evidence_3 = ''k1''" "ev_evidence_id evidence_3 = ''ev_3''"
  by (simp_all add: evidence_3_def evidence_after_eq raw_evidence_def)

theorem same_key_other_producer_accepted_witness:
  "append_evidence plain_libs all_up evidence_3 db_1 =
     (Inr evidence_3, db_1(evidence_t := db_1 evidence_t @ [evidence_row (evidence_fp plain_libs evidence_3) evidence_3]))"
proof (rule same_key_other_producer_accepted [OF wf_db_empty valid_evidence_1 append_evidence_1])
  show "fetch_evidence (ev_evidence_id evidence_3) db_1 = raise_cer NotFoundError"
    by (simp add: fetch_evidence_def db_1_def select_one_def evidence_row_def)
qed (simp_all add: evidence_guard_def if_given_def int64_def by_key_def select_one_def, simp_all add: empty_db_def)

text \<open>The same for the operations whose key is optional.\<close>

lemma tx_of:
  "create_experiment L v key x d = (Inr x', d') \<Longrightarrow> create_experiment_tx L key x d = (Inr x', d')"
  "create_run L v key r d = (Inr r', d') \<Longrightarrow> create_run_tx L key r d = (Inr r', d')"
  "register_artifact L v key producer a d = (Inr a', d') \<Longrightarrow> register_artifact_tx L key producer a d = (Inr a', d')"
  "record_promotion L v key p d = (Inr p', d') \<Longrightarrow> record_promotion_tx L key p d = (Inr p', d')"
  "record_health L v key h d = (Inr h', d') \<Longrightarrow> record_health_tx L key h d = (Inr h', d')"
  by (simp_all add: create_experiment_def create_run_def register_artifact_def record_promotion_def record_health_def
      transaction_Inr)

lemma new_run_facts:
  assumes "create_run_tx L (Some k) r d = (Inr y, d')" "d' \<noteq> d"
  shows "y = r" "require_experiment (rn_experiment_id r) d = Inr ()" "by_key runs (rn_producer r) k d = None"
    "d' = d(runs := d runs @ [run_row (Some k) (run_fp L r) r])"
    "select_one [Eq ''run_id'' (Text (rn_run_id r))] (d runs) = None"
  using assms by (auto simp: create_run_tx_def Let_def tx_Inr split: option.splits if_splits)

lemma later_run_decodes:
  assumes "wf_db L d" "by_key runs p k d = Some row" "col row ''run_id'' = Text i"
  shows "\<exists>x. fetch_run i d = Inr x \<and> row_to_run row = Inr x \<and> rn_run_id x = i"
proof -
  have row: "row \<in> set (d runs)" using assms(2) by (rule by_key_Some)
  then have "fetch_run i d = row_to_run row"
    using fetch_run_found [OF assms(1) row] assms(3) by (simp add: text_col_def)
  with stored_run [OF wf_db_stored [OF assms(1) row]] assms(3) show ?thesis by auto
qed

text \<open>C25 Retrying the creation of a run under its key returns the run as it now stands (it may have
  been closed in between), under the id it was first given, and writes nothing; changed content is
  refused as a conflict.\<close>

theorem run_retry:
  assumes "wf_db L d" "valid_run r" "create_run L v (Some k) r d = (Inr y, d1)" "d1 \<noteq> d"
    and "valid_history ps" "healthy w" "rn_producer r' = rn_producer r"
    and "require_experiment (rn_experiment_id r') (exec_ops L ps d1) = Inr ()"
    and "valid_run r'" "times_distinct L"
    and "no_collision L (payload_text (run_dump L r') RUN_FP_EXCLUDE) (payload_text (run_dump L r) RUN_FP_EXCLUDE)"
  shows "create_run L w (Some k) r' (exec_ops L ps d1) =
      (if content_run r' = content_run r then (fetch_run (rn_run_id r) (exec_ops L ps d1), exec_ops L ps d1)
       else (raise_cer IdempotencyConflictError, exec_ops L ps d1)) \<and>
    (\<exists>x. fetch_run (rn_run_id r) (exec_ops L ps d1) = Inr x \<and> rn_run_id x = rn_run_id r)"
proof -
  let ?d = "exec_ops L ps d1"
  note tx = tx_of(2) [OF assms(3)]
  note new = new_run_facts [OF tx assms(4)]
  have wf1: "wf_db L d1" using db_step_wf [OF create_run_step [OF tx assms(2)] assms(1)] .
  note wf2 = history_wf [OF assms(5) wf1]
  have found: "by_key runs (rn_producer r) k d1 = Some (run_row (Some k) (run_fp L r) r)"
    unfolding new(4) using new(3) by (simp add: by_key_def select_one_new row_keys opt_text_def)
  then obtain row where row: "by_key runs (rn_producer r) k ?d = Some row"
      "later runs (run_row (Some k) (run_fp L r) r) row"
    using by_key_later [OF history_grows [OF assms(5) wf1]] by blast
  have cols: "col row ''run_id'' = Text (rn_run_id r)" "col row ''content_fingerprint'' = Text (run_fp L r)"
    using later_cols [OF row(2), of "''run_id''"] later_cols [OF row(2), of "''content_fingerprint''"]
    by (simp_all add: row_keys) (simp add: run_row_def)
  obtain x where x: "fetch_run (rn_run_id r) ?d = Inr x" "row_to_run row = Inr x" "rn_run_id x = rn_run_id r"
    using later_run_decodes [OF wf2 row(1) cols(1)] by blast
  have "create_run_tx L (Some k) r' ?d = (if col row ''content_fingerprint'' \<noteq> Text (run_fp L r')
      then (raise_cer IdempotencyConflictError, ?d) else (row_to_run row, ?d))"
    using rn.hit [OF wf2, of "(Some k, r')" k row] assms(7,8) row(1) by simp
  then show ?thesis using x cols assms(6) run_fp_eq_iff [OF assms(9,2,10,11)]
    by (auto simp: create_run_def transaction_healthy raise_cer_def)
qed

lemma insert_into_new: "insert_ok t r d \<Longrightarrow> list_all (\<lambda>(c, v). int64 v) r \<Longrightarrow> insert_into t r x d = (Inr x, d(t := d t @ [r]))"
  by (simp add: insert_into_def)

text \<open>A content with one experiment and one keyed run.\<close>

definition db_exp :: db where
  "db_exp = empty_db(experiments := [experiment_row None (experiment_fp plain_libs experiment_1) experiment_1])"

lemma empty_table [simp]: "empty_db t = []"
  by (simp add: empty_db_def)

lemma empty_lookups [simp]: "select_one cs [] = None" "by_opt_key t p key empty_db = None" "by_key t p k empty_db = None"
  by (simp_all add: select_one_def by_opt_key_def by_key_def split: option.split)

lemma create_experiment_1: "create_experiment plain_libs all_up None experiment_1 empty_db = (Inr experiment_1, db_exp)"
proof -
  have "insert_ok experiments (experiment_row None (experiment_fp plain_libs experiment_1) experiment_1) empty_db"
    by (rule insert_ok_experiment) simp_all
  moreover have "list_all (\<lambda>(c, v). int64 v) (experiment_row None (experiment_fp plain_libs experiment_1) experiment_1)"
    by (simp add: experiment_row_def)
  ultimately show ?thesis
    by (simp add: create_experiment_def transaction_healthy create_experiment_tx_def Let_def insert_into_new db_exp_def)
qed

lemma wf_db_exp [simp]: "wf_db plain_libs db_exp"
  using exec_op_step [of "CreateExperiment None experiment_1" plain_libs empty_db all_up] create_experiment_1
    db_step_wf [OF _ wf_db_empty] by simp

lemma db_exp_tables [simp]:
  "t \<noteq> experiments \<Longrightarrow> db_exp t = []"
  "db_exp experiments = [experiment_row None (experiment_fp plain_libs experiment_1) experiment_1]"
  by (simp_all add: db_exp_def)

lemma run_1_fields [simp]: "rn_experiment_id run_1 = ''exp_1''" "rn_producer run_1 = ''hsa''" "rn_run_id run_1 = ''run_1''"
    "rn_status run_1 = OPEN" "rn_ended_at run_1 = None"
  by (simp_all add: run_1_def run_after_eq raw_run_def)

lemma exp_1_required [simp]: "require_experiment ''exp_1'' db_exp = Inr ()"
  by (simp add: require_defs require_row_def select_one_def experiment_row_def experiment_1_def)

definition db_run :: db where
  "db_run = db_exp(runs := [run_row (Some ''k1'') (run_fp plain_libs run_1) run_1])"

lemma create_run_1: "create_run plain_libs all_up (Some ''k1'') run_1 db_exp = (Inr run_1, db_run)"
proof -
  have "insert_ok runs (run_row (Some ''k1'') (run_fp plain_libs run_1) run_1) db_exp"
    by (rule insert_ok_run [where u = "()"]) (simp_all add: by_key_def)
  moreover have "list_all (\<lambda>(c, v). int64 v) (run_row (Some ''k1'') (run_fp plain_libs run_1) run_1)"
    by (simp add: run_row_def)
  ultimately show ?thesis
    by (simp add: create_run_def transaction_healthy create_run_tx_def Let_def insert_into_new db_run_def by_key_def)
qed

lemma db_run_new: "db_run \<noteq> db_exp"
  by (auto simp: db_run_def dest: fun_cong [of _ _ runs])

lemma wf_db_run [simp]: "wf_db plain_libs db_run"
  using exec_op_step [of "CreateRun (Some ''k1'') run_1" plain_libs db_exp all_up] create_run_1
    db_step_wf [OF _ wf_db_exp] by simp

lemma exp_1_required_run [simp]: "require_experiment ''exp_1'' db_run = Inr ()"
  using exp_1_required by (simp add: require_defs require_row_def db_run_def)

definition run_1b :: run where
  "run_1b = run_after (raw_run\<lparr>rn_run_id := ''run_2''\<rparr>)"

lemma id_run_2 [simp]: "err_of (validate_run_id ''run_2'') = None"
  by (simp add: text_eval)

lemma valid_run_1b [simp]: "valid_run run_1b"
proof (rule mk_run_valid)
  let ?r = "raw_run\<lparr>rn_run_id := ''run_2''\<rparr>"
  show "typed_run ?r" by (simp add: typed_run_def raw_run_def)
  have "?r\<lparr>rn_started_at := utc_of (rn_started_at ?r), rn_ended_at := map_option utc_of (rn_ended_at ?r)\<rparr> = ?r"
    by (simp add: raw_run_def)
  then show "mk_run ?r = Inr run_1b"
    by (simp add: mk_run_def construct_ok run_1b_def) (simp add: raw_run_def optional_non_empty_def)
qed

lemma run_1b_fields [simp]: "rn_experiment_id run_1b = ''exp_1''" "rn_producer run_1b = ''hsa''"
  by (simp_all add: run_1b_def run_after_eq raw_run_def)

theorem run_retry_witness:
  "create_run plain_libs all_up (Some ''k1'') run_1b (exec_ops plain_libs [] db_run) =
      (if content_run run_1b = content_run run_1
       then (fetch_run (rn_run_id run_1) (exec_ops plain_libs [] db_run), exec_ops plain_libs [] db_run)
       else (raise_cer IdempotencyConflictError, exec_ops plain_libs [] db_run)) \<and>
    (\<exists>x. fetch_run (rn_run_id run_1) (exec_ops plain_libs [] db_run) = Inr x \<and> rn_run_id x = rn_run_id run_1)"
  by (rule run_retry [OF wf_db_exp valid_run_1 create_run_1 db_run_new]) simp_all

lemma new_artifact_facts:
  assumes "register_artifact_tx L (Some k) producer a d = (Inr y, d')" "d' \<noteq> d"
  shows "y = a \<and> artifact_guard (Some k, producer, a) d = Inr () \<and>
    by_key artifacts (submitter (Some k, producer, a)) k d = None"
proof -
  from assms(1) have g: "artifact_guard (Some k, producer, a) d = Inr ()"
    by (auto simp: artifact_tx_guarded try_tx_Inr)
  moreover from assms g have "by_key artifacts (submitter (Some k, producer, a)) k d = None"
    by (auto simp: artifact_tx_guarded split: option.splits if_splits)
  moreover from assms calculation have "register_new_artifact L (Some k) producer a d = (Inr y, d')"
    by (simp add: artifact_tx_guarded)
  ultimately show ?thesis using register_new_artifact_Inr assms(2) by blast
qed

text \<open>A registration under a key binds the key: after any history it leads to the artifact registered first.\<close>

lemma artifact_key_bound:
  assumes "wf_db L d" "valid_artifact a" "register_artifact L v (Some k) producer a d = (Inr y, d1)" "d1 \<noteq> d"
    and "valid_history ps"
  obtains row b where "by_key artifacts (submitter (Some k, producer, a)) k (exec_ops L ps d1) = Some row"
    "row_to_artifact row = Inr b" "ar_artifact_id b = ar_artifact_id a"
    "fetch_artifact (ar_artifact_id a) (exec_ops L ps d1) = Inr b"
    "col row ''idempotency_fingerprint'' = Text (artifact_idem_fp L a)"
    "producer = Some (submitter (Some k, producer, a))" "require_producer_for_key producer = Inr (submitter (Some k, producer, a))"
proof -
  let ?d = "exec_ops L ps d1" and ?s = "(Some k, producer, a)"
  note tx = tx_of(3) [OF assms(3)]
  have new: "artifact_guard ?s d = Inr ()" "by_key artifacts (submitter ?s) k d = None"
    using new_artifact_facts [OF tx assms(4)] by simp_all
  have wf1: "wf_db L d1" using db_step_wf [OF register_artifact_step [OF tx assms(2)] assms(1)] .
  note wf2 = history_wf [OF assms(5) wf1]
  have "register_new_artifact L (Some k) producer a d = (Inr y, d1)" using tx new by (simp add: artifact_tx_guarded)
  from register_new_artifact_Inr [OF this assms(4)]
  have d1: "d1 = d(artifacts := d artifacts @ [artifact_row producer (Some k) (artifact_fp L a) (Some (artifact_idem_fp L a)) a])"
    by simp
  let ?r = "artifact_row producer (Some k) (artifact_fp L a) (Some (artifact_idem_fp L a)) a"
  note pr = artifact_guard_producer [OF new(1)]
  have p: "col ?r ''producer'' = Text (submitter ?s)"
    using pr by (cases producer) (simp_all add: row_keys opt_text_def submitter_def)
  have "by_key artifacts (submitter ?s) k d1 = Some ?r"
    unfolding d1 using new(2) p by (simp add: by_key_def select_one_new row_keys opt_text_def [of "Some k"])
  then obtain row where row: "by_key artifacts (submitter ?s) k ?d = Some row" "later artifacts ?r row"
    using by_key_later [OF history_grows [OF assms(5) wf1]] by blast
  have cols: "col row ''artifact_id'' = Text (ar_artifact_id a)"
      "col row ''idempotency_fingerprint'' = Text (artifact_idem_fp L a)"
    using later_cols [OF row(2), of "''artifact_id''"] later_cols [OF row(2), of "''idempotency_fingerprint''"]
    by (simp_all add: row_keys opt_text_def) (simp add: artifact_row_def)
  note in_d = by_key_Some(1) [OF row(1)]
  have f: "fetch_artifact (ar_artifact_id a) ?d = row_to_artifact row"
    using fetch_found [OF wf2 in_d _ cols(1)] by (simp add: fetch_artifact_def)
  obtain b where b: "row_to_artifact row = Inr b" "ar_artifact_id b = ar_artifact_id a"
    using stored_artifact [OF wf_db_stored [OF wf2 in_d]] cols(1) by auto
  have "require_producer_for_key producer = Inr (submitter ?s)"
    using new(1) by (auto simp: artifact_guard_def submitter_def require_producer_for_key_def rbind_eq_Inr split: option.splits if_splits)
  from that [OF row(1) b] f b(1) cols(2) pr this show thesis by simp
qed

lemma artifact_replayed:
  assumes "wf_db L d" "valid_artifact a" "register_artifact L v (Some k) producer a d = (Inr y, d1)" "d1 \<noteq> d"
    and "valid_history ps" "healthy w" "artifact_guard (Some k, producer, a') (exec_ops L ps d1) = Inr ()"
    and "no_collision L (payload_text (artifact_dump L a') ARTIFACT_IDEM_FP_EXCLUDE)
      (payload_text (artifact_dump L a) ARTIFACT_IDEM_FP_EXCLUDE)"
  shows "register_artifact L w (Some k) producer a' (exec_ops L ps d1) =
      (if content_artifact a' = content_artifact a
       then (fetch_artifact (ar_artifact_id a) (exec_ops L ps d1), exec_ops L ps d1)
       else (raise_cer IdempotencyConflictError, exec_ops L ps d1)) \<and>
    (\<exists>b. fetch_artifact (ar_artifact_id a) (exec_ops L ps d1) = Inr b \<and> ar_artifact_id b = ar_artifact_id a)"
proof -
  let ?d = "exec_ops L ps d1" and ?s = "(Some k, producer, a)"
  obtain row b where row: "by_key artifacts (submitter ?s) k ?d = Some row" "row_to_artifact row = Inr b"
      "ar_artifact_id b = ar_artifact_id a" "fetch_artifact (ar_artifact_id a) ?d = Inr b"
      "col row ''idempotency_fingerprint'' = Text (artifact_idem_fp L a)"
    using artifact_key_bound [OF assms(1-5)] by blast
  note wf = db_step_wf [OF register_artifact_step [OF tx_of(3) [OF assms(3)] assms(2)] assms(1)]
  have "submitter (Some k, producer, a') = submitter ?s" by (simp add: submitter_def)
  then have "register_artifact_tx L (Some k) producer a' ?d =
      (if col row ''idempotency_fingerprint'' \<noteq> Text (artifact_idem_fp L a')
       then (raise_cer IdempotencyConflictError, ?d) else (row_to_artifact row, ?d))"
    using arts.hit [OF history_wf [OF assms(5) wf], of "(Some k, producer, a')" k row] assms(7) row(1) by simp
  then show ?thesis using row assms(6) artifact_idem_fp_eq_iff [OF assms(8)]
    by (auto simp: register_artifact_def transaction_healthy raise_cer_def)
qed

text \<open>Retrying an artifact registration under its key (producer header and key) returns the
  artifact registered first with the links it has by now, and writes nothing; different bytes, size,
  content type or file name are refused as a conflict. Storage location and registration time do not
  count.\<close>

theorem artifact_retry:
  assumes "wf_db L d" "valid_artifact a" "register_artifact L v (Some k) producer a d = (Inr y, d1)" "d1 \<noteq> d"
    and "valid_history ps" "healthy w" "artifact_guard (Some k, producer, a') (exec_ops L ps d1) = Inr ()"
    and "no_collision L (payload_text (artifact_dump L a') ARTIFACT_IDEM_FP_EXCLUDE)
      (payload_text (artifact_dump L a) ARTIFACT_IDEM_FP_EXCLUDE)"
  shows "register_artifact L w (Some k) producer a' (exec_ops L ps d1) =
      (if content_artifact a' = content_artifact a
       then (fetch_artifact (ar_artifact_id a) (exec_ops L ps d1), exec_ops L ps d1)
       else (raise_cer IdempotencyConflictError, exec_ops L ps d1)) \<and>
    (\<exists>b. fetch_artifact (ar_artifact_id a) (exec_ops L ps d1) = Inr b \<and> ar_artifact_id b = ar_artifact_id a)"
  by (rule artifact_replayed [OF assms])

definition db_art :: db where
  "db_art = empty_db(artifacts := [artifact_row (Some ''hsa'') (Some ''k1'') (artifact_fp plain_libs artifact_1)
     (Some (artifact_idem_fp plain_libs artifact_1)) artifact_1])"

lemma artifact_1_fields [simp]: "ar_run_id artifact_1 = None" "ar_evidence_id artifact_1 = None"
    "ar_artifact_id artifact_1 = ''art_1''" "ar_size_bytes artifact_1 = 3"
  by (simp_all add: artifact_1_def)

lemma hsa_scopes [simp]: "artifact_guard (Some ''k1'', Some ''hsa'', artifact_1) d = Inr ()"
    "artifact_guard (Some ''k1'', Some ''hsa'', artifact_1\<lparr>ar_artifact_id := i\<rparr>) d = Inr ()"
  by (simp_all add: artifact_guard_def if_given_def require_producer_for_key_def strip_def lstrip_def rstrip_def
      py_isspace_def)

lemma register_artifact_1:
  "register_artifact plain_libs all_up (Some ''k1'') (Some ''hsa'') artifact_1 empty_db = (Inr artifact_1, db_art)"
proof -
  let ?r = "artifact_row (Some ''hsa'') (Some ''k1'') (artifact_fp plain_libs artifact_1)
     (Some (artifact_idem_fp plain_libs artifact_1)) artifact_1"
  have "insert_ok artifacts ?r empty_db"
    by (rule insert_ok_artifact [where u = "()" and w = "()"]) (simp_all add: if_given_def)
  moreover have "list_all (\<lambda>(c, v). int64 v) ?r"
    by (simp add: artifact_row_def) (simp add: int64_def)
  ultimately show ?thesis
    by (simp add: register_artifact_def transaction_healthy artifact_tx_guarded register_new_artifact_def Let_def
        insert_into_new db_art_def)
qed

lemma db_art_new: "db_art \<noteq> empty_db"
  by (auto simp: db_art_def dest: fun_cong [of _ _ artifacts])

theorem artifact_retry_witness:
  "register_artifact plain_libs all_up (Some ''k1'') (Some ''hsa'') (artifact_1\<lparr>ar_artifact_id := ''art_2''\<rparr>)
      (exec_ops plain_libs [] db_art) =
      (if content_artifact (artifact_1\<lparr>ar_artifact_id := ''art_2''\<rparr>) = content_artifact artifact_1
       then (fetch_artifact (ar_artifact_id artifact_1) (exec_ops plain_libs [] db_art), exec_ops plain_libs [] db_art)
       else (raise_cer IdempotencyConflictError, exec_ops plain_libs [] db_art)) \<and>
    (\<exists>b. fetch_artifact (ar_artifact_id artifact_1) (exec_ops plain_libs [] db_art) = Inr b \<and>
       ar_artifact_id b = ar_artifact_id artifact_1)"
  by (rule artifact_retry [OF wf_db_empty valid_artifact_1 register_artifact_1 db_art_new]) simp_all

text \<open>Retrying a promotion transition under its producer and key returns the stored transition
  (one intended transition is recorded once); changed content is refused as a conflict. Neither
  writes anything.\<close>

theorem promotion_retry:
  assumes "wf_db L d" "valid_promotion p" "record_promotion L v (Some k) p d = (Inr y, d1)" "d1 \<noteq> d"
    and "valid_history ps" "healthy w" "pt_producer p' = pt_producer p"
    and "no_collision L (payload_text (promotion_dump L p') PROMOTION_FP_EXCLUDE)
      (payload_text (promotion_dump L p) PROMOTION_FP_EXCLUDE)"
  shows "record_promotion L w (Some k) p' (exec_ops L ps d1) =
      (if content_promotion p' = content_promotion p then (Inr p, exec_ops L ps d1)
       else (raise_cer IdempotencyConflictError, exec_ops L ps d1))"
proof -
  let ?d = "exec_ops L ps d1"
  note tx = tx_of(4) [OF assms(3)]
  have new: "by_key promotions (pt_producer p) k d = None" "y = p"
    using tx assms(4) by (auto simp: record_promotion_tx_def Let_def tx_Inr split: option.splits if_splits)
  have wf1: "wf_db L d1" using db_step_wf [OF record_promotion_step [OF tx assms(2)] assms(1)] .
  obtain r where r: "row_to_promotion r = Inr p"
    "promotion_tx L (Some k, p') ?d = (if promotion_fp L p' \<noteq> promotion_fp L p
       then (raise_cer IdempotencyConflictError, ?d) else (row_to_promotion r, ?d))"
    using pts.retry [where ?s = "(Some k, p)" and ?d = d and ?k = k and ?L = L and ?y = y and ?d1.0 = d1 and ?d2.0 = "exec_ops L ps d1"
        and ?s' = "(Some k, p')"] assms(2,4,7) tx new
      history_grows [OF assms(5) wf1] history_wf [OF assms(5) wf1] by auto
  then show ?thesis using assms(6) promotion_fp_eq_iff [OF assms(8)]
    by (auto simp: record_promotion_def transaction_healthy raise_cer_def)
qed

definition db_prom :: db where
  "db_prom = empty_db(promotions := [promotion_row (Some ''k1'') (promotion_fp plain_libs promotion_1) promotion_1])"

lemma record_promotion_1: "record_promotion plain_libs all_up (Some ''k1'') promotion_1 empty_db = (Inr promotion_1, db_prom)"
proof -
  have "insert_ok promotions (promotion_row (Some ''k1'') (promotion_fp plain_libs promotion_1) promotion_1) empty_db"
    by (rule insert_ok_promotion) simp_all
  moreover have "list_all (\<lambda>(c, v). int64 v) (promotion_row (Some ''k1'') (promotion_fp plain_libs promotion_1) promotion_1)"
    by (simp add: promotion_row_def)
  ultimately show ?thesis
    by (simp add: record_promotion_def transaction_healthy record_promotion_tx_def Let_def insert_into_new db_prom_def)
qed

theorem promotion_retry_witness:
  "record_promotion plain_libs all_up (Some ''k1'') (promotion_1\<lparr>pt_reason := ''other''\<rparr>)
      (exec_ops plain_libs [(all_up, AppendEvidence evidence_1)] db_prom) =
    (if content_promotion (promotion_1\<lparr>pt_reason := ''other''\<rparr>) = content_promotion promotion_1
     then (Inr promotion_1, exec_ops plain_libs [(all_up, AppendEvidence evidence_1)] db_prom)
     else (raise_cer IdempotencyConflictError, exec_ops plain_libs [(all_up, AppendEvidence evidence_1)] db_prom))"
  by (rule promotion_retry [OF wf_db_empty valid_promotion_1 record_promotion_1])
     (auto simp: db_prom_def dest: fun_cong [of _ _ promotions])

text \<open>Retrying a health observation under its producer and key returns the stored observation;
  changed content is refused as a conflict. Neither writes anything.\<close>

theorem health_retry:
  assumes "wf_db L d" "valid_health h" "record_health L v (Some k) h d = (Inr y, d1)" "d1 \<noteq> d"
    and "valid_history ps" "healthy w" "valid_health h'" "hr_producer h' = hr_producer h"
    and "no_collision L (payload_text (health_dump L h') HEALTH_FP_EXCLUDE) (payload_text (health_dump L h) HEALTH_FP_EXCLUDE)"
  shows "record_health L w (Some k) h' (exec_ops L ps d1) =
      (if content_health h' = content_health h then (Inr (canon_health h), exec_ops L ps d1)
       else (raise_cer IdempotencyConflictError, exec_ops L ps d1))"
proof -
  let ?d = "exec_ops L ps d1"
  note tx = tx_of(5) [OF assms(3)]
  have new: "by_key health_records (hr_producer h) k d = None" "y = h"
    using tx assms(4) by (auto simp: record_health_tx_def Let_def tx_Inr split: option.splits if_splits)
  have wf1: "wf_db L d1" using db_step_wf [OF record_health_step [OF tx assms(2)] assms(1)] .
  obtain r where r: "row_to_health r = Inr (canon_health h)"
    "health_tx L (Some k, h') ?d = (if health_fp L h' \<noteq> health_fp L h
       then (raise_cer IdempotencyConflictError, ?d) else (row_to_health r, ?d))"
    using hrs.retry [where ?s = "(Some k, h)" and ?d = d and ?k = k and ?L = L and ?y = y and ?d1.0 = d1 and ?d2.0 = "exec_ops L ps d1"
        and ?s' = "(Some k, h')"] assms(2,4,8) tx new
      history_grows [OF assms(5) wf1] history_wf [OF assms(5) wf1] by auto
  then show ?thesis using assms(6) health_fp_eq_iff [OF assms(7,2,9)]
    by (auto simp: record_health_def transaction_healthy raise_cer_def)
qed

definition db_health :: db where
  "db_health = empty_db(health_records := [health_row (Some ''k1'') (health_fp plain_libs health_1) health_1])"

lemma record_health_1: "record_health plain_libs all_up (Some ''k1'') health_1 empty_db = (Inr health_1, db_health)"
proof -
  have "insert_ok health_records (health_row (Some ''k1'') (health_fp plain_libs health_1) health_1) empty_db"
    by (rule insert_ok_health) simp_all
  moreover have "list_all (\<lambda>(c, v). int64 v) (health_row (Some ''k1'') (health_fp plain_libs health_1) health_1)"
    by (simp add: health_row_def)
  ultimately show ?thesis
    by (simp add: record_health_def transaction_healthy record_health_tx_def Let_def insert_into_new db_health_def)
qed

theorem health_retry_witness:
  "record_health plain_libs all_up (Some ''k1'') health_1 (exec_ops plain_libs [] db_health) =
    (if content_health health_1 = content_health health_1
     then (Inr (canon_health health_1), exec_ops plain_libs [] db_health)
     else (raise_cer IdempotencyConflictError, exec_ops plain_libs [] db_health))"
  by (rule health_retry [OF wf_db_empty valid_health_1 record_health_1])
     (auto simp: db_health_def dest: fun_cong [of _ _ health_records])

end
