(* ===== verification/HistoryProps.thy ===== *)
theory HistoryProps
  imports StoreProps
begin

text \<open>
  Properties of the metadata store over whole histories: the schema's invariant, immutability of
  what was acknowledged, the life of a run and of an artifact's links, and what a failing call or
  a lost backing does.
\<close>

subsection \<open>The invariant\<close>

text \<open>C14 Whatever sequence of valid calls is made, in whatever environment: every row is the row of
  a valid contract object with its own content fingerprint, primary keys and (producer,
  idempotency key) pairs are unique, and every reference points to an existing row.\<close>

theorem every_history_keeps_invariant:
  assumes "valid_history ps"
  shows "wf_db L (exec_ops L ps empty_db)"
  using history_wf [OF assms wf_db_empty] .

theorem every_history_keeps_invariant_witness:
  "wf_db plain_libs (exec_ops plain_libs
     [(all_up, RegisterStrategy strategy_1), (all_up\<lparr>commits := False\<rparr>, AppendEvidence evidence_1),
      (all_up, AppendEvidence evidence_1), (all_up, RecordHealth (Some ''k'') health_1)] empty_db)"
  by (rule every_history_keeps_invariant) simp

text \<open>C24 No call on a content the store produced ends in a constraint error of SQLite: the guards
  and lookups catch every duplicate and every dangling reference first, as contract errors.\<close>

theorem no_constraint_error:
  assumes "valid_history ps" "valid_op p" "commits v"
  shows "fst (exec_op L v p (exec_ops L ps empty_db)) \<noteq> Some SqlError"
  using exec_op_no_sql [OF history_wf [OF assms(1) wf_db_empty] assms(2,3)] .

theorem no_constraint_error_witness:
  "fst (exec_op plain_libs all_up (RegisterArtifact (Some ''k'') (Some ''hsa'') artifact_1)
     (exec_ops plain_libs [(all_up, RegisterArtifact (Some ''k'') (Some ''hsa'') artifact_1)] empty_db)) \<noteq> Some SqlError"
  by (rule no_constraint_error) (simp_all add: all_up_def)

subsection \<open>Failure and durability\<close>

lemma transaction_atomic: "err_of (fst (transaction v body d)) \<noteq> None \<Longrightarrow> snd (transaction v body d) = d"
  by (cases "fst (transaction v body d)") (auto dest: transaction_Inl)

text \<open>C19 A call that raises, for whatever reason and at whatever point of its transaction, leaves
  the content unchanged.\<close>

theorem failed_call_changes_nothing:
  assumes "fst (exec_op L v p d) = Some e"
  shows "snd (exec_op L v p d) = d"
  using assms
  by (cases p)
     (auto simp: register_strategy_def register_strategy_version_def create_experiment_def create_run_def
       close_run_def append_evidence_def register_artifact_def attach_artifact_def record_promotion_def
       record_health_def transaction_atomic split: sum.splits)

theorem failed_call_changes_nothing_witness:
  "snd (exec_op plain_libs (all_up\<lparr>commits := False\<rparr>) (AppendEvidence evidence_1) empty_db) = empty_db"
proof (rule failed_call_changes_nothing)
  have "append_evidence_tx plain_libs evidence_1 empty_db = (Inr evidence_1, db_1)"
    using append_evidence_tx_of [OF append_evidence_1] .
  then show "fst (exec_op plain_libs (all_up\<lparr>commits := False\<rparr>) (AppendEvidence evidence_1) empty_db) = Some SqlError"
    by (simp add: append_evidence_def transaction_def require_durable_backing_def all_up_def)
qed

text \<open>Without its durable backing no write is acknowledged: every call fails with a metadata
  store error (or, closing a run with a timestamp it cannot convert, before the transaction) and
  writes nothing.\<close>

theorem lost_backing_refuses_writes:
  assumes "\<not> path_exists v"
  shows "\<exists>e. exec_op L v p d = (Some e, d) \<and>
    (e = new_exn MetadataStoreError None \<or> (\<exists>i st t. p = CloseRun i st t \<and> to_utc t = Inl e))"
proof -
  have t: "transaction v body d = (raise_cer MetadataStoreError, d)" for body :: "db \<Rightarrow> 'x outcome"
    using assms by (simp add: transaction_def require_durable_backing_def raise_cer_def)
  show ?thesis
    by (cases p)
       (auto simp: t register_strategy_def register_strategy_version_def create_experiment_def create_run_def
         close_run_def append_evidence_def register_artifact_def attach_artifact_def record_promotion_def
         record_health_def raise_cer_def split: sum.split)
qed

theorem lost_backing_refuses_writes_witness:
  "\<exists>e. exec_op plain_libs (all_up\<lparr>path_exists := False\<rparr>) (AppendEvidence evidence_1) db_exp = (Some e, db_exp) \<and>
    (e = new_exn MetadataStoreError None \<or> (\<exists>i st t. AppendEvidence evidence_1 = CloseRun i st t \<and> to_utc t = Inl e))"
  by (rule lost_backing_refuses_writes) (simp add: all_up_def)

subsection \<open>Immutability\<close>

text \<open>C7 Evidence that can be read is read unchanged after any sequence of valid calls: no
  operation edits, replaces or removes an evidence record.\<close>

theorem evidence_immutable:
  assumes "wf_db L d" "get_evidence v i d = Inr e" "valid_history ps" "healthy w"
  shows "get_evidence w i (exec_ops L ps d) = Inr e"
proof -
  have "fetch_evidence i d = Inr e"
    using assms(2) by (auto simp: get_evidence_def reading_def split: if_splits)
  from fetch_evidence_later [OF history_grows [OF assms(3,1)] this] show ?thesis
    using assms(4) by (simp add: get_evidence_def reading_def healthy_def)
qed

lemma get_evidence_1: "get_evidence all_up ''ev_1'' db_1 = Inr (canon_evidence evidence_1)"
proof -
  have "select_one [Eq ''evidence_id'' (Text ''ev_1'')] (db_1 evidence_t) =
      Some (evidence_row (evidence_fp plain_libs evidence_1) evidence_1)"
    by (simp add: db_1_def select_one_def evidence_row_def)
  then show ?thesis
    by (simp add: get_evidence_def reading_def fetch_evidence_def evidence_row_read) (simp add: all_up_def)
qed

theorem evidence_immutable_witness:
  "get_evidence all_up ''ev_1'' (exec_ops plain_libs
      [(all_up, AppendEvidence evidence_2), (all_up, AppendEvidence evidence_3)] db_1) = Inr (canon_evidence evidence_1)"
  by (rule evidence_immutable [OF wf_db_1 get_evidence_1]) simp_all

text \<open>What a new submission stores is what a later read returns, whatever valid calls came in
  between: the evidence is decoded exactly, its dicts in key order.\<close>

theorem append_then_get:
  assumes "wf_db L d" "valid_evidence e" "append_evidence L v e d = (Inr y, d1)" "d1 \<noteq> d"
    and "valid_history ps" "healthy w"
  shows "get_evidence w (ev_evidence_id e) (exec_ops L ps d1) = Inr (canon_evidence e)"
proof -
  note tx = append_evidence_tx_of [OF assms(3)]
  note ins = append_evidence_inserted [OF assms(1) tx assms(4)]
  have wf1: "wf_db L d1" using db_step_wf [OF append_evidence_step [OF tx assms(2)] assms(1)] .
  have "fetch_evidence (ev_evidence_id e) d1 = Inr (canon_evidence e)"
    unfolding ins(5) using fetch_new_evidence [where d = d, OF assms(2) ins(4)] .
  from fetch_evidence_later [OF history_grows [OF assms(5) wf1] this] show ?thesis
    using assms(6) by (simp add: get_evidence_def reading_def healthy_def)
qed

theorem append_then_get_witness:
  "get_evidence all_up (ev_evidence_id evidence_1) (exec_ops plain_libs [(all_up, AppendEvidence evidence_3)] db_1) =
     Inr (canon_evidence evidence_1)"
  by (rule append_then_get [OF wf_db_empty valid_evidence_1 append_evidence_1 db_1_new]) simp_all

text \<open>A strategy id is registered once: registering it again answers with the stored strategy
  when name and thesis are the same (whatever the timestamp), and is refused as an immutability
  violation when they differ. Either way nothing is written, and the stored strategy stays what it
  was after any sequence of valid calls.\<close>

theorem strategy_registered_once:
  assumes "wf_db L d" "valid_strategy s" "register_strategy L v s d = (Inr y, d1)" "d1 \<noteq> d"
    and "valid_history ps" "healthy w" "st_strategy_id t = st_strategy_id s"
    and "no_collision L (payload_text (strategy_dump L s) STRATEGY_FP_EXCLUDE)
      (payload_text (strategy_dump L t) STRATEGY_FP_EXCLUDE)"
  shows "register_strategy L w t (exec_ops L ps d1) =
    (if st_name t = st_name s \<and> st_thesis t = st_thesis s then (Inr s, exec_ops L ps d1)
     else (raise_cer ImmutabilityError, exec_ops L ps d1))"
proof -
  let ?d = "exec_ops L ps d1" and ?q = "[Eq ''strategy_id'' (Text (st_strategy_id s))]"
  have tx: "register_strategy_tx L s d = (Inr y, d1)"
    using assms(3) by (simp add: register_strategy_def transaction_Inr)
  with assms(4) have new: "select_one ?q (d strategies) = None" "d1 = d(strategies := d strategies @ [strategy_row s])"
    by (auto simp: register_strategy_tx_def tx_Inr split: option.splits if_splits)
  have wf1: "wf_db L d1" using db_step_wf [OF register_strategy_step [OF tx assms(2)] assms(1)] .
  have "matches ?q (strategy_row s)" by (simp add: strategy_row_def)
  then have "select_one ?q (d1 strategies) = Some (strategy_row s)"
    using new by (simp add: select_one_new)
  then have "select_one ?q (?d strategies) = Some (strategy_row s)"
    using select_one_later [OF history_grows [OF assms(5) wf1], of ?q strategies] by auto
  moreover have "content_strategy s = content_strategy t \<longleftrightarrow> st_name t = st_name s \<and> st_thesis t = st_thesis s"
    using assms(7) by (cases s; cases t) (auto simp: content_strategy_def)
  ultimately show ?thesis
    using assms(6,7) row_to_strategy_row [OF assms(2)] strategy_fp_eq_iff [OF assms(8)]
    by (auto simp: register_strategy_def transaction_healthy register_strategy_tx_def raise_cer_def)
qed

definition db_strat :: db where
  "db_strat = empty_db(strategies := [strategy_row strategy_1])"

lemma register_strategy_1: "register_strategy plain_libs all_up strategy_1 empty_db = (Inr strategy_1, db_strat)"
proof -
  have "insert_ok strategies (strategy_row strategy_1) empty_db"
    by (rule insert_ok_strategy) simp
  moreover have "list_all (\<lambda>(c, v). int64 v) (strategy_row strategy_1)"
    by (simp add: strategy_row_def)
  ultimately show ?thesis
    by (simp add: register_strategy_def transaction_healthy register_strategy_tx_def insert_into_new db_strat_def)
qed

theorem strategy_registered_once_witness:
  "register_strategy plain_libs all_up (strategy_1\<lparr>st_thesis := ''momentum''\<rparr>)
      (exec_ops plain_libs [(all_up, AppendEvidence evidence_1)] db_strat) =
    (if st_name (strategy_1\<lparr>st_thesis := ''momentum''\<rparr>) = st_name strategy_1 \<and>
        st_thesis (strategy_1\<lparr>st_thesis := ''momentum''\<rparr>) = st_thesis strategy_1
     then (Inr strategy_1, exec_ops plain_libs [(all_up, AppendEvidence evidence_1)] db_strat)
     else (raise_cer ImmutabilityError, exec_ops plain_libs [(all_up, AppendEvidence evidence_1)] db_strat))"
  by (rule strategy_registered_once [OF wf_db_empty valid_strategy_1 register_strategy_1])
     (auto simp: db_strat_def dest: fun_cong [of _ _ strategies])

subsection \<open>The life of a run\<close>

text \<open>Closing an open run records the given status and the end time in UTC, returns the run so
  updated, keeps everything else, and the run reads that way afterwards.\<close>

theorem close_open_run:
  assumes "wf_db L d" "fetch_run i d = Inr r" "rn_status r = OPEN" "valid_pydt t" "to_utc t = Inr u" "healthy v"
  shows "\<exists>d'. close_run v i st t d = (Inr (r\<lparr>rn_status := st, rn_ended_at := Some u\<rparr>), d') \<and>
    fetch_run i d' = Inr (r\<lparr>rn_status := st, rn_ended_at := Some u\<rparr>) \<and> instant u = instant t"
proof -
  have u: "utc_pydt u" "instant u = instant t" using to_utc_spec [OF assms(4,5)] by simp_all
  from close_run_tx_open [OF assms(1-3) u(1), of st] show ?thesis
    using assms(5,6) u(2) by (auto simp: close_run_def transaction_healthy)
qed

lemma fetch_run_1: "fetch_run ''run_1'' db_run = Inr run_1"
proof -
  have "select_one [Eq ''run_id'' (Text ''run_1'')] (db_run runs) =
      Some (run_row (Some ''k1'') (run_fp plain_libs run_1) run_1)"
    by (simp add: db_run_def select_one_def run_row_def)
  then show ?thesis by (simp add: fetch_run_def row_to_run_row)
qed

theorem close_open_run_witness:
  "\<exists>d'. close_run all_up ''run_1'' FAILED noon db_run = (Inr (run_1\<lparr>rn_status := FAILED, rn_ended_at := Some noon\<rparr>), d') \<and>
    fetch_run ''run_1'' d' = Inr (run_1\<lparr>rn_status := FAILED, rn_ended_at := Some noon\<rparr>) \<and> instant noon = instant noon"
  by (rule close_open_run [OF wf_db_run fetch_run_1]) simp_all

text \<open>C22 A closed or failed run is final: it reads the same after any sequence of valid calls, and
  every attempt to close it again is refused as an immutability violation.\<close>

theorem closed_run_final:
  assumes "wf_db L d" "fetch_run i d = Inr r" "rn_status r \<noteq> OPEN" "valid_history ps" "healthy v" "to_utc t = Inr u"
  shows "fetch_run i (exec_ops L ps d) = Inr r \<and>
    close_run v i st t (exec_ops L ps d) = (raise_cer ImmutabilityError, exec_ops L ps d)"
proof -
  let ?d = "exec_ops L ps d"
  obtain row where row: "select_one [Eq ''run_id'' (Text i)] (d runs) = Some row" "row_to_run row = Inr r"
      "col row ''status'' = Text (run_status_value (rn_status r))"
    using fetch_run_row [OF assms(1,2)] by auto
  obtain row' where row': "select_one [Eq ''run_id'' (Text i)] (?d runs) = Some row'" "later runs row row'"
    using select_one_later [OF history_grows [OF assms(4,1)] row(1)] by auto
  have "row' = row" using row'(2) row(3) assms(3) by (auto simp: status_open)
  then have f: "fetch_run i ?d = Inr r" using row'(1) row(2) by (simp add: fetch_run_def)
  with close_run_tx_not_open [OF history_wf [OF assms(4,1)] f assms(3)] assms(5,6) show ?thesis
    by (simp add: close_run_def transaction_healthy raise_cer_def)
qed

definition run_closed :: run where
  "run_closed = run_1\<lparr>rn_status := CLOSED, rn_ended_at := Some noon\<rparr>"

definition db_closed :: db where
  "db_closed = snd (close_run all_up ''run_1'' CLOSED noon db_run)"

lemma db_closed: "wf_db plain_libs db_closed" "fetch_run ''run_1'' db_closed = Inr run_closed"
proof -
  have "db_step plain_libs db_run db_closed"
    using exec_op_step [of "CloseRun ''run_1'' CLOSED noon" plain_libs db_run all_up] by (simp add: db_closed_def)
  then show "wf_db plain_libs db_closed" by (rule db_step_wf) simp
  show "fetch_run ''run_1'' db_closed = Inr run_closed"
    using close_run_tx_open [OF wf_db_run fetch_run_1 _ utc_noon(1), of CLOSED]
    by (auto simp: db_closed_def run_closed_def close_run_def transaction_healthy)
qed

theorem closed_run_final_witness:
  "fetch_run ''run_1'' (exec_ops plain_libs [(all_up, CloseRun ''run_1'' FAILED noon)] db_closed) = Inr run_closed \<and>
    close_run all_up ''run_1'' OPEN noon (exec_ops plain_libs [(all_up, CloseRun ''run_1'' FAILED noon)] db_closed) =
      (raise_cer ImmutabilityError, exec_ops plain_libs [(all_up, CloseRun ''run_1'' FAILED noon)] db_closed)"
  by (rule closed_run_final [OF db_closed]) (simp_all add: run_closed_def)

text \<open>Nothing stops a caller from closing a run with the status \<open>OPEN\<close>: the end time is recorded
  but the run stays open, so it can be closed again and its recorded end time is overwritten.\<close>

theorem close_as_open_is_repeatable:
  assumes "wf_db L d" "fetch_run i d = Inr r" "rn_status r = OPEN" "valid_pydt t" "to_utc t = Inr u"
    and "valid_pydt t'" "to_utc t' = Inr u'" "healthy v"
  shows "\<exists>d' d''. close_run v i OPEN t d = (Inr (r\<lparr>rn_status := OPEN, rn_ended_at := Some u\<rparr>), d') \<and>
    close_run v i OPEN t' d' = (Inr (r\<lparr>rn_status := OPEN, rn_ended_at := Some u'\<rparr>), d'')"
proof -
  have u: "utc_pydt u" "utc_pydt u'" using to_utc_spec [OF assms(4,5)] to_utc_spec [OF assms(6,7)] by simp_all
  obtain d' where d': "close_run_tx i OPEN u d = (Inr (r\<lparr>rn_status := OPEN, rn_ended_at := Some u\<rparr>), d')"
      "fetch_run i d' = Inr (r\<lparr>rn_status := OPEN, rn_ended_at := Some u\<rparr>)"
    using close_run_tx_open [OF assms(1-3) u(1)] by blast
  have "wf_db L d'" using db_step_wf [OF close_run_step [OF d'(1) u(1)] assms(1)] .
  from close_run_tx_open [OF this d'(2) _ u(2), of OPEN] d'(1) assms(5,7,8) show ?thesis
    by (auto simp: close_run_def transaction_healthy)
qed

theorem close_as_open_is_repeatable_witness:
  "\<exists>d' d''. close_run all_up ''run_1'' OPEN noon db_run = (Inr (run_1\<lparr>rn_status := OPEN, rn_ended_at := Some noon\<rparr>), d') \<and>
    close_run all_up ''run_1'' OPEN (noon\<lparr>hour := 13\<rparr>) d' =
      (Inr (run_1\<lparr>rn_status := OPEN, rn_ended_at := Some (noon\<lparr>hour := 13\<rparr>)\<rparr>), d'')"
  by (rule close_as_open_is_repeatable [OF wf_db_run fetch_run_1]) (simp_all add: utc_noon(2) [unfolded utc_pydt_def])

subsection \<open>The links of an artifact\<close>

text \<open>C23 The links of an artifact are written once: after any sequence of valid calls the artifact
  is found under its id with the same content, and a link that was set is still the same.\<close>

theorem artifact_links_written_once:
  assumes "wf_db L d" "get_artifact v i d = Inr a" "valid_history ps" "healthy w"
  shows "\<exists>b. get_artifact w i (exec_ops L ps d) = Inr b \<and>
    b\<lparr>ar_run_id := ar_run_id a, ar_evidence_id := ar_evidence_id a\<rparr> = a \<and>
    (ar_run_id a \<noteq> None \<longrightarrow> ar_run_id b = ar_run_id a) \<and>
    (ar_evidence_id a \<noteq> None \<longrightarrow> ar_evidence_id b = ar_evidence_id a)"
proof -
  let ?d = "exec_ops L ps d"
  have "fetch_artifact i d = Inr a"
    using assms(2) by (auto simp: get_artifact_def reading_def fetch_artifact_def split: if_splits option.splits)
  then obtain row where row: "row \<in> set (d artifacts)" "select_one [Eq ''artifact_id'' (Text i)] (d artifacts) = Some row"
      "row_to_artifact row = Inr a"
    using fetch_artifact_row [OF assms(1)] by blast
  obtain row' where row': "select_one [Eq ''artifact_id'' (Text i)] (?d artifacts) = Some row'" "later artifacts row row'"
    using select_one_later [OF history_grows [OF assms(3,1)] row(2)] by auto
  obtain p k x where x: "valid_artifact x" "row = artifact_row p k (artifact_fp L x) (map_option (\<lambda>_. artifact_idem_fp L x) k) x"
    using wf_db_stored [OF assms(1) row(1)] by (auto simp: stored.simps)
  have "row' \<in> set (?d artifacts)" using select_one_Some [OF row'(1)] by simp
  from wf_db_stored [OF history_wf [OF assms(3,1)] this] obtain q j y where
    y: "valid_artifact y" "row' = artifact_row q j (artifact_fp L y) (map_option (\<lambda>_. artifact_idem_fp L y) j) y"
    by (auto simp: stored.simps)
  have "a = x" using row(3) row_to_artifact_row [OF x(1)] x(2) by simp
  have c: "col row' c = col row c" if "c \<noteq> ''evidence_id''" "c \<noteq> ''run_id''" for c using row'(2) that by simp
  have l: "col row' c = col row c" if "col row c \<noteq> Null" for c using row'(2) that by simp
  have "y\<lparr>ar_run_id := ar_run_id x, ar_evidence_id := ar_evidence_id x\<rparr> = x"
    using c [of "''artifact_id''"] c [of "''sha256''"] c [of "''size_bytes''"] c [of "''content_type''"]
      c [of "''filename''"] c [of "''uri''"] c [of "''registered_at''"] dt_to_str_inj valid_artifact_utc [OF x(1)]
      valid_artifact_utc [OF y(1)]
    unfolding x(2) y(2) by (cases x; cases y) (simp add: artifact_row_def)
  moreover have "ar_run_id x \<noteq> None \<Longrightarrow> ar_run_id y = ar_run_id x"
    using l [of "''run_id''"] unfolding x(2) y(2)
    by (cases "ar_run_id x"; cases "ar_run_id y") (simp_all add: artifact_row_def opt_text_def)
  moreover have "ar_evidence_id x \<noteq> None \<Longrightarrow> ar_evidence_id y = ar_evidence_id x"
    using l [of "''evidence_id''"] unfolding x(2) y(2)
    by (cases "ar_evidence_id x"; cases "ar_evidence_id y") (simp_all add: artifact_row_def opt_text_def)
  moreover have "get_artifact w i ?d = Inr y"
    using assms(4) row'(1) row_to_artifact_row [OF y(1)] y(2)
    by (simp add: get_artifact_def reading_def healthy_def)
  ultimately show ?thesis using \<open>a = x\<close> by blast
qed

lemma wf_db_art [simp]: "wf_db plain_libs db_art"
  using exec_op_step [of "RegisterArtifact (Some ''k1'') (Some ''hsa'') artifact_1" plain_libs empty_db all_up]
    register_artifact_1 db_step_wf [OF _ wf_db_empty] by simp

lemma fetch_artifact_1: "fetch_artifact ''art_1'' db_art = Inr artifact_1"
proof -
  have "select_one [Eq ''artifact_id'' (Text ''art_1'')] (db_art artifacts) =
      Some (artifact_row (Some ''hsa'') (Some ''k1'') (artifact_fp plain_libs artifact_1)
        (Some (artifact_idem_fp plain_libs artifact_1)) artifact_1)"
    by (simp add: db_art_def select_one_def artifact_row_def)
  then show ?thesis by (simp add: fetch_artifact_def row_to_artifact_row)
qed

lemma get_artifact_1: "get_artifact all_up ''art_1'' db_art = Inr artifact_1"
  using fetch_artifact_1 by (simp add: get_artifact_def reading_def fetch_artifact_def all_up_def)

theorem artifact_links_written_once_witness:
  "\<exists>b. get_artifact all_up ''art_1'' (exec_ops plain_libs
       [(all_up, AppendEvidence evidence_1), (all_up, AttachArtifact ''art_1'' (Some ''ev_1'') None)] db_art) = Inr b \<and>
    b\<lparr>ar_run_id := ar_run_id artifact_1, ar_evidence_id := ar_evidence_id artifact_1\<rparr> = artifact_1 \<and>
    (ar_run_id artifact_1 \<noteq> None \<longrightarrow> ar_run_id b = ar_run_id artifact_1) \<and>
    (ar_evidence_id artifact_1 \<noteq> None \<longrightarrow> ar_evidence_id b = ar_evidence_id artifact_1)"
  by (rule artifact_links_written_once [OF wf_db_art get_artifact_1]) simp_all

text \<open>Attaching an artifact to existing evidence or an existing run sets exactly the links that
  are free or already point there; a link that points elsewhere makes the whole call an immutability
  violation that changes nothing.\<close>

theorem attach_sets_free_links:
  assumes "wf_db L d" "get_artifact v i d = Inr a" "healthy v"
    and "if_given require_evidence e d = Inr ()" "if_given require_run n d = Inr ()"
  shows "if (e = None \<or> ar_evidence_id a = None \<or> ar_evidence_id a = e) \<and>
      (n = None \<or> ar_run_id a = None \<or> ar_run_id a = n)
    then \<exists>d' b. attach_artifact v i e n d = (Inr b, d') \<and> get_artifact v i d' = Inr b \<and>
      b = a\<lparr>ar_evidence_id := (if e = None then ar_evidence_id a else e), ar_run_id := (if n = None then ar_run_id a else n)\<rparr>
    else attach_artifact v i e n d = (raise_cer ImmutabilityError, d)"
proof -
  have g: "get_artifact v i d' = fetch_artifact i d'" for d'
    using assms(3) by (simp add: get_artifact_def reading_def healthy_def fetch_artifact_def)
  have f: "fetch_artifact i d = Inr a" using assms(2) by (simp add: g)
  show ?thesis
  proof (cases "(e = None \<or> ar_evidence_id a = None \<or> ar_evidence_id a = e) \<and>
      (n = None \<or> ar_run_id a = None \<or> ar_run_id a = n)")
    case True
    from attach_artifact_tx_ok [OF assms(1) f assms(4,5) conjunct1 [OF True] conjunct2 [OF True]]
    show ?thesis unfolding if_P [OF True] g
      using assms(3) by (auto simp: attach_artifact_def transaction_healthy relink_def)
  next
    case False
    then have "\<not> (e = None \<or> ar_evidence_id a = None \<or> ar_evidence_id a = e) \<or>
        \<not> (n = None \<or> ar_run_id a = None \<or> ar_run_id a = n)" by blast
    from attach_artifact_tx_relink [OF assms(1) f assms(4,5) this] show ?thesis
      unfolding if_not_P [OF False] using assms(3) by (simp add: attach_artifact_def transaction_healthy raise_cer_def)
  qed
qed

definition db_both :: db where
  "db_both = db_art(evidence_t := [evidence_row (evidence_fp plain_libs evidence_1) evidence_1])"

lemma append_evidence_both: "append_evidence plain_libs all_up evidence_1 db_art = (Inr evidence_1, db_both)"
proof -
  have "append_evidence_tx plain_libs evidence_1 db_art =
      (Inr evidence_1, db_art(evidence_t := db_art evidence_t @ [evidence_row (evidence_fp plain_libs evidence_1) evidence_1]))"
    by (rule append_evidence_new [where u = "()"])
       (simp_all add: evidence_guard_def if_given_def int64_def by_key_def db_art_def)
  then show ?thesis
    by (simp add: append_evidence_def transaction_healthy db_both_def) (simp add: db_art_def)
qed

lemma wf_db_both: "wf_db plain_libs db_both"
  using exec_op_step [of "AppendEvidence evidence_1" plain_libs db_art all_up] append_evidence_both
    db_step_wf [OF _ wf_db_art] by simp

theorem attach_sets_free_links_witness:
  "if (Some ''ev_1'' = None \<or> ar_evidence_id artifact_1 = None \<or> ar_evidence_id artifact_1 = Some ''ev_1'') \<and>
      (None = (None :: string option) \<or> ar_run_id artifact_1 = None \<or> ar_run_id artifact_1 = None)
    then \<exists>d' b. attach_artifact all_up ''art_1'' (Some ''ev_1'') None db_both = (Inr b, d') \<and>
      get_artifact all_up ''art_1'' d' = Inr b \<and>
      b = artifact_1\<lparr>ar_evidence_id := (if Some ''ev_1'' = None then ar_evidence_id artifact_1 else Some ''ev_1''),
        ar_run_id := (if (None :: string option) = None then ar_run_id artifact_1 else None)\<rparr>
    else attach_artifact all_up ''art_1'' (Some ''ev_1'') None db_both = (raise_cer ImmutabilityError, db_both)"
proof (rule attach_sets_free_links [OF wf_db_both])
  show "get_artifact all_up ''art_1'' db_both = Inr artifact_1"
    using get_artifact_1 by (simp add: get_artifact_def db_both_def)
  show "if_given require_evidence (Some ''ev_1'') db_both = Inr ()"
    by (simp add: if_given_def require_defs require_row_def db_both_def select_one_def evidence_row_def)
qed (simp_all add: if_given_def)

end
