(* ===== verification/QueryProps.thy ===== *)
theory QueryProps
  imports StoreProps
begin

text \<open>
  The queries of the metadata store: which records they return, in which order, and that the
  pages of a query tile its result. Timestamps are compared as text in the database; that this is
  the chronological order rests on the rendering lemmas of \<open>PyTime\<close>.
\<close>

subsection \<open>Decoding a page\<close>

lemma page_map: "page l off (map f xs) = map f (page l off xs)"
  by (simp add: page_def Let_def take_map drop_map)

lemma dt_to_str_le_iff: "utc_pydt s \<Longrightarrow> utc_pydt t \<Longrightarrow> dt_to_str s \<le> dt_to_str t \<longleftrightarrow> instant s \<le> instant t"
  using dt_to_str_less_iff [of t s] utc_civil_less_iff [of t s] by (auto simp: not_less [symmetric])

lemma dt_to_str_eq_iff: "utc_pydt s \<Longrightarrow> utc_pydt t \<Longrightarrow> dt_to_str s = dt_to_str t \<longleftrightarrow> instant s = instant t"
  using dt_to_str_le_iff [of s t] dt_to_str_le_iff [of t s] by force

lemma matches_append [simp]: "matches (cs @ ds) r = (matches cs r \<and> matches ds r)"
  by (simp add: matches_def)

lemma matches_opt_clause: "col r c = opt_text v \<Longrightarrow> matches (opt_clause c w) r \<longleftrightarrow> w = None \<or> v = w"
  by (cases v; cases w) (auto simp: opt_clause_def opt_text_def)

text \<open>A query over a table whose rows all decode.\<close>

lemma run_query_page:
  assumes dec: "\<And>r. r \<in> set (d t) \<Longrightarrow> decode r = Inr (dec r)" and v: "healthy v"
    and b: "int64 (Integer limit)" "int64 (Integer offset)"
  shows "run_query v t cs c i limit offset decode d =
    Inr (page limit offset (map dec (order_desc c i (select_all cs (d t)))))"
proof -
  have "decode r = Inr (dec r)" if "r \<in> set (page limit offset (order_desc c i (select_all cs (d t))))" for r
    using that page_subset [of limit offset "order_desc c i (select_all cs (d t))"] dec
    by (auto simp: select_all_def)
  from map_result_all_ok [OF this] v b show ?thesis
    by (simp add: run_query_def healthy_def page_map)
qed

text \<open>Newest first, ties broken by the id.\<close>

definition newest_first :: "('a \<Rightarrow> pydt) \<Rightarrow> ('a \<Rightarrow> string) \<Rightarrow> 'a \<Rightarrow> 'a \<Rightarrow> bool" where
  "newest_first at ident a b \<longleftrightarrow> instant (at b) < instant (at a) \<or> (instant (at b) = instant (at a) \<and> ident b < ident a)"

lemma order_newest_first:
  assumes u: "\<And>r. r \<in> set rows \<Longrightarrow> utc_pydt (at (dec r)) \<and> col r c = Text (dt_to_str (at (dec r))) \<and> col r i = Text (ident (dec r))"
    and dist: "distinct (map (\<lambda>r. ident (dec r)) rows)"
  shows "sorted_wrt (newest_first at ident) (map dec (order_desc c i rows))"
    and "distinct (map ident (map dec (order_desc c i rows)))"
proof -
  let ?rs = "order_desc c i rows"
  have d: "distinct (map (\<lambda>r. ident (dec r)) ?rs)"
    using dist by (simp add: order_desc_def distinct_map_sort_key flip: rev_map)
  then show "distinct (map ident (map dec ?rs))" by (simp add: comp_def)
  have s: "sorted_wrt (\<lambda>r s. [text_of (col s c), text_of (col s i)] \<le> [text_of (col r c), text_of (col r i)]) ?rs"
    by (rule order_desc_sorted)
  have "sorted_wrt (\<lambda>r s. newest_first at ident (dec r) (dec s)) ?rs"
    unfolding sorted_wrt_iff_nth_less
  proof (intro allI impI)
    fix j k assume jk: "j < k" "k < length ?rs"
    let ?r = "?rs ! j" and ?s = "?rs ! k"
    have "?r \<in> set ?rs" "?s \<in> set ?rs" by (rule nth_mem, use jk in linarith)+
    then have in_rows: "?r \<in> set rows" "?s \<in> set rows" unfolding set_order_desc .
    have "[text_of (col ?s c), text_of (col ?s i)] \<le> [text_of (col ?r c), text_of (col ?r i)]"
      using s jk unfolding sorted_wrt_iff_nth_less by blast
    then have le: "dt_to_str (at (dec ?s)) < dt_to_str (at (dec ?r)) \<or>
        dt_to_str (at (dec ?s)) = dt_to_str (at (dec ?r)) \<and> ident (dec ?s) \<le> ident (dec ?r)"
      using u [OF in_rows(1)] u [OF in_rows(2)] by (auto simp: le_less)
    have "ident (dec ?s) \<noteq> ident (dec ?r)"
      using d jk nth_eq_iff_index_eq [of "map (\<lambda>r. ident (dec r)) ?rs" k j] by simp
    with le show "newest_first at ident (dec ?r) (dec ?s)"
      using u [OF in_rows(1)] u [OF in_rows(2)]
      by (auto simp: newest_first_def dt_to_str_less_iff utc_civil_less_iff dt_to_str_eq_iff)
  qed
  then show "sorted_wrt (newest_first at ident) (map dec ?rs)" by (simp add: sorted_wrt_map)
qed

lemma sorted_wrt_distinct: "sorted_wrt (\<lambda>s r. f s \<noteq> f r) xs \<Longrightarrow> distinct (map f xs)"
  by (induction xs) auto

lemma distinct_filter_ids:
  assumes "wf_db L d" "primary_key t = [c]" "\<And>r. r \<in> set (d t) \<Longrightarrow> col r c = Text (f r)"
  shows "distinct (map f (select_all cs (d t)))"
proof -
  have s: "sorted_wrt (\<lambda>s r. unrelated t r s) (d t)"
    using assms(1) by (simp add: wf_db_def integrity_def table_ok_def)
  have "sorted_wrt (\<lambda>s r. f s \<noteq> f r) (d t)"
    by (rule sorted_wrt_mono_rel [OF _ s]) (use assms(2,3) in \<open>auto simp: unrelated_def same_on_def\<close>)
  then have "distinct (map f (d t))" by (rule sorted_wrt_distinct)
  then show ?thesis by (simp add: select_all_def distinct_map_filter)
qed

subsection \<open>Evidence\<close>

definition unless :: "'a option \<Rightarrow> ('a \<Rightarrow> bool) \<Rightarrow> bool" where
  "unless v P = (case v of None \<Rightarrow> True | Some x \<Rightarrow> P x)"

text \<open>What the filter of a query asks of a record.\<close>

definition passes :: "evidence_filter \<Rightarrow> evidence \<Rightarrow> bool" where
  "passes f e \<longleftrightarrow>
     (f_strategy_id f = None \<or> ev_strategy_id e = f_strategy_id f) \<and>
     (f_strategy_version f = None \<or> ev_strategy_version e = f_strategy_version f) \<and>
     (f_run_id f = None \<or> ev_run_id e = f_run_id f) \<and>
     (f_experiment_id f = None \<or> ev_experiment_id e = f_experiment_id f) \<and>
     (f_evidence_type f = None \<or> Some (ev_evidence_type e) = f_evidence_type f) \<and>
     unless (f_since f) (\<lambda>t. instant t \<le> instant (ev_created_at_utc e)) \<and>
     unless (f_until f) (\<lambda>t. instant (ev_created_at_utc e) \<le> instant t)"

definition aware :: "pydt option \<Rightarrow> bool" where
  "aware v = unless v (\<lambda>t. valid_pydt t \<and> is_ok (to_utc t))"

lemma opt_time_clause_ok:
  assumes "aware v"
  shows "\<exists>cs. opt_time_clause op c v = Inr cs \<and>
    (\<forall>r u. utc_pydt u \<longrightarrow> col r c = Text (dt_to_str u) \<longrightarrow>
       (op = Ge \<longrightarrow> matches cs r = unless v (\<lambda>t. instant t \<le> instant u)) \<and>
       (op = Le \<longrightarrow> matches cs r = unless v (\<lambda>t. instant u \<le> instant t)))"
proof (cases v)
  case (Some t)
  then obtain w where w: "to_utc t = Inr w" and "valid_pydt t"
    using assms by (cases "to_utc t") (auto simp: aware_def unless_def)
  then have "utc_pydt w" "instant w = instant t" using to_utc_spec by blast+
  then show ?thesis using w Some by (auto simp: opt_time_clause_def unless_def dt_to_str_le_iff)
qed (simp add: opt_time_clause_def unless_def)

definition the_evidence :: "row \<Rightarrow> evidence" where
  "the_evidence r = projr (row_to_evidence r)"

lemma the_evidence_stored:
  assumes "stored L evidence_t r"
  shows "row_to_evidence r = Inr (the_evidence r)" "utc_pydt (ev_created_at_utc (the_evidence r))"
    "col r ''created_at_utc'' = Text (dt_to_str (ev_created_at_utc (the_evidence r)))"
    "col r ''evidence_id'' = Text (ev_evidence_id (the_evidence r))"
    "col r ''strategy_id'' = opt_text (ev_strategy_id (the_evidence r))"
    "col r ''strategy_version'' = opt_text (ev_strategy_version (the_evidence r))"
    "col r ''run_id'' = opt_text (ev_run_id (the_evidence r))"
    "col r ''experiment_id'' = opt_text (ev_experiment_id (the_evidence r))"
    "col r ''evidence_type'' = Text (evidence_type_value (ev_evidence_type (the_evidence r)))"
proof -
  obtain e where e: "valid_evidence e" "r = evidence_row (evidence_fp L e) e" "row_to_evidence r = Inr (canon_evidence e)"
    using stored_evidence [OF assms] by blast
  have t: "the_evidence r = canon_evidence e" using e(3) by (simp add: the_evidence_def)
  show "row_to_evidence r = Inr (the_evidence r)" using e(3) t by simp
  show "utc_pydt (ev_created_at_utc (the_evidence r))"
    using valid_evidence_utc [OF e(1)] by (simp add: t canon_evidence_def)
  have "col (evidence_row fp e) ''created_at_utc'' = Text (dt_to_str (ev_created_at_utc e))"
    "col (evidence_row fp e) ''evidence_id'' = Text (ev_evidence_id e)"
    "col (evidence_row fp e) ''strategy_id'' = opt_text (ev_strategy_id e)"
    "col (evidence_row fp e) ''strategy_version'' = opt_text (ev_strategy_version e)"
    "col (evidence_row fp e) ''run_id'' = opt_text (ev_run_id e)"
    "col (evidence_row fp e) ''experiment_id'' = opt_text (ev_experiment_id e)"
    "col (evidence_row fp e) ''evidence_type'' = Text (evidence_type_value (ev_evidence_type e))" for fp
    by (simp_all add: evidence_row_def)
  note c = this [of "evidence_fp L e", folded e(2)]
  show "col r ''created_at_utc'' = Text (dt_to_str (ev_created_at_utc (the_evidence r)))"
    "col r ''evidence_id'' = Text (ev_evidence_id (the_evidence r))"
    "col r ''strategy_id'' = opt_text (ev_strategy_id (the_evidence r))"
    "col r ''strategy_version'' = opt_text (ev_strategy_version (the_evidence r))"
    "col r ''run_id'' = opt_text (ev_run_id (the_evidence r))"
    "col r ''experiment_id'' = opt_text (ev_experiment_id (the_evidence r))"
    "col r ''evidence_type'' = Text (evidence_type_value (ev_evidence_type (the_evidence r)))"
    by (simp_all add: c t canon_evidence_def)
qed

lemma evidence_clauses_ok:
  assumes "aware (f_since f)" "aware (f_until f)"
  shows "\<exists>cs. evidence_clauses f = Inr cs \<and>
    (\<forall>r. stored L evidence_t r \<longrightarrow> matches cs r = passes f (the_evidence r))"
proof -
  obtain a where a: "opt_time_clause Ge ''created_at_utc'' (f_since f) = Inr a"
      "\<And>r u. utc_pydt u \<Longrightarrow> col r ''created_at_utc'' = Text (dt_to_str u) \<Longrightarrow>
         matches a r = unless (f_since f) (\<lambda>t. instant t \<le> instant u)"
    using opt_time_clause_ok [OF assms(1), of Ge "''created_at_utc''"] by blast
  obtain b where b: "opt_time_clause Le ''created_at_utc'' (f_until f) = Inr b"
      "\<And>r u. utc_pydt u \<Longrightarrow> col r ''created_at_utc'' = Text (dt_to_str u) \<Longrightarrow>
         matches b r = unless (f_until f) (\<lambda>t. instant u \<le> instant t)"
    using opt_time_clause_ok [OF assms(2), of Le "''created_at_utc''"] by blast
  have ty: "matches (opt_clause ''evidence_type'' (map_option evidence_type_value w)) r \<longleftrightarrow> w = None \<or> Some ty = w"
    if "col r ''evidence_type'' = Text (evidence_type_value ty)" for r w ty
    using that by (cases w) (auto simp: opt_clause_def dest: et.val_inj)
  let ?cs = "opt_clause ''strategy_id'' (f_strategy_id f) @ opt_clause ''strategy_version'' (f_strategy_version f) @
      opt_clause ''run_id'' (f_run_id f) @ opt_clause ''experiment_id'' (f_experiment_id f) @
      opt_clause ''evidence_type'' (map_option evidence_type_value (f_evidence_type f)) @ a @ b"
  have "matches ?cs r = passes f (the_evidence r)" if "stored L evidence_t r" for r
  proof -
    note c = the_evidence_stored [OF that]
    show ?thesis
      by (simp add: passes_def matches_opt_clause [OF c(5)] matches_opt_clause [OF c(6)]
          matches_opt_clause [OF c(7)] matches_opt_clause [OF c(8)] ty [OF c(9)] a(2) [OF c(2,3)] b(2) [OF c(2,3)])
  qed
  moreover have "evidence_clauses f = Inr ?cs" by (simp add: evidence_clauses_def a(1) b(1))
  ultimately show ?thesis by blast
qed

lemma fetch_iff_row:
  assumes "wf_db L d"
  shows "(\<exists>i. fetch_evidence i d = Inr e) \<longleftrightarrow> e \<in> the_evidence ` set (d evidence_t)"
proof
  assume "\<exists>i. fetch_evidence i d = Inr e"
  then obtain i where "fetch_evidence i d = Inr e" by blast
  from fetch_evidence_row [OF assms this] obtain row where "row \<in> set (d evidence_t)" "row_to_evidence row = Inr e" by blast
  then show "e \<in> the_evidence ` set (d evidence_t)"
    using the_evidence_stored(1) [OF wf_db_stored [OF assms]] by (metis Inr_inject image_eqI)
next
  assume "e \<in> the_evidence ` set (d evidence_t)"
  then obtain r where r: "r \<in> set (d evidence_t)" "e = the_evidence r" by blast
  have "fetch_evidence (text_col r ''evidence_id'') d = Inr e"
    using fetch_evidence_found [OF assms r(1)] the_evidence_stored(1) [OF wf_db_stored [OF assms r(1)]] r(2) by simp
  then show "\<exists>i. fetch_evidence i d = Inr e" ..
qed

text \<open>A query for evidence returns the requested page of the one list that holds exactly the
  stored records passing the filter, each once, newest first (by instant of creation, then by id);
  the \<open>since\<close> and \<open>until\<close> bounds are compared as instants, whatever offset the caller wrote them in.\<close>

definition answers_query :: "evidence_filter \<Rightarrow> db \<Rightarrow> evidence list \<Rightarrow> bool" where
  "answers_query f d answer \<longleftrightarrow>
     set answer = {e. (\<exists>i. fetch_evidence i d = Inr e) \<and> passes f e} \<and> distinct (map ev_evidence_id answer) \<and>
     sorted_wrt (newest_first ev_created_at_utc ev_evidence_id) answer"

lemma query_evidence_pages:
  assumes "wf_db L d" "healthy v" "aware (f_since f)" "aware (f_until f)"
  obtains answer where "answers_query f d answer"
    "\<And>limit offset. int64 (Integer limit) \<Longrightarrow> int64 (Integer offset) \<Longrightarrow>
       query_evidence v f limit offset d = Inr (page limit offset answer)"
proof -
  obtain cs where cs: "evidence_clauses f = Inr cs" "\<And>r. stored L evidence_t r \<Longrightarrow> matches cs r = passes f (the_evidence r)"
    using evidence_clauses_ok [OF assms(3,4)] by blast
  let ?rows = "select_all cs (d evidence_t)"
  let ?answer = "map the_evidence (order_desc ''created_at_utc'' ''evidence_id'' ?rows)"
  have st: "stored L evidence_t r" if "r \<in> set (d evidence_t)" for r using wf_db_stored [OF assms(1) that] .
  have "query_evidence v f limit offset d = Inr (page limit offset ?answer)"
    if "int64 (Integer limit)" "int64 (Integer offset)" for limit offset
    using run_query_page [of d evidence_t row_to_evidence the_evidence v limit offset cs]
      the_evidence_stored(1) [OF st] assms(2) that by (simp add: query_evidence_def cs(1))
  moreover have "set ?answer = {e. (\<exists>i. fetch_evidence i d = Inr e) \<and> passes f e}"
    unfolding fetch_iff_row [OF assms(1)] using cs(2) [OF st] by (auto simp: select_all_def)
  moreover have "distinct (map (\<lambda>r. ev_evidence_id (the_evidence r)) ?rows)"
    by (rule distinct_filter_ids [OF assms(1), of _ "''evidence_id''"]) (simp_all add: the_evidence_stored(4) [OF st])
  then have "sorted_wrt (newest_first ev_created_at_utc ev_evidence_id) ?answer \<and> distinct (map ev_evidence_id ?answer)"
    using order_newest_first [of ?rows ev_created_at_utc the_evidence "''created_at_utc''" "''evidence_id''" ev_evidence_id]
      the_evidence_stored(2-4) [OF st] by (simp add: select_all_def)
  ultimately show thesis using that [of ?answer] by (simp add: answers_query_def)
qed

definition no_filter :: evidence_filter where
  "no_filter = \<lparr>f_strategy_id = None, f_strategy_version = None, f_run_id = None, f_experiment_id = None,
     f_evidence_type = None, f_since = None, f_until = None\<rparr>"

text \<open>C27 Paging loses nothing and repeats nothing: what the first \<open>n\<close> requests for a page of \<open>l\<close> records return, put
  together, is the beginning, of \<open>n * l\<close> records, of the list that holds every stored record passing the filter exactly
  once, newest first by instant and then by id.\<close>

theorem query_pages_tile:
  assumes "wf_db L d" "healthy v" "aware (f_since f)" "aware (f_until f)" "0 \<le> l" "int n * l < 2 ^ 63" "l < 2 ^ 63"
  shows "\<exists>answer pages. (\<forall>i < n. query_evidence v f l (int i * l) d = Inr (pages i)) \<and>
    concat (map pages [0..<n]) = take (n * nat l) answer \<and>
    set answer = {e. (\<exists>i. fetch_evidence i d = Inr e) \<and> passes f e} \<and> distinct (map ev_evidence_id answer) \<and>
    sorted_wrt (newest_first ev_created_at_utc ev_evidence_id) answer"
proof -
  obtain answer where a: "answers_query f d answer"
    and q: "\<And>limit offset. int64 (Integer limit) \<Longrightarrow> int64 (Integer offset) \<Longrightarrow>
       query_evidence v f limit offset d = Inr (page limit offset answer)"
    using query_evidence_pages [OF assms(1-4)] by blast
  have "query_evidence v f l (int i * l) d = Inr (page l (int i * l) answer)" if "i < n" for i
  proof (rule q)
    have "int i * l \<le> int n * l" using that assms(5) by (intro mult_right_mono) simp_all
    moreover have "0 \<le> int i * l" using assms(5) by simp
    ultimately show "int64 (Integer (int i * l))" using assms(6) by (simp add: int64_def)
    show "int64 (Integer l)" using assms(5,7) by (simp add: int64_def)
  qed
  then show ?thesis using pages_tile [OF assms(5), where n = n and xs = answer] a unfolding answers_query_def
    by (intro exI [of _ answer] exI [of _ "\<lambda>i. page l (int i * l) answer"]) simp
qed

theorem query_pages_tile_witness:
  "\<exists>answer pages. (\<forall>i < 3. query_evidence all_up no_filter 2 (int i * 2) db_1 = Inr (pages i)) \<and>
    concat (map pages [0..<3]) = take (3 * nat 2) answer \<and>
    set answer = {e. (\<exists>i. fetch_evidence i db_1 = Inr e) \<and> passes no_filter e} \<and> distinct (map ev_evidence_id answer) \<and>
    sorted_wrt (newest_first ev_created_at_utc ev_evidence_id) answer"
  by (rule query_pages_tile [OF wf_db_1]) (simp_all add: no_filter_def aware_def unless_def)

end
