(* ===== verification/FsDisk.thy ===== *)
theory FsDisk
  imports Errors "HOL-Library.Sublist"
begin

text \<open>
  The local file system the artifact store (\<open>src/cer/artifacts/fs_store.py\<close>) works on, with the
  calls of \<open>os\<close>, \<open>tempfile\<close> and \<open>pathlib\<close> it makes. A path is the list of its names below the
  store's root; symbolic links and other writers below the root are not modelled. Every call
  takes its fate from a script: it works, it raises \<open>OSError\<close>, or the process dies in it; in the
  last two cases any visible prefix of its effect may have happened. A theorem about all scripts is a
  theorem about every fault and every crash.
\<close>

subsection \<open>Contents\<close>

type_synonym path = "string list"

datatype node = Dir | File bytes

type_synonym fs = "path \<Rightarrow> node option"

datatype fate = Works | Fails nat | Dies nat

record fstore =
  files :: fs
  script :: "fate list" \<comment> \<open>the fates of the next calls; \<open>Works\<close> when it runs out\<close>
  initialised :: bool \<comment> \<open>the instance flag \<open>_initialised\<close>\<close>

text \<open>How a computation ends: with a result or an exception, or with the death of the process.\<close>

datatype 'a ending = Done "exn + 'a" | Crash

type_synonym 'a io = "fstore \<Rightarrow> 'a ending \<times> fstore"

definition io_return :: "'a \<Rightarrow> 'a io" where
  "io_return x w = (Done (Inr x), w)"

definition io_raise :: "exn \<Rightarrow> 'a io" where
  "io_raise e w = (Done (Inl e), w)"

definition io_bind :: "'a io \<Rightarrow> ('a \<Rightarrow> 'b io) \<Rightarrow> 'b io" where
  "io_bind c k w = (case c w of
     (Crash, w') \<Rightarrow> (Crash, w')
   | (Done (Inl e), w') \<Rightarrow> (Done (Inl e), w')
   | (Done (Inr x), w') \<Rightarrow> k x w')"

text \<open>\<open>try c except OSError as exc: h exc\<close>; the death of the process runs no handler.\<close>

definition catch_os :: "'a io \<Rightarrow> (exn \<Rightarrow> 'a io) \<Rightarrow> 'a io" where
  "catch_os c h w = (case c w of
     (Done (Inl e), w') \<Rightarrow> if is_os_error e then h e w' else (Done (Inl e), w')
   | r \<Rightarrow> r)"

definition io_lift :: "exn + 'a \<Rightarrow> 'a io" where
  "io_lift r w = (Done r, w)"

definition raise_store :: "'a io" where
  "raise_store = io_raise (new_exn ArtifactStoreError None)"

subsection \<open>Calls\<close>

text \<open>
  What a call does to the contents when it is let run: an exception without effect, or a value, the
  final contents and the stages in between.
\<close>

type_synonym 'a effect = "fs \<Rightarrow> exn + ('a \<times> fs \<times> (nat \<Rightarrow> fs))"

definition sys :: "'a effect \<Rightarrow> 'a io" where
  "sys eff w = (case script w of
     [] \<Rightarrow> (case eff (files w) of Inl e \<Rightarrow> (Done (Inl e), w) | Inr (x, m, _) \<Rightarrow> (Done (Inr x), w\<lparr>files := m\<rparr>))
   | f # fates \<Rightarrow> let w1 = w\<lparr>script := fates\<rparr> in
       (case eff (files w) of
          Inl e \<Rightarrow> (case f of Works \<Rightarrow> (Done (Inl e), w1) | Fails _ \<Rightarrow> (Done (Inl PyOSError), w1) | Dies _ \<Rightarrow> (Crash, w1))
        | Inr (x, m, stage) \<Rightarrow> (case f of
            Works \<Rightarrow> (Done (Inr x), w1\<lparr>files := m\<rparr>)
          | Fails n \<Rightarrow> (Done (Inl PyOSError), w1\<lparr>files := stage n\<rparr>)
          | Dies n \<Rightarrow> (Crash, w1\<lparr>files := stage n\<rparr>))))"

definition reads_only :: "exn + 'a \<Rightarrow> fs \<Rightarrow> exn + ('a \<times> fs \<times> (nat \<Rightarrow> fs))" where
  "reads_only r m = rbind r (\<lambda>x. Inr (x, m, \<lambda>_. m))"

text \<open>One indivisible change: before it, or after it.\<close>

definition at_once :: "'a \<Rightarrow> fs \<Rightarrow> fs \<Rightarrow> 'a \<times> fs \<times> (nat \<Rightarrow> fs)" where
  "at_once x m m' = (x, m', \<lambda>n. if n = 0 then m else m')"

definition utf8_length :: "string \<Rightarrow> nat" where
  "utf8_length s = sum_list (map (\<lambda>c. if (of_char c :: nat) < 128 then 1 else 2) s)"

text \<open>
  Resolving a path: \<open>ValueError\<close> for an embedded NUL, then the first proper prefix that is no
  directory, then the length limit of a file name (255 bytes).
\<close>

definition walk :: "fs \<Rightarrow> path \<Rightarrow> exn + node option" where
  "walk m p =
     (if list_ex (\<lambda>s. CHR 0x00 \<in> set s) p then Inl PyValueError
      else (case List.find (\<lambda>q. m q \<noteq> Some Dir) (prefixes (butlast p)) of
          Some q \<Rightarrow> if p = [] then Inr (m p) else Inl (if m q = None then PyFileNotFoundError else PyNotADirectoryError)
        | None \<Rightarrow> if list_ex (\<lambda>s. utf8_length s > 255) p then Inl PyOSError else Inr (m p)))"

text \<open>\<open>is_dir\<close>, \<open>is_file\<close>, \<open>exists\<close> of \<open>pathlib.Path\<close>: a missing path, a path below a file and
  an impossible one are answered \<open>False\<close>; other errors are raised.\<close>

definition path_is :: "(node \<Rightarrow> bool) \<Rightarrow> path \<Rightarrow> bool io" where
  "path_is P p = sys (\<lambda>m. reads_only (case walk m p of
       Inl e \<Rightarrow> if e = PyOSError then Inl e else Inr False
     | Inr None \<Rightarrow> Inr False
     | Inr (Some n) \<Rightarrow> Inr (P n)) m)"

definition is_dir :: "path \<Rightarrow> bool io" where "is_dir = path_is (\<lambda>n. n = Dir)"
definition is_file :: "path \<Rightarrow> bool io" where "is_file = path_is (\<lambda>n. n \<noteq> Dir)"
definition path_exists_io :: "path \<Rightarrow> bool io" where "path_exists_io = path_is (\<lambda>_. True)"

definition read_bytes :: "path \<Rightarrow> bytes io" where
  "read_bytes p = sys (\<lambda>m. reads_only (rbind (walk m p) (\<lambda>n. case n of
       None \<Rightarrow> Inl PyFileNotFoundError | Some Dir \<Rightarrow> Inl PyOSError | Some (File b) \<Rightarrow> Inr b)) m)"

text \<open>\<open>mkdir(parents=True, exist_ok=True)\<close>: the missing directories, outermost first.\<close>

definition make_dirs :: "path list \<Rightarrow> fs \<Rightarrow> fs" where
  "make_dirs qs m = (\<lambda>q. if q \<in> set qs \<and> m q = None then Some Dir else m q)"

definition mkdir_parents :: "path \<Rightarrow> unit io" where
  "mkdir_parents p = sys (\<lambda>m.
     if list_ex (\<lambda>q. case m q of Some (File _) \<Rightarrow> True | _ \<Rightarrow> False) (prefixes p) then Inl PyOSError
     else Inr ((), make_dirs (prefixes p) m, \<lambda>n. make_dirs (take n (prefixes p)) m))"

text \<open>\<open>tempfile.mkstemp\<close>: the first of the random names that is free (\<open>O_EXCL\<close>), as an empty file.\<close>

definition tmp_path :: "path \<Rightarrow> string \<Rightarrow> path" where
  "tmp_path p r = butlast p @ [''.tmp-'' @ last p @ ''-'' @ r @ ''.part'']"

fun first_free :: "fs \<Rightarrow> path list \<Rightarrow> exn + path" where
  "first_free m [] = Inl PyOSError"
| "first_free m (q # qs) = rbind (walk m q) (\<lambda>n. if n = None then Inr q else first_free m qs)"

definition mkstemp :: "path \<Rightarrow> string list \<Rightarrow> path io" where
  "mkstemp p rs = sys (\<lambda>m. rbind (first_free m (map (tmp_path p) rs)) (\<lambda>q.
     Inr (at_once q m (m(q \<mapsto> File [])))))"

text \<open>Writing through the descriptor of the temporary file, and \<open>fsync\<close>.\<close>

definition write_fd :: "path \<Rightarrow> bytes \<Rightarrow> unit io" where
  "write_fd q b = sys (\<lambda>m. case m q of
     Some (File _) \<Rightarrow> Inr ((), m(q \<mapsto> File b), \<lambda>n. m(q \<mapsto> File (take n b)))
   | _ \<Rightarrow> Inl PyOSError)"

definition fsync :: "unit io" where
  "fsync = sys (reads_only (Inr ()))"

definition replace_file :: "path \<Rightarrow> path \<Rightarrow> unit io" where
  "replace_file q p = sys (\<lambda>m. rbind (walk m p) (\<lambda>n.
     case m q of Some (File b) \<Rightarrow>
         if n = Some Dir \<or> p = q then Inl PyOSError else Inr (at_once () m (m(q := None, p \<mapsto> File b)))
     | _ \<Rightarrow> Inl PyFileNotFoundError))"

definition unlink :: "path \<Rightarrow> unit io" where
  "unlink p = sys (\<lambda>m. rbind (walk m p) (\<lambda>n. case n of
     None \<Rightarrow> Inl PyFileNotFoundError | Some Dir \<Rightarrow> Inl PyOSError
   | Some (File _) \<Rightarrow> Inr (at_once () m (m(p := None)))))"

text \<open>\<open>Path.write_bytes\<close>: truncates or creates the file, then fills it.\<close>

definition write_bytes :: "path \<Rightarrow> bytes \<Rightarrow> unit io" where
  "write_bytes p b = sys (\<lambda>m. rbind (walk m p) (\<lambda>n.
     if n = Some Dir then Inl PyOSError
     else Inr ((), m(p \<mapsto> File b), \<lambda>k. case k of 0 \<Rightarrow> m | Suc j \<Rightarrow> m(p \<mapsto> File (take j b)))))"

subsection \<open>Reasoning about computations\<close>

text \<open>
  \<open>hoare P c Q E\<close>: from contents satisfying \<open>P\<close> (and whatever the script), a normal return
  leaves contents satisfying \<open>Q\<close> of the value, an exception or the death of the process contents
  satisfying \<open>E\<close>.
\<close>

fun ends_with :: "('a \<Rightarrow> fs \<Rightarrow> bool) \<Rightarrow> (fs \<Rightarrow> bool) \<Rightarrow> 'a ending \<times> fstore \<Rightarrow> bool" where
  "ends_with Q E (Done (Inr x), w) = Q x (files w)"
| "ends_with Q E (Done (Inl e), w) = E (files w)"
| "ends_with Q E (Crash, w) = E (files w)"

definition hoare :: "(fs \<Rightarrow> bool) \<Rightarrow> 'a io \<Rightarrow> ('a \<Rightarrow> fs \<Rightarrow> bool) \<Rightarrow> (fs \<Rightarrow> bool) \<Rightarrow> bool" where
  "hoare P c Q E \<longleftrightarrow> (\<forall>w. P (files w) \<longrightarrow> ends_with Q E (c w))"

lemma ends_cases:
  obtains x w where "r = (Done (Inr x), w)" | e w where "r = (Done (Inl e), w)" | w where "r = (Crash, w)"
proof (cases r)
  case (Pair en w)
  then show ?thesis using that by (cases en; cases "case en of Done v \<Rightarrow> v") (auto split: ending.splits)
qed

lemma hoareD: "hoare P c Q E \<Longrightarrow> P (files w) \<Longrightarrow> ends_with Q E (c w)"
  by (simp add: hoare_def)

lemma hoare_end: "hoare P c (\<lambda>_. Q) Q \<Longrightarrow> P (files w) \<Longrightarrow> Q (files (snd (c w)))"
  by (drule hoareD) (auto intro: ends_cases [of "c w"])

lemma ends_weaken:
  "ends_with Q E r \<Longrightarrow> (\<And>x m. Q x m \<Longrightarrow> Q' x m) \<Longrightarrow> (\<And>m. E m \<Longrightarrow> E' m) \<Longrightarrow> ends_with Q' E' r"
  by (cases r rule: ends_cases) simp_all

lemma hoare_weaken:
  assumes "hoare P c Q E" "\<And>m. P' m \<Longrightarrow> P m" "\<And>x m. Q x m \<Longrightarrow> Q' x m" "\<And>m. E m \<Longrightarrow> E' m"
  shows "hoare P' c Q' E'"
  unfolding hoare_def
proof (intro allI impI)
  fix w :: fstore assume "P' (files w)"
  with assms(1,2) have "ends_with Q E (c w)" by (simp add: hoare_def)
  then show "ends_with Q' E' (c w)" by (rule ends_weaken) (use assms(3,4) in auto)
qed

named_theorems hoare_rules

lemma hoare_return [hoare_rules]: "hoare (Q x) (io_return x) Q E"
  by (simp add: hoare_def io_return_def)

lemma hoare_raise [hoare_rules]: "hoare E (io_raise e) Q E"
  by (simp add: hoare_def io_raise_def)

lemma hoare_raise_store [hoare_rules]: "hoare E raise_store Q E"
  by (simp add: raise_store_def hoare_raise)

lemma hoare_lift:
  assumes "\<And>m x. P m \<Longrightarrow> r = Inr x \<Longrightarrow> Q x m" "\<And>m. P m \<Longrightarrow> E m"
  shows "hoare P (io_lift r) Q E"
  using assms by (cases r) (simp_all add: hoare_def io_lift_def)

lemma hoare_bind:
  assumes "hoare P c R E" "\<And>x. hoare (R x) (k x) Q E"
  shows "hoare P (io_bind c k) Q E"
  unfolding hoare_def
proof (intro allI impI)
  fix w :: fstore assume p: "P (files w)"
  show "ends_with Q E (io_bind c k w)"
    using hoareD [OF assms(1) p] assms(2)
    by (cases "c w" rule: ends_cases) (auto simp: io_bind_def dest: hoareD)
qed

lemma hoare_catch:
  assumes "hoare P c Q E" "\<And>e. hoare E (h e) Q E"
  shows "hoare P (catch_os c h) Q E"
  unfolding hoare_def
proof (intro allI impI)
  fix w :: fstore assume p: "P (files w)"
  show "ends_with Q E (catch_os c h w)"
    using hoareD [OF assms(1) p] assms(2)
    by (cases "c w" rule: ends_cases) (auto simp: catch_os_def dest: hoareD)
qed

lemma hoare_sys:
  assumes "\<And>m. P m \<Longrightarrow> E m"
    and "\<And>m x m' stage. P m \<Longrightarrow> eff m = Inr (x, m', stage) \<Longrightarrow> Q x m' \<and> (\<forall>n. E (stage n))"
  shows "hoare P (sys eff) Q E"
  unfolding hoare_def
proof (intro allI impI)
  fix w :: fstore assume p: "P (files w)"
  show "ends_with Q E (sys eff w)"
    using assms(1) [OF p] assms(2) [OF p]
    by (cases "eff (files w)") (auto simp: sys_def Let_def split: list.split fate.split prod.split)
qed

lemma hoare_reads:
  assumes "\<And>m x. P m \<Longrightarrow> f m = Inr x \<Longrightarrow> Q x m" "\<And>m. P m \<Longrightarrow> E m"
  shows "hoare P (sys (\<lambda>m. reads_only (f m) m)) Q E"
  using assms by (intro hoare_sys) (auto simp: reads_only_def rbind_eq_Inr)

lemma sys_reads:
  assumes "sys (\<lambda>m. reads_only (f m) m) w = (r, w')"
  shows "files w' = files w \<and> initialised w' = initialised w \<and>
    (r = Crash \<or> r = Done (Inl PyOSError) \<or> r = Done (f (files w)))"
  using assms by (cases "f (files w)")
    (auto simp: sys_def reads_only_def Let_def split: list.splits fate.splits)

lemma sys_works: "script w = [] \<Longrightarrow> sys eff w = (case eff (files w) of Inl e \<Rightarrow> (Done (Inl e), w)
    | Inr (x, m, _) \<Rightarrow> (Done (Inr x), w\<lparr>files := m\<rparr>))"
  by (simp add: sys_def)

lemma hoare_if:
  "(b \<Longrightarrow> hoare P c Q E) \<Longrightarrow> (\<not> b \<Longrightarrow> hoare P d Q E) \<Longrightarrow> hoare P (if b then c else d) Q E"
  by simp

end
