(* ===== verification/FsStore.thy ===== *)
theory FsStore
  imports FsDisk Models
begin

text \<open>
  \<open>FilesystemArtifactStore\<close> of \<open>src/cer/artifacts/fs_store.py\<close>, method by method. What the class
  takes from elsewhere is an argument: its configuration with SHA-256 and the JSON form of an
  \<open>ArtifactRecord\<close> (\<open>fs_cfg\<close>), and the clock and random names of a call (\<open>chances\<close>).
\<close>

record fs_cfg =
  max_bytes :: int
  root_uri :: string \<comment> \<open>\<open>self.root.as_uri()\<close>\<close>
  sha256 :: "bytes \<Rightarrow> string" \<comment> \<open>\<open>hashlib.sha256(_).hexdigest()\<close>\<close>
  to_json :: "artifact \<Rightarrow> bytes" \<comment> \<open>\<open>model_dump_json().encode()\<close>\<close>
  of_json :: "bytes \<Rightarrow> artifact option" \<comment> \<open>\<open>model_validate_json\<close>, \<open>None\<close> when it raises\<close>

record chances =
  now :: pydt
  uuid_hex :: string
  marker_tmp :: "string list"
  blob_tmp :: "string list"
  sidecar_tmp :: "string list"
  probe_hex :: string

subsection \<open>Paths\<close>

definition root_dir :: path where "root_dir = []"
definition blobs_dir :: path where "blobs_dir = [''blobs'']"
definition index_dir :: path where "index_dir = [''index'']"

definition blob_path :: "string \<Rightarrow> path" where
  "blob_path h = blobs_dir @ [take 2 h, take 2 (drop 2 h), h]"

definition blob_uri :: "fs_cfg \<Rightarrow> path \<Rightarrow> string" where
  "blob_uri C p = root_uri C @ concat (map (\<lambda>s. ''/'' @ s) p)"

definition marker_path :: path where "marker_path = [''store.json'']"

definition safe_artifact_id :: "string \<Rightarrow> exn + string" where
  "safe_artifact_id i =
     (if i = [] \<or> CHR ''/'' \<in> set i \<or> CHR 0x5C \<in> set i \<or> i = ''.'' \<or> i = ''..''
      then raise_cer NotFoundError else Inr i)"

definition sidecar_path :: "string \<Rightarrow> exn + path" where
  "sidecar_path i = rbind (safe_artifact_id i) (\<lambda>s. Inr (index_dir @ [s @ ''.json'']))"

subsection \<open>Presence of the backing storage\<close>

definition io_and :: "bool io \<Rightarrow> bool io \<Rightarrow> bool io" where
  "io_and a b = io_bind a (\<lambda>x. if x then b else io_return False)"

definition backing_present :: "bool io" where
  "backing_present = catch_os
     (io_and (is_dir root_dir) (io_and (is_dir blobs_dir) (io_and (is_dir index_dir) (is_file marker_path))))
     (\<lambda>_. io_return False)"

definition set_initialised :: "bool \<Rightarrow> unit io" where
  "set_initialised b w = (Done (Inr ()), w\<lparr>initialised := b\<rparr>)"

text \<open>\<open>__init__\<close>: \<open>max_bytes\<close> must be positive; the flag is seeded from the disk.\<close>

definition open_store :: "fs_cfg \<Rightarrow> unit io" where
  "open_store C = (if max_bytes C \<le> 0 then io_raise PyValueError else io_bind backing_present set_initialised)"

definition require_live_backing :: "unit io" where
  "require_live_backing w =
     (if initialised w then io_bind backing_present (\<lambda>b. if b then io_return () else raise_store) w
      else io_return () w)"

subsection \<open>Writing\<close>

definition atomic_write :: "string list \<Rightarrow> path \<Rightarrow> bytes \<Rightarrow> unit io" where
  "atomic_write rs p data =
     io_bind (catch_os (io_bind (mkdir_parents (butlast p)) (\<lambda>_. mkstemp p rs)) (\<lambda>_. raise_store)) (\<lambda>q.
       catch_os (io_bind (write_fd q data) (\<lambda>_. io_bind fsync (\<lambda>_. replace_file q p)))
         (\<lambda>_. io_bind (catch_os (unlink q) (\<lambda>_. io_return ())) (\<lambda>_. raise_store)))"

definition store_blob :: "string list \<Rightarrow> path \<Rightarrow> bytes \<Rightarrow> unit io" where
  "store_blob rs p data = io_bind (path_exists_io p) (\<lambda>there.
     if there then io_bind (catch_os (read_bytes p) (\<lambda>_. raise_store)) (\<lambda>existing.
       if existing = data then io_return () else io_raise (new_exn ImmutabilityError None))
     else atomic_write rs p data)"

subsection \<open>Initialisation\<close>

definition marker_text :: "string \<Rightarrow> bytes" where
  "marker_text created = ''{'' @ [CHR 0x22] @ ''layout_version'' @ [CHR 0x22] @ '': 1, '' @ [CHR 0x22] @
     ''created_at_utc'' @ [CHR 0x22] @ '': '' @ [CHR 0x22] @ created @ [CHR 0x22] @ ''}''"

definition mark_previously_initialised :: "unit io" where
  "mark_previously_initialised = set_initialised True"

definition initialise :: "chances \<Rightarrow> unit io" where
  "initialise ch =
     io_bind (catch_os (io_bind (mkdir_parents root_dir) (\<lambda>_. io_bind (mkdir_parents blobs_dir) (\<lambda>_.
         mkdir_parents index_dir))) (\<lambda>_. raise_store)) (\<lambda>_.
     io_bind (path_exists_io marker_path) (\<lambda>there.
     io_bind (if there then io_return () else io_bind (io_lift (isoformat_utc (now ch))) (\<lambda>s.
         atomic_write (marker_tmp ch) marker_path (marker_text s))) (\<lambda>_.
       set_initialised True)))"

subsection \<open>The protocol\<close>

text \<open>The record \<open>put\<close> builds, through the constructor of \<open>ArtifactRecord\<close>.\<close>

definition new_record :: "fs_cfg \<Rightarrow> chances \<Rightarrow> bytes \<Rightarrow> string \<Rightarrow> string \<Rightarrow> exn + artifact" where
  "new_record C ch data content_type filename = rbind (new_artifact_id (uuid_hex ch)) (\<lambda>i.
     mk_artifact \<lparr>ar_artifact_id = i, ar_sha256 = sha256 C data, ar_size_bytes = int (length data),
       ar_content_type = content_type, ar_filename = filename,
       ar_uri = blob_uri C (blob_path (sha256 C data)), ar_registered_at = now ch,
       ar_run_id = None, ar_evidence_id = None\<rparr>)"

definition put_checks :: "fs_cfg \<Rightarrow> bytes \<Rightarrow> string \<Rightarrow> string \<Rightarrow> string option \<Rightarrow> exn + unit" where
  "put_checks C data content_type filename declared =
     (if strip content_type = [] then Inl (new_exn ArtifactStoreError (Some ''invalid_content_type''))
      else if strip filename = [] then Inl (new_exn ArtifactStoreError (Some ''invalid_filename''))
      else if int (length data) > max_bytes C then Inl (new_exn ArtifactStoreError (Some ''artifact_too_large''))
      else case declared of
          None \<Rightarrow> Inr ()
        | Some s \<Rightarrow> if py_lower s \<noteq> sha256 C data then raise_cer ChecksumMismatchError else Inr ())"

definition put :: "fs_cfg \<Rightarrow> chances \<Rightarrow> bytes \<Rightarrow> string \<Rightarrow> string \<Rightarrow> string option \<Rightarrow> artifact io" where
  "put C ch data content_type filename declared =
     io_bind (io_lift (put_checks C data content_type filename declared)) (\<lambda>_.
     io_bind backing_present (\<lambda>there.
     io_bind (if there then set_initialised True
              else io_bind require_live_backing (\<lambda>_. initialise ch)) (\<lambda>_.
     io_bind (store_blob (blob_tmp ch) (blob_path (sha256 C data)) data) (\<lambda>_.
     io_bind (io_lift (new_record C ch data content_type filename)) (\<lambda>record.
     io_bind (io_lift (sidecar_path (ar_artifact_id record))) (\<lambda>p.
     io_bind (atomic_write (sidecar_tmp ch) p (to_json C record)) (\<lambda>_.
       io_return record)))))))"

definition stat :: "fs_cfg \<Rightarrow> string \<Rightarrow> artifact io" where
  "stat C i = io_bind (io_lift (sidecar_path i)) (\<lambda>p.
     io_bind (catch_os (read_bytes p) (\<lambda>e.
       if e = PyFileNotFoundError
       then io_bind require_live_backing (\<lambda>_. io_raise (new_exn NotFoundError None))
       else raise_store)) (\<lambda>raw.
     case of_json C raw of None \<Rightarrow> raise_store | Some a \<Rightarrow> io_return a))"

definition get :: "fs_cfg \<Rightarrow> string \<Rightarrow> bytes io" where
  "get C i = io_bind (stat C i) (\<lambda>record.
     io_bind (catch_os (read_bytes (blob_path (ar_sha256 record))) (\<lambda>_. raise_store)) (\<lambda>data.
       if sha256 C data \<noteq> ar_sha256 record then io_raise (new_exn ChecksumMismatchError None)
       else io_return data))"

definition exists_artifact :: "string \<Rightarrow> bool io" where
  "exists_artifact i = (case sidecar_path i of
     Inl _ \<Rightarrow> io_return False
   | Inr p \<Rightarrow> catch_os (is_file p) (\<lambda>_. io_return False))"

text \<open>\<open>finally\<close>: the probe is removed whether or not the check failed; its own error is dropped.\<close>

definition io_finally :: "'a io \<Rightarrow> unit io \<Rightarrow> 'a io" where
  "io_finally c f w = (case c w of
     (Crash, w') \<Rightarrow> (Crash, w')
   | (Done r, w') \<Rightarrow> io_bind f (\<lambda>_. io_lift r) w')"

definition probe_path :: "chances \<Rightarrow> path" where
  "probe_path ch = [''.health-probe-'' @ probe_hex ch]"

definition health :: "chances \<Rightarrow> unit io" where
  "health ch = io_bind backing_present (\<lambda>there.
     if \<not> there then raise_store
     else io_bind (set_initialised True) (\<lambda>_.
       io_finally
         (catch_os (io_bind (write_bytes (probe_path ch) ''ok'') (\<lambda>_.
            io_bind (read_bytes (probe_path ch)) (\<lambda>_. io_return ()))) (\<lambda>_. raise_store))
         (catch_os (unlink (probe_path ch)) (\<lambda>_. io_return ()))))"

end
