(* ===== verification/Routes.thy ===== *)
theory Routes
  imports MetaStore FsStore
begin

text \<open>
  The route handlers of \<open>src/cer/api/routes.py\<close> with the request bodies of \<open>src/cer/api/schemas.py\<close>.
  A handler takes the parsed request, what the environment supplies during the call (the behaviour of
  SQLite, the clock, random ids) and the state of the stores it touches. Parsing the HTTP request is
  FastAPI's; its refusal (422) of a request outside the declared types and bounds is
  \<open>RequestValidationError\<close>.
\<close>

record api_cfg =
  api_libs :: libs
  api_fs :: fs_cfg
  uuid5_hex :: "string \<Rightarrow> string" \<comment> \<open>\<open>uuid.uuid5(_DETERMINISTIC_ID_NAMESPACE, _).hex\<close>\<close>
  max_artifact_bytes :: int

text \<open>The clock and the random id of one request.\<close>

record moment =
  utcnow :: pydt
  uuid4_hex :: string

definition truthy :: "string option \<Rightarrow> bool" where
  "truthy v = (case v of None \<Rightarrow> False | Some s \<Rightarrow> s \<noteq> [])"

definition or_now :: "pydt option \<Rightarrow> moment \<Rightarrow> pydt" where
  "or_now v mo = (case v of None \<Rightarrow> utcnow mo | Some t \<Rightarrow> t)"

subsection \<open>Idempotency keys and ids\<close>

definition api_require_producer :: "string option \<Rightarrow> exn + string" where
  "api_require_producer p = (case p of None \<Rightarrow> raise_cer ContractViolationError
     | Some s \<Rightarrow> if s = [] \<or> strip s = [] then raise_cer ContractViolationError else Inr s)"

definition id_name :: "string \<Rightarrow> string \<Rightarrow> string \<Rightarrow> string" where
  "id_name kind producer key = kind @ '':'' @ producer @ '':'' @ key"

definition generate_api_id :: "api_cfg \<Rightarrow> moment \<Rightarrow> string \<Rightarrow> string \<Rightarrow> string option \<Rightarrow> string \<Rightarrow> exn + string" where
  "generate_api_id A mo pre kind key producer =
     (if truthy key then rbind (api_require_producer (Some producer)) (\<lambda>p.
        Inr (pre @ uuid5_hex A (id_name kind p (the key))))
      else Inr (pre @ uuid4_hex mo))"

definition resolve_idempotency_key :: "string option \<Rightarrow> string option \<Rightarrow> exn + string option" where
  "resolve_idempotency_key header body =
     (if truthy header \<and> truthy body \<and> header \<noteq> body then raise_cer ContractViolationError
      else Inr (if truthy header then header else body))"

subsection \<open>Dependencies, discovery, readiness\<close>

definition require_contract_version :: "string option \<Rightarrow> exn + string" where
  "require_contract_version header = (case header of None \<Rightarrow> raise_cer ContractViolationError
     | Some s \<Rightarrow> validate_contract_version (OStr s))"

definition liveness :: string where "liveness = ''ok''"

definition get_version :: "string \<times> int \<times> int list" where
  "get_version = (CONTRACT_VERSION, SCHEMA_VERSION, sort SUPPORTED_SCHEMA_VERSIONS)"

datatype dependency = MetadataStore | ArtifactStore

text \<open>The status, and the dependency named in the body.\<close>

definition readiness :: "exn + unit \<Rightarrow> chances \<Rightarrow> fstore \<Rightarrow> (nat \<times> dependency option) ending \<times> fstore" where
  "readiness metadata ch w = (case metadata of
     Inl _ \<Rightarrow> (Done (Inr (503, Some MetadataStore)), w)
   | Inr _ \<Rightarrow> (case health ch w of
       (Crash, w') \<Rightarrow> (Crash, w')
     | (Done (Inl _), w') \<Rightarrow> (Done (Inr (503, Some ArtifactStore)), w')
     | (Done (Inr _), w') \<Rightarrow> (Done (Inr (200, None)), w')))"

subsection \<open>Strategies, experiments, runs\<close>

record strategy_request =
  sr_strategy_id :: string
  sr_name :: string
  sr_thesis :: string
  sr_created_at :: "pydt option"

definition post_strategy :: "api_cfg \<Rightarrow> moment \<Rightarrow> env \<Rightarrow> strategy_request \<Rightarrow> db \<Rightarrow> strategy outcome" where
  "post_strategy A mo v q d =
     try_tx (mk_strategy \<lparr>st_strategy_id = sr_strategy_id q, st_name = sr_name q, st_thesis = sr_thesis q,
       st_created_at = or_now (sr_created_at q) mo\<rparr>) d (\<lambda>s. register_strategy (api_libs A) v s d)"

record strategy_version_request =
  vr_strategy_version :: string
  vr_git_repo :: string
  vr_git_commit :: string
  vr_created_at :: "pydt option"
  vr_notes :: "string option"

definition post_strategy_version ::
    "api_cfg \<Rightarrow> moment \<Rightarrow> env \<Rightarrow> string \<Rightarrow> strategy_version_request \<Rightarrow> db \<Rightarrow> strategy_version outcome" where
  "post_strategy_version A mo v strategy_id q d =
     try_tx (mk_strategy_version \<lparr>sv_strategy_id = strategy_id, sv_strategy_version = vr_strategy_version q,
       sv_git_repo = vr_git_repo q, sv_git_commit = vr_git_commit q, sv_created_at = or_now (vr_created_at q) mo,
       sv_notes = vr_notes q\<rparr>) d (\<lambda>s. register_strategy_version (api_libs A) v s d)"

record experiment_request =
  xr_objective :: string
  xr_producer :: string
  xr_strategy_id :: "string option"
  xr_strategy_version :: "string option"
  xr_created_at :: "pydt option"
  xr_idempotency_key :: "string option"

definition post_experiment ::
    "api_cfg \<Rightarrow> moment \<Rightarrow> env \<Rightarrow> string option \<Rightarrow> experiment_request \<Rightarrow> db \<Rightarrow> experiment_record outcome" where
  "post_experiment A mo v header q d =
     try_tx (resolve_idempotency_key header (xr_idempotency_key q)) d (\<lambda>key.
     try_tx (generate_api_id A mo ''exp_'' ''experiment'' key (xr_producer q)) d (\<lambda>i.
     try_tx (mk_experiment \<lparr>ex_experiment_id = i, ex_objective = xr_objective q, ex_strategy_id = xr_strategy_id q,
       ex_strategy_version = xr_strategy_version q, ex_producer = xr_producer q,
       ex_created_at = or_now (xr_created_at q) mo\<rparr>) d (\<lambda>x.
       create_experiment (api_libs A) v key x d)))"

record run_request =
  rr_producer :: string
  rr_status :: run_status
  rr_started_at :: "pydt option"
  rr_producer_version :: "string option"
  rr_git_repo :: "string option"
  rr_git_commit :: "string option"
  rr_dataset_id :: "string option"
  rr_dataset_version :: "string option"
  rr_dataset_ref :: "string option"
  rr_config_hash :: "string option"
  rr_config_ref :: "string option"
  rr_environment :: "string option"
  rr_idempotency_key :: "string option"

definition post_run ::
    "api_cfg \<Rightarrow> moment \<Rightarrow> env \<Rightarrow> string \<Rightarrow> string option \<Rightarrow> run_request \<Rightarrow> db \<Rightarrow> run outcome" where
  "post_run A mo v experiment_id header q d =
     try_tx (resolve_idempotency_key header (rr_idempotency_key q)) d (\<lambda>key.
     try_tx (generate_api_id A mo ''run_'' ''run'' key (rr_producer q)) d (\<lambda>i.
     try_tx (mk_run \<lparr>rn_run_id = i, rn_experiment_id = experiment_id, rn_status = rr_status q,
       rn_started_at = or_now (rr_started_at q) mo, rn_ended_at = None, rn_producer = rr_producer q,
       rn_producer_version = rr_producer_version q, rn_git_repo = rr_git_repo q, rn_git_commit = rr_git_commit q,
       rn_dataset_id = rr_dataset_id q, rn_dataset_version = rr_dataset_version q, rn_dataset_ref = rr_dataset_ref q,
       rn_config_hash = rr_config_hash q, rn_config_ref = rr_config_ref q, rn_environment = rr_environment q,
       rn_provenance_completeness = INCOMPLETE, rn_missing_provenance = []\<rparr>) d (\<lambda>r.
       create_run (api_libs A) v key r d)))"

record run_close_request =
  cr_status :: run_status
  cr_ended_at :: "pydt option"

definition post_run_close :: "moment \<Rightarrow> env \<Rightarrow> string \<Rightarrow> run_close_request \<Rightarrow> db \<Rightarrow> run outcome" where
  "post_run_close mo v i q d = close_run v i (cr_status q) (or_now (cr_ended_at q) mo) d"

subsection \<open>Evidence\<close>

record evidence_request =
  er_evidence_type :: string
  er_schema_version :: int
  er_producer :: string
  er_idempotency_key :: "string option"
  er_strategy_id :: "string option"
  er_strategy_version :: "string option"
  er_experiment_id :: "string option"
  er_run_id :: "string option"
  er_producer_version :: "string option"
  er_created_at_utc :: "pydt option"
  er_observed_at_utc :: "pydt option"
  er_git_repo :: "string option"
  er_git_commit :: "string option"
  er_dataset_id :: "string option"
  er_dataset_version :: "string option"
  er_dataset_ref :: "string option"
  er_config_hash :: "string option"
  er_config_ref :: "string option"
  er_environment :: "string option"
  er_instruments :: "string list"
  er_timeframes :: "string list"
  er_metrics :: "(string \<times> json) list"
  er_verdict :: "string option"
  er_status :: "string option"
  er_regime_tags :: "string list"
  er_parent_evidence_ids :: "string list"
  er_parent_run_ids :: "string list"
  er_artifact_ids :: "string list"
  er_notes :: json

text \<open>The arguments of \<open>EvidenceRecord(...)\<close>; \<open>evidence_type\<close> travels as text (see \<open>mk_evidence\<close>), and
  the member of the record here is only the field's place.\<close>

definition evidence_args :: "string \<Rightarrow> string \<Rightarrow> pydt \<Rightarrow> evidence_request \<Rightarrow> evidence" where
  "evidence_args i key created q =
     \<lparr>ev_evidence_id = i, ev_idempotency_key = key, ev_evidence_type = hd evidence_types,
      ev_schema_version = er_schema_version q, ev_strategy_id = er_strategy_id q,
      ev_strategy_version = er_strategy_version q, ev_experiment_id = er_experiment_id q, ev_run_id = er_run_id q,
      ev_producer = er_producer q, ev_producer_version = er_producer_version q, ev_created_at_utc = created,
      ev_observed_at_utc = er_observed_at_utc q, ev_git_repo = er_git_repo q, ev_git_commit = er_git_commit q,
      ev_dataset_id = er_dataset_id q, ev_dataset_version = er_dataset_version q, ev_dataset_ref = er_dataset_ref q,
      ev_config_hash = er_config_hash q, ev_config_ref = er_config_ref q, ev_environment = er_environment q,
      ev_instruments = er_instruments q, ev_timeframes = er_timeframes q, ev_metrics = er_metrics q,
      ev_verdict = er_verdict q, ev_status = er_status q, ev_regime_tags = er_regime_tags q,
      ev_parent_evidence_ids = er_parent_evidence_ids q, ev_parent_run_ids = er_parent_run_ids q,
      ev_artifact_ids = er_artifact_ids q, ev_notes = er_notes q,
      ev_provenance_completeness = INCOMPLETE, ev_missing_provenance = []\<rparr>"

definition post_evidence ::
    "api_cfg \<Rightarrow> moment \<Rightarrow> env \<Rightarrow> string option \<Rightarrow> evidence_request \<Rightarrow> db \<Rightarrow> evidence outcome" where
  "post_evidence A mo v header q d =
     try_tx (resolve_idempotency_key header (er_idempotency_key q)) d (\<lambda>key.
     if \<not> truthy key then (raise_cer ContractViolationError, d)
     else try_tx (validate_schema_version (OInt (er_schema_version q))) d (\<lambda>_.
     try_tx (generate_api_id A mo ''ev_'' ''evidence'' key (er_producer q)) d (\<lambda>i.
     try_tx (mk_evidence (AsText (er_evidence_type q)) (evidence_args i (the key) (or_now (er_created_at_utc q) mo) q)) d (\<lambda>e.
       append_evidence (api_libs A) v e d))))"

text \<open>\<open>limit: int = Query(default=100, ge=1, le=1000)\<close>, \<open>offset: int = Query(default=0, ge=0)\<close>.\<close>

definition page_params :: "int option \<Rightarrow> int option \<Rightarrow> exn + int \<times> int" where
  "page_params limit offset =
     (let l = (case limit of None \<Rightarrow> 100 | Some n \<Rightarrow> n); n = (case offset of None \<Rightarrow> 0 | Some k \<Rightarrow> k) in
      if 1 \<le> l \<and> l \<le> 1000 \<and> 0 \<le> n then Inr (l, n) else Inl RequestValidationError)"

definition get_evidence_list ::
    "env \<Rightarrow> evidence_filter \<Rightarrow> int option \<Rightarrow> int option \<Rightarrow> db \<Rightarrow> exn + evidence list" where
  "get_evidence_list v f limit offset d =
     rbind (page_params limit offset) (\<lambda>(l, n). query_evidence v f l n d)"

subsection \<open>Artifacts\<close>

definition FORM_ENCODED_MEDIA_TYPES :: "string list" where
  "FORM_ENCODED_MEDIA_TYPES = [''application/x-www-form-urlencoded'', ''multipart/form-data'']"

definition is_form_encoded_media_type :: "string \<Rightarrow> bool" where
  "is_form_encoded_media_type s = (py_lower (strip (takeWhile (\<lambda>c. c \<noteq> CHR '';'') s)) \<in> set FORM_ENCODED_MEDIA_TYPES)"

definition DEFAULT_ARTIFACT_CONTENT_TYPE :: string where
  "DEFAULT_ARTIFACT_CONTENT_TYPE = ''application/octet-stream''"

fun first_declared :: "string option list \<Rightarrow> string" where
  "first_declared [] = DEFAULT_ARTIFACT_CONTENT_TYPE"
| "first_declared (c # cs) =
     (case c of None \<Rightarrow> first_declared cs
      | Some s \<Rightarrow> if s = [] \<or> strip s = [] \<or> is_form_encoded_media_type s then first_declared cs else s)"

definition resolve_artifact_content_type :: "string option \<Rightarrow> string option \<Rightarrow> string" where
  "resolve_artifact_content_type transport declared = first_declared [declared, transport]"

record artifact_request =
  aq_body :: bytes
  aq_content_type :: "string option"
  aq_filename :: "string option"
  aq_declared_sha256 :: "string option"
  aq_run_id :: "string option"
  aq_evidence_id :: "string option"
  aq_producer :: "string option"
  aq_idempotency_key :: "string option"
  aq_content_type_declared :: "string option"

type_synonym app = "db \<times> fstore"

text \<open>The request under a key its producer has used before: the bytes never reach the artifact store.\<close>

definition replay_artifact ::
    "api_cfg \<Rightarrow> env \<Rightarrow> string \<Rightarrow> string \<Rightarrow> string \<Rightarrow> string \<Rightarrow> artifact_request \<Rightarrow> artifact \<Rightarrow> db \<Rightarrow> artifact outcome" where
  "replay_artifact A v key producer filename content_type q prior d =
     (let h = sha256 (api_fs A) (aq_body q) in
      if (case aq_declared_sha256 q of None \<Rightarrow> False | Some s \<Rightarrow> py_lower s \<noteq> h) then (raise_cer ChecksumMismatchError, d)
      else register_artifact (api_libs A) v (Some key) (Some producer)
        (prior\<lparr>ar_sha256 := h, ar_size_bytes := int (length (aq_body q)), ar_content_type := content_type,
           ar_filename := filename\<rparr>) d)"

text \<open>The bytes reach the artifact store first, then the record the metadata store.\<close>

definition store_artifact ::
    "api_cfg \<Rightarrow> chances \<Rightarrow> env \<Rightarrow> string option \<Rightarrow> string \<Rightarrow> string \<Rightarrow> artifact_request \<Rightarrow> app \<Rightarrow> artifact ending \<times> app" where
  "store_artifact A ch v key filename content_type q = (\<lambda>(d, w).
     case put (api_fs A) ch (aq_body q) content_type filename (aq_declared_sha256 q) w of
       (Crash, w') \<Rightarrow> (Crash, (d, w'))
     | (Done (Inl e), w') \<Rightarrow> (Done (Inl e), (d, w'))
     | (Done (Inr a), w') \<Rightarrow>
         (let a' = (if aq_run_id q \<noteq> None \<or> aq_evidence_id q \<noteq> None
                    then a\<lparr>ar_run_id := aq_run_id q, ar_evidence_id := aq_evidence_id q\<rparr> else a);
              (r, d') = register_artifact (api_libs A) v key (if key \<noteq> None then aq_producer q else None) a' d
          in (Done r, (d', w'))))"

text \<open>\<open>find_v\<close> is the environment of the lookup of the key, \<open>v\<close> that of the registration.\<close>

definition post_artifact ::
    "api_cfg \<Rightarrow> chances \<Rightarrow> env \<Rightarrow> env \<Rightarrow> artifact_request \<Rightarrow> app \<Rightarrow> artifact ending \<times> app" where
  "post_artifact A ch find_v v q = (\<lambda>(d, w).
     if \<not> truthy (aq_filename q) then (Done (raise_cer ContractViolationError), (d, w))
     else if int (length (aq_body q)) > max_artifact_bytes A then (Done (raise_cer ContractViolationError), (d, w))
     else
       let filename = the (aq_filename q);
           content_type = resolve_artifact_content_type (aq_content_type q) (aq_content_type_declared q)
       in if \<not> truthy (aq_idempotency_key q) then store_artifact A ch v None filename content_type q (d, w)
       else let key = the (aq_idempotency_key q) in
         (case api_require_producer (aq_producer q) of
            Inl e \<Rightarrow> (Done (Inl e), (d, w))
          | Inr p \<Rightarrow>
              (case find_artifact_by_idempotency_key find_v p key d of
                 Inl e \<Rightarrow> (Done (Inl e), (d, w))
               | Inr (Some prior) \<Rightarrow>
                   (let (r, d') = replay_artifact A v key p filename content_type q prior d in (Done r, (d', w)))
               | Inr None \<Rightarrow> store_artifact A ch v (Some key) filename content_type q (d, w))))"

definition get_artifact_metadata :: "env \<Rightarrow> string \<Rightarrow> db \<Rightarrow> exn + artifact" where
  "get_artifact_metadata v i d = get_artifact v i d"

record download =
  dl_content :: bytes
  dl_media_type :: string
  dl_disposition :: string

definition download_artifact :: "api_cfg \<Rightarrow> string \<Rightarrow> download io" where
  "download_artifact A i = io_bind (stat (api_fs A) i) (\<lambda>record. io_bind (get (api_fs A) i) (\<lambda>data.
     io_return \<lparr>dl_content = data, dl_media_type = ar_content_type record,
       dl_disposition = ''attachment; filename='' @ [CHR 0x22] @ ar_filename record @ [CHR 0x22]\<rparr>))"

definition get_artifact_list ::
    "env \<Rightarrow> string option \<Rightarrow> string option \<Rightarrow> int option \<Rightarrow> int option \<Rightarrow> db \<Rightarrow> exn + artifact list" where
  "get_artifact_list v evidence_id run_id limit offset d =
     rbind (page_params limit offset) (\<lambda>(l, n). query_artifacts v evidence_id run_id l n d)"

record attach_request =
  tr_evidence_id :: "string option"
  tr_run_id :: "string option"

definition post_attach :: "env \<Rightarrow> string \<Rightarrow> attach_request \<Rightarrow> db \<Rightarrow> artifact outcome" where
  "post_attach v i q d = attach_artifact v i (tr_evidence_id q) (tr_run_id q) d"

subsection \<open>Promotions and health records\<close>

record promotion_request =
  pr_strategy_id :: string
  pr_strategy_version :: string
  pr_from_state :: promotion_state
  pr_to_state :: promotion_state
  pr_at_utc :: "pydt option"
  pr_authority :: string
  pr_producer :: string
  pr_evidence_ids :: "string list"
  pr_reason :: string
  pr_idempotency_key :: "string option"

definition post_promotion ::
    "api_cfg \<Rightarrow> moment \<Rightarrow> env \<Rightarrow> string option \<Rightarrow> promotion_request \<Rightarrow> db \<Rightarrow> promotion outcome" where
  "post_promotion A mo v header q d =
     try_tx (resolve_idempotency_key header (pr_idempotency_key q)) d (\<lambda>key.
     try_tx (generate_api_id A mo ''trn_'' ''promotion'' key (pr_producer q)) d (\<lambda>i.
     try_tx (mk_promotion \<lparr>pt_transition_id = i, pt_strategy_id = pr_strategy_id q,
       pt_strategy_version = pr_strategy_version q, pt_from_state = pr_from_state q, pt_to_state = pr_to_state q,
       pt_at_utc = or_now (pr_at_utc q) mo, pt_authority = pr_authority q, pt_producer = pr_producer q,
       pt_evidence_ids = pr_evidence_ids q, pt_reason = pr_reason q\<rparr>) d (\<lambda>p.
       record_promotion (api_libs A) v key p d)))"

definition get_promotions ::
    "env \<Rightarrow> string option \<Rightarrow> string option \<Rightarrow> int option \<Rightarrow> int option \<Rightarrow> db \<Rightarrow> exn + promotion list" where
  "get_promotions v strategy_id strategy_version limit offset d =
     rbind (page_params limit offset) (\<lambda>(l, n). query_promotions v strategy_id strategy_version l n d)"

record health_request =
  hq_strategy_id :: string
  hq_strategy_version :: string
  hq_health_state :: health_state
  hq_observed_at_utc :: "pydt option"
  hq_producer :: string
  hq_observed_trigger_rate :: "string option"
  hq_regime_conditioned_expected_trigger_rate :: "string option"
  hq_expectancy_r :: "string option"
  hq_win_rate :: "string option"
  hq_drawdown :: "string option"
  hq_mae :: "string option"
  hq_mfe :: "string option"
  hq_holding_time :: "string option"
  hq_execution_slippage_quality :: "string option"
  hq_regime_distribution :: "(string \<times> string) list option"
  hq_strategy_chain_strength_distribution :: "(string \<times> string) list option"
  hq_baseline_comparison :: "(string \<times> json) list option"
  hq_confidence :: "string option"
  hq_reason :: string
  hq_evidence_ids :: "string list"
  hq_idempotency_key :: "string option"

definition post_health_record ::
    "api_cfg \<Rightarrow> moment \<Rightarrow> env \<Rightarrow> string option \<Rightarrow> health_request \<Rightarrow> db \<Rightarrow> health outcome" where
  "post_health_record A mo v header q d =
     try_tx (resolve_idempotency_key header (hq_idempotency_key q)) d (\<lambda>key.
     try_tx (generate_api_id A mo ''hlt_'' ''health'' key (hq_producer q)) d (\<lambda>i.
     try_tx (mk_health \<lparr>hr_health_id = i, hr_strategy_id = hq_strategy_id q, hr_strategy_version = hq_strategy_version q,
       hr_health_state = hq_health_state q, hr_observed_at_utc = or_now (hq_observed_at_utc q) mo,
       hr_producer = hq_producer q, hr_observed_trigger_rate = hq_observed_trigger_rate q,
       hr_regime_conditioned_expected_trigger_rate = hq_regime_conditioned_expected_trigger_rate q,
       hr_expectancy_r = hq_expectancy_r q, hr_win_rate = hq_win_rate q, hr_drawdown = hq_drawdown q,
       hr_mae = hq_mae q, hr_mfe = hq_mfe q, hr_holding_time = hq_holding_time q,
       hr_execution_slippage_quality = hq_execution_slippage_quality q,
       hr_regime_distribution = hq_regime_distribution q,
       hr_strategy_chain_strength_distribution = hq_strategy_chain_strength_distribution q,
       hr_baseline_comparison = hq_baseline_comparison q, hr_confidence = hq_confidence q,
       hr_reason = hq_reason q, hr_evidence_ids = hq_evidence_ids q\<rparr>) d (\<lambda>h.
       record_health (api_libs A) v key h d)))"

definition get_health_records ::
    "env \<Rightarrow> string option \<Rightarrow> string option \<Rightarrow> int option \<Rightarrow> int option \<Rightarrow> db \<Rightarrow> exn + health list" where
  "get_health_records v strategy_id strategy_version limit offset d =
     rbind (page_params limit offset) (\<lambda>(l, n). query_health v strategy_id strategy_version l n d)"

end
