(* ===== verification/HttpErrors.thy ===== *)
theory HttpErrors
  imports Models
begin

text \<open>
  From exceptions to HTTP responses (\<open>src/cer/api/errors.py\<close>, the request id of \<open>app.py\<close>) and back
  to exceptions in the client (\<open>_raise_for_error_response\<close> of \<open>src/cer/client.py\<close>). The text of a
  message is an argument.
\<close>

subsection \<open>The server's mapping\<close>

definition ERROR_STATUS_ORDER :: "(exc_class \<times> nat) list" where
  "ERROR_STATUS_ORDER =
     [(ChecksumMismatchError, 422), (NotFoundError, 404), (IdempotencyConflictError, 409), (ImmutabilityError, 409),
      (ContractViolationError, 400), (MetadataStoreError, 503), (ArtifactStoreError, 503), (CERError, 400)]"

definition status_for :: "exc_class \<Rightarrow> nat" where
  "status_for c = (case List.find (\<lambda>(d, _). is_subclass c d) ERROR_STATUS_ORDER of Some (_, s) \<Rightarrow> s | None \<Rightarrow> 500)"

definition request_id_of :: "string option \<Rightarrow> string \<Rightarrow> string" where
  "request_id_of inbound uuid = (case inbound of None \<Rightarrow> uuid | Some s \<Rightarrow> if s = [] then uuid else s)"

record response =
  rs_status :: nat
  rs_body :: json
  rs_request_id :: string

definition error_response :: "string \<Rightarrow> nat \<Rightarrow> string \<Rightarrow> string \<Rightarrow> response" where
  "error_response rid status code message =
     \<lparr>rs_status = status, rs_body = JObj [(''code'', JStr code), (''message'', JStr message), (''request_id'', JStr rid)],
      rs_request_id = rid\<rparr>"

text \<open>The installed handlers, by the type of the exception.\<close>

fun handle_error :: "string \<Rightarrow> string \<Rightarrow> exn \<Rightarrow> response" where
  "handle_error rid msg (CERExn c code) = error_response rid (status_for c) code msg"
| "handle_error rid msg RequestValidationError = error_response rid 422 ''validation_error'' msg"
| "handle_error rid msg (PydanticError _) = error_response rid 400 ''validation_error'' msg"
| "handle_error rid msg _ = error_response rid 500 ''internal_error'' ''an unexpected internal error occurred''"

text \<open>An error FastAPI raises itself (no such route, method not allowed), by its status.\<close>

definition handle_framework_error :: "string \<Rightarrow> string \<Rightarrow> nat \<Rightarrow> response" where
  "handle_framework_error rid detail status = error_response rid status ''http_error'' detail"

subsection \<open>The client's mapping\<close>

definition CODE_TO_EXCEPTION :: "(string \<times> exc_class) list" where
  "CODE_TO_EXCEPTION = map (\<lambda>c. (class_code c, c)) all_classes"

text \<open>What the client raises: a class of the contract or its own fallback class, with the \<open>code\<close>
  attribute (any JSON value a server may have sent), or the \<open>TypeError\<close> of an unhashable code.\<close>

datatype client_exn = Known exc_class json | CERClientError json | ClientTypeError

definition client_code :: string where "client_code = ''cer_client_error''"

fun json_falsy :: "json \<Rightarrow> bool" where
  "json_falsy JNull = True"
| "json_falsy (JBool b) = (\<not> b)"
| "json_falsy (JInt i) = (i = 0)"
| "json_falsy (JFloat s) = (s = ''0.0'' \<or> s = ''-0.0'')"
| "json_falsy (JStr s) = (s = [])"
| "json_falsy (JList xs) = (xs = [])"
| "json_falsy (JObj kvs) = (kvs = [])"

fun raise_for_code :: "json \<Rightarrow> client_exn" where
  "raise_for_code (JStr s) = (case map_of CODE_TO_EXCEPTION s of
     Some c \<Rightarrow> Known c (JStr s)
   | None \<Rightarrow> CERClientError (if s = [] then JStr client_code else JStr s))"
| "raise_for_code (JList _) = ClientTypeError"
| "raise_for_code (JObj _) = ClientTypeError"
| "raise_for_code v = CERClientError (if json_falsy v then JStr client_code else v)"

text \<open>\<open>None\<close> is a body that is no JSON.\<close>

fun raise_for_error_response :: "json option \<Rightarrow> client_exn" where
  "raise_for_error_response (Some (JObj kvs)) =
     raise_for_code (case map_of (rev kvs) ''code'' of None \<Rightarrow> JNull | Some v \<Rightarrow> v)"
| "raise_for_error_response _ = CERClientError (JStr client_code)"

text \<open>\<open>_request\<close>: a status below 400 is the answer.\<close>

definition client_request :: "nat \<Rightarrow> json option \<Rightarrow> client_exn + json option" where
  "client_request status body = (if status \<ge> 400 then Inl (raise_for_error_response body) else Inr body)"

subsection \<open>Lemmas\<close>

text \<open>The reference for the order of the table: the status of the nearest listed ancestor.\<close>

fun nearest_status :: "nat \<Rightarrow> exc_class \<Rightarrow> nat" where
  "nearest_status 0 c = 500"
| "nearest_status (Suc k) c = (case map_of ERROR_STATUS_ORDER c of
     Some s \<Rightarrow> s
   | None \<Rightarrow> (case base_class c of None \<Rightarrow> 500 | Some b \<Rightarrow> nearest_status k b))"

lemma code_table_distinct: "distinct (map fst CODE_TO_EXCEPTION)"
  by (simp add: CODE_TO_EXCEPTION_def all_classes_def)

lemma code_lookup: "map_of CODE_TO_EXCEPTION s = Some c \<longleftrightarrow> s = class_code c"
proof -
  have "(class_code c, c) \<in> set CODE_TO_EXCEPTION" for c using all_classes_complete by (auto simp: CODE_TO_EXCEPTION_def)
  moreover have "s = class_code c" if "(s, c) \<in> set CODE_TO_EXCEPTION" for c using that by (auto simp: CODE_TO_EXCEPTION_def)
  ultimately show ?thesis using map_of_eq_Some_iff [OF code_table_distinct] by metis
qed

lemma class_code_nonempty: "class_code c \<noteq> []"
  by (cases c) simp_all

subsection \<open>Properties\<close>

text \<open>The order of the status table is right: the first entry an exception is an instance of is the
  entry of its nearest listed ancestor, so every class of the contract has a status, and a server
  side one (503) exactly when it is a store failure other than a checksum mismatch.\<close>

theorem status_is_of_nearest_ancestor:
  "status_for c = nearest_status 3 c \<and>
   (status_for c = 503 \<longleftrightarrow> is_subclass c MetadataStoreError \<or> (is_subclass c ArtifactStoreError \<and> c \<noteq> ChecksumMismatchError)) \<and>
   status_for c \<in> {400, 404, 409, 422, 503}"
  by (cases c) (simp_all add: status_for_def ERROR_STATUS_ORDER_def is_subclass_def numeral_3_eq_3)

text \<open>C33 A contract exception crosses HTTP unchanged: what the server raised with its class's code the
  client raises again with the same class and code. An instance with a code of its own reaches the client
  under the class that code belongs to, or as the fallback class with that code.\<close>

theorem errors_survive_http:
  "client_request (rs_status (handle_error rid msg (new_exn c None))) (Some (rs_body (handle_error rid msg (new_exn c None)))) =
     Inl (Known c (JStr (class_code c))) \<and>
   client_request (rs_status (handle_error rid msg (CERExn c code))) (Some (rs_body (handle_error rid msg (CERExn c code)))) =
     Inl (case List.find (\<lambda>d. class_code d = code) all_classes of
       Some d \<Rightarrow> Known d (JStr code)
     | None \<Rightarrow> CERClientError (JStr (if code = [] then client_code else code)))"
proof -
  have s: "400 \<le> status_for c" by (cases c) (simp_all add: status_for_def ERROR_STATUS_ORDER_def is_subclass_def)
  have k: "map_of CODE_TO_EXCEPTION (class_code d) = Some d" for d by (simp add: code_lookup)
  have "map_of CODE_TO_EXCEPTION code = List.find (\<lambda>d. class_code d = code) all_classes"
  proof (cases "List.find (\<lambda>d. class_code d = code) all_classes")
    case None
    then have "\<forall>d. code \<noteq> class_code d" using all_classes_complete by (auto simp: find_None_iff)
    with None show ?thesis using code_lookup by (metis option.exhaust)
  next
    case (Some d)
    then show ?thesis by (auto simp: code_lookup dest!: find_Some_iff_in)
  qed
  then show ?thesis
    using s by (simp add: client_request_def error_response_def new_exn_def k split: option.split)
qed

end
