(* ===== verification/FsInv.thy ===== *)
theory FsInv
  imports FsStore
begin

text \<open>
  What every method of the artifact store does to the files, whatever the script of faults. Outside
  temporary names the store only ever adds files: a blob at the path of its digest, a sidecar, the
  marker. The triples of this theory say which.
\<close>

subsection \<open>Trees and files\<close>

definition tree :: "fs \<Rightarrow> bool" where
  "tree m \<longleftrightarrow> (\<forall>p q. m p \<noteq> None \<longrightarrow> strict_prefix q p \<longrightarrow> m q = Some Dir)"

definition file_at :: "fs \<Rightarrow> path \<Rightarrow> bytes option" where
  "file_at m p = (case m p of Some (File b) \<Rightarrow> Some b | _ \<Rightarrow> None)"

lemma file_at_Some: "file_at m p = Some b \<longleftrightarrow> m p = Some (File b)"
  by (auto simp: file_at_def split: option.splits node.splits)

lemma file_at_None: "file_at m p = None \<longleftrightarrow> m p = None \<or> m p = Some Dir"
  by (auto simp: file_at_def split: option.splits node.splits)

definition scratch_name :: "string \<Rightarrow> bool" where
  "scratch_name s = (startswith s ''.tmp-'' \<and> startswith (rev s) (rev ''.part''))"

definition scratch_path :: "path \<Rightarrow> bool" where
  "scratch_path p = (p \<noteq> [] \<and> (scratch_name (last p) \<or> length p = 1 \<and> startswith (last p) ''.health-probe-''))"

lemma tmp_path_scratch: "scratch_path (tmp_path p r)"
  by (simp add: scratch_path_def tmp_path_def scratch_name_def startswith_def)

lemma probe_path_scratch: "scratch_path (probe_path ch)"
  by (simp add: scratch_path_def probe_path_def startswith_def)

lemma strict_prefixes: "strict_prefix q p \<longleftrightarrow> p \<noteq> [] \<and> q \<in> set (prefixes (butlast p))"
  by (cases p rule: rev_cases) (auto simp: strict_prefix_def)

lemma walk_ok:
  assumes "walk m p = Inr n" shows "m p = n" "strict_prefix q p \<Longrightarrow> m q = Some Dir"
  using assms by (auto simp: walk_def strict_prefixes find_None_iff split: if_splits option.splits)

lemma walk_missing:
  assumes "tree m" "walk m p = Inl e" "e = PyFileNotFoundError \<or> e = PyNotADirectoryError"
  shows "m p = None"
proof -
  obtain q where "q \<in> set (prefixes (butlast p))" "m q \<noteq> Some Dir" "p \<noteq> []"
    using assms(2,3) by (auto simp: walk_def split: if_splits option.splits dest!: find_Some_iff_in)
  with assms(1) show ?thesis unfolding tree_def by (metis strict_prefixes)
qed

definition clean :: "path \<Rightarrow> bool" where
  "clean p = list_all (\<lambda>s. CHR 0x00 \<notin> set s) p"

lemma walk_clean: "clean p \<Longrightarrow> walk m p \<noteq> Inl PyValueError"
  by (auto simp: walk_def clean_def list_ex_iff list_all_iff split: option.splits)

lemma walk_errors: "walk m p = Inl e \<Longrightarrow> e = PyValueError \<or> is_os_error e"
  by (auto simp: walk_def split: if_splits option.splits)

subsection \<open>Trees are kept\<close>

lemma tree_make_dirs:
  assumes "tree m" "\<And>q. q \<in> set qs \<Longrightarrow> file_at m q = None" "\<And>p q. p \<in> set qs \<Longrightarrow> strict_prefix q p \<Longrightarrow> q \<in> set qs"
  shows "tree (make_dirs qs m)"
  using assms unfolding tree_def make_dirs_def
  by (smt (verit, best) file_at_None)

lemma tree_update:
  assumes "tree m" "m p \<noteq> Some Dir" "\<And>q. strict_prefix q p \<Longrightarrow> m q = Some Dir"
  shows "tree (m(p \<mapsto> File b))"
  using assms unfolding tree_def by (auto simp: fun_upd_apply)

lemma tree_remove:
  assumes "tree m" "m p \<noteq> Some Dir" shows "tree (m(p := None))"
  using assms unfolding tree_def by (auto simp: fun_upd_apply)

lemma set_take_prefixes: "p \<in> set (take n (prefixes r)) \<longleftrightarrow> prefix p r \<and> length p < n"
proof (induction r arbitrary: n p)
  case Nil
  then show ?case by (cases n) auto
next
  case (Cons x r)
  show ?case
  proof (cases n)
    case (Suc k)
    then show ?thesis by (cases p) (auto simp: take_map image_iff Cons.IH)
  qed simp
qed

lemma strict_prefix_take:
  "p \<in> set (take n (prefixes r)) \<Longrightarrow> strict_prefix q p \<Longrightarrow> q \<in> set (take n (prefixes r))"
  by (auto simp: set_take_prefixes dest: prefix_length_less prefix_order.less_imp_le intro: prefix_order.trans)

subsection \<open>What the store can see\<close>

text \<open>The files outside temporary names: the abstraction all methods are described on.\<close>

definition visible :: "fs \<Rightarrow> path \<Rightarrow> bytes option" where
  "visible m p = (if scratch_path p then None else file_at m p)"

definition within :: "(path \<Rightarrow> bytes option) set \<Rightarrow> fs \<Rightarrow> bool" where
  "within VS m \<longleftrightarrow> tree m \<and> visible m \<in> VS"

definition quiet :: "'a io \<Rightarrow> bool" where
  "quiet c \<longleftrightarrow> (\<forall>VS. hoare (within VS) c (\<lambda>_. within VS) (within VS))"

lemma visible_file_at: "\<not> scratch_path p \<Longrightarrow> visible m p = file_at m p"
  by (simp add: visible_def)

lemma visible_make_dirs [simp]: "visible (make_dirs qs m) = visible m"
  by (auto simp: visible_def make_dirs_def file_at_def fun_eq_iff)

lemma visible_scratch [simp]: "scratch_path q \<Longrightarrow> visible (m(q := v)) = visible m"
  by (auto simp: visible_def file_at_def fun_eq_iff)

lemma visible_write: "\<not> scratch_path p \<Longrightarrow> visible (m(p \<mapsto> File b)) = (visible m)(p \<mapsto> b)"
  by (auto simp: visible_def file_at_def fun_eq_iff)

lemma quietD: "quiet c \<Longrightarrow> hoare (within VS) c (\<lambda>_. within VS) (within VS)"
  by (simp add: quiet_def)

lemma quiet_weaken: "quiet c \<Longrightarrow> VS \<subseteq> WS \<Longrightarrow> hoare (within VS) c (\<lambda>_. within VS) (within WS)"
  by (rule hoare_weaken [OF quietD [of c VS]]) (auto simp: within_def)

lemma quiet_return [intro]: "quiet (io_return x)"
  by (simp add: quiet_def hoare_def io_return_def)

lemma quiet_raise [intro]: "quiet (io_raise e)"
  by (simp add: quiet_def hoare_raise)

lemma quiet_raise_store [intro]: "quiet raise_store"
  by (simp add: quiet_def hoare_raise_store)

lemma quiet_lift [intro]: "quiet (io_lift r)"
  by (auto simp: quiet_def intro: hoare_lift)

lemma quiet_bind [intro]: "quiet c \<Longrightarrow> (\<And>x. quiet (k x)) \<Longrightarrow> quiet (io_bind c k)"
  unfolding quiet_def by (auto intro: hoare_bind)

lemma quiet_catch [intro]: "quiet c \<Longrightarrow> (\<And>e. quiet (h e)) \<Longrightarrow> quiet (catch_os c h)"
  unfolding quiet_def by (auto intro: hoare_catch)

lemma quiet_finally [intro]:
  assumes "quiet c" "quiet f" shows "quiet (io_finally c f)"
  unfolding quiet_def hoare_def
proof (intro allI impI)
  fix VS and w :: fstore assume w: "within VS (files w)"
  have l: "hoare (within VS) (io_bind f (\<lambda>_. io_lift r)) (\<lambda>_. within VS) (within VS)" for r :: "exn + 'a"
    by (rule quietD) (rule quiet_bind [OF assms(2) quiet_lift])
  show "ends_with (\<lambda>_. within VS) (within VS) (io_finally c f w)"
    using hoareD [OF quietD [OF assms(1)] w]
    by (cases "c w" rule: ends_cases) (auto simp: io_finally_def intro: hoareD [OF l])
qed

lemma quiet_flag [intro]: "quiet (set_initialised b)"
  by (simp add: quiet_def hoare_def set_initialised_def)

lemma quiet_reads [intro]: "quiet (sys (\<lambda>m. reads_only (f m) m))"
  by (auto simp: quiet_def intro: hoare_reads)

lemma quiet_reading [intro]: "quiet (path_is P p)" "quiet (read_bytes p)" "quiet fsync"
  unfolding path_is_def read_bytes_def fsync_def by auto

lemma quiet_sys:
  assumes "\<And>m x m' stage n. tree m \<Longrightarrow> eff m = Inr (x, m', stage) \<Longrightarrow>
    tree m' \<and> visible m' = visible m \<and> tree (stage n) \<and> visible (stage n) = visible m"
  shows "quiet (sys eff)"
  unfolding quiet_def within_def using assms by (auto intro!: hoare_sys)

lemma quiet_mkdir [intro]: "quiet (mkdir_parents p)"
  unfolding mkdir_parents_def
proof (rule quiet_sys)
  fix m and x :: unit and m' stage n
  assume "tree m" and eq: "(if list_ex (\<lambda>q. case m q of Some (File _) \<Rightarrow> True | _ \<Rightarrow> False) (prefixes p) then Inl PyOSError
     else Inr ((), make_dirs (prefixes p) m, \<lambda>n. make_dirs (take n (prefixes p)) m)) = Inr (x, m', stage)"
  have nofile: "file_at m q = None" if "q \<in> set (prefixes p)" for q
    using eq that by (fastforce simp: list_ex_iff file_at_def split: if_splits option.splits node.splits)
  have t: "tree (make_dirs (take k (prefixes p)) m)" for k
    by (rule tree_make_dirs [OF \<open>tree m\<close>]) (auto intro: nofile strict_prefix_take dest: in_set_takeD)
  have "tree (make_dirs (prefixes p) m)" using t [of "length (prefixes p)"] by simp
  with eq t show "tree m' \<and> visible m' = visible m \<and> tree (stage n) \<and> visible (stage n) = visible m"
    by (auto split: if_splits)
qed

lemma first_free_ok: "first_free m qs = Inr q \<Longrightarrow> q \<in> set qs \<and> walk m q = Inr None"
  by (induction m qs rule: first_free.induct) (auto simp: rbind_eq_Inr split: if_splits)

lemma walk_write: "tree m \<Longrightarrow> walk m p = Inr n \<Longrightarrow> n \<noteq> Some Dir \<Longrightarrow> tree (m(p \<mapsto> File b))"
  by (auto intro!: tree_update dest: walk_ok)

lemma mkstemp_rule:
  "hoare (within VS) (mkstemp p rs) (\<lambda>q m. within VS m \<and> (\<exists>b. m q = Some (File b)) \<and> scratch_path q) (within VS)"
  unfolding mkstemp_def
  by (rule hoare_sys)
     (auto simp: rbind_eq_Inr within_def at_once_def tmp_path_scratch dest!: first_free_ok intro: walk_write)

lemma tree_rewrite: "tree m \<Longrightarrow> m q = Some (File b) \<Longrightarrow> tree (m(q \<mapsto> File c))"
  by (rule tree_update) (auto simp: tree_def)

lemma write_fd_rule:
  assumes "scratch_path q"
  shows "hoare (\<lambda>m. within VS m \<and> (\<exists>b. m q = Some (File b))) (write_fd q b)
    (\<lambda>_ m. within VS m \<and> m q = Some (File b)) (within VS)"
  unfolding write_fd_def
  by (rule hoare_sys) (auto simp: within_def assms intro: tree_rewrite)

lemma fsync_rule: "hoare P fsync (\<lambda>_. P) P"
  unfolding fsync_def by (auto intro: hoare_sys simp: reads_only_def)

lemma replace_rule:
  assumes "scratch_path q" "\<not> scratch_path p"
  shows "hoare (\<lambda>m. within VS m \<and> m q = Some (File b)) (replace_file q p)
    (\<lambda>_. within ((\<lambda>V. V(p \<mapsto> b)) ` VS)) (within (VS \<union> (\<lambda>V. V(p \<mapsto> b)) ` VS))"
  unfolding replace_file_def
proof (rule hoare_sys)
  fix m assume "within VS m \<and> m q = Some (File b)"
  then show "within (VS \<union> (\<lambda>V. V(p \<mapsto> b)) ` VS) m" by (simp add: within_def)
next
  fix m x m' stage
  assume w: "within VS m \<and> m q = Some (File b)" and eff: "rbind (walk m p) (\<lambda>n. case m q of
      Some (File b) \<Rightarrow> if n = Some Dir \<or> p = q then Inl PyOSError else Inr (at_once () m (m(q := None, p \<mapsto> File b)))
    | _ \<Rightarrow> Inl PyFileNotFoundError) = Inr (x, m', stage)"
  then obtain n where n: "walk m p = Inr n" "n \<noteq> Some Dir" "p \<noteq> q" and m': "m' = m(q := None, p \<mapsto> File b)"
      and stage: "stage = (\<lambda>n. if n = 0 then m else m')"
    by (auto simp: rbind_eq_Inr at_once_def split: if_splits)
  have t: "tree (m(q := None))" using w by (simp add: within_def tree_remove)
  have "(m(q := None)) s = Some Dir" if "strict_prefix s p" for s
    using walk_ok(2) [OF n(1) that] w by auto
  then have "tree m'" using n t walk_ok(1) [OF n(1)] by (auto simp: m' intro!: tree_update)
  moreover have "visible m' = (visible m)(p \<mapsto> b)" using assms by (simp add: m' visible_write)
  ultimately show "within ((\<lambda>V. V(p \<mapsto> b)) ` VS) m' \<and> (\<forall>n. within (VS \<union> (\<lambda>V. V(p \<mapsto> b)) ` VS) (stage n))"
    using w by (auto simp: within_def stage)
qed

lemma quiet_unlink: "scratch_path p \<Longrightarrow> quiet (unlink p)"
  unfolding unlink_def
proof (rule quiet_sys)
  fix m and x :: unit and m' stage n
  assume s: "scratch_path p" and t: "tree m" and eff: "rbind (walk m p) (\<lambda>n. case n of
     None \<Rightarrow> Inl PyFileNotFoundError | Some Dir \<Rightarrow> Inl PyOSError
   | Some (File _) \<Rightarrow> Inr (at_once () m (m(p := None)))) = Inr (x, m', stage)"
  then obtain b where "m p = Some (File b)" and "(x, m', stage) = at_once () m (m(p := None))"
    by (cases "walk m p") (auto split: option.splits node.splits dest: walk_ok(1))
  with s t show "tree m' \<and> visible m' = visible m \<and> tree (stage n) \<and> visible (stage n) = visible m"
    by (auto simp: at_once_def tree_remove)
qed

lemma quiet_write_bytes: "scratch_path p \<Longrightarrow> quiet (write_bytes p b)"
  unfolding write_bytes_def
  by (rule quiet_sys) (auto simp: rbind_eq_Inr split: if_splits nat.splits intro: walk_write)

subsection \<open>Writing a file\<close>

text \<open>A write leaves the old file or the complete new one, at every fault and every crash.\<close>

lemma atomic_write_rule:
  assumes "\<not> scratch_path p"
  shows "hoare (within VS) (atomic_write rs p b) (\<lambda>_. within ((\<lambda>V. V(p \<mapsto> b)) ` VS))
    (within (VS \<union> (\<lambda>V. V(p \<mapsto> b)) ` VS))"
proof -
  let ?E = "VS \<union> (\<lambda>V. V(p \<mapsto> b)) ` VS"
  let ?tmp = "\<lambda>q m. within VS m \<and> (\<exists>b. m q = Some (File b)) \<and> scratch_path q"
  have prep: "hoare (within VS) (catch_os (io_bind (mkdir_parents (butlast p)) (\<lambda>_. mkstemp p rs)) (\<lambda>_. raise_store))
      ?tmp (within ?E)"
    by (rule hoare_weaken [of "within VS" _ ?tmp "within VS"])
       (auto intro!: hoare_catch hoare_bind [OF quietD [OF quiet_mkdir]] mkstemp_rule hoare_raise_store,
        auto simp: within_def)
  have move: "hoare (?tmp q) (io_bind (write_fd q b) (\<lambda>_. io_bind fsync (\<lambda>_. replace_file q p)))
      (\<lambda>_. within ((\<lambda>V. V(p \<mapsto> b)) ` VS)) (within ?E)" if q: "scratch_path q" for q
  proof (intro hoare_bind)
    show "hoare (?tmp q) (write_fd q b) (\<lambda>_ m. within VS m \<and> m q = Some (File b)) (within ?E)"
      by (rule hoare_weaken [OF write_fd_rule [OF q]]) (auto simp: within_def)
    show "hoare (\<lambda>m. within VS m \<and> m q = Some (File b)) fsync (\<lambda>_ m. within VS m \<and> m q = Some (File b)) (within ?E)"
      by (rule hoare_weaken [OF fsync_rule [of "\<lambda>m. within VS m \<and> m q = Some (File b)"]]) (auto simp: within_def)
  qed (rule replace_rule [OF q assms])
  have undo: "quiet (io_bind (catch_os (unlink q) (\<lambda>_. io_return ())) (\<lambda>_. raise_store :: unit io))"
    if "scratch_path q" for q
    using quiet_unlink [OF that] by auto
  show ?thesis
    unfolding atomic_write_def
  proof (rule hoare_bind [OF prep])
    fix q
    show "hoare (?tmp q) (catch_os (io_bind (write_fd q b) (\<lambda>_. io_bind fsync (\<lambda>_. replace_file q p)))
        (\<lambda>_. io_bind (catch_os (unlink q) (\<lambda>_. io_return ())) (\<lambda>_. raise_store)))
      (\<lambda>_. within ((\<lambda>V. V(p \<mapsto> b)) ` VS)) (within ?E)"
    proof (cases "scratch_path q")
      case True
      have "hoare (within ?E) (io_bind (catch_os (unlink q) (\<lambda>_. io_return ())) (\<lambda>_. raise_store))
          (\<lambda>_. within ((\<lambda>V. V(p \<mapsto> b)) ` VS)) (within ?E)"
        by (rule hoare_bind [OF quietD [OF quiet_catch]])
           (auto intro: quiet_unlink [OF True] hoare_raise_store)
      with move [OF True] show ?thesis by (auto intro: hoare_catch)
    qed (simp add: hoare_def)
  qed
qed

end
