(* ===== verification/FsRefine.thy ===== *)
theory FsRefine
  imports FsInv Valid
begin

text \<open>
  The methods of the artifact store against an abstract registry: a map from artifact ids to the
  record and the bytes registered under them. Whatever the faults and crashes of a call, the registry
  the files stand for is unchanged, or has exactly the new registration added.
\<close>

subsection \<open>Digests and canonical paths\<close>

definition lower_hex :: "char \<Rightarrow> bool" where
  "lower_hex c = (let n = (of_char c :: nat) in (48 \<le> n \<and> n \<le> 57) \<or> (97 \<le> n \<and> n \<le> 102))"

definition hex64 :: "string \<Rightarrow> bool" where
  "hex64 h = (length h = 64 \<and> list_all lower_hex h)"

lemma lower_hex_set: "lower_hex c \<Longrightarrow> c \<in> set ''0123456789abcdef''"
proof -
  assume "lower_hex c"
  then have "of_char c \<in> {48..57} \<union> {97..102::nat}" by (auto simp: lower_hex_def Let_def)
  moreover have "\<forall>n \<in> {48..57} \<union> {97..102::nat}. char_of n \<in> set ''0123456789abcdef''" by code_simp
  ultimately have "char_of (of_char c :: nat) \<in> set ''0123456789abcdef''" by blast
  then show ?thesis by (simp del: set_simps list.set)
qed

text \<open>The documented behaviour of the two libraries: the form of a hex digest, and that a record
  survives its JSON form.\<close>

definition libs_ok :: "fs_cfg \<Rightarrow> bool" where
  "libs_ok C \<longleftrightarrow> (\<forall>b. hex64 (sha256 C b)) \<and> (\<forall>a. valid_artifact a \<longrightarrow> of_json C (to_json C a) = Some a)"

lemma hex64_clean: "hex64 h \<Longrightarrow> c \<in> set h \<Longrightarrow> c \<noteq> CHR 0x00 \<and> c \<noteq> CHR ''.'' \<and> (of_char c :: nat) < 128"
  by (auto simp: hex64_def list_all_iff lower_hex_def Let_def)

lemma hex64_py_lower: "hex64 h \<Longrightarrow> py_lower h = h"
  unfolding py_lower_def hex64_def list_all_iff
  by (rule map_idI) (auto simp: py_lower_char_def lower_hex_def Let_def)

lemma blob_not_scratch:
  assumes "hex64 h" shows "\<not> scratch_path (blob_path h)"
proof -
  have "h \<noteq> []" "hd h \<noteq> CHR ''.''" using assms hex64_clean [of h "hd h"] list.set_sel(1) [of h] by (fastforce simp: hex64_def)+
  then show ?thesis
    by (cases h) (simp_all add: scratch_path_def blob_path_def blobs_dir_def scratch_name_def startswith_def)
qed

lemma blob_clean:
  assumes "hex64 h" shows "clean (blob_path h)"
proof -
  have "CHR 0x00 \<notin> set h" using hex64_clean [OF assms] by blast
  then show ?thesis
    by (auto simp: clean_def blob_path_def blobs_dir_def dest: in_set_takeD in_set_dropD)
qed

lemma sidecar_path_eq: "sidecar_path i = Inr p \<longleftrightarrow> safe_artifact_id i = Inr i \<and> p = [''index'', i @ ''.json'']"
  by (auto simp: sidecar_path_def rbind_eq_Inr safe_artifact_id_def index_dir_def split: if_splits)

lemma sidecar_not_scratch: "\<not> scratch_path [''index'', i @ ''.json'']"
  by (simp add: scratch_path_def scratch_name_def startswith_def)

lemma marker_not_scratch: "\<not> scratch_path marker_path"
  by (simp add: scratch_path_def scratch_name_def startswith_def marker_path_def)

lemma marker_clean: "clean marker_path"
  by (simp add: clean_def marker_path_def)

lemma canonical_distinct [simp]:
  "blob_path h \<noteq> [''index'', s]" "[''index'', s] \<noteq> blob_path h" "marker_path \<noteq> [''index'', s]"
  "[''index'', s] \<noteq> marker_path" "blob_path h \<noteq> marker_path" "marker_path \<noteq> blob_path h"
  "blob_path h = blob_path k \<longleftrightarrow> h = k"
  by (auto simp: blob_path_def blobs_dir_def marker_path_def)

subsection \<open>Triples of the parts of \<open>put\<close>\<close>

lemma exists_rule:
  assumes "clean p"
  shows "hoare (within VS) (path_exists_io p) (\<lambda>b m. within VS m \<and> (b \<longleftrightarrow> m p \<noteq> None)) (within VS)"
  unfolding path_exists_io_def path_is_def
proof (rule hoare_reads)
  fix m b
  assume w: "within VS m" and b: "(case walk m p of Inl e \<Rightarrow> if e = PyOSError then Inl e else Inr False
      | Inr None \<Rightarrow> Inr False | Inr (Some n) \<Rightarrow> Inr True) = Inr b"
  show "within VS m \<and> (b \<longleftrightarrow> m p \<noteq> None)"
  proof (cases "walk m p")
    case (Inl e)
    then have "e = PyFileNotFoundError \<or> e = PyNotADirectoryError"
      using b walk_clean [OF assms, of m] by (auto simp: walk_def split: if_splits option.splits)
    with walk_missing [OF _ Inl this] Inl w b show ?thesis by (auto simp: within_def)
  qed (use w b in \<open>auto dest: walk_ok(1) split: option.splits\<close>)
qed

lemma read_rule:
  "hoare (within VS) (read_bytes p) (\<lambda>d m. within VS m \<and> m p = Some (File d)) (within VS)"
  unfolding read_bytes_def
proof (rule hoare_reads)
  fix m d
  assume "within VS m" and "rbind (walk m p) (\<lambda>n. case n of
      None \<Rightarrow> Inl PyFileNotFoundError | Some Dir \<Rightarrow> Inl PyOSError | Some (File b) \<Rightarrow> Inr b) = Inr d"
  then show "within VS m \<and> m p = Some (File d)"
    by (cases "walk m p") (auto split: option.split_asm node.split_asm dest: walk_ok(1))
qed

lemma within_single: "within {V} m \<longleftrightarrow> tree m \<and> visible m = V"
  by (simp add: within_def)

lemma store_blob_rule:
  assumes "\<not> scratch_path p" "clean p"
  shows "hoare (within {V}) (store_blob rs p b) (\<lambda>_ m. V p \<in> {None, Some b} \<and> within {V(p \<mapsto> b)} m)
    (\<lambda>m. within {V} m \<or> V p = None \<and> within {V(p \<mapsto> b)} m)"
  unfolding store_blob_def
proof (rule hoare_bind)
  let ?E = "\<lambda>m. within {V} m \<or> V p = None \<and> within {V(p \<mapsto> b)} m"
  show "hoare (within {V}) (path_exists_io p) (\<lambda>there m. within {V} m \<and> (there \<longleftrightarrow> m p \<noteq> None)) ?E"
    by (rule hoare_weaken [OF exists_rule [OF assms(2)]]) auto
  fix there
  show "hoare (\<lambda>m. within {V} m \<and> (there \<longleftrightarrow> m p \<noteq> None))
      (if there then io_bind (catch_os (read_bytes p) (\<lambda>_. raise_store)) (\<lambda>existing.
         if existing = b then io_return () else io_raise (new_exn ImmutabilityError None))
       else atomic_write rs p b)
      (\<lambda>_ m. V p \<in> {None, Some b} \<and> within {V(p \<mapsto> b)} m) ?E"
  proof (cases there)
    case True
    have read: "hoare (within {V}) (catch_os (read_bytes p) (\<lambda>_. raise_store))
        (\<lambda>d m. within {V} m \<and> m p = Some (File d)) (within {V})"
      by (rule hoare_catch [OF read_rule]) (rule hoare_raise_store)
    have "hoare (within {V}) (io_bind (catch_os (read_bytes p) (\<lambda>_. raise_store)) (\<lambda>existing.
         if existing = b then io_return () else io_raise (new_exn ImmutabilityError None)))
        (\<lambda>_ m. V p = Some b \<and> within {V} m) (within {V})"
    proof (rule hoare_bind [OF read])
      fix d
      show "hoare (\<lambda>m. within {V} m \<and> m p = Some (File d))
          (if d = b then io_return () else io_raise (new_exn ImmutabilityError None))
          (\<lambda>_ m. V p = Some b \<and> within {V} m) (within {V})"
        using assms(1) by (auto simp: hoare_def io_return_def io_raise_def within_def visible_file_at file_at_Some)
    qed
    from hoare_weaken [OF this, where P' = "\<lambda>m. within {V} m \<and> (there \<longleftrightarrow> m p \<noteq> None)"
        and Q' = "\<lambda>_ m. V p \<in> {None, Some b} \<and> within {V(p \<mapsto> b)} m" and E' = ?E] True
    show ?thesis by (simp add: fun_upd_idem)
  next
    case False
    have v: "visible m p = None" if "m p = None" for m using that assms(1) by (simp add: visible_file_at file_at_None)
    show ?thesis
    proof (cases "V p = None")
      case True
      have "hoare (\<lambda>m. within {V} m \<and> (there \<longleftrightarrow> m p \<noteq> None)) (atomic_write rs p b)
          (\<lambda>_ m. V p \<in> {None, Some b} \<and> within {V(p \<mapsto> b)} m) ?E"
        by (rule hoare_weaken [OF atomic_write_rule [OF assms(1), of "{V}"]]) (auto simp: within_def True)
      with False show ?thesis by simp
    next
      case False': False
      show ?thesis using False False' v by (auto simp: hoare_def within_def)
    qed
  qed
qed

text \<open>Initialisation adds the marker at most.\<close>

definition marked :: "(path \<Rightarrow> bytes option) \<Rightarrow> (path \<Rightarrow> bytes option) set" where
  "marked V = insert V (if V marker_path = None then {V(marker_path \<mapsto> b) | b. True} else {})"

lemma initialise_rule: "hoare (within {V}) (initialise ch) (\<lambda>_. within (marked V)) (within (marked V))"
proof -
  have sub: "within {V} m \<Longrightarrow> within (marked V) m" for m by (auto simp: within_def marked_def)
  have dirs: "quiet (catch_os (io_bind (mkdir_parents root_dir) (\<lambda>_. io_bind (mkdir_parents blobs_dir) (\<lambda>_.
      mkdir_parents index_dir))) (\<lambda>_. raise_store))"
    by (intro quiet_catch quiet_bind quiet_mkdir quiet_raise_store)
  have seen: "hoare (within {V}) (path_exists_io marker_path)
      (\<lambda>b m. within {V} m \<and> (b \<longleftrightarrow> m marker_path \<noteq> None)) (within {V})"
    by (rule exists_rule [OF marker_clean])
  have fin: "hoare (within (marked V)) (set_initialised True) (\<lambda>_. within (marked V)) (within (marked V))"
    using quietD [OF quiet_flag] .
  have mark: "hoare (within {V}) (io_bind (io_lift (isoformat_utc (now ch)))
      (\<lambda>s. atomic_write (marker_tmp ch) marker_path (marker_text s))) (\<lambda>_. within (marked V)) (within (marked V))"
    if "V marker_path = None"
  proof (rule hoare_bind [where R = "\<lambda>_. within {V}"])
    show "hoare (within {V}) (io_lift (isoformat_utc (now ch))) (\<lambda>_. within {V}) (within (marked V))"
      by (rule hoare_lift) (auto intro: sub)
    show "hoare (within {V}) (atomic_write (marker_tmp ch) marker_path (marker_text s))
        (\<lambda>_. within (marked V)) (within (marked V))" for s
      by (rule hoare_weaken [OF atomic_write_rule [OF marker_not_scratch, of "{V}"]])
         (auto simp: within_def marked_def that)
  qed
  have step: "hoare (\<lambda>m. within {V} m \<and> (b \<longleftrightarrow> m marker_path \<noteq> None))
      (if b then io_return () else io_bind (io_lift (isoformat_utc (now ch)))
        (\<lambda>s. atomic_write (marker_tmp ch) marker_path (marker_text s))) (\<lambda>_. within (marked V)) (within (marked V))" for b
  proof (cases b)
    case True
    then show ?thesis by (auto simp: hoare_def io_return_def intro: sub)
  next
    case False
    show ?thesis
    proof (cases "V marker_path = None")
      case True
      have "hoare (\<lambda>m. within {V} m \<and> (b \<longleftrightarrow> m marker_path \<noteq> None)) (io_bind (io_lift (isoformat_utc (now ch)))
        (\<lambda>s. atomic_write (marker_tmp ch) marker_path (marker_text s))) (\<lambda>_. within (marked V)) (within (marked V))"
        by (rule hoare_weaken [OF mark [OF True]]) auto
      with False show ?thesis by simp
    next
      case False': False
      then show ?thesis using False marker_not_scratch
        by (auto simp: hoare_def within_def visible_file_at file_at_def)
    qed
  qed
  show ?thesis
    unfolding initialise_def
    by (rule hoare_bind [OF hoare_weaken [OF quietD [OF dirs]]], assumption, assumption, erule sub)
       (rule hoare_bind [OF hoare_weaken [OF seen]], assumption, assumption, erule sub, rule hoare_bind [OF step fin])
qed


subsection \<open>\<open>put\<close>\<close>

lemma quiet_if: "quiet c \<Longrightarrow> quiet d \<Longrightarrow> quiet (if b then c else d)"
  by simp

lemma quiet_backing [intro]: "quiet backing_present"
  unfolding backing_present_def io_and_def is_dir_def is_file_def
  by (intro quiet_catch quiet_bind quiet_if quiet_reading quiet_return)

lemma quiet_live [intro]: "quiet require_live_backing"
proof -
  have "quiet (\<lambda>w. if initialised w then c w else d w)" if "quiet c" "quiet d" for c d :: "unit io"
    using that by (simp add: quiet_def hoare_def)
  moreover have "quiet (io_bind backing_present (\<lambda>b. if b then io_return () else raise_store))"
    by (intro quiet_bind quiet_backing quiet_if quiet_return quiet_raise_store)
  moreover have "quiet (io_return ())" by (rule quiet_return)
  ultimately show ?thesis unfolding require_live_backing_def [abs_def] by blast
qed

lemma marked_marker: "W \<in> marked V \<Longrightarrow> p \<noteq> marker_path \<Longrightarrow> W p = V p"
  by (auto simp: marked_def split: if_splits)

text \<open>The views a call of \<open>put\<close> may leave: nothing added, the blob, the blob and the sidecar.\<close>

definition with_blob :: "fs_cfg \<Rightarrow> bytes \<Rightarrow> (path \<Rightarrow> bytes option) \<Rightarrow> (path \<Rightarrow> bytes option) set" where
  "with_blob C b V = {W(blob_path (sha256 C b) \<mapsto> b) | W. W \<in> marked V \<and> V (blob_path (sha256 C b)) \<in> {None, Some b}}"

definition with_sidecar :: "fs_cfg \<Rightarrow> exn + artifact \<Rightarrow> bytes \<Rightarrow> (path \<Rightarrow> bytes option) \<Rightarrow> (path \<Rightarrow> bytes option) set" where
  "with_sidecar C r b V = {W([''index'', ar_artifact_id a @ ''.json''] \<mapsto> to_json C a) | W a.
     W \<in> with_blob C b V \<and> r = Inr a \<and> safe_artifact_id (ar_artifact_id a) = Inr (ar_artifact_id a)}"

definition put_views :: "fs_cfg \<Rightarrow> exn + artifact \<Rightarrow> bytes \<Rightarrow> (path \<Rightarrow> bytes option) \<Rightarrow> (path \<Rightarrow> bytes option) set" where
  "put_views C r b V = marked V \<union> with_blob C b V \<union> with_sidecar C r b V"

lemma hoare_within_pre:
  assumes "\<And>V. V \<in> VS \<Longrightarrow> hoare (within {V}) c Q E" shows "hoare (within VS) c Q E"
  using assms by (fastforce simp: hoare_def within_def)

lemma put_rule:
  fixes C :: fs_cfg and ch :: chances and data :: bytes and content_type filename :: string
  assumes "libs_ok C"
  defines "r \<equiv> new_record C ch data content_type filename"
  shows "hoare (within {V}) (put C ch data content_type filename declared)
    (\<lambda>a m. r = Inr a \<and> within (with_sidecar C r data V) m) (within (put_views C r data V))"
proof -
  let ?E = "within (put_views C r data V)" and ?p = "blob_path (sha256 C data)"
  have hx: "hex64 (sha256 C data)" using assms(1) by (simp add: libs_ok_def)
  note blob = blob_not_scratch [OF hx] blob_clean [OF hx]
  have sub: "within {V} m \<Longrightarrow> ?E m" "within (marked V) m \<Longrightarrow> ?E m" "within (with_blob C data V) m \<Longrightarrow> ?E m" for m
    by (auto simp: within_def put_views_def marked_def)
  have checks: "hoare (within {V}) (io_lift (put_checks C data content_type filename declared)) (\<lambda>_. within {V}) ?E"
    by (rule hoare_lift) (auto intro: sub)
  have there: "hoare (within {V}) backing_present (\<lambda>_. within {V}) ?E"
    by (rule quiet_weaken [OF quiet_backing]) (simp add: put_views_def marked_def)
  have init: "hoare (within {V}) (if b then set_initialised True else io_bind require_live_backing (\<lambda>_. initialise ch))
      (\<lambda>_. within (marked V)) ?E" for b
  proof (cases b)
    case True
    have "hoare (within {V}) (set_initialised True) (\<lambda>_. within (marked V)) ?E"
      by (rule hoare_weaken [OF quietD [OF quiet_flag, of "{V}"]]) (auto simp: within_def marked_def put_views_def)
    with True show ?thesis by simp
  next
    case False
    have "hoare (within {V}) (io_bind require_live_backing (\<lambda>_. initialise ch)) (\<lambda>_. within (marked V)) (within (marked V))"
      by (rule hoare_bind [OF quiet_weaken [OF quiet_live] initialise_rule]) (auto simp: marked_def)
    then have "hoare (within {V}) (io_bind require_live_backing (\<lambda>_. initialise ch)) (\<lambda>_. within (marked V)) ?E"
      by (rule hoare_weaken) (auto intro: sub)
    with False show ?thesis by simp
  qed
  have store: "hoare (within (marked V)) (store_blob (blob_tmp ch) ?p data) (\<lambda>_. within (with_blob C data V)) ?E"
  proof (rule hoare_within_pre)
    fix W assume W: "W \<in> marked V"
    then have "W ?p = V ?p" by (auto intro: marked_marker)
    with W show "hoare (within {W}) (store_blob (blob_tmp ch) ?p data) (\<lambda>_. within (with_blob C data V)) ?E"
      by (intro hoare_weaken [OF store_blob_rule [OF blob]]) (auto simp: within_def put_views_def with_blob_def)
  qed
  have build: "hoare (within (with_blob C data V)) (io_lift r)
      (\<lambda>a m. r = Inr a \<and> within (with_blob C data V) m) ?E"
    by (rule hoare_lift) (auto intro: sub)
  have path: "hoare (\<lambda>m. r = Inr a \<and> within (with_blob C data V) m) (io_lift (sidecar_path (ar_artifact_id a)))
      (\<lambda>p m. r = Inr a \<and> sidecar_path (ar_artifact_id a) = Inr p \<and> within (with_blob C data V) m) ?E" for a
    by (rule hoare_lift, blast, rule sub(3), blast)
  have sidecar: "hoare (\<lambda>m. r = Inr a \<and> sidecar_path (ar_artifact_id a) = Inr p \<and> within (with_blob C data V) m)
      (atomic_write (sidecar_tmp ch) p (to_json C a)) (\<lambda>_ m. r = Inr a \<and> within (with_sidecar C r data V) m) ?E" for a p
  proof (cases "r = Inr a \<and> sidecar_path (ar_artifact_id a) = Inr p")
    case True
    then have p: "p = [''index'', ar_artifact_id a @ ''.json'']" "safe_artifact_id (ar_artifact_id a) = Inr (ar_artifact_id a)"
      by (simp_all add: sidecar_path_eq)
    show ?thesis unfolding p(1)
      by (rule hoare_weaken [OF atomic_write_rule [OF sidecar_not_scratch, of "with_blob C data V"]])
         (use True p(2) in \<open>auto simp: within_def put_views_def with_sidecar_def\<close>)
  qed (auto simp: hoare_def)
  show ?thesis
    unfolding put_def r_def [symmetric]
    by (intro hoare_bind [OF checks] hoare_bind [OF there] hoare_bind [OF init] hoare_bind [OF store]
        hoare_bind [OF build] hoare_bind [OF path] hoare_bind [OF sidecar])
       (auto simp: hoare_def io_return_def)
qed


subsection \<open>The registry the files stand for\<close>

definition registry :: "fs_cfg \<Rightarrow> (path \<Rightarrow> bytes option) \<Rightarrow> string \<Rightarrow> (artifact \<times> bytes) option" where
  "registry C V i = (if safe_artifact_id i \<noteq> Inr i then None else
     case V [''index'', i @ ''.json''] of None \<Rightarrow> None
     | Some raw \<Rightarrow> (case of_json C raw of None \<Rightarrow> None
       | Some a \<Rightarrow> map_option (Pair a) (V (blob_path (ar_sha256 a)))))"

text \<open>
  The invariant: a blob lies at the path of its digest, and every sidecar is the readable record of
  its artifact whose blob is there, with the recorded size.
\<close>

definition sound :: "fs_cfg \<Rightarrow> (path \<Rightarrow> bytes option) \<Rightarrow> bool" where
  "sound C V \<longleftrightarrow>
     (\<forall>h b. hex64 h \<longrightarrow> V (blob_path h) = Some b \<longrightarrow> sha256 C b = h) \<and>
     (\<forall>i raw. safe_artifact_id i = Inr i \<longrightarrow> V [''index'', i @ ''.json''] = Some raw \<longrightarrow>
       (\<exists>a b. of_json C raw = Some a \<and> ar_artifact_id a = i \<and> hex64 (ar_sha256 a) \<and>
          V (blob_path (ar_sha256 a)) = Some b \<and> int (length b) = ar_size_bytes a))"

definition good_sidecar :: "fs_cfg \<Rightarrow> (path \<Rightarrow> bytes option) \<Rightarrow> string \<Rightarrow> bytes \<Rightarrow> bool" where
  "good_sidecar C V i raw \<longleftrightarrow> (\<exists>a b. of_json C raw = Some a \<and> ar_artifact_id a = i \<and> hex64 (ar_sha256 a) \<and>
     V (blob_path (ar_sha256 a)) = Some b \<and> int (length b) = ar_size_bytes a)"

lemma sound_alt: "sound C V \<longleftrightarrow> (\<forall>h b. hex64 h \<longrightarrow> V (blob_path h) = Some b \<longrightarrow> sha256 C b = h) \<and>
    (\<forall>i raw. safe_artifact_id i = Inr i \<longrightarrow> V [''index'', i @ ''.json''] = Some raw \<longrightarrow> good_sidecar C V i raw)"
  by (simp add: sound_def good_sidecar_def)

lemma sound_blob: "sound C V \<Longrightarrow> hex64 h \<Longrightarrow> V (blob_path h) = Some b \<Longrightarrow> sha256 C b = h"
  by (simp add: sound_alt)

lemma sound_sidecar: "sound C V \<Longrightarrow> safe_artifact_id i = Inr i \<Longrightarrow> V [''index'', i @ ''.json''] = Some raw \<Longrightarrow>
    good_sidecar C V i raw"
  by (simp add: sound_alt)

lemma soundI:
  assumes "\<And>h b. hex64 h \<Longrightarrow> V (blob_path h) = Some b \<Longrightarrow> sha256 C b = h"
    and "\<And>i raw. safe_artifact_id i = Inr i \<Longrightarrow> V [''index'', i @ ''.json''] = Some raw \<Longrightarrow> good_sidecar C V i raw"
  shows "sound C V"
  using assms by (simp add: sound_alt)

lemma good_sidecar_mono:
  "good_sidecar C V i raw \<Longrightarrow> (\<And>h b. V (blob_path h) = Some b \<Longrightarrow> W (blob_path h) = Some b) \<Longrightarrow> good_sidecar C W i raw"
  unfolding good_sidecar_def by blast

lemma registry_frame:
  assumes "sound C V" "W [''index'', i @ ''.json''] = V [''index'', i @ ''.json'']"
    and "\<And>h b. V (blob_path h) = Some b \<Longrightarrow> W (blob_path h) = Some b"
  shows "registry C W i = registry C V i"
proof (cases "safe_artifact_id i = Inr i \<and> V [''index'', i @ ''.json''] \<noteq> None")
  case True
  then obtain raw where raw: "V [''index'', i @ ''.json''] = Some raw" by auto
  with sound_sidecar [OF assms(1) _ raw] True obtain a b where "of_json C raw = Some a" "V (blob_path (ar_sha256 a)) = Some b"
    by (auto simp: good_sidecar_def)
  with True raw assms(2,3) show ?thesis by (simp add: registry_def)
qed (auto simp: registry_def assms(2))

lemma sound_marked:
  assumes "sound C V" "W \<in> marked V" shows "sound C W \<and> registry C W = registry C V"
proof -
  have s: "W [''index'', s] = V [''index'', s]" "W (blob_path h) = V (blob_path h)" for s h
    using marked_marker [OF assms(2)] by simp_all
  have "sound C W"
  proof (rule soundI)
    show "good_sidecar C W i raw" if "safe_artifact_id i = Inr i" "W [''index'', i @ ''.json''] = Some raw" for i raw
      by (rule good_sidecar_mono [OF sound_sidecar [OF assms(1) that(1)]]) (use that(2) s in simp_all)
  qed (use sound_blob [OF assms(1)] s in simp)
  moreover have "registry C W = registry C V" by (rule ext, rule registry_frame [OF assms(1)]) (simp_all add: s)
  ultimately show ?thesis ..
qed

lemma sound_with_blob:
  assumes "libs_ok C" "sound C V" "W \<in> with_blob C b V"
  shows "sound C W \<and> registry C W = registry C V \<and> W (blob_path (sha256 C b)) = Some b \<and>
    (\<forall>s. W [''index'', s] = V [''index'', s])"
proof -
  from assms(3) obtain U where U: "U \<in> marked V" "V (blob_path (sha256 C b)) \<in> {None, Some b}"
      and W: "W = U(blob_path (sha256 C b) \<mapsto> b)"
    by (auto simp: with_blob_def)
  have s: "U [''index'', s] = V [''index'', s]" "U (blob_path h) = V (blob_path h)" for s h
    using marked_marker [OF U(1)] by simp_all
  note u = sound_marked [OF assms(2) U(1)]
  have more: "W (blob_path h) = Some c" if "U (blob_path h) = Some c" for h c
    using that U(2) s by (auto simp: W)
  have "sound C W"
  proof (rule soundI)
    show "sha256 C c = h" if "hex64 h" "W (blob_path h) = Some c" for h c
      using that sound_blob [of C U h c] u by (auto simp: W split: if_splits)
    show "good_sidecar C W i raw" if "safe_artifact_id i = Inr i" "W [''index'', i @ ''.json''] = Some raw" for i raw
      by (rule good_sidecar_mono [OF sound_sidecar [OF _ that(1), of C U]]) (use that(2) u more in \<open>simp_all add: W\<close>)
  qed
  moreover have "registry C W = registry C U"
    by (rule ext, rule registry_frame) (use u more in \<open>simp_all add: W\<close>)
  ultimately show ?thesis using u s by (simp add: W)
qed

text \<open>The abstract registry only ever gains a registration under an unused id.\<close>

inductive registry_step ::
    "fs_cfg \<Rightarrow> (string \<Rightarrow> (artifact \<times> bytes) option) \<Rightarrow> (string \<Rightarrow> (artifact \<times> bytes) option) \<Rightarrow> bool"
  for C where
  unchanged: "registry_step C R R"
| registers: "R (ar_artifact_id a) = None \<Longrightarrow> ar_sha256 a = sha256 C b \<Longrightarrow> ar_size_bytes a = int (length b) \<Longrightarrow>
    registry_step C R (R(ar_artifact_id a \<mapsto> (a, b)))"

lemma new_record_ok:
  assumes "libs_ok C" "new_record C ch data content_type filename = Inr a"
  shows "ar_sha256 a = sha256 C data" "ar_size_bytes a = int (length data)"
    "ar_content_type a = content_type" "ar_filename a = filename"
    "new_artifact_id (uuid_hex ch) = Inr (ar_artifact_id a)"
    "utc_pydt (now ch) \<Longrightarrow> valid_artifact a \<and> ar_registered_at a = now ch"
proof -
  let ?r = "\<lambda>i. \<lparr>ar_artifact_id = i, ar_sha256 = sha256 C data, ar_size_bytes = int (length data),
       ar_content_type = content_type, ar_filename = filename,
       ar_uri = blob_uri C (blob_path (sha256 C data)), ar_registered_at = now ch,
       ar_run_id = None, ar_evidence_id = None\<rparr>"
  from assms(2) obtain i where i: "new_artifact_id (uuid_hex ch) = Inr i" and mk: "mk_artifact (?r i) = Inr a"
    by (auto simp: new_record_def rbind_eq_Inr)
  have a: "a = (?r i)\<lparr>ar_sha256 := py_lower (sha256 C data), ar_registered_at := utc_of (now ch)\<rparr>"
    using mk by (simp add: mk_artifact_def construct_ok)
  have "py_lower (sha256 C data) = sha256 C data" using assms(1) by (simp add: libs_ok_def hex64_py_lower)
  with i show "ar_sha256 a = sha256 C data" "ar_size_bytes a = int (length data)"
    "ar_content_type a = content_type" "ar_filename a = filename"
    "new_artifact_id (uuid_hex ch) = Inr (ar_artifact_id a)"
    by (simp_all add: a)
  assume u: "utc_pydt (now ch)"
  have "valid_artifact a" by (rule mk_artifact_valid [OF _ mk]) (use u in \<open>simp add: typed_artifact_def utc_pydt_def\<close>)
  with u show "valid_artifact a \<and> ar_registered_at a = now ch" by (simp add: a)
qed

lemma sound_with_sidecar:
  assumes "libs_ok C" "sound C V" "W \<in> with_sidecar C (new_record C ch b ct fn) b V" "utc_pydt (now ch)"
    and "\<And>i. new_artifact_id (uuid_hex ch) = Inr i \<Longrightarrow> V [''index'', i @ ''.json''] = None"
  obtains a where "new_record C ch b ct fn = Inr a" "sound C W"
    "registry C W = (registry C V)(ar_artifact_id a \<mapsto> (a, b))" "registry C V (ar_artifact_id a) = None"
proof -
  from assms(3) obtain U a where U: "U \<in> with_blob C b V" and a: "new_record C ch b ct fn = Inr a"
      and safe: "safe_artifact_id (ar_artifact_id a) = Inr (ar_artifact_id a)"
      and W: "W = U([''index'', ar_artifact_id a @ ''.json''] \<mapsto> to_json C a)"
    by (auto simp: with_sidecar_def)
  note u = sound_with_blob [OF assms(1,2) U]
  note r = new_record_ok [OF assms(1) a]
  have json: "of_json C (to_json C a) = Some a" using assms(1) r(6) [OF assms(4)] by (simp add: libs_ok_def)
  have hx: "hex64 (ar_sha256 a)" using assms(1) r(1) by (simp add: libs_ok_def)
  have blobs: "W (blob_path h) = U (blob_path h)" for h by (simp add: W)
  have "good_sidecar C W i raw" if "safe_artifact_id i = Inr i" "W [''index'', i @ ''.json''] = Some raw" for i raw
  proof (cases "i = ar_artifact_id a")
    case True
    with that(2) have "raw = to_json C a" by (simp add: W)
    with True u hx json r(1,2) show ?thesis unfolding good_sidecar_def blobs by auto
  next
    case False
    with that have "good_sidecar C U i raw" using u by (intro sound_sidecar) (simp_all add: W)
    then show ?thesis by (rule good_sidecar_mono) (simp add: blobs)
  qed
  moreover have "sha256 C c = h" if "hex64 h" "W (blob_path h) = Some c" for h c
    using that u sound_blob by (auto simp: blobs)
  ultimately have "sound C W" by (intro soundI)
  moreover have "registry C W i = ((registry C V)(ar_artifact_id a \<mapsto> (a, b))) i" for i
  proof (cases "i = ar_artifact_id a")
    case True
    then show ?thesis using u safe json r(1) by (simp add: registry_def W)
  next
    case False
    have "registry C W i = registry C U i"
      by (rule registry_frame) (use u False in \<open>simp_all add: W\<close>)
    with False u show ?thesis by simp
  qed
  moreover have "registry C V (ar_artifact_id a) = None"
    using assms(5) [OF r(5)] by (simp add: registry_def)
  moreover from calculation(2) have "registry C W = (registry C V)(ar_artifact_id a \<mapsto> (a, b))" by (rule ext)
  ultimately show thesis by (intro that [OF a])
qed


subsection \<open>Every call, every fault, every crash\<close>

lemma quiet_stat: "quiet (stat C i)"
  unfolding stat_def by (intro quiet_bind quiet_lift quiet_catch quiet_if quiet_reading quiet_live quiet_raise quiet_raise_store)
    (auto split: option.split)

lemma quiet_get: "quiet (get C i)"
  unfolding get_def by (intro quiet_bind quiet_stat quiet_catch quiet_if quiet_reading quiet_return quiet_raise quiet_raise_store)

lemma quiet_exists: "quiet (exists_artifact i)"
  unfolding exists_artifact_def is_file_def by (auto split: sum.split)

lemma quiet_health: "quiet (health ch)"
  unfolding health_def
  by (intro quiet_bind quiet_backing quiet_if quiet_raise_store quiet_flag quiet_finally quiet_catch quiet_return
      quiet_write_bytes quiet_reading quiet_unlink probe_path_scratch)

lemma quiet_open: "quiet (open_store C)"
  unfolding open_store_def by (intro quiet_if quiet_raise quiet_bind quiet_backing quiet_flag)

text \<open>
  The calls on a store object, the process restarting on the same files, and the environment
  choosing the faults of the calls to come. The random id of a new artifact is not in use.
\<close>

inductive fs_step :: "fs_cfg \<Rightarrow> fstore \<Rightarrow> fstore \<Rightarrow> bool" for C where
  put: "(\<And>i. new_artifact_id (uuid_hex ch) = Inr i \<Longrightarrow> visible (files w) [''index'', i @ ''.json''] = None) \<Longrightarrow>
    utc_pydt (now ch) \<Longrightarrow> fs_step C w (snd (put C ch data content_type filename declared w))"
| stat: "fs_step C w (snd (stat C i w))"
| get: "fs_step C w (snd (get C i w))"
| exists: "fs_step C w (snd (exists_artifact i w))"
| health: "fs_step C w (snd (health ch w))"
| initialise: "fs_step C w (snd (initialise ch w))"
| mark: "fs_step C w (snd (mark_previously_initialised w))"
| restart: "fs_step C w (snd (open_store C (w\<lparr>initialised := False\<rparr>)))"
| fates: "fs_step C w (w\<lparr>script := s\<rparr>)"

definition sound_store :: "fs_cfg \<Rightarrow> fstore \<Rightarrow> bool" where
  "sound_store C w \<longleftrightarrow> tree (files w) \<and> sound C (visible (files w))"

definition the_registry :: "fs_cfg \<Rightarrow> fstore \<Rightarrow> string \<Rightarrow> (artifact \<times> bytes) option" where
  "the_registry C w = registry C (visible (files w))"

lemma quiet_end:
  assumes "quiet c" "sound_store C w"
  shows "sound_store C (snd (c w)) \<and> the_registry C (snd (c w)) = the_registry C w"
proof -
  have "within {visible (files w)} (files (snd (c w)))"
    by (rule hoare_end [OF quietD [OF assms(1)]]) (use assms(2) in \<open>simp add: within_def sound_store_def\<close>)
  with assms(2) show ?thesis by (simp add: within_def sound_store_def the_registry_def)
qed

lemma put_end:
  fixes C :: fs_cfg and ch :: chances and data :: bytes and ct fn :: string
  assumes "libs_ok C" "sound_store C w" "utc_pydt (now ch)"
    and "\<And>i. new_artifact_id (uuid_hex ch) = Inr i \<Longrightarrow> visible (files w) [''index'', i @ ''.json''] = None"
    and r: "put C ch data ct fn declared w = (r, w')"
  shows "sound_store C w' \<and>
    (the_registry C w' = the_registry C w \<and> (\<forall>a. r \<noteq> Done (Inr a)) \<or>
     (\<exists>a. new_record C ch data ct fn = Inr a \<and> the_registry C w (ar_artifact_id a) = None \<and>
        the_registry C w' = (the_registry C w)(ar_artifact_id a \<mapsto> (a, data)) \<and> (\<forall>b. r = Done (Inr b) \<longrightarrow> b = a)))"
proof -
  let ?V = "visible (files w)" and ?W = "visible (files w')" and ?r = "new_record C ch data ct fn"
  have s: "sound C ?V" "within {?V} (files w)" using assms(2) by (simp_all add: sound_store_def within_def)
  note ends = hoareD [OF put_rule [OF assms(1)] s(2), of ch data ct fn declared, unfolded r]
  have side: ?thesis if side: "tree (files w')" "?W \<in> with_sidecar C ?r data ?V" "\<And>a. r = Done (Inr a) \<Longrightarrow> ?r = Inr a"
  proof -
    obtain a where "?r = Inr a" "sound C ?W" "registry C ?W = (registry C ?V)(ar_artifact_id a \<mapsto> (a, data))"
        "registry C ?V (ar_artifact_id a) = None"
      using sound_with_sidecar [OF assms(1) s(1) side(2) assms(3,4)] by blast
    with side(1,3) show ?thesis unfolding sound_store_def the_registry_def by simp
  qed
  show ?thesis
  proof (cases "\<exists>a. r = Done (Inr a)")
    case True
    with ends have "within (with_sidecar C ?r data ?V) (files w')" "\<And>a. r = Done (Inr a) \<Longrightarrow> ?r = Inr a" by auto
    then show ?thesis by (intro side) (auto simp: within_def)
  next
    case False
    then have "within (put_views C ?r data ?V) (files w')"
      using ends by (cases "(r, w')" rule: ends_cases) auto
    then have w': "tree (files w')" "?W \<in> put_views C ?r data ?V" by (auto simp: within_def)
    show ?thesis
    proof (cases "?W \<in> with_sidecar C ?r data ?V")
      case True
      with False w'(1) show ?thesis by (intro side) auto
    next
      case False': False
      with w'(2) have "?W \<in> marked ?V \<or> ?W \<in> with_blob C data ?V" by (simp add: put_views_def)
      then have "sound C ?W \<and> registry C ?W = registry C ?V"
        using sound_marked [OF s(1)] sound_with_blob [OF assms(1) s(1)] by blast
      with False w'(1) show ?thesis by (auto simp: sound_store_def the_registry_def)
    qed
  qed
qed

lemma initialise_end:
  assumes "sound_store C w"
  shows "sound_store C (snd (initialise ch w)) \<and> the_registry C (snd (initialise ch w)) = the_registry C w"
proof -
  have "within (marked (visible (files w))) (files (snd (initialise ch w)))"
    by (rule hoare_end [OF initialise_rule]) (use assms in \<open>simp add: within_def sound_store_def\<close>)
  with assms sound_marked show ?thesis by (auto simp: within_def sound_store_def the_registry_def)
qed

lemma fs_step_ok:
  assumes "fs_step C w w'" "libs_ok C" "sound_store C w"
  shows "sound_store C w' \<and> registry_step C (the_registry C w) (the_registry C w')"
  using assms(1)
proof cases
  case (put ch data ct fn declared)
  obtain r where "put C ch data ct fn declared w = (r, w')" using put(1) by (metis prod.collapse)
  note fin = put_end [OF assms(2,3) put(3,2) this]
  show ?thesis
  proof (cases "the_registry C w' = the_registry C w")
    case False
    with fin obtain a where "new_record C ch data ct fn = Inr a" "the_registry C w (ar_artifact_id a) = None"
        "the_registry C w' = (the_registry C w)(ar_artifact_id a \<mapsto> (a, data))" by blast
    with fin show ?thesis using registers [of "the_registry C w" a C data] new_record_ok(1,2) [OF assms(2)] by simp
  qed (use fin in \<open>simp add: registry_step.unchanged\<close>)
next
  case (restart)
  have "sound_store C (w\<lparr>initialised := False\<rparr>)" using assms(3) by (simp add: sound_store_def)
  from quiet_end [OF quiet_open this] restart show ?thesis
    by (simp add: the_registry_def registry_step.unchanged)
qed (use assms(3) quiet_end [OF quiet_stat] quiet_end [OF quiet_get] quiet_end [OF quiet_exists] quiet_end [OF quiet_health]
      quiet_end [OF quiet_flag] initialise_end
      in \<open>auto simp: mark_previously_initialised_def registry_step.unchanged sound_store_def the_registry_def\<close>)

end
