(* ===== verification/FsFacts.thy ===== *)
theory FsFacts
  imports FsRefine
begin

text \<open>
  The artifact store on a disk that works (an empty script of faults), on a disk whose volume is gone,
  and on contents somebody else changed.
\<close>

subsection \<open>Names\<close>

definition short_name :: "string \<Rightarrow> bool" where
  "short_name s = (CHR 0x00 \<notin> set s \<and> utf8_length s \<le> 255)"

lemma walk_file: "tree m \<Longrightarrow> m p \<noteq> None \<Longrightarrow> list_all short_name p \<Longrightarrow> walk m p = Inr (m p)"
  by (auto simp: walk_def short_name_def list_ex_iff list_all_iff tree_def find_None_iff strict_prefixes
      split: option.splits dest!: find_Some_iff_in)

lemma utf8_append [simp]: "utf8_length (s @ t) = utf8_length s + utf8_length t"
  by (simp add: utf8_length_def)

lemma utf8_ascii: "(\<And>c. c \<in> set s \<Longrightarrow> (of_char c :: nat) < 128) \<Longrightarrow> utf8_length s = length s"
  by (induction s) (auto simp: utf8_length_def)

lemma hex64_short: "hex64 h \<Longrightarrow> list_all short_name (blob_path h)"
proof -
  assume h: "hex64 h"
  have "short_name s" if "set s \<subseteq> set h" "length s \<le> 64" for s
  proof -
    have "(of_char c :: nat) < 128 \<and> c \<noteq> CHR 0x00" if "c \<in> set s" for c
      using \<open>set s \<subseteq> set h\<close> that hex64_clean [OF h] by blast
    then show ?thesis using that(2) by (auto simp: short_name_def utf8_ascii)
  qed
  note part = this
  have "length h = 64" using h by (simp add: hex64_def)
  then have "short_name h" "short_name (take 2 h)" "short_name (take 2 (drop 2 h))"
    by (auto intro!: part dest: in_set_takeD in_set_dropD)
  moreover have "short_name ''blobs''" by (simp add: short_name_def utf8_length_def)
  ultimately show ?thesis by (simp add: blob_path_def blobs_dir_def)
qed

definition id_ok :: "string \<Rightarrow> bool" where
  "id_ok i \<longleftrightarrow> safe_artifact_id i = Inr i \<and> short_name (i @ ''.json'')"

lemma valid_id_ok: "err_of (validate_artifact_id i) = None \<Longrightarrow> id_ok i"
proof -
  assume "err_of (validate_artifact_id i) = None"
  then obtain t where i: "i = ''art_'' @ t" and t: "list_all suffix_char t" and l: "length i \<le> 128"
    by (auto simp: err_of_None validate_artifact_id_def validate_generated_id_def lookup_kind_def ID_KINDS_def
        rbind_eq_Inr reject_over_long_ok MAX_IDENTIFIER_LENGTH_def startswith_iff reject_empty_or_padded_ok Let_def
        split: if_splits)
  have c: "of_char c < (128::nat) \<and> c \<noteq> CHR 0x00 \<and> c \<noteq> CHR ''/'' \<and> c \<noteq> CHR 0x5C" if "c \<in> set i" for c
    using that t by (auto simp: i list_all_iff suffix_char_def is_ascii_digit_def is_hex_letter_def Let_def)
  have "utf8_length i = length i" by (rule utf8_ascii) (use c in blast)
  moreover have "utf8_length ''.json'' = 5" by (simp add: utf8_length_def)
  moreover have "CHR 0x00 \<notin> set i \<and> CHR ''/'' \<notin> set i \<and> CHR 0x5C \<notin> set i" using c by blast
  moreover have "i \<noteq> [] \<and> i \<noteq> ''.'' \<and> i \<noteq> ''..''" by (simp add: i)
  ultimately show ?thesis using l unfolding id_ok_def safe_artifact_id_def short_name_def utf8_append by simp
qed

subsection \<open>Reading on a working disk\<close>

lemma read_works:
  assumes "script w = []" "tree (files w)" "file_at (files w) p = Some b" "list_all short_name p"
  shows "read_bytes p w = (Done (Inr b), w)"
proof -
  have m: "files w p = Some (File b)" using assms(3) by (simp add: file_at_Some)
  with walk_file [OF assms(2) _ assms(4)] assms(1) show ?thesis
    by (simp add: read_bytes_def sys_works reads_only_def)
qed

lemma index_short: "id_ok i \<Longrightarrow> list_all short_name [''index'', i @ ''.json'']"
  by (simp add: id_ok_def) (simp add: short_name_def utf8_length_def)

lemma registry_Some:
  assumes "registry C V i = Some (a, b)"
  obtains raw where "safe_artifact_id i = Inr i" "V [''index'', i @ ''.json''] = Some raw" "of_json C raw = Some a"
    "V (blob_path (ar_sha256 a)) = Some b"
  using assms by (auto simp: registry_def split: if_splits option.splits)

lemma registry_sound:
  assumes "sound C V" "registry C V i = Some (a, b)"
  shows "ar_artifact_id a = i \<and> hex64 (ar_sha256 a) \<and> sha256 C b = ar_sha256 a \<and> int (length b) = ar_size_bytes a"
proof -
  obtain raw where raw: "safe_artifact_id i = Inr i" "V [''index'', i @ ''.json''] = Some raw" "of_json C raw = Some a"
    "V (blob_path (ar_sha256 a)) = Some b" using registry_Some [OF assms(2)] .
  with sound_sidecar [OF assms(1) raw(1,2)] sound_blob [OF assms(1)] show ?thesis by (auto simp: good_sidecar_def)
qed

lemma visible_file: "visible m p = Some b \<Longrightarrow> file_at m p = Some b"
  by (auto simp: visible_def split: if_splits)

lemma stat_works:
  assumes "sound_store C w" "the_registry C w i = Some (a, b)" "script w = []" "id_ok i"
  shows "stat C i w = (Done (Inr a), w)" "get C i w = (Done (Inr b), w)"
proof -
  have s: "tree (files w)" "sound C (visible (files w))" using assms(1) by (simp_all add: sound_store_def)
  obtain raw where raw: "safe_artifact_id i = Inr i" "visible (files w) [''index'', i @ ''.json''] = Some raw"
      "of_json C raw = Some a" "visible (files w) (blob_path (ar_sha256 a)) = Some b"
    using registry_Some [OF assms(2) [unfolded the_registry_def]] .
  have a: "hex64 (ar_sha256 a)" "sha256 C b = ar_sha256 a"
    using registry_sound [OF s(2) assms(2) [unfolded the_registry_def]] by simp_all
  note index = read_works [OF assms(3) s(1) visible_file [OF raw(2)] index_short [OF assms(4)]]
  note blob = read_works [OF assms(3) s(1) visible_file [OF raw(4)] hex64_short [OF a(1)]]
  show st: "stat C i w = (Done (Inr a), w)"
    by (simp add: stat_def io_bind_def io_lift_def sidecar_path_def index_dir_def raw(1,3) catch_os_def index io_return_def)
  show "get C i w = (Done (Inr b), w)"
    by (simp add: get_def io_bind_def st catch_os_def blob a(2) io_return_def)
qed

subsection \<open>The layout\<close>

definition layout :: "fs \<Rightarrow> bool" where
  "layout m \<longleftrightarrow> m root_dir = Some Dir \<and> m blobs_dir = Some Dir \<and> m index_dir = Some Dir \<and>
     (\<exists>b. m marker_path = Some (File b))"

text \<open>A check that changes nothing and answers \<open>True\<close> only when \<open>Q\<close> holds of the contents.\<close>

definition checks :: "bool io \<Rightarrow> (fs \<Rightarrow> bool) \<Rightarrow> bool" where
  "checks c Q \<longleftrightarrow> (\<forall>w r w'. c w = (r, w') \<longrightarrow> files w' = files w \<and> initialised w' = initialised w \<and>
     (r = Crash \<or> (\<exists>e. r = Done (Inl e) \<and> is_os_error e) \<or> (\<exists>b. r = Done (Inr b) \<and> (b \<longrightarrow> Q (files w)))))"

lemma checks_path_is: "checks (path_is P p) (\<lambda>m. \<exists>n. m p = Some n \<and> P n)"
  unfolding checks_def
proof (intro allI impI)
  fix w r w'
  assume run: "path_is P p w = (r, w')"
  let ?s = "case walk (files w) p of Inl e \<Rightarrow> if e = PyOSError then Inl e else Inr False
       | Inr None \<Rightarrow> Inr False | Inr (Some n) \<Rightarrow> Inr (P n)"
  have s: "(\<exists>e. ?s = Inl e \<and> is_os_error e) \<or> (\<exists>b. ?s = Inr b \<and> (b \<longrightarrow> (\<exists>n. files w p = Some n \<and> P n)))"
    using walk_ok(1) [of "files w" p] by (cases "walk (files w) p") (auto split: option.split)
  have "is_os_error PyOSError" by simp
  with s sys_reads [OF run [unfolded path_is_def]]
  show "files w' = files w \<and> initialised w' = initialised w \<and> (r = Crash \<or> (\<exists>e. r = Done (Inl e) \<and> is_os_error e) \<or>
      (\<exists>b. r = Done (Inr b) \<and> (b \<longrightarrow> (\<exists>n. files w p = Some n \<and> P n))))"
    by blast
qed

lemma checks_and:
  assumes "checks c P" "checks d Q" shows "checks (io_and c d) (\<lambda>m. P m \<and> Q m)"
  unfolding checks_def
proof (intro allI impI)
  fix w r w'
  assume run: "io_and c d w = (r, w')"
  obtain r1 w1 where 1: "c w = (r1, w1)" by fastforce
  obtain r2 w2 where 2: "d w1 = (r2, w2)" by fastforce
  show "files w' = files w \<and> initialised w' = initialised w \<and> (r = Crash \<or> (\<exists>e. r = Done (Inl e) \<and> is_os_error e) \<or>
      (\<exists>b. r = Done (Inr b) \<and> (b \<longrightarrow> P (files w) \<and> Q (files w))))"
    using run assms(1) [unfolded checks_def, rule_format, OF 1] assms(2) [unfolded checks_def, rule_format, OF 2]
    by (auto simp: io_and_def io_bind_def io_return_def 1 2 split: if_splits)
qed

text \<open>The presence check changes nothing, and answers \<open>True\<close> only when the layout is there.\<close>

lemma backing_cases:
  assumes "backing_present w = (r, w')"
  shows "files w' = files w \<and> initialised w' = initialised w \<and>
    (r = Crash \<or> (\<exists>b. r = Done (Inr b) \<and> (b \<longrightarrow> layout (files w))))"
proof -
  let ?c = "io_and (is_dir root_dir) (io_and (is_dir blobs_dir) (io_and (is_dir index_dir) (is_file marker_path)))"
  have n: "n \<noteq> Dir \<longleftrightarrow> (\<exists>b. n = File b)" for n by (cases n) auto
  have "checks ?c (\<lambda>m. (\<exists>n. m root_dir = Some n \<and> n = Dir) \<and> (\<exists>n. m blobs_dir = Some n \<and> n = Dir) \<and>
      (\<exists>n. m index_dir = Some n \<and> n = Dir) \<and> (\<exists>n. m marker_path = Some n \<and> n \<noteq> Dir))"
    unfolding is_dir_def is_file_def by (intro checks_and checks_path_is)
  then have c: "checks ?c layout"
    by (rule back_subst [of "checks ?c"]) (auto simp: layout_def fun_eq_iff n)
  obtain r1 w1 where 1: "?c w = (r1, w1)" by fastforce
  show ?thesis
    using assms c [unfolded checks_def, rule_format, OF 1]
    by (auto simp: backing_present_def catch_os_def 1 io_return_def)
qed

lemma path_is_works:
  assumes "script w = []" "tree (files w)" "list_all short_name p" "p = [] \<or> files w (butlast p) = Some Dir"
  shows "path_is P p w = (Done (Inr (case files w p of None \<Rightarrow> False | Some n \<Rightarrow> P n)), w)"
proof -
  have "walk (files w) p = Inr (files w p)"
  proof (cases "p = []")
    case False
    have "files w q = Some Dir" if "q \<in> set (prefixes (butlast p))" for q
      using that assms(2,4) False by (cases "q = butlast p") (auto simp: tree_def strict_prefix_def)
    then show ?thesis using assms(3)
      by (auto simp: walk_def list_ex_iff list_all_iff short_name_def find_None_iff split: option.splits dest!: find_Some_iff_in)
  qed (simp add: walk_def split: option.split)
  then show ?thesis using assms(1) by (simp add: path_is_def sys_works reads_only_def split: option.split)
qed

lemma layout_short: "list_all short_name blobs_dir" "list_all short_name index_dir" "list_all short_name marker_path"
  by (simp_all add: short_name_def utf8_length_def blobs_dir_def index_dir_def marker_path_def)

lemma backing_works:
  assumes "script w = []" "tree (files w)" "layout (files w)"
  shows "backing_present w = (Done (Inr True), w)"
  using assms layout_short
  by (auto simp: backing_present_def io_and_def is_dir_def is_file_def path_is_works layout_def io_bind_def io_return_def
      catch_os_def blobs_dir_def index_dir_def marker_path_def root_dir_def)


subsection \<open>A volume that is gone\<close>

lemma live_cases:
  assumes "require_live_backing w = (r, w')"
  shows "files w' = files w \<and> initialised w' = initialised w \<and>
    (r = Crash \<or> r = Done (Inl (new_exn ArtifactStoreError None)) \<or> r = Done (Inr ()) \<and> (initialised w \<longrightarrow> layout (files w)))"
proof -
  obtain r1 w1 where 1: "backing_present w = (r1, w1)" by fastforce
  show ?thesis
    using assms backing_cases [OF 1]
    by (auto simp: require_live_backing_def io_bind_def io_return_def raise_store_def io_raise_def 1 split: if_splits)
qed

lemma put_vanished:
  assumes "initialised w" "\<not> layout (files w)" "put C ch data ct fn declared w = (r, w')"
  shows "files w' = files w \<and> initialised w' \<and>
    (case put_checks C data ct fn declared of Inl e \<Rightarrow> r = Done (Inl e)
     | Inr _ \<Rightarrow> r = Crash \<or> r = Done (Inl (new_exn ArtifactStoreError None)))"
proof (cases "put_checks C data ct fn declared")
  case (Inl e)
  with assms show ?thesis by (auto simp: put_def io_bind_def io_lift_def)
next
  case (Inr u)
  obtain r1 w1 where 1: "backing_present w = (r1, w1)" by fastforce
  obtain r2 w2 where 2: "require_live_backing w1 = (r2, w2)" by fastforce
  show ?thesis
    using assms Inr backing_cases [OF 1] live_cases [OF 2]
    by (auto simp: put_def io_bind_def io_lift_def 1 2)
qed

lemma stat_vanished:
  assumes "initialised w" "\<not> layout (files w)" "safe_artifact_id i = Inr i" "stat C i w = (r, w')"
  shows "files w' = files w \<and> r \<noteq> Done (Inl (new_exn NotFoundError None))"
proof -
  obtain r1 w1 where 1: "read_bytes [''index'', i @ ''.json''] w = (r1, w1)" by fastforce
  obtain r2 w2 where 2: "require_live_backing w1 = (r2, w2)" by fastforce
  have "walk m p \<noteq> Inl (new_exn NotFoundError None)" for m p using walk_errors [of m p] by (auto simp: new_exn_def)
  then have nf: "rbind (walk m p) (\<lambda>n. case n of None \<Rightarrow> Inl PyFileNotFoundError | Some Dir \<Rightarrow> Inl PyOSError
      | Some (File b) \<Rightarrow> Inr b) \<noteq> Inl (new_exn NotFoundError None)" for m p
    by (cases "walk m p") (auto simp: new_exn_def split: option.splits node.splits)
  have "r1 \<noteq> Done (Inl (new_exn NotFoundError None))"
    using sys_reads [OF 1 [unfolded read_bytes_def]]
  proof (elim conjE disjE)
    assume "r1 = Done (rbind (walk (files w) [''index'', i @ ''.json'']) (\<lambda>n. case n of None \<Rightarrow> Inl PyFileNotFoundError
        | Some Dir \<Rightarrow> Inl PyOSError | Some (File b) \<Rightarrow> Inr b))"
    with nf show ?thesis by (simp only: ending.inject not_False_eq_True)
  qed (auto simp: new_exn_def)
  then show ?thesis
    using assms sys_reads [OF 1 [unfolded read_bytes_def]] live_cases [OF 2]
    by (auto simp: stat_def io_bind_def io_lift_def sidecar_path_def index_dir_def catch_os_def 1 2 io_raise_def
        raise_store_def io_return_def new_exn_def split: if_splits option.splits ending.splits sum.splits)
qed

text \<open>An unknown id on a store that is there is the caller's mistake.\<close>

lemma stat_unknown:
  assumes "script w = []" "tree (files w)" "layout (files w)" "id_ok i" "files w [''index'', i @ ''.json''] = None"
  shows "stat C i w = (Done (Inl (new_exn NotFoundError None)), w)"
proof -
  have "walk (files w) [''index'', i @ ''.json''] = Inr None"
    using assms(3-5) index_short [OF assms(4)]
    by (auto simp: walk_def layout_def root_dir_def index_dir_def list_ex_iff short_name_def)
  then have "read_bytes [''index'', i @ ''.json''] w = (Done (Inl PyFileNotFoundError), w)"
    using assms(1) by (simp add: read_bytes_def sys_works reads_only_def)
  moreover have "require_live_backing w = (Done (Inr ()), w)"
    using backing_works [OF assms(1-3)] by (simp add: require_live_backing_def io_bind_def io_return_def)
  ultimately show ?thesis using assms(4)
    by (simp add: stat_def io_bind_def io_lift_def sidecar_path_def id_ok_def index_dir_def catch_os_def io_raise_def)
qed

subsection \<open>Writing on a working disk\<close>

text \<open>Nothing is in the way of a write: no file where a directory must be, a free temporary name.\<close>

definition room :: "fs \<Rightarrow> path \<Rightarrow> string list \<Rightarrow> bool" where
  "room m p rs \<longleftrightarrow> p \<noteq> [] \<and> list_all short_name p \<and> (\<forall>q \<in> set (prefixes (butlast p)). file_at m q = None) \<and>
     m p \<noteq> Some Dir \<and> rs \<noteq> [] \<and> tmp_path p (hd rs) \<noteq> p \<and> m (tmp_path p (hd rs)) = None \<and> short_name (last (tmp_path p (hd rs)))"

lemma walk_below:
  assumes "tree m" "m (butlast p) = Some Dir" "p \<noteq> []" "list_all short_name p" shows "walk m p = Inr (m p)"
proof -
  have "m q = Some Dir" if "q \<in> set (prefixes (butlast p))" for q
    using that assms(1,2) by (cases "q = butlast p") (auto simp: tree_def strict_prefix_def)
  then show ?thesis using assms(4)
    by (auto simp: walk_def list_ex_iff list_all_iff short_name_def find_None_iff split: option.splits
        dest!: find_Some_iff_in)
qed

lemma atomic_write_works:
  assumes "script w = []" "tree (files w)" "room (files w) p rs"
  shows "atomic_write rs p b w =
    (Done (Inr ()), w\<lparr>files := (make_dirs (prefixes (butlast p)) (files w))(p \<mapsto> File b)\<rparr>)"
proof -
  let ?q = "tmp_path p (hd rs)" and ?m = "make_dirs (prefixes (butlast p)) (files w)"
  have p: "p \<noteq> []" "list_all short_name p" "files w p \<noteq> Some Dir" "?q \<noteq> p" "files w ?q = None" "short_name (last ?q)"
      and rs: "rs = hd rs # tl rs" and free: "\<And>q. q \<in> set (prefixes (butlast p)) \<Longrightarrow> file_at (files w) q = None"
    using assms(3) by (auto simp: room_def)
  have len: "length ?q = length p" "butlast ?q = butlast p" "?q \<noteq> []" "list_all short_name ?q"
    using p(1,2,6) by (cases p rule: rev_cases; simp add: tmp_path_def)+
  have notq: "?q \<notin> set (prefixes (butlast p))" "p \<notin> set (prefixes (butlast p))"
  proof -
    have "length q < length p" if "q \<in> set (prefixes (butlast p))" for q
    proof -
      from that have "length q \<le> length p - 1" by (auto dest: prefix_length_le)
      moreover have "0 < length p" using p(1) by simp
      ultimately show ?thesis by linarith
    qed
    from this [of ?q] this [of p] show "?q \<notin> set (prefixes (butlast p))" "p \<notin> set (prefixes (butlast p))"
      using len(1) by auto
  qed
  have t: "tree ?m"
    by (rule tree_make_dirs [OF assms(2)]) (auto intro: free simp: strict_prefix_def dest: prefix_order.trans)
  have dir: "?m (butlast p) = Some Dir" using free [of "butlast p"] by (auto simp: make_dirs_def file_at_None)
  have mq: "?m ?q = None" and mp: "?m p \<noteq> Some Dir" using p notq by (simp_all add: make_dirs_def)
  have nofile: "\<not> list_ex (\<lambda>q. case files w q of Some (File _) \<Rightarrow> True | _ \<Rightarrow> False) (prefixes (butlast p))"
  proof -
    have "\<not> (case files w q of Some (File _) \<Rightarrow> True | _ \<Rightarrow> False)" if "q \<in> set (prefixes (butlast p))" for q
      using free [OF that] by (auto simp: file_at_None)
    then show ?thesis unfolding list_ex_iff by blast
  qed
  have wq: "walk ?m ?q = Inr None" using walk_below [OF t] dir len mq by simp
  have upd: "tree (?m(?q \<mapsto> File b))" using walk_write [OF t wq] by simp
  have wp: "walk (?m(?q \<mapsto> File b)) p = Inr (?m p)"
    using walk_below [OF upd _ p(1,2)] dir notq(1) len(1) p(1,4) by (auto simp: fun_upd_apply)
  have undo: "(?m(?q \<mapsto> File b))(?q := None, p \<mapsto> File b) = ?m(p \<mapsto> File b)" using mq by (auto simp: fun_eq_iff)
  have mk: "mkdir_parents (butlast p) w = (Done (Inr ()), w\<lparr>files := ?m\<rparr>)"
    using assms(1) nofile by (simp add: mkdir_parents_def sys_works)
  have ff: "first_free ?m (map (tmp_path p) rs) = Inr ?q" by (subst rs) (simp add: wq)
  have tmp: "mkstemp p rs (w\<lparr>files := ?m\<rparr>) = (Done (Inr ?q), w\<lparr>files := ?m(?q \<mapsto> File [])\<rparr>)"
    using assms(1) ff by (simp add: mkstemp_def sys_works at_once_def)
  have wr: "write_fd ?q b (w\<lparr>files := ?m(?q \<mapsto> File [])\<rparr>) = (Done (Inr ()), w\<lparr>files := ?m(?q \<mapsto> File b)\<rparr>)"
    using assms(1) by (simp add: write_fd_def sys_works)
  have sy: "fsync (w\<lparr>files := m\<rparr>) = (Done (Inr ()), w\<lparr>files := m\<rparr>)" for m
    using assms(1) by (simp add: fsync_def sys_works reads_only_def)
  have mv: "replace_file ?q p (w\<lparr>files := ?m(?q \<mapsto> File b)\<rparr>) = (Done (Inr ()), w\<lparr>files := ?m(p \<mapsto> File b)\<rparr>)"
    using assms(1) wp p(4) mp undo by (simp add: replace_file_def sys_works at_once_def)
  show ?thesis by (simp add: atomic_write_def io_bind_def catch_os_def mk tmp wr sy mv)
qed

lemma exists_works:
  assumes "script w = []" "tree (files w)" "list_all short_name p" "clean p"
  shows "path_exists_io p w = (Done (Inr (files w p \<noteq> None)), w)"
proof -
  have no: "walk (files w) p \<noteq> Inl PyOSError"
    using assms(3) by (auto simp: walk_def list_ex_iff list_all_iff short_name_def split: option.splits) 
  show ?thesis
  proof (cases "walk (files w) p")
    case (Inl e)
    then have "e = PyFileNotFoundError \<or> e = PyNotADirectoryError"
      using no walk_clean [OF assms(4), of "files w"] by (auto simp: walk_def split: if_splits option.splits)
    with walk_missing [OF assms(2) Inl] no Inl assms(1) show ?thesis
      by (auto simp: path_exists_io_def path_is_def sys_works reads_only_def)
  next
    case (Inr n)
    with walk_ok(1) [OF Inr] assms(1) show ?thesis
      by (auto simp: path_exists_io_def path_is_def sys_works reads_only_def split: option.split)
  qed
qed


text \<open>
  \<open>put\<close> on a store that is there and has room: the record is returned when the blob's path is free or
  holds the same bytes, and refused when it holds others.
\<close>

definition blob_done :: "path \<Rightarrow> bytes \<Rightarrow> fs \<Rightarrow> fs" where
  "blob_done p b m = (if m p = Some (File b) then m else (make_dirs (prefixes (butlast p)) m)(p \<mapsto> File b))"

lemma store_blob_works:
  assumes "script w = []" "tree (files w)" "list_all short_name p" "clean p" "p \<noteq> []"
  shows "file_at (files w) p = Some c \<Longrightarrow> c \<noteq> b \<Longrightarrow>
      store_blob rs p b w = (Done (Inl (new_exn ImmutabilityError None)), w)"
    and "files w p = Some (File b) \<or> files w p = None \<and> room (files w) p rs \<Longrightarrow>
      store_blob rs p b w = (Done (Inr ()), w\<lparr>files := blob_done p b (files w)\<rparr>)"
proof -
  note ex = exists_works [OF assms(1-4)]
  show "store_blob rs p b w = (Done (Inl (new_exn ImmutabilityError None)), w)"
    if c: "file_at (files w) p = Some c" "c \<noteq> b"
    using c read_works [OF assms(1,2) c(1) assms(3)]
    by (simp add: store_blob_def io_bind_def ex catch_os_def io_raise_def file_at_Some)
  assume "files w p = Some (File b) \<or> files w p = None \<and> room (files w) p rs"
  then show "store_blob rs p b w = (Done (Inr ()), w\<lparr>files := blob_done p b (files w)\<rparr>)"
  proof
    assume c: "files w p = Some (File b)"
    then show ?thesis using read_works [OF assms(1,2) _ assms(3)]
      by (simp add: store_blob_def io_bind_def ex catch_os_def io_return_def file_at_Some blob_done_def)
  next
    assume c: "files w p = None \<and> room (files w) p rs"
    then show ?thesis using atomic_write_works [OF assms(1,2)]
      by (simp add: store_blob_def io_bind_def ex blob_done_def)
  qed
qed

lemma blob_done_index: "blob_done (blob_path h) b m ([''index''] @ q) = m ([''index''] @ q)" "blob_done (blob_path h) b m [] = (if m [] = None \<and> m (blob_path h) \<noteq> Some (File b) then Some Dir else m [])"
  by (auto simp: blob_done_def make_dirs_def blob_path_def blobs_dir_def prefix_Cons)

lemma tree_blob_done:
  assumes "tree m" "m p = Some (File b) \<or> m p = None \<and> room m p rs"
  shows "tree (blob_done p b m)"
proof (cases "m p = Some (File b)")
  case False
  with assms have r: "room m p rs" by simp
  then have free: "file_at m q = None" if "q \<in> set (prefixes (butlast p))" for q using that by (simp add: room_def)
  have p: "p \<noteq> []" using r by (simp add: room_def)
  have t: "tree (make_dirs (prefixes (butlast p)) m)"
    by (rule tree_make_dirs [OF assms(1)]) (auto intro: free simp: strict_prefix_def dest: prefix_order.trans)
  have "make_dirs (prefixes (butlast p)) m q = Some Dir" if "strict_prefix q p" for q
    using that free [of q] p by (auto simp: strict_prefixes make_dirs_def file_at_None)
  moreover have "make_dirs (prefixes (butlast p)) m p \<noteq> Some Dir"
    using False assms(2) strict_prefixes [of p p] p by (auto simp: make_dirs_def)
  ultimately show ?thesis using tree_update [OF t] False by (simp add: blob_done_def)
qed (simp add: blob_done_def assms(1))

lemma put_works:
  fixes C :: fs_cfg and ch :: chances and data :: bytes and ct fn :: string
  assumes "script w = []" "tree (files w)" "layout (files w)" "libs_ok C"
    and checks: "put_checks C data ct fn declared = Inr ()"
  defines "p \<equiv> blob_path (sha256 C data)"
  shows "file_at (files w) p = Some c \<Longrightarrow> c \<noteq> data \<Longrightarrow>
      put C ch data ct fn declared w = (Done (Inl (new_exn ImmutabilityError None)), w\<lparr>initialised := True\<rparr>)"
    and "files w p = Some (File data) \<or> files w p = None \<and> room (files w) p (blob_tmp ch) \<Longrightarrow>
      new_record C ch data ct fn = Inr a \<Longrightarrow> id_ok (ar_artifact_id a) \<Longrightarrow>
      room (files w) [''index'', ar_artifact_id a @ ''.json''] (sidecar_tmp ch) \<Longrightarrow>
      put C ch data ct fn declared w = (Done (Inr a), w\<lparr>initialised := True,
        files := (blob_done p data (files w))([''index'', ar_artifact_id a @ ''.json''] \<mapsto> File (to_json C a))\<rparr>)"
proof -
  let ?w = "w\<lparr>initialised := True\<rparr>"
  have hx: "hex64 (sha256 C data)" using assms(4) by (simp add: libs_ok_def)
  have p: "list_all short_name p" "clean p" "p \<noteq> []"
    unfolding p_def using hex64_short [OF hx] blob_clean [OF hx] by (simp_all add: blob_path_def)
  note there = backing_works [OF assms(1-3)]
  have w: "script ?w = []" "tree (files ?w)" using assms(1,2) by simp_all
  show "put C ch data ct fn declared w = (Done (Inl (new_exn ImmutabilityError None)), ?w)"
    if "file_at (files w) p = Some c" "c \<noteq> data"
    using store_blob_works(1) [OF w p, of c data "blob_tmp ch"] that
    by (simp add: put_def io_bind_def io_lift_def checks there set_initialised_def p_def)
  assume blob: "files w p = Some (File data) \<or> files w p = None \<and> room (files w) p (blob_tmp ch)"
    and a: "new_record C ch data ct fn = Inr a" and ok: "id_ok (ar_artifact_id a)"
    and side: "room (files w) [''index'', ar_artifact_id a @ ''.json''] (sidecar_tmp ch)"
  let ?m = "blob_done p data (files w)" and ?s = "[''index'', ar_artifact_id a @ ''.json'']"
  let ?w2 = "?w\<lparr>files := ?m\<rparr>"
  have idx: "?m (''index'' # q) = files w (''index'' # q)" for q using blob_done_index(1) [of _ data "files w" q] by (simp add: p_def)
  have root: "?m [] = Some Dir" using assms(3) blob_done_index(2) [of "sha256 C data" data "files w"]
    by (simp add: p_def layout_def root_dir_def)
  have dirs: "make_dirs [[], [''index'']] ?m = ?m"
    using root idx [of "[]"] assms(3) by (auto simp: make_dirs_def layout_def index_dir_def fun_eq_iff)
  have r2: "room (files ?w2) ?s (sidecar_tmp ch)"
    using side root by (auto simp: room_def idx tmp_path_def file_at_def)
  have t2: "tree (files ?w2)" using tree_blob_done [OF assms(2) blob] by simp
  have "store_blob (blob_tmp ch) p data ?w = (Done (Inr ()), ?w2)"
    using store_blob_works(2) [OF w p, of data "blob_tmp ch"] blob by simp
  moreover have "atomic_write (sidecar_tmp ch) ?s (to_json C a) ?w2 =
      (Done (Inr ()), ?w2\<lparr>files := ?m(?s \<mapsto> File (to_json C a))\<rparr>)"
    using atomic_write_works [OF _ t2 r2, of "to_json C a"] assms(1) dirs by simp
  moreover have "sidecar_path (ar_artifact_id a) = Inr ?s" using ok by (simp add: sidecar_path_eq id_ok_def)
  ultimately show "put C ch data ct fn declared w = (Done (Inr a), w\<lparr>initialised := True, files := ?m(?s \<mapsto> File (to_json C a))\<rparr>)"
    by (simp add: put_def io_bind_def io_lift_def checks there set_initialised_def p_def a io_return_def)
qed

end
