(* ===== verification/ArtifactContract.thy ===== *)
theory ArtifactContract
  imports FsFacts
begin

text \<open>
  The interface \<open>ArtifactStore\<close> of \<open>src/cer/contract/stores.py\<close> as a locale: the methods the API calls,
  and what any implementation promises about them in terms of the registrations it holds. What follows for a
  caller is proved once from the promises; the file system store is the interpretation.
\<close>

locale artifact_store =
  fixes put_bytes :: "'ch \<Rightarrow> bytes \<Rightarrow> string \<Rightarrow> string \<Rightarrow> string option \<Rightarrow> 's \<Rightarrow> artifact ending \<times> 's"
    and read_record :: "string \<Rightarrow> 's \<Rightarrow> artifact ending \<times> 's"
    and read_blob :: "string \<Rightarrow> 's \<Rightarrow> bytes ending \<times> 's"
    and holds :: "'s \<Rightarrow> string \<Rightarrow> (artifact \<times> bytes) option"
    and sane :: "'s \<Rightarrow> bool"
    and faultless :: "'s \<Rightarrow> bool"
    and usable :: "'ch \<Rightarrow> 's \<Rightarrow> bool" \<comment> \<open>the clock tells a UTC time and the random id is unused\<close>
    and digest_of :: "bytes \<Rightarrow> string"
  assumes put_keeps: "sane s \<Longrightarrow> usable ch s \<Longrightarrow> put_bytes ch b ct fn declared s = (r, s') \<Longrightarrow>
      sane s' \<and> (\<forall>i x. holds s i = Some x \<longrightarrow> holds s' i = Some x)"
    and put_acknowledged: "sane s \<Longrightarrow> usable ch s \<Longrightarrow> put_bytes ch b ct fn declared s = (Done (Inr a), s') \<Longrightarrow>
      holds s (ar_artifact_id a) = None \<and> holds s' (ar_artifact_id a) = Some (a, b) \<and>
      ar_content_type a = ct \<and> ar_filename a = fn"
    and holds_digest: "sane s \<Longrightarrow> holds s i = Some (a, b) \<Longrightarrow> ar_sha256 a = digest_of b"
    and declared_checked: "put_bytes ch b ct fn (Some d) s = (Done (Inr a), s') \<Longrightarrow> py_lower d = digest_of b"
    and reads_keep: "sane s \<Longrightarrow> sane (snd (read_record i s)) \<and> holds (snd (read_record i s)) = holds s \<and>
      sane (snd (read_blob i s)) \<and> holds (snd (read_blob i s)) = holds s"
    and reads_back: "sane s \<Longrightarrow> faultless s \<Longrightarrow> holds s i = Some (a, b) \<Longrightarrow>
      read_record i s = (Done (Inr a), s) \<and> read_blob i s = (Done (Inr b), s)"
begin

text \<open>The calls a client can make.\<close>

inductive calls :: "'s \<Rightarrow> 's \<Rightarrow> bool" where
  put_call: "usable ch s \<Longrightarrow> calls s (snd (put_bytes ch b ct fn declared s))"
| record_call: "calls s (snd (read_record i s))"
| blob_call: "calls s (snd (read_blob i s))"

lemma calls_keep:
  assumes "calls s s'" "sane s"
  shows "sane s' \<and> (\<forall>i x. holds s i = Some x \<longrightarrow> holds s' i = Some x)"
  using assms(1)
proof cases
  case (put_call ch b ct fn declared)
  then show ?thesis using put_keeps [OF assms(2), of ch b ct fn declared] by (metis prod.collapse)
qed (use reads_keep [OF assms(2)] in auto)

lemma history_keeps:
  assumes "calls\<^sup>*\<^sup>* s s'" "sane s"
  shows "sane s' \<and> (\<forall>i x. holds s i = Some x \<longrightarrow> holds s' i = Some x)"
  using assms(1)
proof (induction rule: rtranclp_induct)
  case (step s1 s2)
  then show ?case using calls_keep [OF step(2)] by auto
qed (use assms(2) in simp)

text \<open>What was acknowledged is served: its record, its bytes, under the digest in the record.\<close>

lemma acknowledged_served:
  assumes "sane s" "usable ch s" "put_bytes ch b ct fn declared s = (Done (Inr a), s1)" "calls\<^sup>*\<^sup>* s1 s2" "faultless s2"
  shows "read_record (ar_artifact_id a) s2 = (Done (Inr a), s2) \<and> read_blob (ar_artifact_id a) s2 = (Done (Inr b), s2) \<and>
    ar_sha256 a = digest_of b \<and> ar_content_type a = ct \<and> ar_filename a = fn"
proof -
  note k = put_keeps [OF assms(1-3)] and p = put_acknowledged [OF assms(1-3)]
  note h = history_keeps [OF assms(4)]
  have "holds s2 (ar_artifact_id a) = Some (a, b)" "sane s2" using h k p by blast+
  then show ?thesis using reads_back [OF _ assms(5)] holds_digest [of s1] k p by blast
qed

text \<open>Two acknowledged registrations never share an id.\<close>

lemma ids_distinct:
  assumes "sane s" "usable ch s" "put_bytes ch b ct fn declared s = (Done (Inr a), s1)" "calls\<^sup>*\<^sup>* s1 s2"
    and "usable ch' s2" "put_bytes ch' b' ct' fn' declared' s2 = (Done (Inr a'), s3)"
  shows "ar_artifact_id a' \<noteq> ar_artifact_id a"
proof -
  note k = put_keeps [OF assms(1-3)] and p = put_acknowledged [OF assms(1-3)]
  note h = history_keeps [OF assms(4)]
  have "holds s2 (ar_artifact_id a) = Some (a, b)" "sane s2" using h k p by blast+
  then show ?thesis using put_acknowledged [OF _ assms(5,6)] by force
qed

end

subsection \<open>The file system store\<close>

definition fs_holds :: "fs_cfg \<Rightarrow> fstore \<Rightarrow> string \<Rightarrow> (artifact \<times> bytes) option" where
  "fs_holds C w i = (if id_ok i then the_registry C w i else None)"

definition fs_usable :: "chances \<Rightarrow> fstore \<Rightarrow> bool" where
  "fs_usable ch w \<longleftrightarrow> utc_pydt (now ch) \<and>
     (\<forall>i. new_artifact_id (uuid_hex ch) = Inr i \<longrightarrow> visible (files w) [''index'', i @ ''.json''] = None)"

lemma io_bind_Inr: "io_bind c f w = (Done (Inr y), w') \<longleftrightarrow> (\<exists>x w1. c w = (Done (Inr x), w1) \<and> f x w1 = (Done (Inr y), w'))"
  by (auto simp: io_bind_def split: prod.splits ending.splits sum.splits)

lemma put_record:
  "put C ch data ct fn declared w = (Done (Inr a), w') \<Longrightarrow> new_record C ch data ct fn = Inr a"
  by (auto simp: put_def io_bind_Inr io_lift_def io_return_def)

lemma put_checked:
  "put C ch data ct fn declared w = (Done (Inr a), w') \<Longrightarrow> put_checks C data ct fn declared = Inr ()"
  by (auto simp: put_def io_bind_Inr io_lift_def)

lemma new_record_id:
  assumes "libs_ok C" "new_record C ch data ct fn = Inr a" "utc_pydt (now ch)"
  shows "id_ok (ar_artifact_id a)"
  using new_record_ok(6) [OF assms]
  by (intro valid_id_ok) (simp add: valid_artifact_def mk_artifact_def construct_ok)

interpretation fs: artifact_store "put C" "stat C" "get C" "fs_holds C" "\<lambda>w. libs_ok C \<and> sound_store C w" "\<lambda>w. script w = []"
    fs_usable "sha256 C" for C
proof
  fix w w' :: fstore and ch :: chances and b :: bytes and ct fn :: string and declared r a i
  assume w: "libs_ok C \<and> sound_store C w" and u: "fs_usable ch w"
  have fin: "put C ch b ct fn declared w = (r, w') \<Longrightarrow> sound_store C w' \<and>
    (the_registry C w' = the_registry C w \<and> (\<forall>a. r \<noteq> Done (Inr a)) \<or>
     (\<exists>a. new_record C ch b ct fn = Inr a \<and> the_registry C w (ar_artifact_id a) = None \<and>
        the_registry C w' = (the_registry C w)(ar_artifact_id a \<mapsto> (a, b)) \<and> (\<forall>c. r = Done (Inr c) \<longrightarrow> c = a)))" for r
    using put_end [of C w ch b ct fn declared r w'] w u by (auto simp: fs_usable_def)
  show "(libs_ok C \<and> sound_store C w') \<and> (\<forall>i x. fs_holds C w i = Some x \<longrightarrow> fs_holds C w' i = Some x)"
    if "put C ch b ct fn declared w = (r, w')"
    using fin [OF that] w by (auto simp: fs_holds_def)
  show "fs_holds C w (ar_artifact_id a) = None \<and> fs_holds C w' (ar_artifact_id a) = Some (a, b) \<and>
      ar_content_type a = ct \<and> ar_filename a = fn" if "put C ch b ct fn declared w = (Done (Inr a), w')"
    using fin [OF that] w u put_record [OF that] new_record_id [of C ch b ct fn a] new_record_ok(3,4) [of C ch b ct fn a]
    by (auto simp: fs_holds_def fs_usable_def)
next
  fix w :: fstore and i a b
  assume "libs_ok C \<and> sound_store C w" "fs_holds C w i = Some (a, b)"
  then show "ar_sha256 a = sha256 C b"
    using registry_sound [of C "visible (files w)" i a b]
    by (auto simp: fs_holds_def the_registry_def sound_store_def split: if_splits)
next
  fix ch b ct fn d a and w w' :: fstore
  assume "put C ch b ct fn (Some d) w = (Done (Inr a), w')"
  from put_checked [OF this] show "py_lower d = sha256 C b" by (auto simp: put_checks_def raise_cer_def split: if_splits)
next
  fix w :: fstore and i
  assume w: "libs_ok C \<and> sound_store C w"
  then show "(libs_ok C \<and> sound_store C (snd (stat C i w))) \<and> fs_holds C (snd (stat C i w)) = fs_holds C w \<and>
      (libs_ok C \<and> sound_store C (snd (get C i w))) \<and> fs_holds C (snd (get C i w)) = fs_holds C w"
    using quiet_end [OF quiet_stat [where C = C and i = i], of C w] quiet_end [OF quiet_get [where C = C and i = i], of C w] by (simp add: fs_holds_def fun_eq_iff)
next
  fix w :: fstore and i a b
  assume "libs_ok C \<and> sound_store C w" "script w = []" "fs_holds C w i = Some (a, b)"
  then show "stat C i w = (Done (Inr a), w) \<and> get C i w = (Done (Inr b), w)"
    using stat_works [of C w i a b] by (auto simp: fs_holds_def split: if_splits)
qed

end
