(* ===== verification/FsSamples.thy ===== *)
theory FsSamples
  imports FsFacts Samples
begin

text \<open>
  A concrete configuration for the witnesses: a digest of the documented form, and the record's JSON
  as \<open>model_dump_json\<close> lays it out, read back field by field; a store that has just been initialised.
\<close>

definition digest :: "bytes \<Rightarrow> string" where
  "digest b = padn 64 (length b)"

definition json_opt :: "string option \<Rightarrow> json" where
  "json_opt v = (case v of None \<Rightarrow> JNull | Some s \<Rightarrow> JStr s)"

definition record_json :: "artifact \<Rightarrow> json" where
  "record_json a = JObj [(''artifact_id'', JStr (ar_artifact_id a)), (''sha256'', JStr (ar_sha256 a)),
     (''size_bytes'', JInt (ar_size_bytes a)), (''content_type'', JStr (ar_content_type a)),
     (''filename'', JStr (ar_filename a)), (''uri'', JStr (ar_uri a)),
     (''registered_at'', JStr (dt_to_str (ar_registered_at a))), (''run_id'', json_opt (ar_run_id a)),
     (''evidence_id'', json_opt (ar_evidence_id a))]"

fun opt_json :: "json \<Rightarrow> string option" where
  "opt_json (JStr s) = Some s"
| "opt_json _ = None"

fun int_json :: "json \<Rightarrow> int option" where
  "int_json (JInt n) = Some n"
| "int_json _ = None"

fun json_record :: "json \<Rightarrow> artifact option" where
  "json_record (JObj kvs) =
     (let text = (\<lambda>k. Option.bind (map_of kvs k) opt_json) in
      Option.bind (text ''artifact_id'') (\<lambda>i. Option.bind (text ''sha256'') (\<lambda>h.
      Option.bind (Option.bind (map_of kvs ''size_bytes'') int_json) (\<lambda>n.
      Option.bind (text ''content_type'') (\<lambda>ct. Option.bind (text ''filename'') (\<lambda>fn.
      Option.bind (text ''uri'') (\<lambda>u. Option.bind (text ''registered_at'') (\<lambda>t.
      case str_to_dt t of Inl _ \<Rightarrow> None
      | Inr d \<Rightarrow> Some \<lparr>ar_artifact_id = i, ar_sha256 = h, ar_size_bytes = n, ar_content_type = ct, ar_filename = fn,
         ar_uri = u, ar_registered_at = d, ar_run_id = text ''run_id'', ar_evidence_id = text ''evidence_id''\<rparr>))))))))"
| "json_record _ = None"

definition plain_cfg :: fs_cfg where
  "plain_cfg = \<lparr>max_bytes = 10, root_uri = ''file:///cer'', sha256 = digest, to_json = \<lambda>a. show_json (record_json a),
     of_json = \<lambda>s. Option.bind (json_loads s) json_record\<rparr>"

lemma opt_json_opt [simp]: "opt_json (json_opt v) = v"
  by (cases v) (simp_all add: json_opt_def)

lemma wf_record_json: "wf_json (record_json a)"
  by (simp add: record_json_def json_opt_def split: option.split)

lemma record_round_trip: "valid_artifact a \<Longrightarrow> Option.bind (json_loads (show_json (record_json a))) json_record = Some a"
proof -
  assume "valid_artifact a"
  then have "str_to_dt (dt_to_str (ar_registered_at a)) = Inr (ar_registered_at a)"
    by (intro str_to_dt_dt_to_str valid_artifact_utc)
  then have "json_record (record_json a) = Some a" by (simp add: record_json_def)
  then show ?thesis by (simp add: json_loads_show [OF wf_record_json])
qed

lemma digit_lower_hex: "is_ascii_digit c \<Longrightarrow> lower_hex c"
  by (simp add: is_ascii_digit_def lower_hex_def Let_def)

lemma hex64_digest: "hex64 (digest b)"
  using padn_digits [of 64 "length b"] by (auto simp: hex64_def digest_def list_all_iff digit_lower_hex)

lemma plain_cfg_ok [simp]: "libs_ok plain_cfg"
  by (simp add: libs_ok_def plain_cfg_def hex64_digest record_round_trip)

definition chances_1 :: chances where
  "chances_1 = \<lparr>now = noon, uuid_hex = ''01'', marker_tmp = [''m''], blob_tmp = [''b''], sidecar_tmp = [''s''], probe_hex = ''p''\<rparr>"

definition fresh_files :: fs where
  "fresh_files = (\<lambda>_. None)(root_dir \<mapsto> Dir, blobs_dir \<mapsto> Dir, index_dir \<mapsto> Dir, marker_path \<mapsto> File ''m'')"

definition store_0 :: fstore where
  "store_0 = \<lparr>files = fresh_files, script = [], initialised = True\<rparr>"

text \<open>The same instance after its volume went away.\<close>

definition store_lost :: fstore where
  "store_lost = \<lparr>files = (\<lambda>_. None), script = [], initialised = True\<rparr>"

lemma tree_fresh [simp]: "tree fresh_files"
  by (auto simp: tree_def fresh_files_def root_dir_def blobs_dir_def index_dir_def marker_path_def
      strict_prefix_def prefix_Cons)

lemma layout_fresh [simp]: "layout fresh_files"
  by (simp add: layout_def fresh_files_def root_dir_def blobs_dir_def index_dir_def marker_path_def)

lemma visible_fresh: "visible fresh_files p = (if p = marker_path then Some ''m'' else None)"
  using marker_not_scratch
  by (auto simp: visible_def file_at_def fresh_files_def root_dir_def blobs_dir_def index_dir_def marker_path_def)

lemma sound_store_0 [simp]: "sound_store C store_0"
  by (auto simp: sound_store_def store_0_def sound_def visible_fresh)

lemma utc_chances_1 [simp]: "utc_pydt (now chances_1)"
  by (simp add: chances_1_def)

definition record_1 :: artifact where
  "record_1 = \<lparr>ar_artifact_id = ''art_01'', ar_sha256 = digest ''abc'', ar_size_bytes = 3, ar_content_type = ''text/csv'',
     ar_filename = ''a.csv'', ar_uri = blob_uri plain_cfg (blob_path (digest ''abc'')), ar_registered_at = noon,
     ar_run_id = None, ar_evidence_id = None\<rparr>"

lemma new_id_1: "new_artifact_id (uuid_hex chances_1) = Inr ''art_01''"
  by (simp add: new_artifact_id_def generate_id_def lookup_kind_def ID_KINDS_def chances_1_def)

lemma err_id_1 [simp]: "err_of (validate_artifact_id ''art_01'') = None"
  by (simp add: text_eval)

lemma non_empty_uri: "err_of (non_empty (CHR ''f'' # s)) = None"
  by (simp add: non_empty_def is_blank_iff py_isspace_def)

lemma sha256_digest: "err_of (sha256_field (digest b)) = None"
proof -
  have "list_all (\<lambda>c. c \<in> set ''0123456789abcdef'') (digest b)"
    using hex64_digest [of b] lower_hex_set unfolding hex64_def list_all_iff by blast
  then show ?thesis using hex64_digest [of b]
    by (simp add: sha256_field_def hex64_py_lower hex64_def del: set_simps list.set)
qed

lemma new_record_1: "new_record plain_cfg chances_1 ''abc'' ''text/csv'' ''a.csv'' = Inr record_1"
proof -
  have "py_lower (digest ''abc'') = digest ''abc''" by (rule hex64_py_lower [OF hex64_digest])
  then show ?thesis
    by (simp add: new_record_def new_id_1 mk_artifact_def construct_ok sha256_digest size_field_def)
       (simp add: plain_cfg_def blob_uri_def record_1_def sha256_digest non_empty_uri chances_1_def)
qed

end
