(* ===== verification/FsProps.thy ===== *)
theory FsProps
  imports FsSamples
begin

text \<open>
  The properties of the artifact store: it implements the abstract registry under every fault and
  crash, what it registered stays readable, a lost volume is never papered over, and corrupted bytes
  are never served.
\<close>

subsection \<open>Refinement\<close>

lemma fs_history_sound:
  assumes "(fs_step C)\<^sup>*\<^sup>* w w'" "libs_ok C" "sound_store C w"
  shows "sound_store C w' \<and> (registry_step C)\<^sup>*\<^sup>* (the_registry C w) (the_registry C w')"
  using assms(1)
proof (induction rule: rtranclp_induct)
  case (step w1 w2)
  with fs_step_ok [OF step(2) assms(2)] show ?case by (meson rtranclp.rtrancl_into_rtrancl)
qed (use assms(3) in simp)

lemma registry_steps_keep:
  "(registry_step C)\<^sup>*\<^sup>* R R' \<Longrightarrow> R i = Some x \<Longrightarrow> R' i = Some x"
  by (induction rule: rtranclp_induct) (auto elim!: registry_step.cases)

text \<open>C4 After any sequence of calls, restarts, faults and process deaths, started on a sound store:
  every blob lies at the path of its digest, every sidecar is the readable record of its artifact
  with its blob present, and the registry the files stand for was reached by registrations under
  unused ids only. No torn blob or sidecar, and no record without its bytes, is ever visible.\<close>

theorem artifact_store_refines_registry:
  assumes "(fs_step C)\<^sup>*\<^sup>* w w'" "libs_ok C" "sound_store C w"
  shows "sound_store C w' \<and> (registry_step C)\<^sup>*\<^sup>* (the_registry C w) (the_registry C w')"
  by (rule fs_history_sound [OF assms])

lemma put_1_step:
  "fs_step plain_cfg (store_0\<lparr>script := s\<rparr>)
     (snd (put plain_cfg chances_1 ''abc'' ''text/csv'' ''a.csv'' None (store_0\<lparr>script := s\<rparr>)))"
  by (rule fs_step.put) (simp_all add: store_0_def visible_fresh marker_path_def)

theorem artifact_store_refines_registry_witness:
  "sound_store plain_cfg (snd (put plain_cfg chances_1 ''abc'' ''text/csv'' ''a.csv'' None
     (store_0\<lparr>script := [Works, Works, Works, Works, Works, Dies 2]\<rparr>)))"
proof -
  let ?w = "store_0\<lparr>script := [Works, Works, Works, Works, Works, Dies 2]\<rparr>"
  have "fs_step plain_cfg store_0 ?w" by (rule fs_step.fates)
  moreover have "fs_step plain_cfg ?w (snd (put plain_cfg chances_1 ''abc'' ''text/csv'' ''a.csv'' None ?w))"
    by (rule put_1_step)
  ultimately have "(fs_step plain_cfg)\<^sup>*\<^sup>* store_0 (snd (put plain_cfg chances_1 ''abc'' ''text/csv'' ''a.csv'' None ?w))"
    by (rule converse_rtranclp_into_rtranclp [OF _ r_into_rtranclp])
  note history = this
  show ?thesis
    by (rule conjunct1, rule artifact_store_refines_registry, rule history, rule plain_cfg_ok, rule sound_store_0)
qed

text \<open>C13 An artifact whose registration was acknowledged stays registered: after any further sequence
  of calls, restarts, faults and process deaths, a working disk serves its record and exactly the
  bytes that were put.\<close>

theorem registered_artifact_stays_readable:
  assumes "libs_ok C" "sound_store C w" "utc_pydt (now ch)"
    and "\<And>i. new_artifact_id (uuid_hex ch) = Inr i \<Longrightarrow> visible (files w) [''index'', i @ ''.json''] = None"
    and "put C ch data content_type filename declared w = (Done (Inr a), w1)"
    and "(fs_step C)\<^sup>*\<^sup>* w1 w2" "script w2 = []"
  shows "stat C (ar_artifact_id a) w2 = (Done (Inr a), w2) \<and> get C (ar_artifact_id a) w2 = (Done (Inr data), w2) \<and>
    ar_sha256 a = sha256 C data \<and> ar_size_bytes a = int (length data) \<and>
    ar_content_type a = content_type \<and> ar_filename a = filename"
proof -
  from put_end [OF assms(1-5)] have s: "sound_store C w1" and rec: "new_record C ch data content_type filename = Inr a"
      and reg: "the_registry C w1 (ar_artifact_id a) = Some (a, data)" by auto
  note h = fs_history_sound [OF assms(6,1) s]
  have "valid_artifact a" using new_record_ok(6) [OF assms(1) rec assms(3)] by simp
  then have "id_ok (ar_artifact_id a)"
    by (intro valid_id_ok) (simp add: valid_artifact_def mk_artifact_def construct_ok)
  with h registry_steps_keep [OF conjunct2 [OF h] reg] assms(7) stat_works new_record_ok(1-4) [OF assms(1) rec]
  show ?thesis by auto
qed

lemma room_1:
  "room fresh_files (blob_path (digest ''abc'')) (blob_tmp chances_1)"
  "room fresh_files [''index'', ''art_01.json''] (sidecar_tmp chances_1)"
proof -
  have l: "length (digest ''abc'') = 64" using hex64_digest [of "''abc''"] by (simp add: hex64_def)
  have u: "utf8_length (digest ''abc'') = 64"
    using utf8_ascii [of "digest ''abc''"] hex64_clean [OF hex64_digest] l by auto
  have z: "CHR 0x00 \<notin> set (digest ''abc'')" using hex64_clean [OF hex64_digest] by blast
  have f: "file_at fresh_files q = (if q = marker_path then Some ''m'' else None)" for q
    by (auto simp: file_at_def fresh_files_def root_dir_def blobs_dir_def index_dir_def marker_path_def)
  have u': "utf8_length ''.tmp-'' = 5" "utf8_length ''-'' = 1" "utf8_length ''b'' = 1" "utf8_length ''.part'' = 5"
    by (simp_all add: utf8_length_def)
  have "short_name (''.tmp-'' @ digest ''abc'' @ ''-'' @ ''b'' @ ''.part'')"
    unfolding short_name_def utf8_append u u' using z by simp
  moreover have "''.tmp-'' @ digest ''abc'' @ ''-'' @ ''b'' @ ''.part'' \<noteq> digest ''abc''"
    using l by (auto dest!: arg_cong [where f = length])
  ultimately show "room fresh_files (blob_path (digest ''abc'')) (blob_tmp chances_1)"
    using hex64_short [OF hex64_digest]
    by (auto simp: room_def f tmp_path_def chances_1_def blob_path_def)
       (auto simp: fresh_files_def blobs_dir_def root_dir_def index_dir_def marker_path_def prefix_Cons)
  show "room fresh_files [''index'', ''art_01.json''] (sidecar_tmp chances_1)"
    by (auto simp: room_def f tmp_path_def chances_1_def short_name_def utf8_length_def prefix_Cons marker_path_def)
       (auto simp: fresh_files_def blobs_dir_def root_dir_def index_dir_def marker_path_def)
qed

lemma id_ok_1: "id_ok ''art_01''"
  by (rule valid_id_ok) simp

definition store_1 :: fstore where
  "store_1 = snd (put plain_cfg chances_1 ''abc'' ''text/csv'' ''a.csv'' None store_0)"

lemma checks_1: "put_checks plain_cfg ''abc'' ''text/csv'' ''a.csv'' None = Inr ()"
  by (simp add: put_checks_def plain_cfg_def text_eval)

lemma blob_free: "fresh_files (blob_path h) = None"
  by (auto simp: fresh_files_def blob_path_def blobs_dir_def root_dir_def index_dir_def marker_path_def)

lemma put_1:
  "put plain_cfg chances_1 ''abc'' ''text/csv'' ''a.csv'' None store_0 = (Done (Inr record_1), store_1) \<and> script store_1 = []"
proof -
  have "sha256 plain_cfg = digest" by (simp add: plain_cfg_def)
  with put_works(2) [of store_0 plain_cfg "''abc''" "''text/csv''" "''a.csv''" None chances_1 record_1, OF _ _ _ plain_cfg_ok checks_1]
    room_1 new_record_1 id_ok_1 blob_free
  show ?thesis by (simp add: store_0_def store_1_def record_1_def)
qed

theorem registered_artifact_stays_readable_witness:
  "get plain_cfg ''art_01'' store_1 = (Done (Inr ''abc''), store_1)"
  using registered_artifact_stays_readable [OF plain_cfg_ok sound_store_0 utc_chances_1 _ conjunct1 [OF put_1] rtranclp.rtrancl_refl
      conjunct2 [OF put_1]]
  by (simp add: store_0_def visible_fresh marker_path_def record_1_def)

text \<open>C28 On a store that is there and has room, an accepted \<open>put\<close> succeeds: it returns the new record,
  adds exactly the blob (unless the same bytes are there already) and the sidecar, and leaves no
  temporary file behind. Different bytes under the same digest are refused and nothing changes.\<close>

theorem put_on_working_store:
  assumes "script w = []" "tree (files w)" "layout (files w)" "libs_ok C"
    and "put_checks C data content_type filename declared = Inr ()" "new_record C ch data content_type filename = Inr a"
    and "id_ok (ar_artifact_id a)" "room (files w) [''index'', ar_artifact_id a @ ''.json''] (sidecar_tmp ch)"
    and "files w (blob_path (sha256 C data)) = None \<Longrightarrow> room (files w) (blob_path (sha256 C data)) (blob_tmp ch)"
  shows "case files w (blob_path (sha256 C data)) of
      Some Dir \<Rightarrow> True
    | Some (File c) \<Rightarrow> put C ch data content_type filename declared w =
        (if c = data then (Done (Inr a), w\<lparr>initialised := True,
           files := (files w)([''index'', ar_artifact_id a @ ''.json''] \<mapsto> File (to_json C a))\<rparr>)
         else (Done (Inl (new_exn ImmutabilityError None)), w\<lparr>initialised := True\<rparr>))
    | None \<Rightarrow> put C ch data content_type filename declared w = (Done (Inr a), w\<lparr>initialised := True,
        files := (make_dirs (prefixes (butlast (blob_path (sha256 C data)))) (files w))
          (blob_path (sha256 C data) \<mapsto> File data, [''index'', ar_artifact_id a @ ''.json''] \<mapsto> File (to_json C a))\<rparr>)"
  using put_works(1) [OF assms(1-5), of _ ch] put_works(2) [OF assms(1-5), of ch a] assms(6-9)
  by (auto simp: blob_done_def file_at_Some split: option.split node.split)

theorem put_on_working_store_witness:
  "put plain_cfg chances_1 ''abc'' ''text/csv'' ''a.csv'' None store_0 = (Done (Inr record_1), store_0\<lparr>
     files := (make_dirs (prefixes (butlast (blob_path (digest ''abc'')))) fresh_files)
       (blob_path (digest ''abc'') \<mapsto> File ''abc'', [''index'', ''art_01.json''] \<mapsto> File (to_json plain_cfg record_1))\<rparr>)"
  using put_on_working_store [of store_0, OF _ _ _ plain_cfg_ok checks_1 new_record_1] room_1 id_ok_1 blob_free
  by (simp add: store_0_def record_1_def) (simp add: plain_cfg_def blob_free)

subsection \<open>A lost volume\<close>

text \<open>C20 A store that was there and is gone is not re-created: whatever the faults, no \<open>put\<close> is
  acknowledged and no file is created, and a lookup is never answered with "not registered". An
  invalid request is still refused for its own reason.\<close>

theorem vanished_store_is_not_recreated:
  assumes "initialised w" "\<not> layout (files w)" "put C ch data content_type filename declared w = (r, w1)"
    and "safe_artifact_id i = Inr i" "stat C i w = (s, w2)"
  shows "files w1 = files w \<and> initialised w1 \<and>
    (case put_checks C data content_type filename declared of Inl e \<Rightarrow> r = Done (Inl e)
     | Inr _ \<Rightarrow> r = Crash \<or> r = Done (Inl (new_exn ArtifactStoreError None))) \<and>
    files w2 = files w \<and> s \<noteq> Done (Inl (new_exn NotFoundError None))"
  using put_vanished [OF assms(1-3)] stat_vanished [OF assms(1,2,4,5)] by blast

theorem vanished_store_is_not_recreated_witness:
  "files (snd (put plain_cfg chances_1 ''abc'' ''text/csv'' ''a.csv'' None store_lost)) = (\<lambda>_. None) \<and>
   fst (stat plain_cfg ''art_01'' store_lost) \<noteq> Done (Inl (new_exn NotFoundError None))"
proof -
  have "initialised store_lost" "\<not> layout (files store_lost)" by (simp_all add: store_lost_def layout_def)
  moreover have "safe_artifact_id ''art_01'' = Inr ''art_01''" using id_ok_1 by (simp add: id_ok_def)
  ultimately have "files (snd (put plain_cfg chances_1 ''abc'' ''text/csv'' ''a.csv'' None store_lost)) = files store_lost \<and>
      fst (stat plain_cfg ''art_01'' store_lost) \<noteq> Done (Inl (new_exn NotFoundError None))"
    using vanished_store_is_not_recreated [of store_lost plain_cfg chances_1 "''abc''" "''text/csv''" "''a.csv''" None]
    by (metis prod.collapse)
  then show ?thesis by (simp add: store_lost_def)
qed

subsection \<open>Integrity of what is served\<close>

text \<open>C21 \<open>get\<close> never serves corrupted bytes: on arbitrary contents of the disk, and under any
  faults, the bytes it returns have the digest of a readable record stored under that id.\<close>

theorem get_never_serves_corruption:
  assumes "get C i w = (Done (Inr b), w')"
  shows "\<exists>a w1. stat C i w = (Done (Inr a), w1) \<and> sha256 C b = ar_sha256 a"
proof -
  obtain r w1 where st: "stat C i w = (r, w1)" by fastforce
  show ?thesis
  proof (cases "(r, w1)" rule: ends_cases)
    case (1 a w1')
    obtain r2 w2 where rd: "catch_os (read_bytes (blob_path (ar_sha256 a))) (\<lambda>_. raise_store) w1 = (r2, w2)" by fastforce
    show ?thesis
      using assms 1 st rd
      by (cases "(r2, w2)" rule: ends_cases)
         (auto simp: get_def io_bind_def io_raise_def io_return_def split: if_splits)
  qed (use assms st in \<open>auto simp: get_def io_bind_def\<close>)
qed

theorem get_never_serves_corruption_witness:
  "\<exists>a w1. stat plain_cfg ''art_01'' store_1 = (Done (Inr a), w1) \<and> sha256 plain_cfg ''abc'' = ar_sha256 a"
proof (rule get_never_serves_corruption)
  have s: "sound_store plain_cfg store_1" "the_registry plain_cfg store_1 ''art_01'' = Some (record_1, ''abc'')"
    using put_end [OF plain_cfg_ok sound_store_0 utc_chances_1 _ conjunct1 [OF put_1]] new_record_1
    by (auto simp: store_0_def visible_fresh marker_path_def record_1_def)
  show "get plain_cfg ''art_01'' store_1 = (Done (Inr ''abc''), store_1)"
    by (rule stat_works(2) [OF s conjunct2 [OF put_1] id_ok_1])
qed

text \<open>C36 Whatever text a caller gives as an artifact id, the file looked at lies directly in the
  directory \<open>index/\<close> under a single name, and different ids look at different files.\<close>

theorem artifact_ids_are_confined:
  assumes "sidecar_path i = Inr p"
  shows "\<exists>name. p = index_dir @ [name] \<and> CHR ''/'' \<notin> set name \<and> name \<noteq> ''.'' \<and> name \<noteq> ''..'' \<and>
    (\<forall>j. sidecar_path j = Inr p \<longrightarrow> j = i)"
  using assms by (auto simp: sidecar_path_eq index_dir_def safe_artifact_id_def split: if_splits)

theorem artifact_ids_are_confined_witness:
  "\<exists>name. [''index'', ''art_01.json''] = index_dir @ [name] \<and> CHR ''/'' \<notin> set name \<and> name \<noteq> ''.'' \<and> name \<noteq> ''..'' \<and>
    (\<forall>j. sidecar_path j = Inr [''index'', ''art_01.json''] \<longrightarrow> j = ''art_01'')"
  by (rule artifact_ids_are_confined) (use id_ok_1 in \<open>simp add: sidecar_path_eq id_ok_def\<close>)

text \<open>An id with a NUL character passes the check of ids and makes the lookup end in an uncaught
  \<open>ValueError\<close>, neither "not registered" nor a storage failure.\<close>

theorem nul_id_escapes_as_value_error:
  assumes "CHR 0x00 \<in> set i" "safe_artifact_id i = Inr i" "script w = []"
  shows "stat C i w = (Done (Inl PyValueError), w) \<and> get C i w = (Done (Inl PyValueError), w)"
proof -
  have "walk (files w) [''index'', i @ ''.json''] = Inl PyValueError" using assms(1) by (simp add: walk_def)
  then have "read_bytes [''index'', i @ ''.json''] w = (Done (Inl PyValueError), w)"
    using assms(3) by (simp add: read_bytes_def sys_works reads_only_def)
  then have "stat C i w = (Done (Inl PyValueError), w)"
    using assms(2) by (simp add: stat_def io_bind_def io_lift_def sidecar_path_def index_dir_def catch_os_def)
  then show ?thesis by (simp add: get_def io_bind_def)
qed

theorem nul_id_escapes_as_value_error_witness:
  "stat plain_cfg [CHR 0x00] store_0 = (Done (Inl PyValueError), store_0)"
  using nul_id_escapes_as_value_error [of "[CHR 0x00]" store_0 plain_cfg]
  by (simp add: safe_artifact_id_def store_0_def)

end
