(* ===== verification/RouteFacts.thy ===== *)
theory RouteFacts
  imports Routes HttpErrors ArtifactContract FsProps HistoryProps
begin

text \<open>
  What the handlers do on each branch, in terms of the operations of the two stores.
\<close>

subsection \<open>Keys and producers\<close>

lemma api_require_producer_eq: "api_require_producer p = require_producer_for_key p"
  by (auto simp: api_require_producer_def require_producer_for_key_def split: option.split)

lemma resolve_truthy:
  "resolve_idempotency_key h b = Inr k \<Longrightarrow> truthy h \<Longrightarrow> k = h"
  by (auto simp: resolve_idempotency_key_def split: if_splits)

lemma or_now_utc: "typed_opt valid_pydt v \<Longrightarrow> utc_pydt (utcnow mo) \<Longrightarrow> valid_pydt (or_now v mo)"
  by (cases v) (simp_all add: or_now_def utc_pydt_def)

subsection \<open>Evidence\<close>

text \<open>What pydantic's field types give for a request: datetimes in range, JSON objects with distinct keys.\<close>

definition typed_request :: "evidence_request \<Rightarrow> bool" where
  "typed_request q = (typed_opt valid_pydt (er_created_at_utc q) \<and> typed_opt valid_pydt (er_observed_at_utc q) \<and>
     wf_json (JObj (er_metrics q)) \<and> (\<forall>m \<in> set (er_metrics q). is_metric (snd m)) \<and>
     wf_json (er_notes q) \<and> is_container (er_notes q))"

lemma typed_evidence_args: "typed_request q \<Longrightarrow> valid_pydt t \<Longrightarrow> typed_evidence (evidence_args i k t q)"
  by (simp add: typed_request_def typed_evidence_def evidence_args_def)

text \<open>The record a request becomes depends on its moment only through the creation time.\<close>

lemma mk_evidence_moment:
  assumes "mk_evidence ty (evidence_args i k t q) = Inr e" "utc_pydt u"
  shows "\<exists>f. mk_evidence ty (evidence_args i k u q) = Inr f \<and> content_evidence f = content_evidence e \<and>
    ev_evidence_id f = ev_evidence_id e"
proof -
  obtain m where "parse_evidence_type ty = Inr m"
    using assms(1) by (auto simp: mk_evidence_def construct_ok err_of_None)
  with assms show ?thesis
    by (auto simp: mk_evidence_def construct_ok evidence_args_def evidence_after_eq content_evidence_def canon_evidence_def
        parsed_type_def compute_provenance_completeness_def evidence_attrs_def)
qed

lemma post_evidence_Inr:
  assumes "post_evidence A mo v h q d = (Inr y, d')"
  obtains key i e where "resolve_idempotency_key h (er_idempotency_key q) = Inr key" "truthy key"
    "validate_schema_version (OInt (er_schema_version q)) = Inr (er_schema_version q)"
    "generate_api_id A mo ''ev_'' ''evidence'' key (er_producer q) = Inr i"
    "mk_evidence (AsText (er_evidence_type q)) (evidence_args i (the key) (or_now (er_created_at_utc q) mo) q) = Inr e"
    "append_evidence (api_libs A) v e d = (Inr y, d')"
  using assms that
  by (auto simp: post_evidence_def try_tx_Inr split: if_splits)

lemma generate_api_id_moment: "truthy key \<Longrightarrow> generate_api_id A mo pre kind key p = generate_api_id A mo' pre kind key p"
  by (simp add: generate_api_id_def)


subsection \<open>Artifacts\<close>

text \<open>The links of a stored artifact point to existing rows.\<close>

lemma links_exist:
  assumes "wf_db L d" "row \<in> set (d artifacts)" "row_to_artifact row = Inr b"
  shows "if_given require_run (ar_run_id b) d = Inr ()" "if_given require_evidence (ar_evidence_id b) d = Inr ()"
proof -
  have cols: "col row ''evidence_id'' = opt_text (ar_evidence_id b)" "col row ''run_id'' = opt_text (ar_run_id b)"
    using stored_artifact [OF wf_db_stored [OF assms(1,2)]] assms(3) by auto
  have refs: "list_all (refers d row) (foreign_keys artifacts)"
    using wf_db_integrity [OF assms(1)] assms(2) by (simp add: integrity_def table_ok_def list_all_iff)
  show "if_given require_run (ar_run_id b) d = Inr ()"
    using refs cols by (cases "ar_run_id b")
      (auto simp: if_given_def require_run_def require_row_Inr select_one_None opt_text_def refers_def)
  show "if_given require_evidence (ar_evidence_id b) d = Inr ()"
    using refs cols by (cases "ar_evidence_id b")
      (auto simp: if_given_def require_evidence_def require_row_Inr select_one_None opt_text_def refers_def)
qed

text \<open>An upload that passes the first checks, by its key.\<close>

definition upload_ok :: "api_cfg \<Rightarrow> artifact_request \<Rightarrow> bool" where
  "upload_ok A q \<longleftrightarrow> truthy (aq_filename q) \<and> int (length (aq_body q)) \<le> max_artifact_bytes A"

definition upload_type :: "artifact_request \<Rightarrow> string" where
  "upload_type q = resolve_artifact_content_type (aq_content_type q) (aq_content_type_declared q)"

lemma post_artifact_unkeyed:
  assumes "upload_ok A q" "\<not> truthy (aq_idempotency_key q)"
  shows "post_artifact A ch fv v q s = store_artifact A ch v None (the (aq_filename q)) (upload_type q) q s"
  using assms by (cases s) (simp add: post_artifact_def upload_ok_def upload_type_def Let_def)

lemma post_artifact_replay:
  assumes "upload_ok A q" "truthy (aq_idempotency_key q)" "require_producer_for_key (aq_producer q) = Inr p"
    and "find_artifact_by_idempotency_key fv p (the (aq_idempotency_key q)) d = Inr (Some prior)"
  shows "post_artifact A ch fv v q (d, w) =
    (let (r, d') = replay_artifact A v (the (aq_idempotency_key q)) p (the (aq_filename q)) (upload_type q) q prior d
     in (Done r, (d', w)))"
  using assms by (simp add: post_artifact_def upload_ok_def upload_type_def api_require_producer_eq Let_def)

lemma find_found:
  assumes "healthy fv" "strip p \<noteq> []" "by_key artifacts p k d = Some row" "row_to_artifact row = Inr b"
  shows "find_artifact_by_idempotency_key fv p k d = Inr (Some b)"
  using assms by (simp add: find_artifact_by_idempotency_key_def require_producer_for_key_def reading_def healthy_def)

lemma store_artifact_put:
  assumes "put (api_fs A) ch (aq_body q) ct fn (aq_declared_sha256 q) w = (Done (Inr a), w')"
    and "ar_run_id a = None" "ar_evidence_id a = None"
  shows "store_artifact A ch v key fn ct q (d, w) =
    (let (r, d') = register_artifact (api_libs A) v key (if key \<noteq> None then aq_producer q else None)
       (a\<lparr>ar_run_id := aq_run_id q, ar_evidence_id := aq_evidence_id q\<rparr>) d in (Done r, (d', w')))"
proof -
  have "a\<lparr>ar_run_id := None, ar_evidence_id := None\<rparr> = a" using assms(2,3) by (cases a) simp
  then show ?thesis using assms(1) by (simp add: store_artifact_def Let_def del: not_None_eq)
qed

lemma new_record_links: "new_record C ch data ct fn = Inr a \<Longrightarrow> ar_run_id a = None \<and> ar_evidence_id a = None"
  by (auto simp: new_record_def rbind_eq_Inr mk_artifact_def construct_ok)

subsection \<open>Readiness\<close>

lemma health_cases:
  assumes "health ch w = (r, w')"
  shows "(r = Done (Inr ()) \<longrightarrow> layout (files w)) \<and>
    (\<not> layout (files w) \<longrightarrow> files w' = files w \<and> (r = Crash \<or> r = Done (Inl (new_exn ArtifactStoreError None))))"
proof -
  obtain r1 w1 where 1: "backing_present w = (r1, w1)" by fastforce
  show ?thesis
    using assms backing_cases [OF 1]
    by (auto simp: health_def io_bind_def 1 raise_store_def io_raise_def split: if_splits)
qed

lemma health_works:
  assumes "script w = []" "tree (files w)" "layout (files w)" "files w (probe_path ch) = None" "short_name (hd (probe_path ch))"
  shows "health ch w = (Done (Inr ()), w\<lparr>initialised := True\<rparr>)"
proof -
  let ?p = "probe_path ch" and ?m = "files w"
  have p: "?p \<noteq> []" "list_all short_name ?p" "butlast ?p = []" using assms(5) by (simp_all add: probe_path_def)
  have root: "?m [] = Some Dir" using assms(3) by (simp add: layout_def root_dir_def)
  have w1: "walk ?m ?p = Inr None" using walk_below [OF assms(2) _ p(1,2)] p(3) root assms(4) by simp
  have "tree (?m(?p \<mapsto> File ''ok''))" using walk_write [OF assms(2) w1] by simp
  then have w2: "walk (?m(?p \<mapsto> File ''ok'')) ?p = Inr (Some (File ''ok''))"
    using walk_below [OF _ _ p(1,2), of "?m(?p \<mapsto> File ''ok'')"] p root by simp
  have undo: "?m(?p := None) = ?m" using assms(4) by (auto simp: fun_eq_iff)
  show ?thesis
    using backing_works [OF assms(1-3)] assms(1) w1 w2 undo
    by (simp add: health_def io_bind_def set_initialised_def io_finally_def catch_os_def write_bytes_def read_bytes_def
        unlink_def sys_works reads_only_def at_once_def io_return_def io_lift_def)
qed

subsection \<open>Content types\<close>

lemma first_declared_cases:
  "first_declared cs = DEFAULT_ARTIFACT_CONTENT_TYPE \<or>
   (Some (first_declared cs) \<in> set cs \<and> strip (first_declared cs) \<noteq> [] \<and> \<not> is_form_encoded_media_type (first_declared cs))"
  by (induction cs) (auto split: option.split)

end
