(* ===== verification/RouteSamples.thy ===== *)
theory RouteSamples
  imports RouteFacts
begin

text \<open>
  A concrete configuration of the API for the witnesses, with an injective text for the deterministic ids,
  and one request of each kind used there.
\<close>

definition name_digits :: "string \<Rightarrow> string" where
  "name_digits s = concat (map (\<lambda>c. padn 3 (of_char c)) s)"

lemma name_digits_ok: "list_all suffix_char (name_digits s)" "length (name_digits s) = 3 * length s"
proof -
  show "list_all suffix_char (name_digits s)"
    using padn_digits by (fastforce simp: name_digits_def list_all_iff suffix_char_def)
  show "length (name_digits s) = 3 * length s"
    by (induction s) (simp_all add: name_digits_def)
qed

definition plain_api :: api_cfg where
  "plain_api = \<lparr>api_libs = plain_libs, api_fs = plain_cfg, uuid5_hex = name_digits, max_artifact_bytes = 10\<rparr>"

definition moment_1 :: moment where
  "moment_1 = \<lparr>utcnow = noon, uuid4_hex = ''a1''\<rparr>"

definition moment_2 :: moment where
  "moment_2 = \<lparr>utcnow = noon\<lparr>hour := 13\<rparr>, uuid4_hex = ''a2''\<rparr>"

lemma plain_api_fields [simp]:
  "api_libs plain_api = plain_libs" "api_fs plain_api = plain_cfg" "uuid5_hex plain_api = name_digits"
  "max_artifact_bytes plain_api = 10"
  by (simp_all add: plain_api_def)

lemma moments [simp]: "utcnow moment_1 = noon" "utcnow moment_2 = noon\<lparr>hour := 13\<rparr>"
  by (simp_all add: moment_1_def moment_2_def)

subsection \<open>Evidence\<close>

definition request_1 :: evidence_request where
  "request_1 = \<lparr>er_evidence_type = ''BACKTEST'', er_schema_version = 1, er_producer = ''hsa'',
     er_idempotency_key = None, er_strategy_id = Some ''btc'', er_strategy_version = None, er_experiment_id = None,
     er_run_id = None, er_producer_version = None, er_created_at_utc = None, er_observed_at_utc = None,
     er_git_repo = None, er_git_commit = None, er_dataset_id = None, er_dataset_version = None, er_dataset_ref = None,
     er_config_hash = None, er_config_ref = None, er_environment = None, er_instruments = [''BTC''],
     er_timeframes = [], er_metrics = [(''trades'', JInt 12)], er_verdict = Some ''pass'', er_status = None,
     er_regime_tags = [], er_parent_evidence_ids = [], er_parent_run_ids = [], er_artifact_ids = [],
     er_notes = JObj []\<rparr>"

text \<open>The request of another producer, and the record it becomes under a key.\<close>

definition request_by :: "string \<Rightarrow> evidence_request" where
  "request_by p = request_1\<lparr>er_producer := p\<rparr>"

definition ev_id_of :: "string \<Rightarrow> string \<Rightarrow> string" where
  "ev_id_of p k = ''ev_'' @ name_digits (id_name ''evidence'' p k)"

definition raw_posted :: "string \<Rightarrow> string \<Rightarrow> evidence" where
  "raw_posted p k = raw_evidence\<lparr>ev_evidence_id := ev_id_of p k, ev_producer := p, ev_idempotency_key := k\<rparr>"

definition posted_by :: "string \<Rightarrow> string \<Rightarrow> evidence" where
  "posted_by p k = evidence_after (raw_posted p k)"

text \<open>A producer and a key the samples can use.\<close>

definition sample_names :: "string \<Rightarrow> string \<Rightarrow> bool" where
  "sample_names p k \<longleftrightarrow> err_of (non_empty p) = None \<and> err_of (non_empty k) = None \<and>
     api_require_producer (Some p) = Inr p \<and> k \<noteq> [] \<and> length p + length k \<le> 20"

lemma samples_ok [simp]: "sample_names ''hsa'' ''k1''" "sample_names ''hsa'' ''x:k1''" "sample_names ''hsa:x'' ''k1''"
  by (simp_all add: sample_names_def text_eval api_require_producer_def)

lemma derived_id_ok:
  assumes "generate_id k (name_digits s) = Inr v" "s \<noteq> []" "length s \<le> 40"
  shows "validate_generated_id k (OStr v) = Inr v"
proof (rule generated_id_valid [OF assms(1)])
  show "name_digits s \<noteq> []" using name_digits_ok(2) [of s] assms(2) by fastforce
qed (use name_digits_ok [of s] assms(3) in simp_all)

lemma ev_id_ok: "sample_names p k \<Longrightarrow> err_of (validate_evidence_id (ev_id_of p k)) = None"
  using derived_id_ok [of "''evidence_id''" "id_name ''evidence'' p k" "ev_id_of p k"]
  by (simp add: generate_id_def lookup_kind_def ID_KINDS_def ev_id_of_def validate_evidence_id_def id_name_def sample_names_def)

lemma typed_request_by [simp]: "typed_request (request_by p)" "typed_request request_1"
  by (simp_all add: typed_request_def request_by_def request_1_def)

lemma request_by_fields [simp]:
  "er_idempotency_key (request_by p) = None" "er_producer (request_by p) = p" "er_schema_version (request_by p) = 1"
  "er_evidence_type (request_by p) = ''BACKTEST''" "er_created_at_utc (request_by p) = None"
  by (simp_all add: request_by_def request_1_def)

lemma posted_mk:
  assumes "sample_names p k"
  shows "mk_evidence (AsText ''BACKTEST'') (evidence_args (ev_id_of p k) k noon (request_by p)) = Inr (posted_by p k)"
proof -
  have args: "evidence_args (ev_id_of p k) k noon (request_by p) = (raw_posted p k)\<lparr>ev_evidence_type := hd evidence_types\<rparr>"
    by (simp add: evidence_args_def request_by_def request_1_def raw_posted_def raw_evidence_def)
  have ty: "parse_evidence_type (AsText ''BACKTEST'') = Inr BACKTEST"
    using parse_evidence_type_value [of BACKTEST] by simp
  have "(raw_posted p k)\<lparr>ev_evidence_type := BACKTEST, ev_created_at_utc := utc_of (ev_created_at_utc (raw_posted p k)),
      ev_observed_at_utc := map_option utc_of (ev_observed_at_utc (raw_posted p k))\<rparr> = raw_posted p k"
    by (simp add: raw_posted_def raw_evidence_def)
  then show ?thesis unfolding args using assms ev_id_ok [OF assms]
    by (simp add: mk_evidence_def construct_ok posted_by_def ty parsed_type_def sample_names_def
        del: parse_evidence_type.simps) (simp add: raw_posted_def raw_evidence_def)
qed

lemma posted_fields [simp]:
  "ev_run_id (posted_by p k) = None" "ev_experiment_id (posted_by p k) = None" "ev_schema_version (posted_by p k) = 1"
  "ev_producer (posted_by p k) = p" "ev_idempotency_key (posted_by p k) = k" "ev_evidence_id (posted_by p k) = ev_id_of p k"
  by (simp_all add: posted_by_def evidence_after_eq raw_posted_def raw_evidence_def)

lemma valid_posted: "sample_names p k \<Longrightarrow> valid_evidence (posted_by p k)"
  by (rule mk_evidence_valid [OF typed_evidence_args posted_mk]) simp_all

definition db_posted :: "string \<Rightarrow> string \<Rightarrow> db" where
  "db_posted p k = empty_db(evidence_t := [evidence_row (evidence_fp plain_libs (posted_by p k)) (posted_by p k)])"

lemma header_key: "sample_names p k \<Longrightarrow> resolve_idempotency_key (Some k) None = Inr (Some k)"
  by (simp add: resolve_idempotency_key_def truthy_def sample_names_def)

lemma schema_1_ok: "1 \<in> set SUPPORTED_SCHEMA_VERSIONS"
  by (simp add: SUPPORTED_SCHEMA_VERSIONS_def SCHEMA_VERSION_def)

lemma post_evidence_by:
  assumes "sample_names p k"
  shows "post_evidence plain_api moment_1 all_up (Some k) (request_by p) empty_db = (Inr (posted_by p k), db_posted p k)"
proof -
  let ?e = "posted_by p k"
  have "append_evidence_tx plain_libs ?e empty_db =
      (Inr ?e, empty_db(evidence_t := empty_db evidence_t @ [evidence_row (evidence_fp plain_libs ?e) ?e]))"
    by (rule append_evidence_new [where u = "()"])
       (use assms in \<open>simp_all add: evidence_guard_def if_given_def int64_def valid_posted\<close>)
  then have "append_evidence plain_libs all_up ?e empty_db = (Inr ?e, db_posted p k)"
    by (simp add: append_evidence_def transaction_healthy db_posted_def)
  moreover have "generate_api_id plain_api moment_1 ''ev_'' ''evidence'' (Some k) p = Inr (ev_id_of p k)"
    using assms by (simp add: generate_api_id_def ev_id_of_def truthy_def sample_names_def)
  moreover have "truthy (Some k)" using assms by (simp add: truthy_def sample_names_def)
  ultimately show ?thesis using posted_mk [OF assms] header_key [OF assms] schema_1_ok
    by (simp add: post_evidence_def try_tx_def or_now_def)
qed

lemma db_posted_new: "db_posted p k \<noteq> empty_db"
  by (auto simp: db_posted_def dest: fun_cong [of _ _ evidence_t])

lemma truthy_Some [simp]: "truthy (Some s) \<longleftrightarrow> s \<noteq> []"
  by (simp add: truthy_def)

lemma hsa_ok [simp]: "api_require_producer (Some ''hsa'') = Inr ''hsa''"
  by (simp add: api_require_producer_def strip_def lstrip_def rstrip_def py_isspace_def)

subsection \<open>Uploads\<close>

definition upload_1 :: artifact_request where
  "upload_1 = \<lparr>aq_body = ''abc'', aq_content_type = Some ''text/csv'', aq_filename = Some ''a.csv'',
     aq_declared_sha256 = None, aq_run_id = None, aq_evidence_id = None, aq_producer = Some ''hsa'',
     aq_idempotency_key = Some ''k1'', aq_content_type_declared = None\<rparr>"

lemma upload_1_fields [simp]:
  "aq_body upload_1 = ''abc''" "aq_filename upload_1 = Some ''a.csv''" "aq_declared_sha256 upload_1 = None"
  "aq_run_id upload_1 = None" "aq_evidence_id upload_1 = None" "aq_producer upload_1 = Some ''hsa''"
  "aq_idempotency_key upload_1 = Some ''k1''" "upload_ok plain_api upload_1"
  by (simp_all add: upload_1_def upload_ok_def truthy_def)

lemma upload_type_1 [simp]: "upload_type upload_1 = ''text/csv''"
  by (simp add: upload_type_def upload_1_def resolve_artifact_content_type_def is_form_encoded_media_type_def
      FORM_ENCODED_MEDIA_TYPES_def py_lower_def py_lower_char_def strip_def lstrip_def rstrip_def py_isspace_def)

lemma record_1_fields [simp]: "ar_run_id record_1 = None" "ar_evidence_id record_1 = None"
    "ar_artifact_id record_1 = ''art_01''" "ar_size_bytes record_1 = 3"
  by (simp_all add: record_1_def)

definition db_up :: db where
  "db_up = empty_db(artifacts := [artifact_row (Some ''hsa'') (Some ''k1'') (artifact_fp plain_libs record_1)
     (Some (artifact_idem_fp plain_libs record_1)) record_1])"

lemma register_record_1:
  "register_artifact plain_libs all_up (Some ''k1'') (Some ''hsa'') record_1 empty_db = (Inr record_1, db_up)"
proof -
  let ?r = "artifact_row (Some ''hsa'') (Some ''k1'') (artifact_fp plain_libs record_1)
     (Some (artifact_idem_fp plain_libs record_1)) record_1"
  have g: "artifact_guard (Some ''k1'', Some ''hsa'', record_1) empty_db = Inr ()"
    by (simp add: artifact_guard_def if_given_def require_producer_for_key_def strip_def lstrip_def rstrip_def py_isspace_def)
  have "valid_artifact record_1" using new_record_ok(6) [OF plain_cfg_ok new_record_1] by simp
  then have "insert_ok artifacts ?r empty_db"
    by - (rule insert_ok_artifact [where u = "()" and w = "()"], simp_all add: if_given_def)
  moreover have "list_all (\<lambda>(c, v). int64 v) ?r"
    by (simp add: artifact_row_def) (simp add: int64_def)
  ultimately show ?thesis using g
    by (simp add: register_artifact_def transaction_healthy artifact_tx_guarded register_new_artifact_def Let_def
        insert_into_new db_up_def)
qed

lemma post_artifact_1:
  "post_artifact plain_api chances_1 all_up all_up upload_1 (empty_db, store_0) = (Done (Inr record_1), (db_up, store_1))"
proof -
  have "find_artifact_by_idempotency_key all_up ''hsa'' ''k1'' empty_db = Inr None"
    by (simp add: find_artifact_by_idempotency_key_def require_producer_for_key_def reading_def all_up_def
        strip_def lstrip_def rstrip_def py_isspace_def)
  then have "post_artifact plain_api chances_1 all_up all_up upload_1 (empty_db, store_0) =
      store_artifact plain_api chances_1 all_up (Some ''k1'') ''a.csv'' (upload_type upload_1) upload_1 (empty_db, store_0)"
    using upload_1_fields(8) by (simp add: post_artifact_def upload_ok_def upload_type_def Let_def)
  moreover have "put (api_fs plain_api) chances_1 (aq_body upload_1) ''text/csv'' ''a.csv'' (aq_declared_sha256 upload_1) store_0 =
      (Done (Inr record_1), store_1)"
    using put_1 by simp
  moreover have "record_1\<lparr>ar_run_id := None, ar_evidence_id := None\<rparr> = record_1" by (simp add: record_1_def)
  note store_artifact_put [OF calculation(2), of all_up "Some ''k1''" empty_db, unfolded upload_1_fields this]
  ultimately show ?thesis using register_record_1 by simp
qed

lemma db_up_new: "db_up \<noteq> empty_db"
  by (auto simp: db_up_def dest: fun_cong [of _ _ artifacts])

end
