(* ===== verification/RouteProps.thy ===== *)
theory RouteProps
  imports RouteSamples
begin

text \<open>
  The properties of the handlers end to end: what a producer that retries, reuses a key or names an unknown
  run observes across both stores.
\<close>

subsection \<open>Evidence\<close>

lemma post_evidence_replayed:
  assumes "wf_db (api_libs A) d" "typed_request q" "utc_pydt (utcnow mo)" "utc_pydt (utcnow mo')"
    and "post_evidence A mo v h q d = (Inr y, d1)" "d1 \<noteq> d" "valid_history ps" "healthy w"
  shows "post_evidence A mo' w h q (exec_ops (api_libs A) ps d1) = (Inr (canon_evidence y), exec_ops (api_libs A) ps d1)"
proof -
  let ?ty = "AsText (er_evidence_type q)" and ?u = "or_now (er_created_at_utc q) mo'"
  obtain key i e where key: "resolve_idempotency_key h (er_idempotency_key q) = Inr key" "truthy key"
      and sv: "validate_schema_version (OInt (er_schema_version q)) = Inr (er_schema_version q)"
      and i: "generate_api_id A mo ''ev_'' ''evidence'' key (er_producer q) = Inr i"
      and e: "mk_evidence ?ty (evidence_args i (the key) (or_now (er_created_at_utc q) mo) q) = Inr e"
      and app: "append_evidence (api_libs A) v e d = (Inr y, d1)"
    using post_evidence_Inr [OF assms(5)] by metis
  have typed: "typed_opt valid_pydt (er_created_at_utc q)" using assms(2) by (simp add: typed_request_def)
  have "valid_evidence e"
    by (rule mk_evidence_valid [OF typed_evidence_args [OF assms(2) or_now_utc [OF typed assms(3)]] e])
  moreover have "y = e"
    by (rule append_evidence_inserted(1) [OF assms(1) append_evidence_tx_of [OF app] assms(6)])
  moreover obtain f where f: "mk_evidence ?ty (evidence_args i (the key) ?u q) = Inr f" "content_evidence f = content_evidence e"
  proof (cases "er_created_at_utc q")
    case None
    then show thesis using mk_evidence_moment [OF e, of "utcnow mo'"] assms(4) that by (auto simp: or_now_def)
  next
    case (Some t)
    then show thesis using e that [of e] by (simp add: or_now_def)
  qed
  ultimately have "append_evidence (api_libs A) w f (exec_ops (api_libs A) ps d1) =
      (Inr (canon_evidence y), exec_ops (api_libs A) ps d1)"
    using append_evidence_replay [OF assms(1) _ app assms(6-8)] by blast
  then show ?thesis
    using key sv f(1) i generate_api_id_moment [OF key(2), of A mo' "''ev_''" "''evidence''" "er_producer q" mo]
    by (simp add: post_evidence_def try_tx_def)
qed

text \<open>C15 A producer that repeats a \<open>POST /evidence\<close> under its idempotency key, at any later time and after
  any other valid calls, gets the record it created back, under the same id and with the creation time of
  the first request, and nothing is written.\<close>

theorem evidence_post_retry:
  assumes "wf_db (api_libs A) d" "typed_request q" "utc_pydt (utcnow mo)" "utc_pydt (utcnow mo')"
    and "post_evidence A mo v h q d = (Inr y, d1)" "d1 \<noteq> d" "valid_history ps" "healthy w"
  shows "post_evidence A mo' w h q (exec_ops (api_libs A) ps d1) = (Inr (canon_evidence y), exec_ops (api_libs A) ps d1)"
  by (rule post_evidence_replayed [OF assms])

theorem evidence_post_retry_witness:
  "post_evidence plain_api moment_2 all_up (Some ''k1'') (request_by ''hsa'')
      (exec_ops plain_libs [(all_up, RegisterStrategy strategy_1)] (db_posted ''hsa'' ''k1'')) =
    (Inr (canon_evidence (posted_by ''hsa'' ''k1'')), exec_ops plain_libs [(all_up, RegisterStrategy strategy_1)] (db_posted ''hsa'' ''k1''))"
  using evidence_post_retry [of plain_api empty_db "request_by ''hsa''" moment_1 moment_2 all_up "Some ''k1''" "posted_by ''hsa'' ''k1''"
      "db_posted ''hsa'' ''k1''" "[(all_up, RegisterStrategy strategy_1)]" all_up]
    post_evidence_by [of "''hsa''" "''k1''"] db_posted_new wf_db_empty [of plain_libs] by simp

subsection \<open>Artifacts\<close>

text \<open>A link that the registration accepted is a well-formed id.\<close>

lemma linked_artifact_valid:
  assumes "wf_db L d" "valid_artifact a" "if_given require_run n d = Inr ()" "if_given require_evidence e d = Inr ()"
  shows "valid_artifact (a\<lparr>ar_run_id := n, ar_evidence_id := e\<rparr>)"
proof -
  have "err_of (optional validate_run_id n) = None"
    using assms(3) stored_run_id [OF wf_db_stored [OF assms(1)]]
    by (cases n) (simp_all add: if_given_def require_run_def require_row_Inr, fastforce dest: select_one_Some)
  moreover have "err_of (optional validate_evidence_id e) = None"
    using assms(4) stored_evidence_id [OF wf_db_stored [OF assms(1)]]
    by (cases e) (simp_all add: if_given_def require_evidence_def require_row_Inr, fastforce dest: select_one_Some)
  ultimately show ?thesis using assms(2)
    by (cases a) (auto simp: valid_artifact_def typed_artifact_def mk_artifact_def construct_ok)
qed

text \<open>A keyed upload that registered something stored its bytes first, and the lookup of its key found nothing.\<close>

lemma first_upload:
  assumes "post_artifact A ch fv v q (d, w) = (Done (Inr y), (d1, w1))" "truthy (aq_idempotency_key q)" "d1 \<noteq> d"
    and "wf_db (api_libs A) d" "libs_ok (api_fs A)" "utc_pydt (now ch)"
  shows "valid_artifact y \<and> upload_ok A q \<and>
    register_artifact (api_libs A) v (aq_idempotency_key q) (aq_producer q) y d = (Inr y, d1) \<and>
    content_artifact y = (sha256 (api_fs A) (aq_body q), int (length (aq_body q)), upload_type q, the (aq_filename q))"
proof -
  let ?k = "the (aq_idempotency_key q)" and ?fn = "the (aq_filename q)" and ?L = "api_libs A"
  have k: "aq_idempotency_key q = Some ?k" using assms(2) by (auto simp: truthy_def split: option.splits)
  have ok: "upload_ok A q" using assms(1) by (auto simp: post_artifact_def upload_ok_def raise_cer_def not_le split: if_splits)
  obtain p where p: "require_producer_for_key (aq_producer q) = Inr p"
    using assms(1,2) ok by (auto simp: post_artifact_def upload_ok_def api_require_producer_eq Let_def split: sum.splits)
  then have prod: "aq_producer q = Some p" by (auto simp: require_producer_for_key_def split: option.splits if_splits)
  obtain f where f: "find_artifact_by_idempotency_key fv p ?k d = Inr f"
    using assms(1,2) ok p by (auto simp: post_artifact_def upload_ok_def api_require_producer_eq Let_def split: sum.splits)
  have "f = None"
  proof (rule ccontr)
    assume "f \<noteq> None"
    then obtain prior where [simp]: "f = Some prior" by blast
    have "by_key artifacts p ?k d \<noteq> None"
      using f by (auto simp: find_artifact_by_idempotency_key_def reading_def rbind_eq_Inr split: if_splits option.splits)
    moreover obtain a where reg: "register_artifact ?L v (Some ?k) (Some p) a d = (Inr y, d1)"
      using assms(1) post_artifact_replay [OF ok assms(2) p f [unfolded \<open>f = Some prior\<close>]]
      by (auto simp: replay_artifact_def Let_def raise_cer_def split: if_splits prod.splits)
    ultimately show False using new_artifact_facts [OF tx_of(3) [OF reg] assms(3)] by (simp add: submitter_def)
  qed
  then have st: "store_artifact A ch v (Some ?k) ?fn (upload_type q) q (d, w) = (Done (Inr y), (d1, w1))"
    using assms(1,2) ok p f by (simp add: post_artifact_def upload_ok_def upload_type_def api_require_producer_eq Let_def)
  then obtain a w2 where put: "put (api_fs A) ch (aq_body q) (upload_type q) ?fn (aq_declared_sha256 q) w = (Done (Inr a), w2)"
    by (auto simp: store_artifact_def split: prod.splits ending.splits sum.splits)
  let ?a = "a\<lparr>ar_run_id := aq_run_id q, ar_evidence_id := aq_evidence_id q\<rparr>"
  note rec = put_record [OF put]
  have reg: "register_artifact ?L v (Some ?k) (aq_producer q) ?a d = (Inr y, d1)"
    using st store_artifact_put [OF put, of v "Some ?k" d] new_record_links [OF rec] by (auto split: prod.splits)
  note new = new_artifact_facts [OF tx_of(3) [OF reg] assms(3)]
  then have "if_given require_run (aq_run_id q) d = Inr ()" "if_given require_evidence (aq_evidence_id q) d = Inr ()"
    by (auto simp: artifact_guard_def rbind_eq_Inr)
  then have "valid_artifact ?a" using linked_artifact_valid [OF assms(4)] new_record_ok(6) [OF assms(5) rec assms(6)] by blast
  then show ?thesis using ok new reg k new_record_ok(1-4) [OF assms(5) rec] by (simp add: content_artifact_def)
qed

text \<open>What the fingerprint of an upload sees of its record.\<close>

lemma upload_text:
  "payload_text (artifact_dump L (a\<lparr>ar_sha256 := h, ar_size_bytes := n, ar_content_type := ct, ar_filename := fn\<rparr>)) ARTIFACT_IDEM_FP_EXCLUDE =
   payload_text (artifact_dump L (b\<lparr>ar_sha256 := h, ar_size_bytes := n, ar_content_type := ct, ar_filename := fn\<rparr>)) ARTIFACT_IDEM_FP_EXCLUDE"
  by (simp add: payload_text_def payload_simps artifact_dump_def)

definition upload_record :: "api_cfg \<Rightarrow> artifact_request \<Rightarrow> artifact \<Rightarrow> artifact" where
  "upload_record A q a = a\<lparr>ar_sha256 := sha256 (api_fs A) (aq_body q), ar_size_bytes := int (length (aq_body q)),
     ar_content_type := upload_type q, ar_filename := the (aq_filename q)\<rparr>"

text \<open>C16 A producer that repeats an upload under its key gets the artifact of the first request back, with
  the links it has by now, when the bytes, the content type and the file name are the same, and a conflict
  when one of them differs. Either way neither store changes: the bytes of a retry are never stored.\<close>

theorem upload_retry:
  assumes "wf_db (api_libs A) d" "libs_ok (api_fs A)" "utc_pydt (now ch)"
    and "post_artifact A ch fv v q (d, w) = (Done (Inr y), (d1, w1))" "truthy (aq_idempotency_key q)" "d1 \<noteq> d"
    and "valid_history ps" "healthy fv'" "healthy v'" "upload_ok A q'"
    and "aq_idempotency_key q' = aq_idempotency_key q" "aq_producer q' = aq_producer q"
    and "\<And>s. aq_declared_sha256 q' = Some s \<Longrightarrow> py_lower s = sha256 (api_fs A) (aq_body q')"
    and "no_collision (api_libs A) (payload_text (artifact_dump (api_libs A) (upload_record A q' y)) ARTIFACT_IDEM_FP_EXCLUDE)
      (payload_text (artifact_dump (api_libs A) y) ARTIFACT_IDEM_FP_EXCLUDE)"
  shows "post_artifact A ch' fv' v' q' (exec_ops (api_libs A) ps d1, w2) =
    (Done (if content_artifact (upload_record A q' y) = content_artifact y
           then fetch_artifact (ar_artifact_id y) (exec_ops (api_libs A) ps d1) else raise_cer IdempotencyConflictError),
     (exec_ops (api_libs A) ps d1, w2)) \<and>
    (\<exists>b. fetch_artifact (ar_artifact_id y) (exec_ops (api_libs A) ps d1) = Inr b \<and> ar_artifact_id b = ar_artifact_id y)"
proof -
  let ?L = "api_libs A" and ?d = "exec_ops (api_libs A) ps d1" and ?k = "the (aq_idempotency_key q)"
  note f = first_upload [OF assms(4-6,1-3)]
  have k: "aq_idempotency_key q = Some ?k" using assms(5) by (auto simp: truthy_def split: option.splits)
  have val: "valid_artifact y" using f by blast
  have reg: "register_artifact ?L v (Some ?k) (aq_producer q) y d = (Inr y, d1)" using f k by simp
  let ?p = "submitter (Some ?k, aq_producer q, y)"
  obtain row b where row: "by_key artifacts ?p ?k ?d = Some row" and b: "row_to_artifact row = Inr b"
      and prod: "aq_producer q = Some ?p" "require_producer_for_key (aq_producer q) = Inr ?p"
    using artifact_key_bound [OF assms(1) val reg assms(6,7)] by metis
  have wf1: "wf_db ?L d1" using db_step_wf [OF register_artifact_step [OF tx_of(3) [OF reg] val] assms(1)] .
  have wf2: "wf_db ?L ?d" by (rule history_wf [OF assms(7) wf1])
  have "strip ?p \<noteq> []" using prod by (auto simp: require_producer_for_key_def split: option.splits if_splits)
  then have find: "find_artifact_by_idempotency_key fv' ?p (the (aq_idempotency_key q')) ?d = Inr (Some b)"
    using find_found [OF assms(8) _ row b] assms(11) by simp
  note links = links_exist [OF wf2 by_key_Some(1) [OF row] b]
  have guard: "artifact_guard (Some ?k, aq_producer q, upload_record A q' b) ?d = Inr ()"
    using links prod(2) by (simp add: artifact_guard_def upload_record_def)
  have "payload_text (artifact_dump ?L (upload_record A q' b)) ARTIFACT_IDEM_FP_EXCLUDE =
      payload_text (artifact_dump ?L (upload_record A q' y)) ARTIFACT_IDEM_FP_EXCLUDE"
    unfolding upload_record_def by (rule upload_text)
  then have "no_collision ?L (payload_text (artifact_dump ?L (upload_record A q' b)) ARTIFACT_IDEM_FP_EXCLUDE)
      (payload_text (artifact_dump ?L y) ARTIFACT_IDEM_FP_EXCLUDE)"
    using assms(14) by simp
  note replay = artifact_replayed [OF assms(1) val reg assms(6,7,9) guard this]
  have c: "content_artifact (upload_record A q' b) = content_artifact (upload_record A q' y)"
    by (simp add: content_artifact_def upload_record_def)
  have decl: "\<not> (case aq_declared_sha256 q' of None \<Rightarrow> False | Some s \<Rightarrow> py_lower s \<noteq> sha256 (api_fs A) (aq_body q'))"
    using assms(13) by (cases "aq_declared_sha256 q'") simp_all
  have prod': "require_producer_for_key (aq_producer q') = Inr ?p" "truthy (aq_idempotency_key q')"
    using prod(2) assms(5,11,12) by simp_all
  have rr: "register_artifact ?L v' (Some (the (aq_idempotency_key q'))) (Some ?p) (upload_record A q' b) ?d =
      (if content_artifact (upload_record A q' y) = content_artifact y then fetch_artifact (ar_artifact_id y) ?d
       else raise_cer IdempotencyConflictError, ?d)"
    using conjunct1 [OF replay] c prod(1) assms(11) by simp
  have "post_artifact A ch' fv' v' q' (?d, w2) = (Done (if content_artifact (upload_record A q' y) = content_artifact y
           then fetch_artifact (ar_artifact_id y) ?d else raise_cer IdempotencyConflictError), (?d, w2))"
    unfolding post_artifact_replay [OF assms(10) prod'(2,1) find] replay_artifact_def Let_def if_not_P [OF decl]
      upload_record_def [symmetric] rr by simp
  with conjunct2 [OF replay] show ?thesis by blast
qed

theorem upload_retry_witness:
  "post_artifact plain_api chances_1 all_up all_up (upload_1\<lparr>aq_body := ''abd''\<rparr>) (exec_ops plain_libs [] db_up, store_lost) =
    (Done (if content_artifact (upload_record plain_api (upload_1\<lparr>aq_body := ''abd''\<rparr>) record_1) = content_artifact record_1
           then fetch_artifact (ar_artifact_id record_1) (exec_ops plain_libs [] db_up) else raise_cer IdempotencyConflictError),
     (exec_ops plain_libs [] db_up, store_lost))"
proof -
  have ok: "upload_ok plain_api (upload_1\<lparr>aq_body := ''abd''\<rparr>)" by (simp add: upload_ok_def truthy_def)
  show ?thesis
    using upload_retry [of plain_api, OF _ _ _ post_artifact_1 _ db_up_new _ healthy_all_up healthy_all_up ok, of "[]" chances_1 store_lost]
      wf_db_empty [of plain_libs] unfolding plain_api_fields by simp
qed

text \<open>The life of a stored upload whose record the metadata store refuses.\<close>

text \<open>C38 An upload that names an unknown run is answered "not found", but its bytes stay in the
  artifact store: they can be downloaded under the id of an artifact the metadata store knows nothing of.\<close>

theorem refused_upload_leaves_artifact:
  assumes "libs_ok (api_fs A)" "sound_store (api_fs A) w" "utc_pydt (now ch)"
    and "\<And>i. new_artifact_id (uuid_hex ch) = Inr i \<Longrightarrow> visible (files w) [''index'', i @ ''.json''] = None"
    and "upload_ok A q" "\<not> truthy (aq_idempotency_key q)" "aq_run_id q = Some n"
    and "require_run n d = raise_cer NotFoundError" "healthy v"
    and "put (api_fs A) ch (aq_body q) (upload_type q) (the (aq_filename q)) (aq_declared_sha256 q) w = (Done (Inr a), w1)"
    and "script w1 = []"
  shows "post_artifact A ch fv v q (d, w) = (Done (raise_cer NotFoundError), (d, w1)) \<and>
    (\<exists>dl. download_artifact A (ar_artifact_id a) w1 = (Done (Inr dl), w1) \<and> dl_content dl = aq_body q)"
proof -
  let ?C = "api_fs A" and ?a = "a\<lparr>ar_run_id := aq_run_id q, ar_evidence_id := aq_evidence_id q\<rparr>"
  note rec = put_record [OF assms(10)]
  have "fs_usable ch w" using assms(3,4) by (simp add: fs_usable_def)
  then have st: "stat ?C (ar_artifact_id a) w1 = (Done (Inr a), w1)" "get ?C (ar_artifact_id a) w1 = (Done (Inr (aq_body q)), w1)"
    using fs.acknowledged_served [OF _ _ assms(10) rtranclp.rtrancl_refl assms(11)] assms(1,2) by simp_all
  have "register_artifact (api_libs A) v None None ?a d = (raise_cer NotFoundError, d)"
    using assms(7-9) by (simp add: register_artifact_def transaction_healthy artifact_tx_guarded artifact_guard_def
        if_given_def try_tx_def raise_cer_def)
  then have "post_artifact A ch fv v q (d, w) = (Done (raise_cer NotFoundError), (d, w1))"
    using post_artifact_unkeyed [OF assms(5,6)] store_artifact_put [OF assms(10), of v None d] new_record_links [OF rec] by simp
  moreover have "\<exists>dl. download_artifact A (ar_artifact_id a) w1 = (Done (Inr dl), w1) \<and> dl_content dl = aq_body q"
    using st by (simp add: download_artifact_def io_bind_def io_return_def)
  ultimately show ?thesis by blast
qed

theorem refused_upload_leaves_artifact_witness:
  "post_artifact plain_api chances_1 all_up all_up (upload_1\<lparr>aq_run_id := Some ''run_9'', aq_idempotency_key := None\<rparr>)
     (empty_db, store_0) = (Done (raise_cer NotFoundError), (empty_db, store_1)) \<and>
   (\<exists>dl. download_artifact plain_api (ar_artifact_id record_1) store_1 = (Done (Inr dl), store_1) \<and> dl_content dl = ''abc'')"
proof -
  let ?q = "upload_1\<lparr>aq_run_id := Some ''run_9'', aq_idempotency_key := None\<rparr>"
  have q: "upload_ok plain_api ?q" "upload_type ?q = ''text/csv''"
    using upload_1_fields(8) upload_type_1 by (simp_all add: upload_ok_def upload_type_def)
  have "require_run ''run_9'' empty_db = raise_cer NotFoundError" by (simp add: require_run_def require_row_def)
  then show ?thesis
    using refused_upload_leaves_artifact [of plain_api store_0 chances_1 ?q "''run_9''" empty_db all_up record_1 store_1 all_up]
      put_1 q sound_store_0 by (simp add: truthy_def store_0_def visible_fresh marker_path_def)
qed

subsection \<open>Deterministic ids\<close>

text \<open>C39 A deterministic id is derived from \<open>kind:producer:key\<close>, which does not determine producer and key
  when a producer's name has a colon. A second producer whose own key happens to give the same text can
  never submit under it: whatever it submits is refused as an immutability violation of the first
  producer's record.\<close>

theorem colliding_id_is_refused:
  assumes "wf_db (api_libs A) d" "typed_request q" "utc_pydt (utcnow mo)"
    and "post_evidence A mo v h q d = (Inr y, d1)" "d1 \<noteq> d" "valid_history ps" "healthy w"
    and "resolve_idempotency_key h' (er_idempotency_key q') = Inr (Some k')" "k' \<noteq> []"
    and "require_producer_for_key (Some (er_producer q')) = Inr (er_producer q')"
    and "id_name ''evidence'' (er_producer q') k' = id_name ''evidence'' (er_producer q) (ev_idempotency_key y)"
    and "er_producer q' \<noteq> er_producer q" "er_schema_version q' \<in> set SUPPORTED_SCHEMA_VERSIONS"
    and "typed_request q'" "utc_pydt (utcnow mo')"
    and "mk_evidence (AsText (er_evidence_type q')) (evidence_args (ev_evidence_id y) k' (or_now (er_created_at_utc q') mo') q') = Inr f"
    and "evidence_guard f (exec_ops (api_libs A) ps d1) = Inr ()"
    and "by_key evidence_t (er_producer q') k' (exec_ops (api_libs A) ps d1) = None"
    and "times_distinct (api_libs A)"
    and "no_collision (api_libs A) (payload_text (evidence_dump (api_libs A) f) EVIDENCE_FP_EXCLUDE)
      (payload_text (evidence_dump (api_libs A) y) EVIDENCE_FP_EXCLUDE)"
  shows "post_evidence A mo' w h' q' (exec_ops (api_libs A) ps d1) = (raise_cer ImmutabilityError, exec_ops (api_libs A) ps d1)"
proof -
  let ?L = "api_libs A" and ?d = "exec_ops (api_libs A) ps d1"
  obtain key i e where key: "resolve_idempotency_key h (er_idempotency_key q) = Inr key" "truthy key"
      and i: "generate_api_id A mo ''ev_'' ''evidence'' key (er_producer q) = Inr i"
      and e: "mk_evidence (AsText (er_evidence_type q)) (evidence_args i (the key) (or_now (er_created_at_utc q) mo) q) = Inr e"
      and app: "append_evidence ?L v e d = (Inr y, d1)"
    using post_evidence_Inr [OF assms(4)] by metis
  note ins = append_evidence_inserted [OF assms(1) append_evidence_tx_of [OF app] assms(5)]
  have typed: "typed_opt valid_pydt (er_created_at_utc q)" "typed_opt valid_pydt (er_created_at_utc q')"
    using assms(2,14) by (simp_all add: typed_request_def)
  have val: "valid_evidence y" unfolding ins(1)
    by (rule mk_evidence_valid [OF typed_evidence_args [OF assms(2) or_now_utc [OF typed(1) assms(3)]] e])
  have valf: "valid_evidence f"
    by (rule mk_evidence_valid [OF typed_evidence_args [OF assms(14) or_now_utc [OF typed(2) assms(15)]] assms(16)])
  have ye: "ev_evidence_id y = i" "ev_idempotency_key y = the key" "ev_producer y = er_producer q"
    using e ins(1) by (auto simp: mk_evidence_def construct_ok evidence_after_eq evidence_args_def)
  have fe: "ev_evidence_id f = i" "ev_idempotency_key f = k'" "ev_producer f = er_producer q'"
    using assms(16) ye(1) by (auto simp: mk_evidence_def construct_ok evidence_after_eq evidence_args_def)
  have "generate_api_id A mo' ''ev_'' ''evidence'' (Some k') (er_producer q') = Inr i"
    using i key(2) assms(9-11) ye(2) by (auto simp: generate_api_id_def rbind_eq_Inr api_require_producer_eq truthy_def
        require_producer_for_key_def split: option.splits if_splits)
  moreover have "append_evidence ?L w f ?d = (raise_cer ImmutabilityError, ?d)"
  proof -
    have wf1: "wf_db ?L d1" using db_step_wf [OF append_evidence_step [OF append_evidence_tx_of [OF app]] assms(1)] val ins(1) by simp
    have row1: "select_one [Eq ''evidence_id'' (Text i)] (d1 evidence_t) = Some (evidence_row (evidence_fp ?L y) y)"
      unfolding ins(5) using ins(1,4) ye(1) by (simp add: select_one_new) (simp add: evidence_row_def)
    obtain row where row: "select_one [Eq ''evidence_id'' (Text i)] (?d evidence_t) = Some row"
        "later evidence_t (evidence_row (evidence_fp ?L y) y) row"
      using select_one_later [OF history_grows [OF assms(6) wf1] row1] by auto
    have "col row ''content_fingerprint'' = Text (evidence_fp ?L y)"
      using later_cols [OF row(2), of "''content_fingerprint''"] by (simp add: evidence_row_def)
    moreover have "ev_producer f \<noteq> ev_producer y" using fe(3) ye(3) assms(12) by simp
    then have "content_evidence f \<noteq> content_evidence y"
      by (auto simp: content_evidence_def canon_evidence_def dest: arg_cong [where f = ev_producer])
    then have "evidence_fp ?L f \<noteq> evidence_fp ?L y" using evidence_fp_eq_iff [OF valf val assms(19,20)] by simp
    ultimately show ?thesis using assms(7,17,18) row(1) fe
      by (auto simp: append_evidence_def transaction_healthy append_evidence_tx_def evidence_guard_def rbind_eq_Inr
          try_tx_def raise_cer_def)
  qed
  ultimately show ?thesis using assms(8,9,13,16) ye(1)
    by (simp add: post_evidence_def try_tx_def truthy_def)
qed

theorem colliding_id_is_refused_witness:
  "post_evidence plain_api moment_2 all_up (Some ''k1'') (request_by ''hsa:x'') (exec_ops plain_libs [] (db_posted ''hsa'' ''x:k1'')) =
    (raise_cer ImmutabilityError, exec_ops plain_libs [] (db_posted ''hsa'' ''x:k1''))"
proof -
  let ?f = "posted_by ''hsa:x'' ''k1''"
  have ids: "ev_id_of ''hsa:x'' ''k1'' = ev_id_of ''hsa'' ''x:k1''" by (simp add: ev_id_of_def id_name_def)
  obtain f where f: "mk_evidence (AsText ''BACKTEST'') (evidence_args (ev_id_of ''hsa'' ''x:k1'') ''k1'' (noon\<lparr>hour := 13\<rparr>) (request_by ''hsa:x'')) = Inr f"
      "content_evidence f = content_evidence ?f"
    using mk_evidence_moment [OF posted_mk [OF samples_ok(3)] utc_noon(2)] unfolding ids by blast
  have ff: "ev_run_id f = None" "ev_experiment_id f = None"
    using arg_cong [OF f(2), of ev_run_id] arg_cong [OF f(2), of ev_experiment_id] by (simp_all add: content_evidence_def canon_evidence_def)
  show ?thesis
  proof (rule colliding_id_is_refused [where A = plain_api and d = empty_db and q = "request_by ''hsa''" and mo = moment_1 and v = all_up
      and h = "Some ''x:k1''" and y = "posted_by ''hsa'' ''x:k1''" and k' = "''k1''" and f = f, unfolded plain_api_fields])
    show "post_evidence plain_api moment_1 all_up (Some ''x:k1'') (request_by ''hsa'') empty_db =
        (Inr (posted_by ''hsa'' ''x:k1''), db_posted ''hsa'' ''x:k1'')"
      by (rule post_evidence_by) simp
    show "require_producer_for_key (Some (er_producer (request_by ''hsa:x''))) = Inr (er_producer (request_by ''hsa:x''))"
      using samples_ok(3) by (simp add: sample_names_def api_require_producer_eq)
    show "by_key evidence_t (er_producer (request_by ''hsa:x'')) ''k1'' (exec_ops plain_libs [] (db_posted ''hsa'' ''x:k1'')) = None"
      by (simp add: db_posted_def by_key_def select_one_def) (simp add: evidence_row_def)
  qed (use f(1) ff schema_1_ok in \<open>simp_all add: db_posted_new id_name_def or_now_def evidence_guard_def if_given_def
        header_key [OF samples_ok(3)] wf_db_empty\<close>)
qed

subsection \<open>Readiness\<close>

text \<open>C30 \<open>/ready\<close> tells the truth about the durable backing: it answers 200 only while the database
  file is there with the expected schema and the artifact store has its directories and its marker, it never
  creates them, and on two working stores it does answer 200.\<close>

theorem readiness_is_truthful:
  assumes "readiness (store_health v applied expected) ch w = (r, w')"
  shows "(r = Done (Inr (200, None)) \<longrightarrow> path_exists v \<and> layout (files w) \<and> (\<exists>vs. applied = Some vs \<and> vs \<noteq> [] \<and>
      (\<forall>n. expected = Some n \<longrightarrow> n \<in> set vs))) \<and>
    (\<not> layout (files w) \<longrightarrow> files w' = files w) \<and>
    (script w = [] \<and> tree (files w) \<and> layout (files w) \<and> files w (probe_path ch) = None \<and> short_name (hd (probe_path ch)) \<and>
      store_health v applied expected = Inr () \<longrightarrow> r = Done (Inr (200, None)) \<and> files w' = files w)"
proof (cases "store_health v applied expected")
  case (Inl e)
  then show ?thesis using assms by (auto simp: readiness_def)
next
  case (Inr u)
  obtain s w1 where h: "health ch w = (s, w1)" by fastforce
  have m: "path_exists v" "\<exists>vs. applied = Some vs \<and> vs \<noteq> [] \<and> (\<forall>n. expected = Some n \<longrightarrow> n \<in> set vs)"
    using Inr by (auto simp: store_health_def require_durable_backing_def raise_cer_def split: if_splits option.splits)
  show ?thesis
    using assms Inr m health_cases [OF h] h health_works [of w ch]
    by (auto simp: readiness_def split: ending.splits sum.splits)
qed

theorem readiness_is_truthful_witness:
  "fst (readiness (store_health all_up (Some [1, 2]) (Some 2)) chances_1 store_0) = Done (Inr (200, None))"
proof -
  obtain r w' where r: "readiness (store_health all_up (Some [1, 2]) (Some 2)) chances_1 store_0 = (r, w')" by fastforce
  have "fresh_files (probe_path chances_1) = None"
    by (simp add: fresh_files_def probe_path_def root_dir_def blobs_dir_def index_dir_def marker_path_def chances_1_def)
  moreover have "short_name (hd (probe_path chances_1))"
    by (simp add: probe_path_def chances_1_def short_name_def utf8_length_def)
  ultimately show ?thesis
    using readiness_is_truthful [OF r] r by (simp add: store_0_def store_health_def require_durable_backing_def all_up_def)
qed

end
