(* ===== verification/Schemas.thy ===== *)
theory Schemas
  imports Routes Valid
begin

text \<open>
  The request bodies of \<open>src/cer/api/schemas.py\<close> as readers of a decoded JSON object: which fields a class
  declares, which it requires, the defaults, and \<open>extra="forbid"\<close>. \<open>None\<close> is pydantic's refusal. For a text,
  an enum, a list and a dict pydantic accepts exactly the JSON of that type; its lax conversions to
  datetimes, integers and floats are arguments.
\<close>

record framework =
  dt_of :: "json \<Rightarrow> pydt option"
  int_of :: "json \<Rightarrow> int option"
  float_of :: "json \<Rightarrow> string option"
  json_bytes :: "json \<Rightarrow> string" \<comment> \<open>the bytes of a JSON body\<close>
  wire :: "string \<Rightarrow> string" \<comment> \<open>what the server reads of a header value that a client sets\<close>
  seen :: "string \<Rightarrow> string" \<comment> \<open>the path the server reads for a path that a client sends\<close>
  no_route :: "string \<Rightarrow> string \<Rightarrow> nat" \<comment> \<open>the status for a method and a path no route has\<close>

subsection \<open>Field types\<close>

fun read_str :: "json \<Rightarrow> string option" where
  "read_str (JStr s) = Some s"
| "read_str _ = None"

definition read_opt :: "(json \<Rightarrow> 'a option) \<Rightarrow> json \<Rightarrow> 'a option option" where
  "read_opt r j = (if j = JNull then Some None else map_option Some (r j))"

fun read_all :: "(json \<Rightarrow> 'a option) \<Rightarrow> json list \<Rightarrow> 'a list option" where
  "read_all r [] = Some []"
| "read_all r (j # js) = Option.bind (r j) (\<lambda>x. map_option ((#) x) (read_all r js))"

fun read_list :: "(json \<Rightarrow> 'a option) \<Rightarrow> json \<Rightarrow> 'a list option" where
  "read_list r (JList js) = read_all r js"
| "read_list r _ = None"

fun read_dict :: "(json \<Rightarrow> 'a option) \<Rightarrow> json \<Rightarrow> (string \<times> 'a) list option" where
  "read_dict r (JObj kvs) = map_option (zip (map fst kvs)) (read_all r (map snd kvs))"
| "read_dict r _ = None"

fun read_metrics :: "json \<Rightarrow> (string \<times> json) list option" where
  "read_metrics (JObj kvs) = (if list_all (\<lambda>m. is_metric (snd m)) kvs then Some kvs else None)"
| "read_metrics _ = None"

definition read_container :: "json \<Rightarrow> json option" where
  "read_container j = (if is_container j then Some j else None)"

fun read_enum :: "('a \<Rightarrow> string) \<Rightarrow> 'a list \<Rightarrow> json \<Rightarrow> 'a option" where
  "read_enum val members (JStr s) = (case enum_of val members s of Inl _ \<Rightarrow> None | Inr x \<Rightarrow> Some x)"
| "read_enum val members _ = None"

subsection \<open>Fields of a body\<close>

definition required :: "(string \<times> json) list \<Rightarrow> string \<Rightarrow> (json \<Rightarrow> 'a option) \<Rightarrow> 'a option" where
  "required b name r = Option.bind (map_of b name) r"

definition defaulted :: "(string \<times> json) list \<Rightarrow> string \<Rightarrow> 'a \<Rightarrow> (json \<Rightarrow> 'a option) \<Rightarrow> 'a option" where
  "defaulted b name x r = (case map_of b name of None \<Rightarrow> Some x | Some j \<Rightarrow> r j)"

definition declared_only :: "(string \<times> json) list \<Rightarrow> string list \<Rightarrow> bool" where
  "declared_only b names = list_all (\<lambda>f. fst f \<in> set names) b"

subsection \<open>The classes\<close>

definition parse_strategy_request :: "framework \<Rightarrow> (string \<times> json) list \<Rightarrow> strategy_request option" where
  "parse_strategy_request F b = (if \<not> declared_only b [''strategy_id'', ''name'', ''thesis'', ''created_at''] then None else
     Option.bind (required b ''strategy_id'' read_str) (\<lambda>strategy_id.
     Option.bind (required b ''name'' read_str) (\<lambda>name.
     Option.bind (required b ''thesis'' read_str) (\<lambda>thesis.
     Option.bind (defaulted b ''created_at'' None (read_opt (dt_of F))) (\<lambda>created_at.
       Some \<lparr>sr_strategy_id = strategy_id, sr_name = name, sr_thesis = thesis, sr_created_at = created_at\<rparr>)))))"

definition parse_strategy_version_request :: "framework \<Rightarrow> (string \<times> json) list \<Rightarrow> strategy_version_request option" where
  "parse_strategy_version_request F b = (if \<not> declared_only b [''strategy_version'', ''git_repo'', ''git_commit'', ''created_at'', ''notes''] then None else
     Option.bind (required b ''strategy_version'' read_str) (\<lambda>strategy_version.
     Option.bind (required b ''git_repo'' read_str) (\<lambda>git_repo.
     Option.bind (required b ''git_commit'' read_str) (\<lambda>git_commit.
     Option.bind (defaulted b ''created_at'' None (read_opt (dt_of F))) (\<lambda>created_at.
     Option.bind (defaulted b ''notes'' None (read_opt read_str)) (\<lambda>notes.
       Some \<lparr>vr_strategy_version = strategy_version, vr_git_repo = git_repo, vr_git_commit = git_commit,
         vr_created_at = created_at, vr_notes = notes\<rparr>))))))"

definition parse_experiment_request :: "framework \<Rightarrow> (string \<times> json) list \<Rightarrow> experiment_request option" where
  "parse_experiment_request F b = (if \<not> declared_only b [''objective'', ''producer'', ''strategy_id'', ''strategy_version'', ''created_at'',
       ''idempotency_key''] then None else
     Option.bind (required b ''objective'' read_str) (\<lambda>objective.
     Option.bind (required b ''producer'' read_str) (\<lambda>producer.
     Option.bind (defaulted b ''strategy_id'' None (read_opt read_str)) (\<lambda>strategy_id.
     Option.bind (defaulted b ''strategy_version'' None (read_opt read_str)) (\<lambda>strategy_version.
     Option.bind (defaulted b ''created_at'' None (read_opt (dt_of F))) (\<lambda>created_at.
     Option.bind (defaulted b ''idempotency_key'' None (read_opt read_str)) (\<lambda>idempotency_key.
       Some \<lparr>xr_objective = objective, xr_producer = producer, xr_strategy_id = strategy_id,
         xr_strategy_version = strategy_version, xr_created_at = created_at,
         xr_idempotency_key = idempotency_key\<rparr>)))))))"

definition parse_run_request :: "framework \<Rightarrow> (string \<times> json) list \<Rightarrow> run_request option" where
  "parse_run_request F b = (if \<not> declared_only b [''producer'', ''status'', ''started_at'', ''producer_version'', ''git_repo'', ''git_commit'',
       ''dataset_id'', ''dataset_version'', ''dataset_ref'', ''config_hash'', ''config_ref'',
       ''environment'', ''idempotency_key''] then None else
     Option.bind (required b ''producer'' read_str) (\<lambda>producer.
     Option.bind (defaulted b ''status'' OPEN (read_enum run_status_value run_statuses)) (\<lambda>status.
     Option.bind (defaulted b ''started_at'' None (read_opt (dt_of F))) (\<lambda>started_at.
     Option.bind (defaulted b ''producer_version'' None (read_opt read_str)) (\<lambda>producer_version.
     Option.bind (defaulted b ''git_repo'' None (read_opt read_str)) (\<lambda>git_repo.
     Option.bind (defaulted b ''git_commit'' None (read_opt read_str)) (\<lambda>git_commit.
     Option.bind (defaulted b ''dataset_id'' None (read_opt read_str)) (\<lambda>dataset_id.
     Option.bind (defaulted b ''dataset_version'' None (read_opt read_str)) (\<lambda>dataset_version.
     Option.bind (defaulted b ''dataset_ref'' None (read_opt read_str)) (\<lambda>dataset_ref.
     Option.bind (defaulted b ''config_hash'' None (read_opt read_str)) (\<lambda>config_hash.
     Option.bind (defaulted b ''config_ref'' None (read_opt read_str)) (\<lambda>config_ref.
     Option.bind (defaulted b ''environment'' None (read_opt read_str)) (\<lambda>environment.
     Option.bind (defaulted b ''idempotency_key'' None (read_opt read_str)) (\<lambda>idempotency_key.
       Some \<lparr>rr_producer = producer, rr_status = status, rr_started_at = started_at,
         rr_producer_version = producer_version, rr_git_repo = git_repo, rr_git_commit = git_commit,
         rr_dataset_id = dataset_id, rr_dataset_version = dataset_version, rr_dataset_ref = dataset_ref,
         rr_config_hash = config_hash, rr_config_ref = config_ref, rr_environment = environment,
         rr_idempotency_key = idempotency_key\<rparr>))))))))))))))"

definition parse_run_close_request :: "framework \<Rightarrow> (string \<times> json) list \<Rightarrow> run_close_request option" where
  "parse_run_close_request F b = (if \<not> declared_only b [''status'', ''ended_at''] then None else
     Option.bind (defaulted b ''status'' CLOSED (read_enum run_status_value run_statuses)) (\<lambda>status.
     Option.bind (defaulted b ''ended_at'' None (read_opt (dt_of F))) (\<lambda>ended_at.
       Some \<lparr>cr_status = status, cr_ended_at = ended_at\<rparr>)))"

definition parse_evidence_request :: "framework \<Rightarrow> (string \<times> json) list \<Rightarrow> evidence_request option" where
  "parse_evidence_request F b = (if \<not> declared_only b [''evidence_type'', ''schema_version'', ''producer'', ''idempotency_key'', ''strategy_id'',
       ''strategy_version'', ''experiment_id'', ''run_id'', ''producer_version'', ''created_at_utc'',
       ''observed_at_utc'', ''git_repo'', ''git_commit'', ''dataset_id'', ''dataset_version'',
       ''dataset_ref'', ''config_hash'', ''config_ref'', ''environment'', ''instruments'', ''timeframes'',
       ''metrics'', ''verdict'', ''status'', ''regime_tags'', ''parent_evidence_ids'', ''parent_run_ids'',
       ''artifact_ids'', ''notes''] then None else
     Option.bind (required b ''evidence_type'' read_str) (\<lambda>evidence_type.
     Option.bind (required b ''schema_version'' (int_of F)) (\<lambda>schema_version.
     Option.bind (required b ''producer'' read_str) (\<lambda>producer.
     Option.bind (defaulted b ''idempotency_key'' None (read_opt read_str)) (\<lambda>idempotency_key.
     Option.bind (defaulted b ''strategy_id'' None (read_opt read_str)) (\<lambda>strategy_id.
     Option.bind (defaulted b ''strategy_version'' None (read_opt read_str)) (\<lambda>strategy_version.
     Option.bind (defaulted b ''experiment_id'' None (read_opt read_str)) (\<lambda>experiment_id.
     Option.bind (defaulted b ''run_id'' None (read_opt read_str)) (\<lambda>run_id.
     Option.bind (defaulted b ''producer_version'' None (read_opt read_str)) (\<lambda>producer_version.
     Option.bind (defaulted b ''created_at_utc'' None (read_opt (dt_of F))) (\<lambda>created_at_utc.
     Option.bind (defaulted b ''observed_at_utc'' None (read_opt (dt_of F))) (\<lambda>observed_at_utc.
     Option.bind (defaulted b ''git_repo'' None (read_opt read_str)) (\<lambda>git_repo.
     Option.bind (defaulted b ''git_commit'' None (read_opt read_str)) (\<lambda>git_commit.
     Option.bind (defaulted b ''dataset_id'' None (read_opt read_str)) (\<lambda>dataset_id.
     Option.bind (defaulted b ''dataset_version'' None (read_opt read_str)) (\<lambda>dataset_version.
     Option.bind (defaulted b ''dataset_ref'' None (read_opt read_str)) (\<lambda>dataset_ref.
     Option.bind (defaulted b ''config_hash'' None (read_opt read_str)) (\<lambda>config_hash.
     Option.bind (defaulted b ''config_ref'' None (read_opt read_str)) (\<lambda>config_ref.
     Option.bind (defaulted b ''environment'' None (read_opt read_str)) (\<lambda>environment.
     Option.bind (defaulted b ''instruments'' [] (read_list read_str)) (\<lambda>instruments.
     Option.bind (defaulted b ''timeframes'' [] (read_list read_str)) (\<lambda>timeframes.
     Option.bind (defaulted b ''metrics'' [] read_metrics) (\<lambda>metrics.
     Option.bind (defaulted b ''verdict'' None (read_opt read_str)) (\<lambda>verdict.
     Option.bind (defaulted b ''status'' None (read_opt read_str)) (\<lambda>status.
     Option.bind (defaulted b ''regime_tags'' [] (read_list read_str)) (\<lambda>regime_tags.
     Option.bind (defaulted b ''parent_evidence_ids'' [] (read_list read_str)) (\<lambda>parent_evidence_ids.
     Option.bind (defaulted b ''parent_run_ids'' [] (read_list read_str)) (\<lambda>parent_run_ids.
     Option.bind (defaulted b ''artifact_ids'' [] (read_list read_str)) (\<lambda>artifact_ids.
     Option.bind (defaulted b ''notes'' (JObj []) read_container) (\<lambda>notes.
       Some \<lparr>er_evidence_type = evidence_type, er_schema_version = schema_version, er_producer = producer,
         er_idempotency_key = idempotency_key, er_strategy_id = strategy_id, er_strategy_version = strategy_version,
         er_experiment_id = experiment_id, er_run_id = run_id, er_producer_version = producer_version,
         er_created_at_utc = created_at_utc, er_observed_at_utc = observed_at_utc, er_git_repo = git_repo,
         er_git_commit = git_commit, er_dataset_id = dataset_id, er_dataset_version = dataset_version,
         er_dataset_ref = dataset_ref, er_config_hash = config_hash, er_config_ref = config_ref,
         er_environment = environment, er_instruments = instruments, er_timeframes = timeframes, er_metrics = metrics,
         er_verdict = verdict, er_status = status, er_regime_tags = regime_tags,
         er_parent_evidence_ids = parent_evidence_ids, er_parent_run_ids = parent_run_ids,
         er_artifact_ids = artifact_ids, er_notes = notes\<rparr>))))))))))))))))))))))))))))))"

definition parse_attach_request :: "framework \<Rightarrow> (string \<times> json) list \<Rightarrow> attach_request option" where
  "parse_attach_request F b = (if \<not> declared_only b [''evidence_id'', ''run_id''] then None else
     Option.bind (defaulted b ''evidence_id'' None (read_opt read_str)) (\<lambda>evidence_id.
     Option.bind (defaulted b ''run_id'' None (read_opt read_str)) (\<lambda>run_id.
       Some \<lparr>tr_evidence_id = evidence_id, tr_run_id = run_id\<rparr>)))"

definition parse_promotion_request :: "framework \<Rightarrow> (string \<times> json) list \<Rightarrow> promotion_request option" where
  "parse_promotion_request F b = (if \<not> declared_only b [''strategy_id'', ''strategy_version'', ''from_state'', ''to_state'', ''at_utc'', ''authority'',
       ''producer'', ''evidence_ids'', ''reason'', ''idempotency_key''] then None else
     Option.bind (required b ''strategy_id'' read_str) (\<lambda>strategy_id.
     Option.bind (required b ''strategy_version'' read_str) (\<lambda>strategy_version.
     Option.bind (required b ''from_state'' (read_enum promotion_state_value promotion_states)) (\<lambda>from_state.
     Option.bind (required b ''to_state'' (read_enum promotion_state_value promotion_states)) (\<lambda>to_state.
     Option.bind (defaulted b ''at_utc'' None (read_opt (dt_of F))) (\<lambda>at_utc.
     Option.bind (required b ''authority'' read_str) (\<lambda>authority.
     Option.bind (required b ''producer'' read_str) (\<lambda>producer.
     Option.bind (required b ''evidence_ids'' (read_list read_str)) (\<lambda>evidence_ids.
     Option.bind (required b ''reason'' read_str) (\<lambda>reason.
     Option.bind (defaulted b ''idempotency_key'' None (read_opt read_str)) (\<lambda>idempotency_key.
       Some \<lparr>pr_strategy_id = strategy_id, pr_strategy_version = strategy_version, pr_from_state = from_state,
         pr_to_state = to_state, pr_at_utc = at_utc, pr_authority = authority, pr_producer = producer,
         pr_evidence_ids = evidence_ids, pr_reason = reason, pr_idempotency_key = idempotency_key\<rparr>)))))))))))"

definition parse_health_request :: "framework \<Rightarrow> (string \<times> json) list \<Rightarrow> health_request option" where
  "parse_health_request F b = (if \<not> declared_only b [''strategy_id'', ''strategy_version'', ''health_state'', ''observed_at_utc'', ''producer'',
       ''observed_trigger_rate'', ''regime_conditioned_expected_trigger_rate'', ''expectancy_r'',
       ''win_rate'', ''drawdown'', ''mae'', ''mfe'', ''holding_time'', ''execution_slippage_quality'',
       ''regime_distribution'', ''strategy_chain_strength_distribution'', ''baseline_comparison'',
       ''confidence'', ''reason'', ''evidence_ids'', ''idempotency_key''] then None else
     Option.bind (required b ''strategy_id'' read_str) (\<lambda>strategy_id.
     Option.bind (required b ''strategy_version'' read_str) (\<lambda>strategy_version.
     Option.bind (required b ''health_state'' (read_enum health_state_value health_states)) (\<lambda>health_state.
     Option.bind (defaulted b ''observed_at_utc'' None (read_opt (dt_of F))) (\<lambda>observed_at_utc.
     Option.bind (required b ''producer'' read_str) (\<lambda>producer.
     Option.bind (defaulted b ''observed_trigger_rate'' None (read_opt (float_of F))) (\<lambda>observed_trigger_rate.
     Option.bind (defaulted b ''regime_conditioned_expected_trigger_rate'' None (read_opt (float_of F))) (\<lambda>regime_conditioned_expected_trigger_rate.
     Option.bind (defaulted b ''expectancy_r'' None (read_opt (float_of F))) (\<lambda>expectancy_r.
     Option.bind (defaulted b ''win_rate'' None (read_opt (float_of F))) (\<lambda>win_rate.
     Option.bind (defaulted b ''drawdown'' None (read_opt (float_of F))) (\<lambda>drawdown.
     Option.bind (defaulted b ''mae'' None (read_opt (float_of F))) (\<lambda>mae.
     Option.bind (defaulted b ''mfe'' None (read_opt (float_of F))) (\<lambda>mfe.
     Option.bind (defaulted b ''holding_time'' None (read_opt (float_of F))) (\<lambda>holding_time.
     Option.bind (defaulted b ''execution_slippage_quality'' None (read_opt (float_of F))) (\<lambda>execution_slippage_quality.
     Option.bind (defaulted b ''regime_distribution'' None (read_opt (read_dict (float_of F)))) (\<lambda>regime_distribution.
     Option.bind (defaulted b ''strategy_chain_strength_distribution'' None (read_opt (read_dict (float_of F)))) (\<lambda>strategy_chain_strength_distribution.
     Option.bind (defaulted b ''baseline_comparison'' None (read_opt (read_dict Some))) (\<lambda>baseline_comparison.
     Option.bind (defaulted b ''confidence'' None (read_opt (float_of F))) (\<lambda>confidence.
     Option.bind (required b ''reason'' read_str) (\<lambda>reason.
     Option.bind (required b ''evidence_ids'' (read_list read_str)) (\<lambda>evidence_ids.
     Option.bind (defaulted b ''idempotency_key'' None (read_opt read_str)) (\<lambda>idempotency_key.
       Some \<lparr>hq_strategy_id = strategy_id, hq_strategy_version = strategy_version, hq_health_state = health_state,
         hq_observed_at_utc = observed_at_utc, hq_producer = producer,
         hq_observed_trigger_rate = observed_trigger_rate,
         hq_regime_conditioned_expected_trigger_rate = regime_conditioned_expected_trigger_rate,
         hq_expectancy_r = expectancy_r, hq_win_rate = win_rate, hq_drawdown = drawdown, hq_mae = mae, hq_mfe = mfe,
         hq_holding_time = holding_time, hq_execution_slippage_quality = execution_slippage_quality,
         hq_regime_distribution = regime_distribution,
         hq_strategy_chain_strength_distribution = strategy_chain_strength_distribution,
         hq_baseline_comparison = baseline_comparison, hq_confidence = confidence, hq_reason = reason,
         hq_evidence_ids = evidence_ids, hq_idempotency_key = idempotency_key\<rparr>))))))))))))))))))))))"

end
