(* ===== verification/Server.thy ===== *)
theory Server
  imports Schemas
begin

text \<open>
  The application as a whole: the routing table of \<open>src/cer/api/routes.py\<close> and \<open>app.py\<close>
  (\<open>create_app\<close>, \<open>build_router\<close>), what each route reads of a request (path, query, headers, body),
  the contract-version dependency, and the handler it runs. A header name is written the way both
  sides write it; what FastAPI does with a header value and with a path it has no route for are
  arguments.
\<close>

subsection \<open>Requests\<close>

datatype body = NoBody | Json json | Raw bytes

record request =
  rq_method :: string
  rq_path :: string
  rq_params :: "(string \<times> string) list"
  rq_headers :: "(string \<times> string) list"
  rq_body :: body

definition CONTRACT_VERSION_HEADER :: string where "CONTRACT_VERSION_HEADER = ''X-CER-Contract-Version''"
definition IDEMPOTENCY_KEY_HEADER :: string where "IDEMPOTENCY_KEY_HEADER = ''Idempotency-Key''"
definition ARTIFACT_FILENAME_HEADER :: string where "ARTIFACT_FILENAME_HEADER = ''X-CER-Filename''"
definition ARTIFACT_SHA256_HEADER :: string where "ARTIFACT_SHA256_HEADER = ''X-CER-Declared-Sha256''"
definition ARTIFACT_RUN_ID_HEADER :: string where "ARTIFACT_RUN_ID_HEADER = ''X-CER-Run-Id''"
definition ARTIFACT_EVIDENCE_ID_HEADER :: string where "ARTIFACT_EVIDENCE_ID_HEADER = ''X-CER-Evidence-Id''"
definition ARTIFACT_PRODUCER_HEADER :: string where "ARTIFACT_PRODUCER_HEADER = ''X-CER-Producer''"
definition ARTIFACT_CONTENT_TYPE_HEADER :: string where "ARTIFACT_CONTENT_TYPE_HEADER = ''X-CER-Content-Type''"
definition CONTENT_TYPE_HEADER :: string where "CONTENT_TYPE_HEADER = ''Content-Type''"

lemmas header_names = CONTRACT_VERSION_HEADER_def IDEMPOTENCY_KEY_HEADER_def ARTIFACT_FILENAME_HEADER_def
  ARTIFACT_SHA256_HEADER_def ARTIFACT_RUN_ID_HEADER_def ARTIFACT_EVIDENCE_ID_HEADER_def ARTIFACT_PRODUCER_HEADER_def
  ARTIFACT_CONTENT_TYPE_HEADER_def CONTENT_TYPE_HEADER_def

definition header :: "framework \<Rightarrow> request \<Rightarrow> string \<Rightarrow> string option" where
  "header F q name = map_option (wire F) (map_of (rq_headers q) name)"

definition param :: "request \<Rightarrow> string \<Rightarrow> string option" where
  "param q name = map_of (rq_params q) name"

subsection \<open>The routing table\<close>

datatype endpoint =
    GetLiveness | GetReadiness | GetVersion
  | PostStrategy | PostStrategyVersion | PostExperiment | PostRun | PostRunClose
  | PostEvidence | GetEvidence | GetEvidenceList
  | PostArtifact | GetArtifact | GetDownload | GetArtifactList | PostAttach
  | PostPromotion | GetPromotions | PostHealthRecord | GetHealthRecords

datatype segment = Lit string | Param

definition routes :: "(string \<times> segment list \<times> endpoint) list" where
  "routes =
    [(''GET'', [Lit ''health''], GetLiveness),
     (''GET'', [Lit ''ready''], GetReadiness),
     (''GET'', [Lit ''v1'', Lit ''version''], GetVersion),
     (''POST'', [Lit ''v1'', Lit ''strategies''], PostStrategy),
     (''POST'', [Lit ''v1'', Lit ''strategies'', Param, Lit ''versions''], PostStrategyVersion),
     (''POST'', [Lit ''v1'', Lit ''experiments''], PostExperiment),
     (''POST'', [Lit ''v1'', Lit ''experiments'', Param, Lit ''runs''], PostRun),
     (''POST'', [Lit ''v1'', Lit ''runs'', Param, Lit ''close''], PostRunClose),
     (''POST'', [Lit ''v1'', Lit ''evidence''], PostEvidence),
     (''GET'', [Lit ''v1'', Lit ''evidence'', Param], GetEvidence),
     (''GET'', [Lit ''v1'', Lit ''evidence''], GetEvidenceList),
     (''POST'', [Lit ''v1'', Lit ''artifacts''], PostArtifact),
     (''GET'', [Lit ''v1'', Lit ''artifacts'', Param], GetArtifact),
     (''GET'', [Lit ''v1'', Lit ''artifacts'', Param, Lit ''download''], GetDownload),
     (''GET'', [Lit ''v1'', Lit ''artifacts''], GetArtifactList),
     (''POST'', [Lit ''v1'', Lit ''artifacts'', Param, Lit ''attach''], PostAttach),
     (''POST'', [Lit ''v1'', Lit ''promotions''], PostPromotion),
     (''GET'', [Lit ''v1'', Lit ''promotions''], GetPromotions),
     (''POST'', [Lit ''v1'', Lit ''health-records''], PostHealthRecord),
     (''GET'', [Lit ''v1'', Lit ''health-records''], GetHealthRecords)]"

text \<open>A parameter \<open>{id}\<close> of a template is one segment: not empty, without a slash.\<close>

fun fits :: "segment list \<Rightarrow> string list \<Rightarrow> bool" where
  "fits [] ss = (ss = [])"
| "fits (t # ts) [] = False"
| "fits (t # ts) (s # ss) = ((case t of Lit l \<Rightarrow> s = l | Param \<Rightarrow> s \<noteq> []) \<and> fits ts ss)"

fun captured :: "segment list \<Rightarrow> string list \<Rightarrow> string" where
  "captured (Lit l # ts) (s # ss) = captured ts ss"
| "captured (Param # ts) (s # ss) = s"
| "captured _ _ = []"

definition find_route :: "string \<Rightarrow> string \<Rightarrow> (endpoint \<times> string) option" where
  "find_route method path = (case split_on (CHR ''/'') path of
     [] # segments \<Rightarrow> map_option (\<lambda>(m, t, e). (e, captured t segments))
       (List.find (\<lambda>(m, t, e). m = method \<and> fits t segments) routes)
   | _ \<Rightarrow> None)"

definition gated_endpoint :: "endpoint \<Rightarrow> bool" where
  "gated_endpoint e = (e \<notin> {GetLiveness, GetReadiness, GetVersion})"

subsection \<open>Handlers on the application's state\<close>

datatype answer =
    AStrategy strategy | AStrategyVersion strategy_version | AExperiment experiment_record | ARun run
  | AEvidence evidence | AEvidenceList "evidence list"
  | AArtifact artifact | AArtifactList "artifact list" | ADownload download
  | APromotion promotion | APromotionList "promotion list"
  | AHealth health | AHealthList "health list"
  | AVersion "string \<times> int \<times> int list" | ALive string | AReady nat "dependency option"

type_synonym handled = "answer ending \<times> app"

definition on_db :: "('a \<Rightarrow> answer) \<Rightarrow> (db \<Rightarrow> 'a outcome) \<Rightarrow> app \<Rightarrow> handled" where
  "on_db f h = (\<lambda>(d, w). let (r, d') = h d in (Done (map_sum id f r), (d', w)))"

definition on_db_read :: "('a \<Rightarrow> answer) \<Rightarrow> (db \<Rightarrow> exn + 'a) \<Rightarrow> app \<Rightarrow> handled" where
  "on_db_read f h = (\<lambda>(d, w). (Done (map_sum id f (h d)), (d, w)))"

definition on_disk :: "('a \<Rightarrow> answer) \<Rightarrow> 'a io \<Rightarrow> app \<Rightarrow> handled" where
  "on_disk f h = (\<lambda>(d, w). let (r, w') = h w in (map_ending f r, (d, w')))"

definition on_both :: "('a \<Rightarrow> answer) \<Rightarrow> (app \<Rightarrow> 'a ending \<times> app) \<Rightarrow> app \<Rightarrow> handled" where
  "on_both f h s = apfst (map_ending f) (h s)"

definition refused :: "exn \<Rightarrow> app \<Rightarrow> handled" where
  "refused e s = (Done (Inl e), s)"

subsection \<open>Reading a request\<close>

definition with_body ::
    "((string \<times> json) list \<Rightarrow> 'q option) \<Rightarrow> request \<Rightarrow> ('q \<Rightarrow> app \<Rightarrow> handled) \<Rightarrow> app \<Rightarrow> handled" where
  "with_body parse q k = (case rq_body q of
     Json (JObj b) \<Rightarrow> (case parse b of Some x \<Rightarrow> k x | None \<Rightarrow> refused RequestValidationError)
   | _ \<Rightarrow> refused RequestValidationError)"

text \<open>A declared query parameter that is no text.\<close>

definition read_param :: "request \<Rightarrow> string \<Rightarrow> (json \<Rightarrow> 'a option) \<Rightarrow> exn + 'a option" where
  "read_param q name r = (case param q name of
     None \<Rightarrow> Inr None
   | Some s \<Rightarrow> (case r (JStr s) of None \<Rightarrow> Inl RequestValidationError | Some x \<Rightarrow> Inr (Some x)))"

definition read_page :: "framework \<Rightarrow> request \<Rightarrow> (int option \<Rightarrow> int option \<Rightarrow> exn + 'a) \<Rightarrow> exn + 'a" where
  "read_page F q k =
     rbind (read_param q ''limit'' (int_of F)) (\<lambda>limit. rbind (read_param q ''offset'' (int_of F)) (\<lambda>offset. k limit offset))"

definition read_evidence_filter :: "framework \<Rightarrow> request \<Rightarrow> exn + evidence_filter" where
  "read_evidence_filter F q =
     rbind (read_param q ''evidence_type'' (read_enum evidence_type_value evidence_types)) (\<lambda>ty.
     rbind (read_param q ''since'' (dt_of F)) (\<lambda>since.
     rbind (read_param q ''until'' (dt_of F)) (\<lambda>until.
       Inr \<lparr>f_strategy_id = param q ''strategy_id'', f_strategy_version = param q ''strategy_version'',
         f_run_id = param q ''run_id'', f_experiment_id = param q ''experiment_id'', f_evidence_type = ty,
         f_since = since, f_until = until\<rparr>)))"

definition body_bytes :: "framework \<Rightarrow> body \<Rightarrow> bytes" where
  "body_bytes F b = (case b of NoBody \<Rightarrow> [] | Json j \<Rightarrow> json_bytes F j | Raw bs \<Rightarrow> bs)"

definition read_artifact_request :: "framework \<Rightarrow> request \<Rightarrow> artifact_request" where
  "read_artifact_request F q =
     \<lparr>aq_body = body_bytes F (rq_body q), aq_content_type = header F q CONTENT_TYPE_HEADER,
      aq_filename = header F q ARTIFACT_FILENAME_HEADER, aq_declared_sha256 = header F q ARTIFACT_SHA256_HEADER,
      aq_run_id = header F q ARTIFACT_RUN_ID_HEADER, aq_evidence_id = header F q ARTIFACT_EVIDENCE_ID_HEADER,
      aq_producer = header F q ARTIFACT_PRODUCER_HEADER, aq_idempotency_key = header F q IDEMPOTENCY_KEY_HEADER,
      aq_content_type_declared = header F q ARTIFACT_CONTENT_TYPE_HEADER\<rparr>"

subsection \<open>One request\<close>

text \<open>What the environment does while a request is served; \<open>probe\<close> is the outcome of the metadata
  store's \<open>health()\<close>.\<close>

record turn =
  at :: moment
  meta :: env
  meta_find :: env
  disk :: chances
  probe :: "exn + unit"

fun dispatch :: "framework \<Rightarrow> api_cfg \<Rightarrow> turn \<Rightarrow> endpoint \<Rightarrow> string \<Rightarrow> request \<Rightarrow> app \<Rightarrow> handled" where
  "dispatch F A t GetLiveness i q = (\<lambda>s. (Done (Inr (ALive liveness)), s))"
| "dispatch F A t GetReadiness i q = on_disk (\<lambda>(status, dep). AReady status dep) (readiness (probe t) (disk t))"
| "dispatch F A t GetVersion i q = (\<lambda>s. (Done (Inr (AVersion get_version)), s))"
| "dispatch F A t PostStrategy i q = with_body (parse_strategy_request F) q (\<lambda>b.
     on_db AStrategy (post_strategy A (at t) (meta t) b))"
| "dispatch F A t PostStrategyVersion i q = with_body (parse_strategy_version_request F) q (\<lambda>b.
     on_db AStrategyVersion (post_strategy_version A (at t) (meta t) i b))"
| "dispatch F A t PostExperiment i q = with_body (parse_experiment_request F) q (\<lambda>b.
     on_db AExperiment (post_experiment A (at t) (meta t) (header F q IDEMPOTENCY_KEY_HEADER) b))"
| "dispatch F A t PostRun i q = with_body (parse_run_request F) q (\<lambda>b.
     on_db ARun (post_run A (at t) (meta t) i (header F q IDEMPOTENCY_KEY_HEADER) b))"
| "dispatch F A t PostRunClose i q = with_body (parse_run_close_request F) q (\<lambda>b.
     on_db ARun (post_run_close (at t) (meta t) i b))"
| "dispatch F A t PostEvidence i q = with_body (parse_evidence_request F) q (\<lambda>b.
     on_db AEvidence (post_evidence A (at t) (meta t) (header F q IDEMPOTENCY_KEY_HEADER) b))"
| "dispatch F A t GetEvidence i q = on_db_read AEvidence (get_evidence (meta t) i)"
| "dispatch F A t GetEvidenceList i q = on_db_read AEvidenceList (\<lambda>d.
     rbind (read_evidence_filter F q) (\<lambda>f. read_page F q (\<lambda>l n. get_evidence_list (meta t) f l n d)))"
| "dispatch F A t PostArtifact i q = on_both AArtifact
     (post_artifact A (disk t) (meta_find t) (meta t) (read_artifact_request F q))"
| "dispatch F A t GetArtifact i q = on_db_read AArtifact (get_artifact_metadata (meta t) i)"
| "dispatch F A t GetDownload i q = on_disk ADownload (download_artifact A i)"
| "dispatch F A t GetArtifactList i q = on_db_read AArtifactList (\<lambda>d.
     read_page F q (\<lambda>l n. get_artifact_list (meta t) (param q ''evidence_id'') (param q ''run_id'') l n d))"
| "dispatch F A t PostAttach i q = with_body (parse_attach_request F) q (\<lambda>b.
     on_db AArtifact (post_attach (meta t) i b))"
| "dispatch F A t PostPromotion i q = with_body (parse_promotion_request F) q (\<lambda>b.
     on_db APromotion (post_promotion A (at t) (meta t) (header F q IDEMPOTENCY_KEY_HEADER) b))"
| "dispatch F A t GetPromotions i q = on_db_read APromotionList (\<lambda>d.
     read_page F q (\<lambda>l n. get_promotions (meta t) (param q ''strategy_id'') (param q ''strategy_version'') l n d))"
| "dispatch F A t PostHealthRecord i q = with_body (parse_health_request F) q (\<lambda>b.
     on_db AHealth (post_health_record A (at t) (meta t) (header F q IDEMPOTENCY_KEY_HEADER) b))"
| "dispatch F A t GetHealthRecords i q = on_db_read AHealthList (\<lambda>d.
     read_page F q (\<lambda>l n. get_health_records (meta t) (param q ''strategy_id'') (param q ''strategy_version'') l n d))"

text \<open>The router-level dependency of the gated routes runs before the handler.\<close>

definition gate :: "framework \<Rightarrow> endpoint \<Rightarrow> request \<Rightarrow> exn + unit" where
  "gate F e q = (if gated_endpoint e
     then rbind (require_contract_version (header F q CONTRACT_VERSION_HEADER)) (\<lambda>_. Inr ()) else Inr ())"

text \<open>What comes back; \<open>Gone\<close> is no response, the process died.\<close>

datatype reply = Answer answer | Fault exn | NoRoute nat | Gone

fun reply_of :: "answer ending \<Rightarrow> reply" where
  "reply_of (Done (Inl e)) = Fault e"
| "reply_of (Done (Inr a)) = Answer a"
| "reply_of Crash = Gone"

text \<open>One request from its path to its reply. Its body has been decoded: a text that claims to be JSON and is not never
  gets here, FastAPI refuses it (422) before any dependency, the gate included.\<close>

definition serve :: "framework \<Rightarrow> api_cfg \<Rightarrow> turn \<Rightarrow> request \<Rightarrow> app \<Rightarrow> reply \<times> app" where
  "serve F A t q s = (case find_route (rq_method q) (rq_path q) of
     None \<Rightarrow> (NoRoute (no_route F (rq_method q) (rq_path q)), s)
   | Some (e, i) \<Rightarrow> (case gate F e q of
       Inl x \<Rightarrow> (Fault x, s)
     | Inr _ \<Rightarrow> apfst reply_of (dispatch F A t e i q s)))"

end
