(* ===== verification/Client.thy ===== *)
theory Client
  imports Server HttpErrors
begin

text \<open>
  \<open>CERClient\<close> (\<open>src/cer/client.py\<close>): the HTTP request each method sends, and what it makes of the
  response. Keyword arguments that a method passes on under the names of a request body are given as the
  record of that body. A \<open>**\<close> argument is the dict of its values. The text httpx makes of a query value is
  the value here.
\<close>

subsection \<open>JSON values of arguments\<close>

definition or_null :: "('a \<Rightarrow> json) \<Rightarrow> 'a option \<Rightarrow> json" where
  "or_null f v = (case v of None \<Rightarrow> JNull | Some x \<Rightarrow> f x)"

abbreviation text_or_null :: "string option \<Rightarrow> json" where
  "text_or_null \<equiv> or_null JStr"

definition texts :: "string list \<Rightarrow> json" where
  "texts xs = JList (map JStr xs)"

text \<open>\<open>if t is not None: body[name] = t.isoformat()\<close>\<close>

definition time_if_given :: "string \<Rightarrow> pydt option \<Rightarrow> (string \<times> json) list" where
  "time_if_given name v = (case v of None \<Rightarrow> [] | Some t \<Rightarrow> [(name, JStr (isoformat t))])"

definition header_if_given :: "string \<Rightarrow> string option \<Rightarrow> (string \<times> string) list" where
  "header_if_given name v = (if truthy v then [(name, the v)] else [])"

subsection \<open>Requests\<close>

text \<open>\<open>cv\<close> is the contract version the client was built with.\<close>

definition client_headers :: "string \<Rightarrow> string option \<Rightarrow> (string \<times> string) list" where
  "client_headers cv key = (CONTRACT_VERSION_HEADER, cv) # header_if_given IDEMPOTENCY_KEY_HEADER key"

definition send_get :: "string \<Rightarrow> string \<Rightarrow> (string \<times> string) list \<Rightarrow> request" where
  "send_get cv path params =
     \<lparr>rq_method = ''GET'', rq_path = path, rq_params = params, rq_headers = client_headers cv None, rq_body = NoBody\<rparr>"

definition send_plain :: "string \<Rightarrow> request" where
  "send_plain path = \<lparr>rq_method = ''GET'', rq_path = path, rq_params = [], rq_headers = [], rq_body = NoBody\<rparr>"

definition send_json :: "string \<Rightarrow> string option \<Rightarrow> string \<Rightarrow> (string \<times> json) list \<Rightarrow> request" where
  "send_json cv key path b =
     \<lparr>rq_method = ''POST'', rq_path = path, rq_params = [], rq_headers = client_headers cv key, rq_body = Json (JObj b)\<rparr>"

subsection \<open>The methods\<close>

definition client_get_version :: request where
  "client_get_version = send_plain ''/v1/version''"

definition client_health :: request where
  "client_health = send_plain ''/health''"

definition client_ready :: request where
  "client_ready = send_plain ''/ready''"

definition client_register_strategy :: "string \<Rightarrow> strategy_request \<Rightarrow> request" where
  "client_register_strategy cv q = send_json cv None ''/v1/strategies''
     ([(''strategy_id'', JStr (sr_strategy_id q)), (''name'', JStr (sr_name q)), (''thesis'', JStr (sr_thesis q))] @
      time_if_given ''created_at'' (sr_created_at q))"

definition client_register_strategy_version :: "string \<Rightarrow> string \<Rightarrow> strategy_version_request \<Rightarrow> request" where
  "client_register_strategy_version cv strategy_id q = send_json cv None (''/v1/strategies/'' @ strategy_id @ ''/versions'')
     ([(''strategy_version'', JStr (vr_strategy_version q)), (''git_repo'', JStr (vr_git_repo q)),
       (''git_commit'', JStr (vr_git_commit q)), (''notes'', text_or_null (vr_notes q))] @
      time_if_given ''created_at'' (vr_created_at q))"

definition client_create_experiment :: "string \<Rightarrow> experiment_request \<Rightarrow> request" where
  "client_create_experiment cv q = send_json cv (xr_idempotency_key q) ''/v1/experiments''
     ([(''objective'', JStr (xr_objective q)), (''producer'', JStr (xr_producer q)),
       (''strategy_id'', text_or_null (xr_strategy_id q)), (''strategy_version'', text_or_null (xr_strategy_version q))] @
      time_if_given ''created_at'' (xr_created_at q))"

definition client_create_run :: "string \<Rightarrow> string \<Rightarrow> run_request \<Rightarrow> request" where
  "client_create_run cv experiment_id q = send_json cv (rr_idempotency_key q) (''/v1/experiments/'' @ experiment_id @ ''/runs'')
     ([(''producer'', JStr (rr_producer q)), (''status'', JStr (run_status_value (rr_status q))),
      (''producer_version'', text_or_null (rr_producer_version q)), (''git_repo'', text_or_null (rr_git_repo
      q)), (''git_commit'', text_or_null (rr_git_commit q)), (''dataset_id'', text_or_null (rr_dataset_id q)),
      (''dataset_version'', text_or_null (rr_dataset_version q)),
      (''dataset_ref'', text_or_null (rr_dataset_ref q)), (''config_hash'', text_or_null (rr_config_hash q)),
      (''config_ref'', text_or_null (rr_config_ref q)), (''environment'', text_or_null (rr_environment q))] @
      time_if_given ''started_at'' (rr_started_at q))"

definition client_close_run :: "string \<Rightarrow> string \<Rightarrow> run_close_request \<Rightarrow> request" where
  "client_close_run cv run_id q = send_json cv None (''/v1/runs/'' @ run_id @ ''/close'')
     ([(''status'', JStr (run_status_value (cr_status q)))] @ time_if_given ''ended_at'' (cr_ended_at q))"

definition client_append_evidence ::
    "string \<Rightarrow> string \<Rightarrow> int \<Rightarrow> string \<Rightarrow> string \<Rightarrow> (string \<times> json) list \<Rightarrow> request" where
  "client_append_evidence cv evidence_type schema_version producer key others = send_json cv (Some key) ''/v1/evidence''
     ([(''evidence_type'', JStr evidence_type), (''schema_version'', JInt schema_version),
       (''producer'', JStr producer), (''idempotency_key'', JStr key)] @ others)"

definition client_get_evidence :: "string \<Rightarrow> string \<Rightarrow> request" where
  "client_get_evidence cv evidence_id = send_get cv (''/v1/evidence/'' @ evidence_id) []"

definition client_query_evidence :: "string \<Rightarrow> (string \<times> string) list \<Rightarrow> request" where
  "client_query_evidence cv filters = send_get cv ''/v1/evidence'' filters"

definition client_register_artifact ::
    "string \<Rightarrow> bytes \<Rightarrow> string \<Rightarrow> string \<Rightarrow> string option \<Rightarrow> string option \<Rightarrow> string option \<Rightarrow> string option \<Rightarrow>
     string option \<Rightarrow> request" where
  "client_register_artifact cv data filename content_type declared_sha256 run_id evidence_id producer key =
     \<lparr>rq_method = ''POST'', rq_path = ''/v1/artifacts'', rq_params = [],
      rq_headers = client_headers cv key @
        [(CONTENT_TYPE_HEADER, content_type), (ARTIFACT_FILENAME_HEADER, filename)] @
        header_if_given ARTIFACT_SHA256_HEADER declared_sha256 @
        header_if_given ARTIFACT_RUN_ID_HEADER run_id @
        header_if_given ARTIFACT_EVIDENCE_ID_HEADER evidence_id @
        header_if_given ARTIFACT_PRODUCER_HEADER producer,
      rq_body = Raw data\<rparr>"

definition client_get_artifact_metadata :: "string \<Rightarrow> string \<Rightarrow> request" where
  "client_get_artifact_metadata cv artifact_id = send_get cv (''/v1/artifacts/'' @ artifact_id) []"

definition client_download_artifact :: "string \<Rightarrow> string \<Rightarrow> request" where
  "client_download_artifact cv artifact_id = send_get cv (''/v1/artifacts/'' @ artifact_id @ ''/download'') []"

definition client_query_artifacts :: "string \<Rightarrow> (string \<times> string) list \<Rightarrow> request" where
  "client_query_artifacts cv filters = send_get cv ''/v1/artifacts'' filters"

definition client_attach_artifact :: "string \<Rightarrow> string \<Rightarrow> attach_request \<Rightarrow> request" where
  "client_attach_artifact cv artifact_id q = send_json cv None (''/v1/artifacts/'' @ artifact_id @ ''/attach'')
     [(''evidence_id'', text_or_null (tr_evidence_id q)), (''run_id'', text_or_null (tr_run_id q))]"

text \<open>The two states are texts: the \<open>value\<close> of a state, or whatever the caller passes.\<close>

definition client_record_promotion ::
    "string \<Rightarrow> string \<Rightarrow> string \<Rightarrow> string \<Rightarrow> string \<Rightarrow> string \<Rightarrow> string \<Rightarrow> string list \<Rightarrow> string \<Rightarrow> pydt option \<Rightarrow>
     string option \<Rightarrow> request" where
  "client_record_promotion cv strategy_id strategy_version from_state to_state authority producer evidence_ids reason at_utc key =
     send_json cv key ''/v1/promotions''
       ([(''strategy_id'', JStr strategy_id), (''strategy_version'', JStr strategy_version),
         (''from_state'', JStr from_state), (''to_state'', JStr to_state), (''authority'', JStr authority),
         (''producer'', JStr producer), (''evidence_ids'', texts evidence_ids), (''reason'', JStr reason)] @
        time_if_given ''at_utc'' at_utc)"

definition client_query_promotions :: "string \<Rightarrow> (string \<times> string) list \<Rightarrow> request" where
  "client_query_promotions cv filters = send_get cv ''/v1/promotions'' filters"

definition client_record_health ::
    "string \<Rightarrow> string \<Rightarrow> string \<Rightarrow> string \<Rightarrow> string \<Rightarrow> string \<Rightarrow> string list \<Rightarrow> pydt option \<Rightarrow> string option \<Rightarrow>
     (string \<times> json) list \<Rightarrow> request" where
  "client_record_health cv strategy_id strategy_version health_state producer reason evidence_ids observed_at_utc key metrics =
     send_json cv key ''/v1/health-records''
       ([(''strategy_id'', JStr strategy_id), (''strategy_version'', JStr strategy_version),
         (''health_state'', JStr health_state), (''producer'', JStr producer), (''reason'', JStr reason),
         (''evidence_ids'', texts evidence_ids)] @ metrics @ time_if_given ''observed_at_utc'' observed_at_utc)"

definition client_query_health :: "string \<Rightarrow> (string \<times> string) list \<Rightarrow> request" where
  "client_query_health cv filters = send_get cv ''/v1/health-records'' filters"

subsection \<open>Responses\<close>

text \<open>\<open>model_validate\<close> of a decoded answer: the constructor runs again.\<close>

fun model_validate :: "answer \<Rightarrow> exn + answer" where
  "model_validate (AStrategy s) = map_sum id AStrategy (mk_strategy s)"
| "model_validate (AStrategyVersion s) = map_sum id AStrategyVersion (mk_strategy_version s)"
| "model_validate (AExperiment x) = map_sum id AExperiment (mk_experiment x)"
| "model_validate (ARun r) = map_sum id ARun (mk_run r)"
| "model_validate (AEvidence e) = map_sum id AEvidence (mk_evidence (AsText (evidence_type_value (ev_evidence_type e))) e)"
| "model_validate (AEvidenceList es) = map_sum id AEvidenceList
     (map_result (\<lambda>e. mk_evidence (AsText (evidence_type_value (ev_evidence_type e))) e) es)"
| "model_validate (AArtifact a) = map_sum id AArtifact (mk_artifact a)"
| "model_validate (AArtifactList xs) = map_sum id AArtifactList (map_result mk_artifact xs)"
| "model_validate (APromotion p) = map_sum id APromotion (mk_promotion p)"
| "model_validate (APromotionList ps) = map_sum id APromotionList (map_result mk_promotion ps)"
| "model_validate (AHealth h) = map_sum id AHealth (mk_health h)"
| "model_validate (AHealthList hs) = map_sum id AHealthList (map_result mk_health hs)"
| "model_validate a = Inr a"

text \<open>What a method raises: the exception of an error response, or of an answer it cannot read; a lost
  connection is httpx's. A status below 400 that is no answer (a redirect) has no JSON to read.\<close>

datatype client_failure = Raised client_exn | BadAnswer exn | ConnectionLost

definition raised_for :: "response \<Rightarrow> client_failure" where
  "raised_for r = Raised (raise_for_error_response (Some (rs_body r)))"

text \<open>The body of \<open>/ready\<close> when it is not ready has a status, a dependency and a detail, and no code.\<close>

definition readiness_body :: "string \<Rightarrow> dependency option \<Rightarrow> json" where
  "readiness_body detail dep = JObj [(''status'', JStr ''unavailable''),
     (''failed_dependency'', text_or_null (map_option (\<lambda>x. case x of MetadataStore \<Rightarrow> ''metadata_store''
        | ArtifactStore \<Rightarrow> ''artifact_store'') dep)), (''detail'', JStr detail)]"

fun client_receive :: "string \<Rightarrow> string \<Rightarrow> reply \<Rightarrow> client_failure + answer" where
  "client_receive rid msg Gone = Inl ConnectionLost"
| "client_receive rid msg (Fault e) = Inl (raised_for (handle_error rid msg e))"
| "client_receive rid msg (NoRoute n) =
     Inl (if n \<ge> 400 then raised_for (handle_framework_error rid msg n) else BadAnswer PyValueError)"
| "client_receive rid msg (Answer (AReady n dep)) =
     (if n \<ge> 400 then Inl (Raised (raise_for_error_response (Some (readiness_body msg dep)))) else Inr (AReady n dep))"
| "client_receive rid msg (Answer a) = (case model_validate a of Inl e \<Rightarrow> Inl (BadAnswer e) | Inr b \<Rightarrow> Inr b)"

text \<open>One call of a method: \<open>rid\<close> is the request's id, \<open>msg\<close> the message of a failure.\<close>

definition client_call ::
    "framework \<Rightarrow> api_cfg \<Rightarrow> turn \<Rightarrow> string \<Rightarrow> string \<Rightarrow> request \<Rightarrow> app \<Rightarrow> (client_failure + answer) \<times> app" where
  "client_call F A t rid msg q s =
     apfst (client_receive rid msg) (serve F A t (q\<lparr>rq_path := seen F (rq_path q)\<rparr>) s)"

end
