(* ===== verification/ClientFacts.thy ===== *)
theory ClientFacts
  imports Client RouteFacts
begin

text \<open>
  What a client call means without HTTP: \<open>perform\<close> runs the handler on the arguments themselves. A call
  is \<open>deliverable\<close> when its values survive the JSON and the text they travel as. The lemmas follow the
  request: the readers of \<open>Schemas\<close> invert the bodies of \<open>Client\<close>, the routing table finds the handler
  of every path the client builds.
\<close>

subsection \<open>Calls\<close>

text \<open>The values of a \<open>**\<close> argument, every one given.\<close>

definition evidence_fields :: "evidence_request \<Rightarrow> (string \<times> json) list" where
  "evidence_fields q =
     [(''strategy_id'', text_or_null (er_strategy_id q)),
      (''strategy_version'', text_or_null (er_strategy_version q)),
      (''experiment_id'', text_or_null (er_experiment_id q)),
      (''run_id'', text_or_null (er_run_id q)),
      (''producer_version'', text_or_null (er_producer_version q)),
      (''created_at_utc'', or_null (\<lambda>t. JStr (isoformat t)) (er_created_at_utc q)),
      (''observed_at_utc'', or_null (\<lambda>t. JStr (isoformat t)) (er_observed_at_utc q)),
      (''git_repo'', text_or_null (er_git_repo q)),
      (''git_commit'', text_or_null (er_git_commit q)),
      (''dataset_id'', text_or_null (er_dataset_id q)),
      (''dataset_version'', text_or_null (er_dataset_version q)),
      (''dataset_ref'', text_or_null (er_dataset_ref q)),
      (''config_hash'', text_or_null (er_config_hash q)),
      (''config_ref'', text_or_null (er_config_ref q)),
      (''environment'', text_or_null (er_environment q)),
      (''instruments'', texts (er_instruments q)),
      (''timeframes'', texts (er_timeframes q)),
      (''metrics'', JObj (er_metrics q)),
      (''verdict'', text_or_null (er_verdict q)),
      (''status'', text_or_null (er_status q)),
      (''regime_tags'', texts (er_regime_tags q)),
      (''parent_evidence_ids'', texts (er_parent_evidence_ids q)),
      (''parent_run_ids'', texts (er_parent_run_ids q)),
      (''artifact_ids'', texts (er_artifact_ids q)),
      (''notes'', er_notes q)]"

definition health_fields :: "health_request \<Rightarrow> (string \<times> json) list" where
  "health_fields q =
     [(''observed_trigger_rate'', or_null JFloat (hq_observed_trigger_rate q)),
      (''regime_conditioned_expected_trigger_rate'', or_null JFloat (hq_regime_conditioned_expected_trigger_rate q)),
      (''expectancy_r'', or_null JFloat (hq_expectancy_r q)),
      (''win_rate'', or_null JFloat (hq_win_rate q)),
      (''drawdown'', or_null JFloat (hq_drawdown q)),
      (''mae'', or_null JFloat (hq_mae q)),
      (''mfe'', or_null JFloat (hq_mfe q)),
      (''holding_time'', or_null JFloat (hq_holding_time q)),
      (''execution_slippage_quality'', or_null JFloat (hq_execution_slippage_quality q)),
      (''regime_distribution'', or_null (\<lambda>kvs. JObj (map (apsnd JFloat) kvs)) (hq_regime_distribution q)),
      (''strategy_chain_strength_distribution'', or_null (\<lambda>kvs. JObj (map (apsnd JFloat) kvs)) (hq_strategy_chain_strength_distribution q)),
      (''baseline_comparison'', or_null JObj (hq_baseline_comparison q)),
      (''confidence'', or_null JFloat (hq_confidence q))]"

definition page_filters :: "int option \<Rightarrow> int option \<Rightarrow> (string \<times> string) list" where
  "page_filters limit offset =
     (case limit of None \<Rightarrow> [] | Some l \<Rightarrow> [(''limit'', show_int l)]) @
     (case offset of None \<Rightarrow> [] | Some n \<Rightarrow> [(''offset'', show_int n)])"

definition filter_if_given :: "string \<Rightarrow> string option \<Rightarrow> (string \<times> string) list" where
  "filter_if_given name v = (case v of None \<Rightarrow> [] | Some s \<Rightarrow> [(name, s)])"

definition evidence_filters :: "evidence_filter \<Rightarrow> int option \<Rightarrow> int option \<Rightarrow> (string \<times> string) list" where
  "evidence_filters f limit offset =
     filter_if_given ''strategy_id'' (f_strategy_id f) @ filter_if_given ''strategy_version'' (f_strategy_version f) @
     filter_if_given ''run_id'' (f_run_id f) @ filter_if_given ''experiment_id'' (f_experiment_id f) @
     filter_if_given ''evidence_type'' (map_option evidence_type_value (f_evidence_type f)) @
     filter_if_given ''since'' (map_option isoformat (f_since f)) @
     filter_if_given ''until'' (map_option isoformat (f_until f)) @ page_filters limit offset"

datatype call =
    VersionCall | HealthCall | ReadyCall
  | StrategyCall strategy_request
  | StrategyVersionCall string strategy_version_request
  | ExperimentCall experiment_request
  | RunCall string run_request
  | CloseCall string run_close_request
  | EvidenceCall string evidence_request
  | EvidenceGet string
  | EvidenceQuery evidence_filter "int option" "int option"
  | ArtifactCall artifact_request
  | ArtifactGet string
  | ArtifactDownload string
  | ArtifactQuery "string option" "string option" "int option" "int option"
  | AttachCall string attach_request
  | PromotionCall promotion_request
  | PromotionQuery "string option" "string option" "int option" "int option"
  | HealthRecordCall health_request
  | HealthQuery "string option" "string option" "int option" "int option"

text \<open>The request of a call; an upload gives the file name and the content type, and no declared one.\<close>

fun request_of :: "string \<Rightarrow> call \<Rightarrow> request" where
  "request_of cv VersionCall = client_get_version"
| "request_of cv HealthCall = client_health"
| "request_of cv ReadyCall = client_ready"
| "request_of cv (StrategyCall q) = client_register_strategy cv q"
| "request_of cv (StrategyVersionCall i q) = client_register_strategy_version cv i q"
| "request_of cv (ExperimentCall q) = client_create_experiment cv q"
| "request_of cv (RunCall i q) = client_create_run cv i q"
| "request_of cv (CloseCall i q) = client_close_run cv i q"
| "request_of cv (EvidenceCall key q) =
     client_append_evidence cv (er_evidence_type q) (er_schema_version q) (er_producer q) key (evidence_fields q)"
| "request_of cv (EvidenceGet i) = client_get_evidence cv i"
| "request_of cv (EvidenceQuery f l n) = client_query_evidence cv (evidence_filters f l n)"
| "request_of cv (ArtifactCall q) = client_register_artifact cv (aq_body q) (the (aq_filename q)) (the (aq_content_type q))
     (aq_declared_sha256 q) (aq_run_id q) (aq_evidence_id q) (aq_producer q) (aq_idempotency_key q)"
| "request_of cv (ArtifactGet i) = client_get_artifact_metadata cv i"
| "request_of cv (ArtifactDownload i) = client_download_artifact cv i"
| "request_of cv (ArtifactQuery e r l n) = client_query_artifacts cv
     (filter_if_given ''evidence_id'' e @ filter_if_given ''run_id'' r @ page_filters l n)"
| "request_of cv (AttachCall i q) = client_attach_artifact cv i q"
| "request_of cv (PromotionCall q) = client_record_promotion cv (pr_strategy_id q) (pr_strategy_version q)
     (promotion_state_value (pr_from_state q)) (promotion_state_value (pr_to_state q)) (pr_authority q) (pr_producer q)
     (pr_evidence_ids q) (pr_reason q) (pr_at_utc q) (pr_idempotency_key q)"
| "request_of cv (PromotionQuery i v l n) = client_query_promotions cv
     (filter_if_given ''strategy_id'' i @ filter_if_given ''strategy_version'' v @ page_filters l n)"
| "request_of cv (HealthRecordCall q) = client_record_health cv (hq_strategy_id q) (hq_strategy_version q)
     (health_state_value (hq_health_state q)) (hq_producer q) (hq_reason q) (hq_evidence_ids q) (hq_observed_at_utc q)
     (hq_idempotency_key q) (health_fields q)"
| "request_of cv (HealthQuery i v l n) = client_query_health cv
     (filter_if_given ''strategy_id'' i @ filter_if_given ''strategy_version'' v @ page_filters l n)"

text \<open>The empty text is no key and no header.\<close>

definition nonempty :: "string option \<Rightarrow> string option" where
  "nonempty v = (if truthy v then v else None)"

definition upload_of :: "artifact_request \<Rightarrow> artifact_request" where
  "upload_of q = q\<lparr>aq_declared_sha256 := nonempty (aq_declared_sha256 q), aq_run_id := nonempty (aq_run_id q),
     aq_evidence_id := nonempty (aq_evidence_id q), aq_producer := nonempty (aq_producer q),
     aq_idempotency_key := nonempty (aq_idempotency_key q), aq_content_type_declared := None\<rparr>"

fun perform :: "api_cfg \<Rightarrow> turn \<Rightarrow> call \<Rightarrow> app \<Rightarrow> handled" where
  "perform A t VersionCall = (\<lambda>s. (Done (Inr (AVersion get_version)), s))"
| "perform A t HealthCall = (\<lambda>s. (Done (Inr (ALive liveness)), s))"
| "perform A t ReadyCall = on_disk (\<lambda>(status, dep). AReady status dep) (readiness (probe t) (disk t))"
| "perform A t (StrategyCall q) = on_db AStrategy (post_strategy A (at t) (meta t) q)"
| "perform A t (StrategyVersionCall i q) = on_db AStrategyVersion (post_strategy_version A (at t) (meta t) i q)"
| "perform A t (ExperimentCall q) = on_db AExperiment
     (post_experiment A (at t) (meta t) (nonempty (xr_idempotency_key q)) (q\<lparr>xr_idempotency_key := None\<rparr>))"
| "perform A t (RunCall i q) = on_db ARun
     (post_run A (at t) (meta t) i (nonempty (rr_idempotency_key q)) (q\<lparr>rr_idempotency_key := None\<rparr>))"
| "perform A t (CloseCall i q) = on_db ARun (post_run_close (at t) (meta t) i q)"
| "perform A t (EvidenceCall key q) = on_db AEvidence
     (post_evidence A (at t) (meta t) (nonempty (Some key)) (q\<lparr>er_idempotency_key := Some key\<rparr>))"
| "perform A t (EvidenceGet i) = on_db_read AEvidence (get_evidence (meta t) i)"
| "perform A t (EvidenceQuery f l n) = on_db_read AEvidenceList (get_evidence_list (meta t) f l n)"
| "perform A t (ArtifactCall q) = on_both AArtifact (post_artifact A (disk t) (meta_find t) (meta t) (upload_of q))"
| "perform A t (ArtifactGet i) = on_db_read AArtifact (get_artifact_metadata (meta t) i)"
| "perform A t (ArtifactDownload i) = on_disk ADownload (download_artifact A i)"
| "perform A t (ArtifactQuery e r l n) = on_db_read AArtifactList (get_artifact_list (meta t) e r l n)"
| "perform A t (AttachCall i q) = on_db AArtifact (post_attach (meta t) i q)"
| "perform A t (PromotionCall q) = on_db APromotion
     (post_promotion A (at t) (meta t) (nonempty (pr_idempotency_key q)) (q\<lparr>pr_idempotency_key := None\<rparr>))"
| "perform A t (PromotionQuery i v l n) = on_db_read APromotionList (get_promotions (meta t) i v l n)"
| "perform A t (HealthRecordCall q) = on_db AHealth
     (post_health_record A (at t) (meta t) (nonempty (hq_idempotency_key q)) (q\<lparr>hq_idempotency_key := None\<rparr>))"
| "perform A t (HealthQuery i v l n) = on_db_read AHealthList (get_health_records (meta t) i v l n)"

subsection \<open>Deliverable calls\<close>

definition reads_time :: "framework \<Rightarrow> pydt option \<Rightarrow> bool" where
  "reads_time F v = (case v of None \<Rightarrow> True | Some t \<Rightarrow> dt_of F (JStr (isoformat t)) = Some t)"

definition reads_float :: "framework \<Rightarrow> string option \<Rightarrow> bool" where
  "reads_float F v = (case v of None \<Rightarrow> True | Some s \<Rightarrow> float_of F (JFloat s) = Some s)"

definition reads_floats :: "framework \<Rightarrow> (string \<times> string) list option \<Rightarrow> bool" where
  "reads_floats F v = (case v of None \<Rightarrow> True | Some kvs \<Rightarrow> list_all (\<lambda>(k, s). float_of F (JFloat s) = Some s) kvs)"

definition reads_page :: "framework \<Rightarrow> int option \<Rightarrow> bool" where
  "reads_page F v = (case v of None \<Rightarrow> True | Some n \<Rightarrow> int_of F (JStr (show_int n)) = Some n)"

definition one_segment :: "string \<Rightarrow> bool" where
  "one_segment i = (i \<noteq> [] \<and> CHR ''/'' \<notin> set i)"

fun deliverable :: "framework \<Rightarrow> call \<Rightarrow> bool" where
  "deliverable F (StrategyCall q) = reads_time F (sr_created_at q)"
| "deliverable F (StrategyVersionCall i q) = (one_segment i \<and> reads_time F (vr_created_at q))"
| "deliverable F (ExperimentCall q) = reads_time F (xr_created_at q)"
| "deliverable F (RunCall i q) = (one_segment i \<and> reads_time F (rr_started_at q))"
| "deliverable F (CloseCall i q) = (one_segment i \<and> reads_time F (cr_ended_at q))"
| "deliverable F (EvidenceCall key q) = (reads_time F (er_created_at_utc q) \<and> reads_time F (er_observed_at_utc q) \<and>
     int_of F (JInt (er_schema_version q)) = Some (er_schema_version q) \<and>
     list_all (\<lambda>m. is_metric (snd m)) (er_metrics q) \<and> is_container (er_notes q))"
| "deliverable F (EvidenceGet i) = one_segment i"
| "deliverable F (EvidenceQuery f l n) = (reads_time F (f_since f) \<and> reads_time F (f_until f) \<and> reads_page F l \<and> reads_page F n)"
| "deliverable F (ArtifactCall q) = (aq_filename q \<noteq> None \<and> aq_content_type q \<noteq> None)"
| "deliverable F (ArtifactGet i) = one_segment i"
| "deliverable F (ArtifactDownload i) = one_segment i"
| "deliverable F (ArtifactQuery e r l n) = (reads_page F l \<and> reads_page F n)"
| "deliverable F (AttachCall i q) = one_segment i"
| "deliverable F (PromotionCall q) = reads_time F (pr_at_utc q)"
| "deliverable F (PromotionQuery i v l n) = (reads_page F l \<and> reads_page F n)"
| "deliverable F (HealthRecordCall q) = (reads_time F (hq_observed_at_utc q) \<and>
     list_all (reads_float F) [hq_observed_trigger_rate q, hq_regime_conditioned_expected_trigger_rate q, hq_expectancy_r q,
       hq_win_rate q, hq_drawdown q, hq_mae q, hq_mfe q, hq_holding_time q, hq_execution_slippage_quality q, hq_confidence q] \<and>
     reads_floats F (hq_regime_distribution q) \<and> reads_floats F (hq_strategy_chain_strength_distribution q))"
| "deliverable F (HealthQuery i v l n) = (reads_page F l \<and> reads_page F n)"
| "deliverable F _ = True"

text \<open>The path and the header values of a request arrive as they were sent.\<close>

definition arrives :: "framework \<Rightarrow> request \<Rightarrow> bool" where
  "arrives F q = (seen F (rq_path q) = rq_path q \<and> list_all (\<lambda>(n, v). wire F v = v) (rq_headers q))"

subsection \<open>Readers invert writers\<close>

lemma read_all_map: "list_all (\<lambda>x. r (w x) = Some x) xs \<Longrightarrow> read_all r (map w xs) = Some xs"
  by (induction xs) auto

lemma read_texts [simp]: "read_list read_str (texts xs) = Some xs"
  by (simp add: texts_def read_all_map list_all_iff)

lemma read_text_or_null [simp]: "read_opt read_str (text_or_null v) = Some v"
  by (cases v) (simp_all add: read_opt_def or_null_def)

lemma read_time_or_null [simp]: "reads_time F v \<Longrightarrow> read_opt (dt_of F) (or_null (\<lambda>t. JStr (isoformat t)) v) = Some v"
  by (cases v) (simp_all add: read_opt_def or_null_def reads_time_def)

lemma read_float_or_null [simp]: "reads_float F v \<Longrightarrow> read_opt (float_of F) (or_null JFloat v) = Some v"
  by (cases v) (simp_all add: read_opt_def or_null_def reads_float_def)

lemma read_floats_or_null [simp]:
  "reads_floats F v \<Longrightarrow> read_opt (read_dict (float_of F)) (or_null (\<lambda>kvs. JObj (map (apsnd JFloat) kvs)) v) = Some v"
proof (cases v)
  case (Some kvs)
  assume "reads_floats F v"
  with Some have "read_all (float_of F) (map JFloat (map snd kvs)) = Some (map snd kvs)"
    by (intro read_all_map) (auto simp: reads_floats_def list_all_iff)
  then show ?thesis using Some by (simp add: read_opt_def or_null_def comp_def apsnd_def map_prod_def case_prod_unfold zip_map_fst_snd)
qed (simp add: read_opt_def or_null_def)

lemma read_dict_or_null [simp]: "read_opt (read_dict Some) (or_null JObj v) = Some v"
proof (cases v)
  case (Some kvs)
  have "read_all Some (map id (map snd kvs)) = Some (map snd kvs)" by (rule read_all_map) (simp add: list_all_iff)
  then show ?thesis using Some by (simp add: read_opt_def or_null_def zip_map_fst_snd)
qed (simp add: read_opt_def or_null_def)

lemma read_states [simp]:
  "read_enum run_status_value run_statuses (JStr (run_status_value x)) = Some x"
  "read_enum promotion_state_value promotion_states (JStr (promotion_state_value y)) = Some y"
  "read_enum health_state_value health_states (JStr (health_state_value z)) = Some z"
  "read_enum evidence_type_value evidence_types (JStr (evidence_type_value u)) = Some u"
  by (simp_all add: rs.of_value_value ps.of_value_value hs.of_value_value et.of_value_value)

lemma read_given_time:
  "reads_time F v \<Longrightarrow> (case map_of (time_if_given n v) n of None \<Rightarrow> Some None | Some j \<Rightarrow> read_opt (dt_of F) j) = Some v"
  by (cases v) (simp_all add: time_if_given_def reads_time_def read_opt_def)

lemma time_key: "m \<noteq> n \<Longrightarrow> map_of (time_if_given n v) m = None"
  by (cases v) (simp_all add: time_if_given_def)

subsection \<open>Bodies\<close>

lemma read_opt_text [simp]: "read_opt r (JStr s) = map_option Some (r (JStr s))"
  by (simp add: read_opt_def)

lemma declared_only_simps [simp]:
  "declared_only [] ns" "declared_only (f # b) ns \<longleftrightarrow> fst f \<in> set ns \<and> declared_only b ns"
  "declared_only (b @ c) ns \<longleftrightarrow> declared_only b ns \<and> declared_only c ns"
  by (auto simp: declared_only_def)

lemma declared_time: "n \<in> set ns \<Longrightarrow> declared_only (time_if_given n v) ns"
  by (cases v) (simp_all add: time_if_given_def)

lemmas body_simps = send_json_def with_body_def required_def defaulted_def read_given_time time_key declared_time
  rs.of_value_value ps.of_value_value hs.of_value_value et.of_value_value read_container_def

lemma parse_strategy_call:
  "reads_time F (sr_created_at q) \<Longrightarrow> with_body (parse_strategy_request F) (client_register_strategy cv q) k = k q"
  by (cases q, simp add: client_register_strategy_def parse_strategy_request_def body_simps)

lemma parse_strategy_version_call:
  "reads_time F (vr_created_at q) \<Longrightarrow> with_body (parse_strategy_version_request F) (client_register_strategy_version cv i q) k = k q"
  by (cases q, simp add: client_register_strategy_version_def parse_strategy_version_request_def body_simps)

lemma parse_experiment_call:
  "reads_time F (xr_created_at q) \<Longrightarrow>
     with_body (parse_experiment_request F) (client_create_experiment cv q) k = k (q\<lparr>xr_idempotency_key := None\<rparr>)"
  by (cases q, simp add: client_create_experiment_def parse_experiment_request_def body_simps)

lemma parse_run_call:
  "reads_time F (rr_started_at q) \<Longrightarrow>
     with_body (parse_run_request F) (client_create_run cv i q) k = k (q\<lparr>rr_idempotency_key := None\<rparr>)"
  by (cases q, simp add: client_create_run_def parse_run_request_def body_simps)

lemma parse_close_call:
  "reads_time F (cr_ended_at q) \<Longrightarrow> with_body (parse_run_close_request F) (client_close_run cv i q) k = k q"
  by (cases q, simp add: client_close_run_def parse_run_close_request_def body_simps)

lemma parse_attach_call: "with_body (parse_attach_request F) (client_attach_artifact cv i q) k = k q"
  by (cases q, simp add: client_attach_artifact_def parse_attach_request_def body_simps)

lemma parse_promotion_call:
  "deliverable F (PromotionCall q) \<Longrightarrow>
     with_body (parse_promotion_request F) (request_of cv (PromotionCall q)) k = k (q\<lparr>pr_idempotency_key := None\<rparr>)"
  by (cases q, simp add: client_record_promotion_def parse_promotion_request_def body_simps)

lemma parse_evidence_call:
  "deliverable F (EvidenceCall key q) \<Longrightarrow>
     with_body (parse_evidence_request F) (request_of cv (EvidenceCall key q)) k = k (q\<lparr>er_idempotency_key := Some key\<rparr>)"
  by (cases q, simp add: client_append_evidence_def parse_evidence_request_def body_simps evidence_fields_def)

lemma parse_health_call:
  "deliverable F (HealthRecordCall q) \<Longrightarrow>
     with_body (parse_health_request F) (request_of cv (HealthRecordCall q)) k = k (q\<lparr>hq_idempotency_key := None\<rparr>)"
  by (cases q, simp add: client_record_health_def parse_health_request_def body_simps health_fields_def)

subsection \<open>Routing\<close>

lemma split_path: "CHR ''/'' \<notin> set a \<Longrightarrow> split_on (CHR ''/'') (a @ CHR ''/'' # b) = a # split_on (CHR ''/'') b"
  by (induction a) (auto split: list.splits)

lemma split_segment: "CHR ''/'' \<notin> set a \<Longrightarrow> split_on (CHR ''/'') a = [a]"
  by (induction a) auto

lemma routed:
  "find_route ''GET'' ''/v1/version'' = Some (GetVersion, [])"
  "find_route ''GET'' ''/health'' = Some (GetLiveness, [])"
  "find_route ''GET'' ''/ready'' = Some (GetReadiness, [])"
  "find_route ''POST'' ''/v1/strategies'' = Some (PostStrategy, [])"
  "find_route ''POST'' ''/v1/experiments'' = Some (PostExperiment, [])"
  "find_route ''POST'' ''/v1/evidence'' = Some (PostEvidence, [])"
  "find_route ''GET'' ''/v1/evidence'' = Some (GetEvidenceList, [])"
  "find_route ''POST'' ''/v1/artifacts'' = Some (PostArtifact, [])"
  "find_route ''GET'' ''/v1/artifacts'' = Some (GetArtifactList, [])"
  "find_route ''POST'' ''/v1/promotions'' = Some (PostPromotion, [])"
  "find_route ''GET'' ''/v1/promotions'' = Some (GetPromotions, [])"
  "find_route ''POST'' ''/v1/health-records'' = Some (PostHealthRecord, [])"
  "find_route ''GET'' ''/v1/health-records'' = Some (GetHealthRecords, [])"
  by code_simp+

lemma routed_id:
  assumes "one_segment i"
  shows "find_route ''POST'' (''/v1/strategies/'' @ i @ ''/versions'') = Some (PostStrategyVersion, i)"
    "find_route ''POST'' (''/v1/experiments/'' @ i @ ''/runs'') = Some (PostRun, i)"
    "find_route ''POST'' (''/v1/runs/'' @ i @ ''/close'') = Some (PostRunClose, i)"
    "find_route ''GET'' (''/v1/evidence/'' @ i) = Some (GetEvidence, i)"
    "find_route ''GET'' (''/v1/artifacts/'' @ i) = Some (GetArtifact, i)"
    "find_route ''GET'' (''/v1/artifacts/'' @ i @ ''/download'') = Some (GetDownload, i)"
    "find_route ''POST'' (''/v1/artifacts/'' @ i @ ''/attach'') = Some (PostAttach, i)"
  using assms by (simp_all add: find_route_def routes_def one_segment_def split_path split_segment)

subsection \<open>Query parameters\<close>

declare map_of_append [simp del]

lemma filter_lookup:
  "map_of (filter_if_given n v @ r) m = (if m = n \<and> v \<noteq> None then v else map_of r m)"
  by (cases v) (simp_all add: filter_if_given_def)

lemma page_lookup:
  "map_of (page_filters l n) m =
     (if m = ''limit'' then map_option show_int l else if m = ''offset'' then map_option show_int n else None)"
  by (cases l; cases n) (simp_all add: page_filters_def)

lemma given_or_none: "(if v \<noteq> None then v else None) = v"
  by simp

lemma read_page_call:
  assumes "reads_page F l" "reads_page F n" "\<And>m. m \<in> {''limit'', ''offset''} \<Longrightarrow> param q m = map_of (page_filters l n) m"
  shows "read_page F q k = k l n"
  using assms(1,2) assms(3) [of "''limit''"] assms(3) [of "''offset''"]
  by (cases l; cases n) (simp_all add: read_page_def read_param_def page_lookup reads_page_def)

lemma param_get [simp]: "param ((send_get cv path fs)\<lparr>rq_path := p\<rparr>) m = map_of fs m"
  by (simp add: param_def send_get_def)

lemma read_evidence_filter_call:
  assumes "reads_time F (f_since f)" "reads_time F (f_until f)" "\<And>m. param q m = map_of (evidence_filters f l n) m"
  shows "read_evidence_filter F q = Inr f"
proof -
  have "read_param q ''evidence_type'' (read_enum evidence_type_value evidence_types) = Inr (f_evidence_type f)"
    by (cases "f_evidence_type f")
      (simp_all add: read_param_def assms(3) evidence_filters_def filter_lookup page_lookup et.of_value_value)
  moreover have "read_param q ''since'' (dt_of F) = Inr (f_since f)"
    using assms(1) by (cases "f_since f")
      (simp_all add: read_param_def assms(3) evidence_filters_def filter_lookup page_lookup reads_time_def)
  moreover have "read_param q ''until'' (dt_of F) = Inr (f_until f)"
    using assms(2) by (cases "f_until f")
      (simp_all add: read_param_def assms(3) evidence_filters_def filter_lookup page_lookup reads_time_def)
  moreover have "param q ''strategy_id'' = f_strategy_id f" "param q ''strategy_version'' = f_strategy_version f"
      "param q ''run_id'' = f_run_id f" "param q ''experiment_id'' = f_experiment_id f"
    by (simp_all add: assms(3) evidence_filters_def filter_lookup page_lookup given_or_none)
  ultimately show ?thesis by (simp add: read_evidence_filter_def)
qed

subsection \<open>Headers\<close>

lemma truthy_cases: "truthy v \<longleftrightarrow> (\<exists>s. v = Some s \<and> s \<noteq> [])"
  by (cases v) (simp_all add: truthy_def)

lemma header_lookup:
  "map_of (header_if_given n v @ r) m = (if m = n \<and> truthy v then v else map_of r m)"
  "map_of (header_if_given n v) m = (if m = n then nonempty v else None)"
  by (cases v; simp add: header_if_given_def truthy_def nonempty_def)+

lemma header_arrived:
  assumes "list_all (\<lambda>(n, v). wire F v = v) (rq_headers q)"
  shows "header F (q\<lparr>rq_path := p\<rparr>) n = map_of (rq_headers q) n"
proof (cases "map_of (rq_headers q) n")
  case (Some v)
  then have "(n, v) \<in> set (rq_headers q)" by (rule map_of_SomeD)
  then show ?thesis using assms Some by (auto simp: header_def list_all_iff)
qed (simp add: header_def)

lemma client_key [simp]:
  "map_of (client_headers cv key) IDEMPOTENCY_KEY_HEADER = nonempty key"
  "map_of (client_headers cv key) CONTRACT_VERSION_HEADER = Some cv"
  "map_of (client_headers cv key @ r) CONTRACT_VERSION_HEADER = Some cv"
  by (simp_all add: client_headers_def header_lookup header_names)

lemma upload_headers:
  "map_of (rq_headers (client_register_artifact cv data fn ct sha run ev p key)) n =
     (if n = CONTRACT_VERSION_HEADER then Some cv
      else if n = IDEMPOTENCY_KEY_HEADER then nonempty key
      else if n = CONTENT_TYPE_HEADER then Some ct
      else if n = ARTIFACT_FILENAME_HEADER then Some fn
      else if n = ARTIFACT_SHA256_HEADER then nonempty sha
      else if n = ARTIFACT_RUN_ID_HEADER then nonempty run
      else if n = ARTIFACT_EVIDENCE_ID_HEADER then nonempty ev
      else if n = ARTIFACT_PRODUCER_HEADER then nonempty p else None)"
proof -
  have "distinct [CONTRACT_VERSION_HEADER, IDEMPOTENCY_KEY_HEADER, CONTENT_TYPE_HEADER, ARTIFACT_FILENAME_HEADER,
      ARTIFACT_SHA256_HEADER, ARTIFACT_RUN_ID_HEADER, ARTIFACT_EVIDENCE_ID_HEADER, ARTIFACT_PRODUCER_HEADER]"
    by (simp add: header_names)
  then show ?thesis
    by (auto simp: client_register_artifact_def client_headers_def header_lookup nonempty_def)
qed

lemma upload_read:
  assumes "arrives F (request_of cv (ArtifactCall q))" "aq_filename q \<noteq> None" "aq_content_type q \<noteq> None"
  shows "read_artifact_request F ((request_of cv (ArtifactCall q))\<lparr>rq_path := p\<rparr>) = upload_of q"
proof -
  let ?r = "request_of cv (ArtifactCall q)"
  have h: "header F (?r\<lparr>rq_path := p\<rparr>) n = map_of (rq_headers ?r) n" for n
    using assms(1) by (intro header_arrived) (simp add: arrives_def)
  have b: "body_bytes F (rq_body (?r\<lparr>rq_path := p\<rparr>)) = aq_body q"
    by (simp add: client_register_artifact_def body_bytes_def)
  show ?thesis
    unfolding read_artifact_request_def h b using assms(2,3)
    by (simp add: upload_headers header_names upload_of_def)
qed

subsection \<open>A call is served by its operation\<close>

lemma request_headers:
  "map_of (rq_headers (send_get cv p fs)) CONTRACT_VERSION_HEADER = Some cv"
  "map_of (rq_headers (send_json cv key p b)) CONTRACT_VERSION_HEADER = Some cv"
  "map_of (rq_headers (send_json cv key p b)) IDEMPOTENCY_KEY_HEADER = nonempty key"
  by (simp_all add: send_get_def send_json_def)

lemmas method_defs = client_get_version_def client_health_def client_ready_def client_register_strategy_def
  client_register_strategy_version_def client_create_experiment_def client_create_run_def client_close_run_def
  client_append_evidence_def client_get_evidence_def client_query_evidence_def client_get_artifact_metadata_def
  client_download_artifact_def client_query_artifacts_def client_attach_artifact_def client_record_promotion_def
  client_query_promotions_def client_record_health_def client_query_health_def

lemma request_key:
  "map_of (rq_headers (client_create_experiment cv x)) IDEMPOTENCY_KEY_HEADER = nonempty (xr_idempotency_key x)"
  "map_of (rq_headers (client_create_run cv i r)) IDEMPOTENCY_KEY_HEADER = nonempty (rr_idempotency_key r)"
  "map_of (rq_headers (request_of cv (EvidenceCall key e))) IDEMPOTENCY_KEY_HEADER = nonempty (Some key)"
  "map_of (rq_headers (request_of cv (PromotionCall p))) IDEMPOTENCY_KEY_HEADER = nonempty (pr_idempotency_key p)"
  "map_of (rq_headers (request_of cv (HealthRecordCall h))) IDEMPOTENCY_KEY_HEADER = nonempty (hq_idempotency_key h)"
  by (simp_all add: method_defs request_headers)

fun endpoint_of :: "call \<Rightarrow> endpoint \<times> string" where
  "endpoint_of VersionCall = (GetVersion, [])"
| "endpoint_of HealthCall = (GetLiveness, [])"
| "endpoint_of ReadyCall = (GetReadiness, [])"
| "endpoint_of (StrategyCall q) = (PostStrategy, [])"
| "endpoint_of (StrategyVersionCall i q) = (PostStrategyVersion, i)"
| "endpoint_of (ExperimentCall q) = (PostExperiment, [])"
| "endpoint_of (RunCall i q) = (PostRun, i)"
| "endpoint_of (CloseCall i q) = (PostRunClose, i)"
| "endpoint_of (EvidenceCall key q) = (PostEvidence, [])"
| "endpoint_of (EvidenceGet i) = (GetEvidence, i)"
| "endpoint_of (EvidenceQuery f l n) = (GetEvidenceList, [])"
| "endpoint_of (ArtifactCall q) = (PostArtifact, [])"
| "endpoint_of (ArtifactGet i) = (GetArtifact, i)"
| "endpoint_of (ArtifactDownload i) = (GetDownload, i)"
| "endpoint_of (ArtifactQuery e r l n) = (GetArtifactList, [])"
| "endpoint_of (AttachCall i q) = (PostAttach, i)"
| "endpoint_of (PromotionCall q) = (PostPromotion, [])"
| "endpoint_of (PromotionQuery i v l n) = (GetPromotions, [])"
| "endpoint_of (HealthRecordCall q) = (PostHealthRecord, [])"
| "endpoint_of (HealthQuery i v l n) = (GetHealthRecords, [])"

lemma call_routed:
  assumes "deliverable F c"
  shows "find_route (rq_method (request_of cv c)) (rq_path (request_of cv c)) = Some (endpoint_of c)"
  using assms
  by (cases c) (simp_all add: method_defs send_plain_def send_get_def send_json_def client_register_artifact_def
      routed routed_id [simplified])

lemma call_gated:
  assumes "arrives F (request_of cv c)" "gated_endpoint (fst (endpoint_of c))"
  shows "header F ((request_of cv c)\<lparr>rq_path := p\<rparr>) CONTRACT_VERSION_HEADER = Some cv"
proof -
  have "header F ((request_of cv c)\<lparr>rq_path := p\<rparr>) CONTRACT_VERSION_HEADER =
      map_of (rq_headers (request_of cv c)) CONTRACT_VERSION_HEADER"
    using assms(1) by (intro header_arrived) (simp add: arrives_def)
  also have "\<dots> = Some cv"
    using assms(2) by (cases c) (simp_all add: method_defs request_headers upload_headers gated_endpoint_def)
  finally show ?thesis .
qed

lemma with_body_path: "with_body parse (q\<lparr>rq_path := p\<rparr>) k = with_body parse q k"
  by (simp add: with_body_def)

lemmas parse_calls = parse_strategy_call parse_strategy_version_call parse_experiment_call parse_run_call parse_close_call
  parse_attach_call parse_evidence_call [unfolded request_of.simps] parse_promotion_call [unfolded request_of.simps]
  parse_health_call [unfolded request_of.simps]

lemma query_call:
  assumes "deliverable F c" "c = EvidenceQuery f l n \<or> c = ArtifactQuery e r l n \<or> c = PromotionQuery e r l n \<or> c = HealthQuery e r l n"
  shows "read_page F ((request_of cv c)\<lparr>rq_path := p\<rparr>) k = k l n"
  using assms
  by (intro read_page_call)
    (auto simp: method_defs evidence_filters_def filter_lookup)

lemma dispatch_call:
  assumes "deliverable F c" "arrives F (request_of cv c)" "endpoint_of c = (e, i)"
  shows "dispatch F A t e i ((request_of cv c)\<lparr>rq_path := p\<rparr>) = perform A t c"
proof -
  have h: "header F ((request_of cv c)\<lparr>rq_path := p\<rparr>) n = map_of (rq_headers (request_of cv c)) n" for n
    using assms(2) by (intro header_arrived) (simp add: arrives_def)
  show ?thesis
  proof (cases c)
    case (EvidenceQuery f l n)
    then have "read_evidence_filter F ((request_of cv c)\<lparr>rq_path := p\<rparr>) = Inr f"
      using assms(1) by (intro read_evidence_filter_call [where l = l and n = n]) (simp_all add: client_query_evidence_def)
    moreover have "read_page F ((request_of cv c)\<lparr>rq_path := p\<rparr>) (\<lambda>l n. get_evidence_list (meta t) f l n d) =
        get_evidence_list (meta t) f l n d" for d
      using EvidenceQuery by (intro query_call [OF assms(1)]) simp
    ultimately show ?thesis using assms(3) EvidenceQuery by auto
  next
    case (ArtifactQuery e r l n)
    then have "read_page F ((request_of cv c)\<lparr>rq_path := p\<rparr>) k = k l n" for k :: "int option \<Rightarrow> int option \<Rightarrow> exn + artifact list"
      by (intro query_call [OF assms(1)]) simp
    then show ?thesis using assms(3) ArtifactQuery
      by (auto simp: client_query_artifacts_def filter_lookup given_or_none page_lookup)
  next
    case (PromotionQuery e r l n)
    then have "read_page F ((request_of cv c)\<lparr>rq_path := p\<rparr>) k = k l n" for k :: "int option \<Rightarrow> int option \<Rightarrow> exn + promotion list"
      by (intro query_call [OF assms(1)]) simp
    then show ?thesis using assms(3) PromotionQuery
      by (auto simp: client_query_promotions_def filter_lookup given_or_none page_lookup)
  next
    case (HealthQuery e r l n)
    then have "read_page F ((request_of cv c)\<lparr>rq_path := p\<rparr>) k = k l n" for k :: "int option \<Rightarrow> int option \<Rightarrow> exn + health list"
      by (intro query_call [OF assms(1)]) simp
    then show ?thesis using assms(3) HealthQuery
      by (auto simp: client_query_health_def filter_lookup given_or_none page_lookup)
  next
    case (ArtifactCall q)
    then show ?thesis using assms upload_read [of F cv q p] by auto
  qed (use assms(1,3) h in \<open>auto simp: with_body_path parse_calls request_key [unfolded request_of.simps]\<close>)
qed

lemma serve_call:
  assumes "deliverable F c" "arrives F (request_of cv c)" "validate_contract_version (OStr cv) = Inr cv"
  shows "serve F A t ((request_of cv c)\<lparr>rq_path := seen F (rq_path (request_of cv c))\<rparr>) s = apfst reply_of (perform A t c s)"
proof -
  obtain e i where e: "endpoint_of c = (e, i)" by fastforce
  have "gate F e ((request_of cv c)\<lparr>rq_path := rq_path (request_of cv c)\<rparr>) = Inr ()"
    using call_gated [OF assms(2), of "rq_path (request_of cv c)"] e assms(3) by (simp add: gate_def require_contract_version_def)
  moreover have "seen F (rq_path (request_of cv c)) = rq_path (request_of cv c)" using assms(2) by (simp add: arrives_def)
  ultimately show ?thesis
    using call_routed [OF assms(1), of cv] e dispatch_call [OF assms(1,2) e, of A t "rq_path (request_of cv c)"] by (simp add: serve_def)
qed

lemma serve_wrong_version:
  assumes "deliverable F c" "arrives F (request_of cv c)" "validate_contract_version (OStr cv) = Inl x"
    "gated_endpoint (fst (endpoint_of c))"
  shows "serve F A t ((request_of cv c)\<lparr>rq_path := seen F (rq_path (request_of cv c))\<rparr>) s = (Fault x, s)"
proof -
  obtain e i where e: "endpoint_of c = (e, i)" by fastforce
  have "gate F e ((request_of cv c)\<lparr>rq_path := rq_path (request_of cv c)\<rparr>) = Inl x"
    using call_gated [OF assms(2), of "rq_path (request_of cv c)"] e assms(3,4) by (simp add: gate_def require_contract_version_def)
  moreover have "seen F (rq_path (request_of cv c)) = rq_path (request_of cv c)" using assms(2) by (simp add: arrives_def)
  ultimately show ?thesis
    using call_routed [OF assms(1), of cv] e by (simp add: serve_def)
qed

declare map_of_append [simp]

end
