(* ===== verification/Answers.thy ===== *)
theory Answers
  imports ClientFacts QueryProps RouteProps
begin

text \<open>
  Every object an operation answers with is one the contract's constructors accept unchanged: it is
  the validated argument of the call or the decoding of a stored row. So a client that validates an answer
  again gets the very object the server answered with.
\<close>

subsection \<open>Decoded rows\<close>

definition evidence_again :: "evidence \<Rightarrow> exn + evidence" where
  "evidence_again e = mk_evidence (AsText (evidence_type_value (ev_evidence_type e))) e"

lemma again_evidence: "valid_evidence e \<Longrightarrow> evidence_again e = Inr e"
  by (simp add: evidence_again_def mk_evidence_text valid_evidence_def)

lemma again_canon: "valid_evidence e \<Longrightarrow> evidence_again (canon_evidence e) = Inr (canon_evidence e)"
  using again_evidence [of e] by (simp add: evidence_again_def mk_evidence_canon) (simp add: canon_evidence_def)

lemma decoded:
  "stored L experiments r \<Longrightarrow> row_to_experiment r = Inr x \<Longrightarrow> mk_experiment x = Inr x"
  "stored L runs r \<Longrightarrow> row_to_run r = Inr n \<Longrightarrow> mk_run n = Inr n"
  "stored L evidence_t r \<Longrightarrow> row_to_evidence r = Inr e \<Longrightarrow> evidence_again e = Inr e"
  "stored L artifacts r \<Longrightarrow> row_to_artifact r = Inr a \<Longrightarrow> mk_artifact a = Inr a"
  "stored L promotions r \<Longrightarrow> row_to_promotion r = Inr p \<Longrightarrow> mk_promotion p = Inr p"
  "stored L health_records r \<Longrightarrow> row_to_health r = Inr h \<Longrightarrow> mk_health h = Inr h"
proof -
  show "stored L experiments r \<Longrightarrow> row_to_experiment r = Inr x \<Longrightarrow> mk_experiment x = Inr x"
    by (auto simp: stored.simps row_to_experiment_row valid_experiment_def)
  show "stored L runs r \<Longrightarrow> row_to_run r = Inr n \<Longrightarrow> mk_run n = Inr n"
    using stored_run [of L r] by (auto simp: valid_run_def)
  show "stored L evidence_t r \<Longrightarrow> row_to_evidence r = Inr e \<Longrightarrow> evidence_again e = Inr e"
    using stored_evidence [of L r] by (auto simp: again_canon)
  show "stored L artifacts r \<Longrightarrow> row_to_artifact r = Inr a \<Longrightarrow> mk_artifact a = Inr a"
    using stored_artifact [of L r] by (auto simp: valid_artifact_def)
  show "stored L promotions r \<Longrightarrow> row_to_promotion r = Inr p \<Longrightarrow> mk_promotion p = Inr p"
    by (auto simp: stored.simps row_to_promotion_row valid_promotion_def)
  show "stored L health_records r \<Longrightarrow> row_to_health r = Inr h \<Longrightarrow> mk_health h = Inr h"
    by (auto simp: stored.simps row_to_health_row valid_health_def mk_health_canon)
qed

lemma found_decoded: "select_one cs (d t) = Some r \<Longrightarrow> wf_db L d \<Longrightarrow> stored L t r"
  using wf_db_stored select_one_Some by metis

lemma found_by_key: "by_key t p k d = Some r \<Longrightarrow> wf_db L d \<Longrightarrow> stored L t r"
  by (auto simp: by_key_def dest: found_decoded)

lemma found_by_opt_key: "by_opt_key t p key d = Some r \<Longrightarrow> wf_db L d \<Longrightarrow> stored L t r"
  by (auto simp: by_opt_key_def split: option.splits dest: found_by_key)

lemmas found = found_decoded found_by_key found_by_opt_key

subsection \<open>What the writes answer\<close>

lemma answer_strategy:
  assumes "register_strategy_tx L s d = (Inr y, d')" "wf_db L d" "mk_strategy s = Inr s"
  shows "mk_strategy y = Inr y"
proof (cases "select_one [Eq ''strategy_id'' (Text (st_strategy_id s))] (d strategies)")
  case None
  then show ?thesis using assms by (auto simp: register_strategy_tx_def tx_Inr)
next
  case (Some r)
  then obtain s0 where s0: "valid_strategy s0" "r = strategy_row s0" "matches [Eq ''strategy_id'' (Text (st_strategy_id s))] r"
    using found_decoded [OF Some assms(2)] stored_strategy select_one_Some by metis
  then have "st_strategy_id s = st_strategy_id s0" by (simp add: strategy_row_def)
  then show ?thesis using assms(1) Some s0 row_to_strategy_row [OF s0(1)]
    by (auto simp: register_strategy_tx_def tx_Inr valid_strategy_def split: if_splits)
qed

lemma answer_strategy_version:
  assumes "register_strategy_version_tx L s d = (Inr y, d')" "wf_db L d" "mk_strategy_version s = Inr s"
  shows "mk_strategy_version y = Inr y"
proof (cases "select_one [Eq ''strategy_id'' (Text (sv_strategy_id s)),
           Eq ''strategy_version'' (Text (sv_strategy_version s))] (d strategy_versions)")
  case None
  then show ?thesis using assms by (auto simp: register_strategy_version_tx_def tx_Inr)
next
  case (Some r)
  then have "matches [Eq ''strategy_id'' (Text (sv_strategy_id s)), Eq ''strategy_version'' (Text (sv_strategy_version s))] r"
    using select_one_Some by metis
  moreover obtain s0 where s0: "valid_strategy_version s0" "r = strategy_version_row s0"
    using found_decoded [OF Some assms(2)] by (auto simp: stored.simps)
  ultimately have "sv_strategy_id s = sv_strategy_id s0" "sv_strategy_version s = sv_strategy_version s0"
    by (simp_all add: strategy_version_row_def)
  then show ?thesis using assms(1) Some s0 row_to_strategy_version_row [OF s0(1)]
    by (auto simp: register_strategy_version_tx_def tx_Inr valid_strategy_version_def split: if_splits)
qed

lemma answer_experiment:
  assumes "create_experiment_tx L key x d = (Inr y, d')" "wf_db L d" "mk_experiment x = Inr x"
  shows "mk_experiment y = Inr y"
  using assms by (auto simp: create_experiment_tx_def Let_def tx_Inr split: option.splits if_splits
      dest: found decoded(1))

lemma fetched_run: "fetch_run i d = Inr r \<Longrightarrow> wf_db L d \<Longrightarrow> mk_run r = Inr r"
  by (auto simp: fetch_run_def split: option.splits dest: found decoded(2))

lemma answer_run:
  assumes "create_run_tx L key r d = (Inr y, d')" "wf_db L d" "mk_run r = Inr r"
  shows "mk_run y = Inr y"
  using assms by (auto simp: create_run_tx_def Let_def tx_Inr split: option.splits if_splits dest: fetched_run)

lemma answer_close:
  assumes "close_run_tx i st t d = (Inr y, d')" "wf_db L d" "utc_pydt t"
  shows "mk_run y = Inr y"
proof -
  have "wf_db L d'" using db_step_wf [OF close_run_step [OF assms(1,3)] assms(2)] .
  moreover have "fetch_run i d' = Inr y"
    using assms(1) by (auto simp: close_run_tx_def split: option.splits if_splits prod.splits sum.splits)
  ultimately show ?thesis using fetched_run by metis
qed

lemma fetched_evidence: "fetch_evidence i d = Inr e \<Longrightarrow> wf_db L d \<Longrightarrow> evidence_again e = Inr e"
  by (auto simp: fetch_evidence_def split: option.splits dest: found decoded(3))

lemma answer_evidence:
  assumes "append_evidence_tx L e d = (Inr y, d')" "wf_db L d" "evidence_again e = Inr e"
  shows "evidence_again y = Inr y"
  using assms by (auto simp: append_evidence_tx_def Let_def tx_Inr split: option.splits if_splits dest: fetched_evidence)

lemma answer_artifact:
  assumes "register_artifact_tx L key producer a d = (Inr y, d')" "wf_db L d"
  shows "mk_artifact y = Inr y \<or> (y = a \<and> if_given require_run (ar_run_id a) d = Inr () \<and>
    if_given require_evidence (ar_evidence_id a) d = Inr () \<and>
    (\<forall>k p. key = Some k \<longrightarrow> producer = Some p \<longrightarrow> by_key artifacts p k d = None))"
  using assms by (auto simp: register_artifact_tx_def register_new_artifact_def Let_def tx_Inr require_producer_for_key_def
      split: if_splits intro: decoded(4) found split: option.split_asm)

lemma answer_attach:
  assumes "attach_artifact_tx i e n d = (Inr y, d')" "wf_db L d"
  shows "mk_artifact y = Inr y"
proof -
  have "wf_db L d'" using db_step_wf [OF attach_artifact_step [OF assms(1)] assms(2)] .
  with assms show ?thesis
    by (auto simp: attach_artifact_tx_def tx_Inr split: option.splits if_splits prod.splits sum.splits
        dest: found decoded(4))
qed

lemma answer_promotion:
  assumes "record_promotion_tx L key p d = (Inr y, d')" "wf_db L d" "mk_promotion p = Inr p"
  shows "mk_promotion y = Inr y"
  using assms by (auto simp: record_promotion_tx_def Let_def tx_Inr split: option.splits if_splits
      dest: found decoded(5))

lemma answer_health:
  assumes "record_health_tx L key h d = (Inr y, d')" "wf_db L d" "mk_health h = Inr h"
  shows "mk_health y = Inr y"
  using assms by (auto simp: record_health_tx_def Let_def tx_Inr split: option.splits if_splits
      dest: found decoded(6))

subsection \<open>What the queries answer\<close>

lemma answer_query:
  assumes "run_query v t cs c i l n dec d = Inr xs" "wf_db L d"
    and "\<And>r x. stored L t r \<Longrightarrow> dec r = Inr x \<Longrightarrow> again x = Inr x"
  shows "map_result again xs = Inr xs"
proof -
  let ?p = "page l n (order_desc c i (select_all cs (d t)))"
  have "list_all2 (\<lambda>r x. dec r = Inr x) ?p xs"
    using assms(1) by (simp add: run_query_def raise_cer_def map_result_Inr split: if_splits)
  moreover have "stored L t r" if "r \<in> set ?p" for r
    using that page_subset [of l n "order_desc c i (select_all cs (d t))"] wf_db_stored [OF assms(2)]
    by (auto simp: select_all_def)
  ultimately have "list_all2 (\<lambda>x y. again x = Inr y) xs xs"
    using assms(3) by (auto simp: list_all2_conv_all_nth) (metis nth_mem)
  then show ?thesis by (simp add: map_result_Inr)
qed

subsection \<open>What the calls answer\<close>

definition typed_health_request :: "health_request \<Rightarrow> bool" where
  "typed_health_request q = (typed_opt valid_pydt (hq_observed_at_utc q) \<and>
     list_all (typed_opt float_repr) [hq_observed_trigger_rate q, hq_regime_conditioned_expected_trigger_rate q,
       hq_expectancy_r q, hq_win_rate q, hq_drawdown q, hq_mae q, hq_mfe q, hq_holding_time q,
       hq_execution_slippage_quality q, hq_confidence q] \<and>
     typed_opt (\<lambda>d. wf_json (float_dict d)) (hq_regime_distribution q) \<and>
     typed_opt (\<lambda>d. wf_json (float_dict d)) (hq_strategy_chain_strength_distribution q) \<and>
     typed_opt (\<lambda>d. wf_json (JObj d)) (hq_baseline_comparison q))"

fun typed_call :: "call \<Rightarrow> bool" where
  "typed_call (StrategyCall q) = typed_opt valid_pydt (sr_created_at q)"
| "typed_call (StrategyVersionCall i q) = typed_opt valid_pydt (vr_created_at q)"
| "typed_call (ExperimentCall q) = typed_opt valid_pydt (xr_created_at q)"
| "typed_call (RunCall i q) = typed_opt valid_pydt (rr_started_at q)"
| "typed_call (CloseCall i q) = typed_opt valid_pydt (cr_ended_at q)"
| "typed_call (EvidenceCall key q) = typed_request q"
| "typed_call (PromotionCall q) = typed_opt valid_pydt (pr_at_utc q)"
| "typed_call (HealthRecordCall q) = typed_health_request q"
| "typed_call _ = True"

definition clock_ok :: "turn \<Rightarrow> bool" where
  "clock_ok t = (utc_pydt (utcnow (at t)) \<and> utc_pydt (now (disk t)))"

lemma again_of:
  "typed_strategy s \<Longrightarrow> mk_strategy s = Inr s' \<Longrightarrow> mk_strategy s' = Inr s'"
  "typed_strategy_version v \<Longrightarrow> mk_strategy_version v = Inr v' \<Longrightarrow> mk_strategy_version v' = Inr v'"
  "typed_experiment x \<Longrightarrow> mk_experiment x = Inr x' \<Longrightarrow> mk_experiment x' = Inr x'"
  "typed_run r \<Longrightarrow> mk_run r = Inr r' \<Longrightarrow> mk_run r' = Inr r'"
  "typed_promotion p \<Longrightarrow> mk_promotion p = Inr p' \<Longrightarrow> mk_promotion p' = Inr p'"
  "typed_health h \<Longrightarrow> mk_health h = Inr h' \<Longrightarrow> mk_health h' = Inr h'"
  by (blast dest: mk_strategy_valid [unfolded valid_strategy_def] mk_strategy_version_valid [unfolded valid_strategy_version_def]
      mk_experiment_valid [unfolded valid_experiment_def] mk_run_valid [unfolded valid_run_def]
      mk_promotion_valid [unfolded valid_promotion_def] mk_health_valid [unfolded valid_health_def])+

lemma post_strategy_again:
  assumes "post_strategy A mo v q d = (Inr y, d')" "wf_db (api_libs A) d" "typed_opt valid_pydt (sr_created_at q)" "utc_pydt (utcnow mo)"
  shows "mk_strategy y = Inr y"
proof -
  obtain x0 x where x: "mk_strategy x0 = Inr x" "typed_strategy x0" "register_strategy (api_libs A) v x d = (Inr y, d')"
    using assms(1,3) or_now_utc [OF _ assms(4)]
    by (fastforce simp: post_strategy_def try_tx_Inr typed_strategy_def)
  then show ?thesis using answer_strategy [OF _ assms(2) again_of(1) [OF x(2,1)]]
    by (auto simp: register_strategy_def transaction_Inr)
qed

lemma post_strategy_version_again:
  assumes "post_strategy_version A mo v i q d = (Inr y, d')" "wf_db (api_libs A) d" "typed_opt valid_pydt (vr_created_at q)" "utc_pydt (utcnow mo)"
  shows "mk_strategy_version y = Inr y"
proof -
  obtain x0 x where x: "mk_strategy_version x0 = Inr x" "typed_strategy_version x0" "register_strategy_version (api_libs A) v x d = (Inr y, d')"
    using assms(1,3) or_now_utc [OF _ assms(4)]
    by (fastforce simp: post_strategy_version_def try_tx_Inr typed_strategy_version_def)
  then show ?thesis using answer_strategy_version [OF _ assms(2) again_of(2) [OF x(2,1)]]
    by (auto simp: register_strategy_version_def transaction_Inr)
qed

lemma post_experiment_again:
  assumes "post_experiment A mo v h q d = (Inr y, d')" "wf_db (api_libs A) d" "typed_opt valid_pydt (xr_created_at q)" "utc_pydt (utcnow mo)"
  shows "mk_experiment y = Inr y"
proof -
  obtain key x0 x where x: "mk_experiment x0 = Inr x" "typed_experiment x0" "create_experiment (api_libs A) v key x d = (Inr y, d')"
    using assms(1,3) or_now_utc [OF _ assms(4)]
    by (fastforce simp: post_experiment_def try_tx_Inr typed_experiment_def)
  then show ?thesis using answer_experiment [OF _ assms(2) again_of(3) [OF x(2,1)]]
    by (auto simp: create_experiment_def transaction_Inr)
qed

lemma post_run_again:
  assumes "post_run A mo v i h q d = (Inr y, d')" "wf_db (api_libs A) d" "typed_opt valid_pydt (rr_started_at q)" "utc_pydt (utcnow mo)"
  shows "mk_run y = Inr y"
proof -
  obtain key x0 x where x: "mk_run x0 = Inr x" "typed_run x0" "create_run (api_libs A) v key x d = (Inr y, d')"
    using assms(1,3) or_now_utc [OF _ assms(4)]
    by (fastforce simp: post_run_def try_tx_Inr typed_run_def)
  then show ?thesis using answer_run [OF _ assms(2) again_of(4) [OF x(2,1)]]
    by (auto simp: create_run_def transaction_Inr)
qed

lemma post_run_close_again:
  assumes "post_run_close mo v i q d = (Inr y, d')" "wf_db L d" "typed_opt valid_pydt (cr_ended_at q)" "utc_pydt (utcnow mo)"
  shows "mk_run y = Inr y"
proof -
  obtain t where t: "to_utc (or_now (cr_ended_at q) mo) = Inr t" "close_run_tx i (cr_status q) t d = (Inr y, d')"
    using assms(1) by (auto simp: post_run_close_def close_run_def transaction_Inr split: sum.splits)
  have "utc_pydt t" using to_utc_spec [OF or_now_utc [OF assms(3,4)] t(1)] by simp
  then show ?thesis by (rule answer_close [OF t(2) assms(2)])
qed

lemma post_evidence_again:
  assumes "post_evidence A mo v h q d = (Inr y, d')" "wf_db (api_libs A) d" "typed_request q" "utc_pydt (utcnow mo)"
  shows "evidence_again y = Inr y"
proof -
  obtain key i e where e: "mk_evidence (AsText (er_evidence_type q)) (evidence_args i (the key) (or_now (er_created_at_utc q) mo) q) = Inr e"
      and app: "append_evidence (api_libs A) v e d = (Inr y, d')"
    using post_evidence_Inr [OF assms(1)] by metis
  have "typed_opt valid_pydt (er_created_at_utc q)" using assms(3) by (simp add: typed_request_def)
  then have "valid_evidence e" by (rule mk_evidence_valid [OF typed_evidence_args [OF assms(3) or_now_utc [OF _ assms(4)]] e])
  then show ?thesis using answer_evidence [OF _ assms(2) again_evidence] app by (auto simp: append_evidence_def transaction_Inr)
qed

lemma post_promotion_again:
  assumes "post_promotion A mo v h q d = (Inr y, d')" "wf_db (api_libs A) d" "typed_opt valid_pydt (pr_at_utc q)" "utc_pydt (utcnow mo)"
  shows "mk_promotion y = Inr y"
proof -
  obtain key x0 x where x: "mk_promotion x0 = Inr x" "typed_promotion x0" "record_promotion (api_libs A) v key x d = (Inr y, d')"
    using assms(1,3) or_now_utc [OF _ assms(4)]
    by (fastforce simp: post_promotion_def try_tx_Inr typed_promotion_def)
  then show ?thesis using answer_promotion [OF _ assms(2) again_of(5) [OF x(2,1)]]
    by (auto simp: record_promotion_def transaction_Inr)
qed

lemma post_health_again:
  assumes "post_health_record A mo v h q d = (Inr y, d')" "wf_db (api_libs A) d" "typed_health_request q" "utc_pydt (utcnow mo)"
  shows "mk_health y = Inr y"
proof -
  obtain key x0 x where x: "mk_health x0 = Inr x" "typed_health x0" "record_health (api_libs A) v key x d = (Inr y, d')"
    using assms(1,3) or_now_utc [OF _ assms(4)]
    by (fastforce simp: post_health_record_def typed_health_request_def health_floats_def try_tx_Inr typed_health_def)
  then show ?thesis using answer_health [OF _ assms(2) again_of(6) [OF x(2,1)]]
    by (auto simp: record_health_def transaction_Inr)
qed

lemma register_artifact_again:
  assumes "register_artifact L v key producer a d = (Inr y, d')" "wf_db L d" "valid_artifact (a\<lparr>ar_run_id := None, ar_evidence_id := None\<rparr>)"
  shows "mk_artifact y = Inr y"
proof -
  from answer_artifact [OF tx_of(3) [OF assms(1)] assms(2)]
  have "mk_artifact y = Inr y \<or> (y = a \<and> if_given require_run (ar_run_id a) d = Inr () \<and>
      if_given require_evidence (ar_evidence_id a) d = Inr ())" by blast
  then show ?thesis
  proof
    assume y: "y = a \<and> if_given require_run (ar_run_id a) d = Inr () \<and> if_given require_evidence (ar_evidence_id a) d = Inr ()"
    have "valid_artifact ((a\<lparr>ar_run_id := None, ar_evidence_id := None\<rparr>)\<lparr>ar_run_id := ar_run_id a, ar_evidence_id := ar_evidence_id a\<rparr>)"
      using linked_artifact_valid [OF assms(2,3)] y by blast
    then show ?thesis using y by (simp add: valid_artifact_def)
  qed
qed

lemma store_artifact_again:
  assumes "store_artifact A ch v key fn ct q (d, w) = (Done (Inr y), s')" "wf_db (api_libs A) d" "libs_ok (api_fs A)"
    and "utc_pydt (now ch)"
  shows "mk_artifact y = Inr y"
proof -
  from assms(1) obtain a w2 where put: "put (api_fs A) ch (aq_body q) ct fn (aq_declared_sha256 q) w = (Done (Inr a), w2)"
    by (auto simp: store_artifact_def split: prod.splits ending.splits sum.splits)
  note rec = put_record [OF put]
  let ?a = "a\<lparr>ar_run_id := aq_run_id q, ar_evidence_id := aq_evidence_id q\<rparr>"
  from assms(1) store_artifact_put [OF put, of v key d] new_record_links [OF rec]
  obtain d' where reg: "register_artifact (api_libs A) v key (if key \<noteq> None then aq_producer q else None) ?a d = (Inr y, d')"
    by (auto split: prod.splits)
  have "?a\<lparr>ar_run_id := None, ar_evidence_id := None\<rparr> = a" using new_record_links [OF rec] by (cases a) simp
  then show ?thesis
    using register_artifact_again [OF reg assms(2)] new_record_ok(6) [OF assms(3) rec assms(4)] by simp
qed

lemma post_artifact_again:
  assumes "post_artifact A ch fv v q (d, w) = (Done (Inr y), s')" "wf_db (api_libs A) d" "libs_ok (api_fs A)"
    and "utc_pydt (now ch)"
  shows "mk_artifact y = Inr y"
proof -
  have ok: "upload_ok A q" using assms(1) by (auto simp: post_artifact_def upload_ok_def raise_cer_def not_le split: if_splits)
  show ?thesis
  proof (cases "truthy (aq_idempotency_key q)")
    case False
    then show ?thesis using store_artifact_again [OF _ assms(2-4)] assms(1) post_artifact_unkeyed [OF ok False] by simp
  next
    case True
    obtain p where p: "require_producer_for_key (aq_producer q) = Inr p"
      using assms(1) True ok by (auto simp: post_artifact_def upload_ok_def api_require_producer_eq Let_def split: sum.splits)
    obtain f where f: "find_artifact_by_idempotency_key fv p (the (aq_idempotency_key q)) d = Inr f"
      using assms(1) True ok p by (auto simp: post_artifact_def upload_ok_def api_require_producer_eq Let_def split: sum.splits)
    show ?thesis
    proof (cases f)
      case None
      then have "store_artifact A ch v (Some (the (aq_idempotency_key q))) (the (aq_filename q)) (upload_type q) q (d, w) =
          (Done (Inr y), s')"
        using assms(1) True ok p f by (simp add: post_artifact_def upload_ok_def upload_type_def api_require_producer_eq Let_def)
      then show ?thesis by (rule store_artifact_again [OF _ assms(2-4)])
    next
      case (Some prior)
      have found: "by_key artifacts p (the (aq_idempotency_key q)) d \<noteq> None"
        using f Some by (auto simp: find_artifact_by_idempotency_key_def reading_def rbind_eq_Inr split: if_splits option.splits)
      obtain a d' where reg: "register_artifact (api_libs A) v (Some (the (aq_idempotency_key q))) (Some p) a d = (Inr y, d')"
        using assms(1) post_artifact_replay [OF ok True p f [unfolded Some]]
        by (auto simp: replay_artifact_def Let_def raise_cer_def split: if_splits prod.splits)
      show ?thesis using answer_artifact [OF tx_of(3) [OF reg] assms(2)] found by simp
    qed
  qed
qed

subsection \<open>Reads\<close>

lemma reading_Inr: "reading v r = Inr x \<Longrightarrow> r = Inr x"
  by (simp add: reading_def raise_cer_def split: if_splits)

lemma get_evidence_again: "get_evidence v i d = Inr e \<Longrightarrow> wf_db L d \<Longrightarrow> evidence_again e = Inr e"
  by (auto simp: get_evidence_def dest!: reading_Inr dest: fetched_evidence)

lemma get_artifact_again: "get_artifact_metadata v i d = Inr a \<Longrightarrow> wf_db L d \<Longrightarrow> mk_artifact a = Inr a"
  by (auto simp: get_artifact_metadata_def get_artifact_def dest!: reading_Inr dest: found decoded(4) split: option.splits)

lemma lists_again:
  assumes "wf_db L d"
  shows "get_evidence_list v f l n d = Inr es \<Longrightarrow> map_result evidence_again es = Inr es"
    "get_artifact_list v e r l n d = Inr as \<Longrightarrow> map_result mk_artifact as = Inr as"
    "get_promotions v e r l n d = Inr ps \<Longrightarrow> map_result mk_promotion ps = Inr ps"
    "get_health_records v e r l n d = Inr hs \<Longrightarrow> map_result mk_health hs = Inr hs"
  by (auto simp: get_evidence_list_def get_artifact_list_def get_promotions_def get_health_records_def rbind_eq_Inr
      query_evidence_def query_artifacts_def query_promotions_def query_health_def
      intro: answer_query [OF _ assms decoded(3)] answer_query [OF _ assms decoded(4)]
        answer_query [OF _ assms decoded(5)] answer_query [OF _ assms decoded(6)])

subsection \<open>All calls\<close>

lemma map_sum_Inr: "map_sum id f r = Inr a \<longleftrightarrow> (\<exists>x. r = Inr x \<and> a = f x)"
  by (cases r) auto

lemma on_db_Inr:
  assumes "on_db f h (d, w) = (Done (Inr a), s')"
  obtains x d' where "h d = (Inr x, d')" "a = f x"
  using assms that by (cases "h d"; cases "fst (h d)") (auto simp: on_db_def)

lemma on_db_read_Inr:
  assumes "on_db_read f h (d, w) = (Done (Inr a), s')"
  obtains x where "h d = Inr x" "a = f x"
  using assms that by (cases "h d") (auto simp: on_db_read_def)

lemma on_both_Inr:
  assumes "on_both f h s = (Done (Inr a), s')"
  obtains x where "h s = (Done (Inr x), s')" "a = f x"
proof -
  obtain r s'' where r: "h s = (r, s'')" by (cases "h s") simp
  then obtain x where "r = Done (Inr x)" "a = f x" "s'' = s'"
    using assms by (cases r) (auto simp: on_both_def map_sum_Inr)
  then show thesis using r that by simp
qed

lemma all_again:
  assumes "perform A t c (d, w) = (Done (Inr a), s')" "wf_db (api_libs A) d" "libs_ok (api_fs A)" "typed_call c" "clock_ok t"
  shows "model_validate a = Inr a"
proof -
  have u: "utc_pydt (utcnow (at t))" "utc_pydt (now (disk t))" using assms(5) by (simp_all add: clock_ok_def)
  show ?thesis
  proof (cases c)
    case (StrategyCall q)
    with assms show ?thesis by (auto elim!: on_db_Inr dest!: post_strategy_again intro: u)
  next
    case (StrategyVersionCall i q)
    with assms show ?thesis by (auto elim!: on_db_Inr dest!: post_strategy_version_again intro: u)
  next
    case (ExperimentCall q)
    with assms show ?thesis by (auto elim!: on_db_Inr dest!: post_experiment_again intro: u)
  next
    case (RunCall i q)
    with assms show ?thesis by (auto elim!: on_db_Inr dest!: post_run_again intro: u)
  next
    case (CloseCall i q)
    with assms show ?thesis by (auto elim!: on_db_Inr dest!: post_run_close_again intro: u)
  next
    case (EvidenceCall key q)
    with assms show ?thesis
      by (auto elim!: on_db_Inr dest!: post_evidence_again intro: u simp: typed_request_def evidence_again_def)
  next
    case (EvidenceGet i)
    with assms show ?thesis by (auto elim!: on_db_read_Inr dest!: get_evidence_again simp: evidence_again_def)
  next
    case (EvidenceQuery f l n)
    with assms show ?thesis by (auto elim!: on_db_read_Inr dest!: lists_again(1) simp: evidence_again_def [abs_def])
  next
    case (ArtifactCall q)
    with assms show ?thesis by (auto elim!: on_both_Inr dest!: post_artifact_again intro: u)
  next
    case (ArtifactGet i)
    with assms show ?thesis by (auto elim!: on_db_read_Inr dest!: get_artifact_again)
  next
    case (ArtifactQuery e r l n)
    with assms show ?thesis by (auto elim!: on_db_read_Inr dest!: lists_again(2))
  next
    case (AttachCall i q)
    with assms show ?thesis
      by (auto elim!: on_db_Inr simp: post_attach_def attach_artifact_def transaction_Inr dest!: answer_attach)
  next
    case (PromotionCall q)
    with assms show ?thesis by (auto elim!: on_db_Inr dest!: post_promotion_again intro: u)
  next
    case (PromotionQuery e r l n)
    with assms show ?thesis by (auto elim!: on_db_read_Inr dest!: lists_again(3))
  next
    case (HealthRecordCall q)
    with assms show ?thesis by (auto elim!: on_db_Inr dest!: post_health_again intro: u simp: typed_health_request_def)
  next
    case (HealthQuery e r l n)
    with assms show ?thesis by (auto elim!: on_db_read_Inr dest!: lists_again(4))
  next
    case ReadyCall
    with assms obtain r w' where "map_ending (\<lambda>(n, dep). AReady n dep) r = Done (Inr a)"
      by (auto simp: on_disk_def split: prod.splits)
    then show ?thesis by (cases r) (auto simp: map_sum_Inr)
  next
    case (ArtifactDownload i)
    with assms obtain r w' where "map_ending ADownload r = Done (Inr a)"
      by (auto simp: on_disk_def split: prod.splits)
    then show ?thesis by (cases r) (auto simp: map_sum_Inr)
  qed (use assms in auto)
qed

end
