(* ===== verification/ClientProps.thy ===== *)
theory ClientProps
  imports Answers RouteSamples
begin

text \<open>
  What a producer that uses \<open>CERClient\<close> observes: the client is a faithful proxy of the operations, every
  answer passes the validation on its side, a retry is safe end to end, and no request without a
  compatible contract version reaches a store.
\<close>

subsection \<open>A concrete framework\<close>

definition plain_fw :: framework where
  "plain_fw = \<lparr>dt_of = (\<lambda>j. case j of JStr s \<Rightarrow> (case fromisoformat s of Inr t \<Rightarrow> Some t | Inl _ \<Rightarrow> None) | _ \<Rightarrow> None),
     int_of = (\<lambda>j. case j of JInt i \<Rightarrow> Some i | JStr s \<Rightarrow> int_token s | _ \<Rightarrow> None),
     float_of = (\<lambda>j. case j of JFloat s \<Rightarrow> Some s | _ \<Rightarrow> None),
     json_bytes = json_dumps, wire = (\<lambda>v. v), seen = (\<lambda>p. p), no_route = (\<lambda>m p. 404)\<rparr>"

lemma plain_arrives [simp]: "arrives plain_fw q"
  by (simp add: arrives_def plain_fw_def list_all_iff)

definition turn_1 :: turn where
  "turn_1 = \<lparr>at = moment_1, meta = all_up, meta_find = all_up, disk = chances_1, probe = Inr ()\<rparr>"

definition turn_2 :: turn where
  "turn_2 = turn_1\<lparr>at := moment_2\<rparr>"

lemma turns [simp]:
  "at turn_1 = moment_1" "meta turn_1 = all_up" "clock_ok turn_1" "at turn_2 = moment_2" "meta turn_2 = all_up" "clock_ok turn_2"
  by (simp_all add: turn_1_def turn_2_def clock_ok_def)

lemma current_version: "validate_contract_version (OStr CONTRACT_VERSION) = Inr CONTRACT_VERSION"
proof -
  have "strip CONTRACT_VERSION \<noteq> []" by code_simp
  then show ?thesis by (simp add: major_current)
qed

lemma deliverable_posted [simp]: "deliverable plain_fw (EvidenceCall k (request_by p))"
  by (simp add: reads_time_def request_by_def request_1_def plain_fw_def)

subsection \<open>Routing\<close>

lemma generated_one_segment: "validate_generated_id k (OStr i) = Inr j \<Longrightarrow> one_segment i"
  by (auto simp: validate_generated_id_ok one_segment_def list_all_iff ID_KINDS_def suffix_char_def is_ascii_digit_def
      is_hex_letter_def split: if_splits dest: bspec [where x = "CHR ''/''"])

lemma logical_one_segment: "validate_logical_id k (OStr i) = Inr j \<Longrightarrow> one_segment i"
proof -
  assume v: "validate_logical_id k (OStr i) = Inr j"
  have "\<not> (is_alnum (CHR ''/'') \<or> CHR ''/'' \<in> set ''._-'')"
    by (simp add: is_alnum_def is_ascii_letter_def is_ascii_digit_def)
  with v show ?thesis
    by (auto simp: validate_logical_id_ok one_segment_def logical_id_re_def list_all_iff split: list.splits)
qed

text \<open>C37 Every id the contract accepts can be addressed over HTTP: it is one segment of a path, so the path the
  client builds from it is routed to the operation the client means, with exactly that id.\<close>

theorem validated_ids_are_routed:
  "(validate_strategy_id i = Inr i \<longrightarrow>
     find_route ''POST'' (rq_path (client_register_strategy_version cv i q)) = Some (PostStrategyVersion, i)) \<and>
   (validate_experiment_id i = Inr i \<longrightarrow> find_route ''POST'' (rq_path (client_create_run cv i r)) = Some (PostRun, i)) \<and>
   (validate_run_id i = Inr i \<longrightarrow> find_route ''POST'' (rq_path (client_close_run cv i x)) = Some (PostRunClose, i)) \<and>
   (validate_evidence_id i = Inr i \<longrightarrow> find_route ''GET'' (rq_path (client_get_evidence cv i)) = Some (GetEvidence, i)) \<and>
   (validate_artifact_id i = Inr i \<longrightarrow>
     find_route ''GET'' (rq_path (client_get_artifact_metadata cv i)) = Some (GetArtifact, i) \<and>
     find_route ''GET'' (rq_path (client_download_artifact cv i)) = Some (GetDownload, i) \<and>
     find_route ''POST'' (rq_path (client_attach_artifact cv i y)) = Some (PostAttach, i))"
  using routed_id [OF generated_one_segment] routed_id [OF logical_one_segment]
  by (simp add: validate_id_defs method_defs send_get_def send_json_def)

theorem validated_ids_are_routed_witness:
  "find_route ''GET'' (rq_path (client_get_evidence CONTRACT_VERSION ''ev_a1'')) = Some (GetEvidence, ''ev_a1'') \<and>
   find_route ''GET'' (rq_path (client_download_artifact CONTRACT_VERSION ''art_a1'')) = Some (GetDownload, ''art_a1'')"
proof -
  have "validate_evidence_id ''ev_a1'' = Inr ''ev_a1''" "validate_artifact_id ''art_a1'' = Inr ''art_a1''"
    by code_simp+
  then show ?thesis
    using validated_ids_are_routed [of "''ev_a1''"] validated_ids_are_routed [of "''art_a1''"] by blast
qed

lemma major_errors: "major v = Inl e \<Longrightarrow> e = new_exn IncompatibleSchemaVersionError None \<or> e = PyValueError"
  by (auto simp: major_def Let_def raise_cer_def split: if_splits option.splits)

text \<open>C12 Without a compatible contract version nothing happens: a request to any route but the three open
  ones is refused and the application is unchanged, whatever the request says. The refusal is a client error,
  except for a version whose digits Python's \<open>int\<close> does not read, which is answered as an internal error.\<close>

theorem contract_gate_comes_first:
  assumes "find_route (rq_method q) (rq_path q) = Some (e, i)" "e \<notin> {GetLiveness, GetReadiness, GetVersion}"
    and "\<And>v. header F q CONTRACT_VERSION_HEADER = Some v \<Longrightarrow> major v \<noteq> Inr 1"
  shows "\<exists>x. serve F A t q s = (Fault x, s) \<and>
    rs_status (handle_error rid msg x) = (if x = PyValueError then 500 else 400)"
proof -
  let ?r = "require_contract_version (header F q CONTRACT_VERSION_HEADER)"
  have "?r = Inl PyValueError \<or> (\<exists>c \<in> {ContractViolationError, IncompatibleSchemaVersionError}. ?r = raise_cer c)"
  proof (cases "header F q CONTRACT_VERSION_HEADER")
    case (Some v)
    with assms(3) show ?thesis using major_errors [of v]
      by (cases "major v") (auto simp: require_contract_version_def major_current raise_cer_def)
  qed (simp add: require_contract_version_def)
  then obtain x where x: "?r = Inl x" "rs_status (handle_error rid msg x) = (if x = PyValueError then 500 else 400)"
    by (auto simp: raise_cer_def new_exn_def error_response_def status_for_def ERROR_STATUS_ORDER_def is_subclass_def)
  then have "serve F A t q s = (Fault x, s)"
    using assms(1,2) by (simp add: serve_def gate_def gated_endpoint_def)
  with x(2) show ?thesis by blast
qed

theorem contract_gate_comes_first_witness:
  "\<exists>x. serve plain_fw plain_api turn_1 (client_append_evidence ''2.0.0'' ''BACKTEST'' 1 ''hsa'' ''k1'' []) (empty_db, store_0) =
      (Fault x, (empty_db, store_0)) \<and> rs_status (handle_error ''r'' ''m'' x) = (if x = PyValueError then 500 else 400)"
proof (rule contract_gate_comes_first)
  let ?q = "client_append_evidence ''2.0.0'' ''BACKTEST'' 1 ''hsa'' ''k1'' []"
  show "find_route (rq_method ?q) (rq_path ?q) = Some (PostEvidence, [])"
    by (simp add: client_append_evidence_def send_json_def routed)
  have "header plain_fw ?q CONTRACT_VERSION_HEADER = Some ''2.0.0''"
    by (simp add: client_append_evidence_def header_def request_headers) (simp add: plain_fw_def)
  moreover have "major ''2.0.0'' = Inr 2" by code_simp
  ultimately show "major v \<noteq> Inr 1" if "header plain_fw ?q CONTRACT_VERSION_HEADER = Some v" for v
    using that by simp
qed simp

subsection \<open>Calls\<close>

lemma raised_known: "raised_for (handle_error rid msg (new_exn x None)) = Raised (Known x (JStr (class_code x)))"
proof -
  have "map_of CODE_TO_EXCEPTION (class_code x) = Some x" by (simp add: code_lookup)
  then show ?thesis using class_code_nonempty [of x] by (simp add: raised_for_def new_exn_def error_response_def)
qed

lemma sound_start: "wf_db (api_libs plain_api) empty_db" "libs_ok (api_fs plain_api)"
  by (simp_all add: wf_db_empty plain_cfg_ok)

text \<open>C9 The client is a faithful proxy: whatever a method is called with, provided the values survive their
  text form, the application ends in the state the operation itself leaves, the caller gets the operation's
  answer, an exception of the contract arrives with its class and code, and a server that is not
  ready or died is an exception.\<close>

theorem client_is_faithful_proxy:
  assumes "deliverable F c" "arrives F (request_of cv c)" "validate_contract_version (OStr cv) = Inr cv"
    and "typed_call c" "clock_ok t" "wf_db (api_libs A) d" "libs_ok (api_fs A)"
    and "perform A t c (d, w) = (r, s')"
  shows "\<exists>out. client_call F A t rid msg (request_of cv c) (d, w) = (out, s') \<and>
    (\<forall>a. r = Done (Inr a) \<longrightarrow> out = (case a of AReady n dep \<Rightarrow>
        if n \<ge> 400 then Inl (Raised (CERClientError (JStr client_code))) else Inr a | _ \<Rightarrow> Inr a)) \<and>
    (\<forall>x. r = Done (Inl (new_exn x None)) \<longrightarrow> out = Inl (Raised (Known x (JStr (class_code x))))) \<and>
    (r = Crash \<longrightarrow> out = Inl ConnectionLost)"
proof -
  let ?out = "client_receive rid msg (reply_of r)"
  have "client_call F A t rid msg (request_of cv c) (d, w) = (?out, s')"
    using serve_call [OF assms(1-3)] assms(8) by (simp add: client_call_def)
  moreover have "?out = (case a of AReady n dep \<Rightarrow>
      if n \<ge> 400 then Inl (Raised (CERClientError (JStr client_code))) else Inr a | _ \<Rightarrow> Inr a)" if "r = Done (Inr a)" for a
  proof -
    have "model_validate a = Inr a" using all_again [OF _ assms(6,7,4,5)] assms(8) that by blast
    then show ?thesis using that by (cases a) (simp_all add: readiness_body_def del: model_validate.simps)
  qed
  moreover have "?out = Inl (Raised (Known x (JStr (class_code x))))" if "r = Done (Inl (new_exn x None))" for x
    using that by (simp add: raised_known)
  ultimately show ?thesis by auto
qed

theorem client_is_faithful_proxy_witness:
  "client_call plain_fw plain_api turn_1 ''r'' ''m'' (request_of CONTRACT_VERSION (EvidenceGet ''ev_1'')) (empty_db, store_0) =
      (Inl (Raised (Known NotFoundError (JStr ''not_found''))), (empty_db, store_0))"
proof -
  have "perform plain_api turn_1 (EvidenceGet ''ev_1'') (empty_db, store_0) = (Done (Inl (new_exn NotFoundError None)), (empty_db, store_0))"
    by (simp add: on_db_read_def get_evidence_def reading_def fetch_evidence_def all_up_def raise_cer_def)
  then show ?thesis
    using client_is_faithful_proxy [of plain_fw "EvidenceGet ''ev_1''" CONTRACT_VERSION, OF _ plain_arrives current_version _ turns(3) sound_start]
    by (fastforce simp: one_segment_def)
qed

text \<open>C17 Every object a call answers with is one the contract accepts as it is: validating it again, as the
  client does, gives the same object. So no answer of a store with a sound database is refused by the client.\<close>

theorem answers_validate_again:
  assumes "perform A t c (d, w) = (Done (Inr a), s')" "typed_call c" "clock_ok t" "wf_db (api_libs A) d" "libs_ok (api_fs A)"
  shows "model_validate a = Inr a"
  by (rule all_again [OF assms(1,4,5,2,3)])

lemma post_evidence_body_key:
  "k \<noteq> [] \<Longrightarrow> er_idempotency_key q = None \<Longrightarrow>
     post_evidence A mo v (Some k) (q\<lparr>er_idempotency_key := Some k\<rparr>) d = post_evidence A mo v (Some k) q d"
  by (simp add: post_evidence_def resolve_idempotency_key_def evidence_args_def truthy_def)

lemma perform_posted:
  assumes "sample_names p k"
  shows "perform plain_api turn_1 (EvidenceCall k (request_by p)) (empty_db, w) = (Done (Inr (AEvidence (posted_by p k))), (db_posted p k, w))"
  using assms post_evidence_by [OF assms] by (simp add: on_db_def nonempty_def post_evidence_body_key sample_names_def)

theorem answers_validate_again_witness: "model_validate (AEvidence (posted_by ''hsa'' ''k1'')) = Inr (AEvidence (posted_by ''hsa'' ''k1''))"
  using answers_validate_again [OF perform_posted [of "''hsa''" "''k1''" store_0] _ turns(3) sound_start] by simp

lemma receive_evidence:
  "client_receive rid msg (reply_of (Done (map_sum id AEvidence r))) = Inr (AEvidence y) \<Longrightarrow>
     \<exists>z. r = Inr z \<and> evidence_again z = Inr y"
  by (cases r) (auto simp: evidence_again_def map_sum_Inr split: sum.splits)

lemma post_evidence_wf:
  assumes "post_evidence A mo v h q d = (Inr y, d')" "wf_db (api_libs A) d" "typed_request q" "utc_pydt (utcnow mo)"
  shows "wf_db (api_libs A) d'"
proof -
  obtain key i e where e: "mk_evidence (AsText (er_evidence_type q)) (evidence_args i (the key) (or_now (er_created_at_utc q) mo) q) = Inr e"
      and app: "append_evidence (api_libs A) v e d = (Inr y, d')"
    using post_evidence_Inr [OF assms(1)] by metis
  have "typed_opt valid_pydt (er_created_at_utc q)" using assms(3) by (simp add: typed_request_def)
  then have "valid_evidence e" by (rule mk_evidence_valid [OF typed_evidence_args [OF assms(3) or_now_utc [OF _ assms(4)]] e])
  then show ?thesis
    by (rule db_step_wf [OF append_evidence_step [OF append_evidence_tx_of [OF app]] assms(2)])
qed

text \<open>C8 A producer may repeat \<open>append_evidence\<close> with the same key until it gets an answer: the second call,
  after any other valid calls of anyone and whatever the artifact store has become, returns the record the first one
  created, and no row is written.\<close>

theorem client_append_is_retryable:
  assumes "deliverable F (EvidenceCall key q)" "arrives F (request_of cv (EvidenceCall key q))"
    and "validate_contract_version (OStr cv) = Inr cv" "typed_request q" "clock_ok t" "clock_ok t'"
    and "wf_db (api_libs A) d"
    and "client_call F A t rid msg (request_of cv (EvidenceCall key q)) (d, w) = (Inr (AEvidence y), (d1, w1))"
    and "d1 \<noteq> d" "valid_history ps" "healthy (meta t')"
  shows "client_call F A t' rid' msg' (request_of cv (EvidenceCall key q)) (exec_ops (api_libs A) ps d1, w2) =
    (Inr (AEvidence (canon_evidence y)), (exec_ops (api_libs A) ps d1, w2))"
proof -
  let ?q = "q\<lparr>er_idempotency_key := Some key\<rparr>" and ?d = "exec_ops (api_libs A) ps d1"
  note serve = serve_call [OF assms(1-3)]
  obtain r d2 where r: "post_evidence A (at t) (meta t) (nonempty (Some key)) ?q d = (r, d2)" by fastforce
  then have "client_receive rid msg (reply_of (Done (map_sum id AEvidence r))) = Inr (AEvidence y)" "d2 = d1"
    using assms(8) by (auto simp: client_call_def serve on_db_def simp del: client_receive.simps reply_of.simps request_of.simps)
  then obtain z where z: "post_evidence A (at t) (meta t) (nonempty (Some key)) ?q d = (Inr z, d1)"
      and y: "evidence_again z = Inr y" using receive_evidence r by blast
  have ty: "typed_request ?q" using assms(4) by (simp add: typed_request_def)
  have u: "utc_pydt (utcnow (at t))" "utc_pydt (utcnow (at t'))" using assms(5,6) by (simp_all add: clock_ok_def)
  have "y = z" using post_evidence_again [OF z assms(7) ty u(1)] y by simp
  moreover have again: "post_evidence A (at t') (meta t') (nonempty (Some key)) ?q ?d = (Inr (canon_evidence z), ?d)"
    by (rule post_evidence_replayed [OF assms(7) ty u z assms(9-11)])
  moreover have "wf_db (api_libs A) ?d"
    by (rule history_wf [OF assms(10) post_evidence_wf [OF z assms(7) ty u(1)]])
  then have "evidence_again (canon_evidence z) = Inr (canon_evidence z)"
    using post_evidence_again [OF again _ ty u(2)] by blast
  ultimately show ?thesis by (simp add: client_call_def serve on_db_def evidence_again_def del: request_of.simps)
qed

theorem client_append_is_retryable_witness:
  "client_call plain_fw plain_api turn_2 ''r2'' ''m'' (request_of CONTRACT_VERSION (EvidenceCall ''k1'' (request_by ''hsa'')))
      (exec_ops plain_libs [(all_up, RegisterStrategy strategy_1)] (db_posted ''hsa'' ''k1''), store_1) =
    (Inr (AEvidence (canon_evidence (posted_by ''hsa'' ''k1''))),
     (exec_ops plain_libs [(all_up, RegisterStrategy strategy_1)] (db_posted ''hsa'' ''k1''), store_1))"
proof -
  have "serve plain_fw plain_api turn_1 ((request_of CONTRACT_VERSION (EvidenceCall ''k1'' (request_by ''hsa'')))
        \<lparr>rq_path := seen plain_fw (rq_path (request_of CONTRACT_VERSION (EvidenceCall ''k1'' (request_by ''hsa''))))\<rparr>) (empty_db, store_0) =
      (Answer (AEvidence (posted_by ''hsa'' ''k1'')), (db_posted ''hsa'' ''k1'', store_0))"
    using perform_posted [of "''hsa''" "''k1''" store_0]
    unfolding serve_call [OF deliverable_posted plain_arrives current_version] by simp
  moreover have "evidence_again (posted_by ''hsa'' ''k1'') = Inr (posted_by ''hsa'' ''k1'')"
    using again_evidence valid_posted by simp
  ultimately have "client_call plain_fw plain_api turn_1 ''r'' ''m'' (request_of CONTRACT_VERSION (EvidenceCall ''k1'' (request_by ''hsa'')))
      (empty_db, store_0) = (Inr (AEvidence (posted_by ''hsa'' ''k1'')), (db_posted ''hsa'' ''k1'', store_0))"
    by (simp add: client_call_def evidence_again_def del: request_of.simps)
  from client_append_is_retryable [OF deliverable_posted plain_arrives current_version _ turns(3) turns(6) sound_start(1) this,
      of "[(all_up, RegisterStrategy strategy_1)]" "''r2''" "''m''" store_1]
  show ?thesis using db_posted_new by (simp del: request_of.simps)
qed

end
