(* ===== verification/Application.thy ===== *)
theory Application
  imports ClientProps
begin

text \<open>
  The envelope of a response (\<open>_request_context\<close> of \<open>src/cer/api/app.py\<close>, the logging of
  \<open>src/cer/api/errors.py\<close>): the request id, the status, the body, and the log records of one request. Whether
  the framework runs the handler of \<open>Exception\<close> outside the middleware is an argument (\<open>outside\<close>).
\<close>

definition INBOUND_REQUEST_ID_HEADER :: string where "INBOUND_REQUEST_ID_HEADER = ''X-Request-Id''"

datatype log_event =
    CerErrorLine string string \<comment> \<open>\<open>"unhandled cer error"\<close>: request id, code\<close>
  | UnhandledLine string \<comment> \<open>\<open>"unhandled exception"\<close>: request id\<close>
  | RequestLine string string string nat \<comment> \<open>\<open>"request"\<close>: request id, method, path, status\<close>

datatype served_body = Object answer | Error json | Unready json

record served =
  sd_status :: nat
  sd_request_id :: string
  sd_body :: served_body

text \<open>The \<open>status_code\<close> of a route's decorator.\<close>

definition success_status :: "endpoint \<Rightarrow> nat" where
  "success_status e =
     (if e \<in> {PostStrategy, PostStrategyVersion, PostExperiment, PostRun, PostEvidence, PostArtifact, PostPromotion, PostHealthRecord}
      then 201 else 200)"

text \<open>What a handler logs, and whether the exception is one of those with a handler of its own.\<close>

fun error_log :: "string \<Rightarrow> exn \<Rightarrow> log_event list" where
  "error_log rid (CERExn c code) = (if status_for c \<ge> 500 then [CerErrorLine rid code] else [])"
| "error_log rid RequestValidationError = []"
| "error_log rid (PydanticError _) = []"
| "error_log rid _ = [UnhandledLine rid]"

fun expected :: "exn \<Rightarrow> bool" where
  "expected (CERExn c code) = True"
| "expected RequestValidationError = True"
| "expected (PydanticError _) = True"
| "expected _ = False"

definition served_of :: "response \<Rightarrow> served" where
  "served_of r = \<lparr>sd_status = rs_status r, sd_request_id = rs_request_id r, sd_body = Error (rs_body r)\<rparr>"

definition answered :: "string \<Rightarrow> string \<Rightarrow> endpoint \<Rightarrow> answer \<Rightarrow> served" where
  "answered rid msg e a = (case a of
     AReady status dep \<Rightarrow> \<lparr>sd_status = status, sd_request_id = rid,
       sd_body = (if status \<ge> 400 then Unready (readiness_body msg dep) else Object a)\<rparr>
   | _ \<Rightarrow> \<lparr>sd_status = success_status e, sd_request_id = rid, sd_body = Object a\<rparr>)"

definition request_line :: "string \<Rightarrow> request \<Rightarrow> served \<Rightarrow> log_event" where
  "request_line rid q r = RequestLine rid (rq_method q) (rq_path q) (sd_status r)"

definition respond ::
    "framework \<Rightarrow> api_cfg \<Rightarrow> bool \<Rightarrow> turn \<Rightarrow> string \<Rightarrow> string \<Rightarrow> request \<Rightarrow> app \<Rightarrow> (served option \<times> log_event list) \<times> app" where
  "respond F A outside t uuid msg q s =
     (let rid = request_id_of (header F q INBOUND_REQUEST_ID_HEADER) uuid;
          complete = (\<lambda>r log. (Some r, log @ [request_line rid q r])) in
      apfst (\<lambda>reply. case reply of
          Gone \<Rightarrow> (None, [])
        | NoRoute n \<Rightarrow> complete (served_of (handle_framework_error rid msg n)) []
        | Answer a \<Rightarrow> complete (answered rid msg (case find_route (rq_method q) (rq_path q) of Some (e, _) \<Rightarrow> e | None \<Rightarrow> GetLiveness) a) []
        | Fault e \<Rightarrow>
            (let r = served_of (handle_error rid msg e) in
             if outside \<and> \<not> expected e then (Some r, error_log rid e) else complete r (error_log rid e)))
        (serve F A t q s))"

subsection \<open>Lemmas\<close>

lemma error_body: "\<exists>code text. rs_body (handle_error rid msg e) =
    JObj [(''code'', JStr code), (''message'', JStr text), (''request_id'', JStr rid)] \<and> rs_request_id (handle_error rid msg e) = rid"
  by (cases e) (auto simp: error_response_def)

text \<open>C18 Every response can be traced, and what is logged of a request is exactly determined. The response carries the
  caller's request id, or a fresh one, in its header and, when it is an error, in its body. An exception answered with
  5xx, and no other reply, has one error record: the code of the contract error, or an unhandled exception, which is
  answered 500. The request's record, with its method, path and status, is written once for every reply but an unhandled
  exception answered outside the middleware, which has its error record only; an answer, the 503 of \<open>/ready\<close> included,
  has its request record only. All records carry the id of the response, and the stores are as the handler left them.\<close>

theorem responses_are_traceable:
  "case respond F A outside t uuid msg q s of ((r, log), s') \<Rightarrow>
     s' = snd (serve F A t q s) \<and>
     (case r of
        None \<Rightarrow> fst (serve F A t q s) = Gone \<and> log = []
      | Some p \<Rightarrow>
          sd_request_id p = (case header F q INBOUND_REQUEST_ID_HEADER of Some (c # cs) \<Rightarrow> c # cs | _ \<Rightarrow> uuid) \<and>
          (\<forall>j. sd_body p = Error j \<longrightarrow> (\<exists>code text. j =
             JObj [(''code'', JStr code), (''message'', JStr text), (''request_id'', JStr (sd_request_id p))])) \<and>
          (let request = RequestLine (sd_request_id p) (rq_method q) (rq_path q) (sd_status p) in
           case fst (serve F A t q s) of
             Fault (CERExn c code) \<Rightarrow>
               log = (if sd_status p \<ge> 500 then [CerErrorLine (sd_request_id p) code, request] else [request])
           | Fault x \<Rightarrow>
               if expected x then sd_status p < 500 \<and> log = [request]
               else sd_status p = 500 \<and> log = UnhandledLine (sd_request_id p) # (if outside then [] else [request])
           | _ \<Rightarrow> log = [request]))"
proof -
  obtain reply s' where 1: "serve F A t q s = (reply, s')" by (cases "serve F A t q s")
  let ?rid = "request_id_of (header F q INBOUND_REQUEST_ID_HEADER) uuid"
  have rid: "?rid = (case header F q INBOUND_REQUEST_ID_HEADER of Some (c # cs) \<Rightarrow> c # cs | _ \<Rightarrow> uuid)"
    by (simp add: request_id_of_def split: option.split list.split)
  show ?thesis
  proof (cases reply)
    case (Fault x)
    obtain code content where b: "rs_body (handle_error ?rid msg x) =
        JObj [(''code'', JStr code), (''message'', JStr content), (''request_id'', JStr ?rid)]"
        "rs_request_id (handle_error ?rid msg x) = ?rid"
      using error_body by metis
    show ?thesis
      by (cases x) (use b in \<open>auto simp: respond_def 1 Fault Let_def served_of_def request_line_def error_response_def simp flip: rid\<close>)
  next
    case (Answer a)
    then show ?thesis
      by (cases a) (simp_all add: respond_def 1 Let_def answered_def request_line_def flip: rid)
  qed (simp_all add: respond_def 1 Let_def served_of_def request_line_def handle_framework_error_def error_response_def flip: rid)
qed

definition anonymous :: request where
  "anonymous = \<lparr>rq_method = ''GET'', rq_path = ''/v1/evidence/ev_a1'', rq_params = [], rq_headers = [], rq_body = NoBody\<rparr>"

theorem responses_are_traceable_witness:
  "\<exists>p. respond plain_fw plain_api True turn_1 ''u1'' ''m'' anonymous (empty_db, store_0) =
      ((Some p, [RequestLine ''u1'' ''GET'' ''/v1/evidence/ev_a1'' 400]), (empty_db, store_0)) \<and> sd_request_id p = ''u1''"
proof -
  let ?serve = "serve plain_fw plain_api turn_1 anonymous (empty_db, store_0)"
  have h: "header plain_fw anonymous n = None" for n by (simp add: header_def anonymous_def)
  have "find_route ''GET'' ''/v1/evidence/ev_a1'' = Some (GetEvidence, ''ev_a1'')" by code_simp
  then have s: "?serve = (Fault (new_exn ContractViolationError None), (empty_db, store_0))"
    by (simp add: serve_def gate_def gated_endpoint_def h require_contract_version_def anonymous_def [THEN arg_cong, of rq_method]
        anonymous_def [THEN arg_cong, of rq_path] raise_cer_def)
  obtain r log s' where r: "respond plain_fw plain_api True turn_1 ''u1'' ''m'' anonymous (empty_db, store_0) = ((r, log), s')"
    by (metis prod.collapse)
  then obtain p where p: "r = Some p" "sd_status p = 400"
    by (auto simp: respond_def s Let_def served_of_def new_exn_def error_response_def status_for_def ERROR_STATUS_ORDER_def is_subclass_def)
  note t = responses_are_traceable [where F = plain_fw and A = plain_api and outside = True and t = turn_1 and uuid = "''u1''" and
      msg = "''m''" and q = anonymous and s = "(empty_db, store_0)", unfolded r s p(1)]
  have "sd_request_id p = ''u1'' \<and> log = [RequestLine ''u1'' ''GET'' ''/v1/evidence/ev_a1'' 400] \<and> s' = (empty_db, store_0)"
    using t p(2) by (simp add: h new_exn_def) (simp add: anonymous_def)
  then show ?thesis using p r by simp
qed

end
