(* ===== verification/Startup.thy ===== *)
theory Startup
  imports RouteProps QueryProps
begin

text \<open>
  What \<open>src/cer/api/main.py\<close> does with the artifact store before serving: a process start opens the store
  and initialises it only when that cannot hide a lost volume. Opening the metadata database is
  \<open>Migrations\<close>' part; uvicorn and logging have no model.
\<close>

subsection \<open>The decision\<close>

text \<open>\<open>None\<close> is "could not be determined".\<close>

definition metadata_holds_artifact_records :: "env \<Rightarrow> db \<Rightarrow> bool option" where
  "metadata_holds_artifact_records v d =
     (case query_artifacts v None None 1 0 d of Inl _ \<Rightarrow> None | Inr found \<Rightarrow> Some (found \<noteq> []))"

definition initialise_artifact_store_if_safe :: "chances \<Rightarrow> env \<Rightarrow> db \<Rightarrow> unit io" where
  "initialise_artifact_store_if_safe ch v d w =
     (case health ch w of
        (Crash, w') \<Rightarrow> (Crash, w')
      | (Done (Inr _), w') \<Rightarrow> (Done (Inr ()), w')
      | (Done (Inl _), w') \<Rightarrow> (case metadata_holds_artifact_records v d of
            Some False \<Rightarrow> initialise ch w'
          | Some True \<Rightarrow> mark_previously_initialised w'
          | None \<Rightarrow> (Done (Inr ()), w')))"

definition build_artifact_store :: "fs_cfg \<Rightarrow> chances \<Rightarrow> env \<Rightarrow> db \<Rightarrow> unit io" where
  "build_artifact_store C ch v d = io_bind (open_store C) (\<lambda>_. initialise_artifact_store_if_safe ch v d)"

subsection \<open>What the metadata store knows\<close>

lemma holds_records:
  assumes "wf_db L d" "healthy v"
  shows "metadata_holds_artifact_records v d = Some (d artifacts \<noteq> [])"
proof -
  let ?dec = "\<lambda>r. case row_to_artifact r of Inr a \<Rightarrow> a"
  have dec: "row_to_artifact r = Inr (?dec r)" if "r \<in> set (d artifacts)" for r
    using stored_artifact [OF wf_db_stored [OF assms(1) that]] by auto
  let ?found = "page 1 0 (map ?dec (order_desc ''registered_at'' ''artifact_id'' (select_all [] (d artifacts))))"
  have "query_artifacts v None None 1 0 d = Inr ?found"
    using run_query_page [OF dec assms(2), where cs = "[]" and limit = 1 and offset = 0]
    by (simp add: query_artifacts_def opt_clause_def int64_def)
  moreover have "length (select_all [] (d artifacts)) = length (d artifacts)" by (simp add: select_all_def matches_def)
  then have "?found = [] \<longleftrightarrow> d artifacts = []" by (auto simp: page_def simp flip: length_0_conv)
  ultimately show ?thesis by (simp add: metadata_holds_artifact_records_def)
qed

lemma holds_unknown:
  "\<not> connects v \<or> \<not> reads v \<Longrightarrow> metadata_holds_artifact_records v d = None"
  by (auto simp: metadata_holds_artifact_records_def query_artifacts_def run_query_def raise_cer_def)

subsection \<open>Opening a store\<close>

lemma open_cases:
  assumes "open_store C w = (r, w1)"
  shows "files w1 = files w \<and> (r = Crash \<or> max_bytes C \<le> 0 \<and> r = Done (Inl PyValueError) \<or>
    r = Done (Inr ()) \<and> (initialised w1 \<longrightarrow> layout (files w)))"
proof -
  obtain r1 w2 where 1: "backing_present w = (r1, w2)" by fastforce
  show ?thesis
    using assms backing_cases [OF 1]
    by (auto simp: open_store_def io_bind_def io_raise_def set_initialised_def 1 split: if_splits)
qed

text \<open>On a disk without faults the presence check answers, and an absent store is answered \<open>False\<close>.\<close>

definition calm :: "bool io \<Rightarrow> bool" where
  "calm c \<longleftrightarrow> (\<forall>w. script w = [] \<longrightarrow> (\<exists>b. c w = (Done (Inr b), w)) \<or> (\<exists>e. c w = (Done (Inl e), w) \<and> is_os_error e))"

lemma calm_path_is: "calm (path_is P p)"
  by (auto simp: calm_def path_is_def sys_works reads_only_def rbind_def split: sum.splits option.splits if_splits)

lemma calm_and:
  assumes "calm c" "calm d" shows "calm (io_and c d)"
  unfolding calm_def
proof (intro allI impI)
  fix w :: fstore assume s: "script w = []"
  note c = assms(1) [unfolded calm_def, rule_format, OF s] and d = assms(2) [unfolded calm_def, rule_format, OF s]
  from c show "(\<exists>b. io_and c d w = (Done (Inr b), w)) \<or> (\<exists>e. io_and c d w = (Done (Inl e), w) \<and> is_os_error e)"
  proof (elim disjE exE conjE)
    fix b assume "c w = (Done (Inr b), w)"
    with d show ?thesis by (cases b) (auto simp: io_and_def io_bind_def io_return_def)
  qed (simp add: io_and_def io_bind_def)
qed

lemma backing_absent:
  assumes "script w = []" "\<not> layout (files w)"
  shows "backing_present w = (Done (Inr False), w)"
proof -
  let ?c = "io_and (is_dir root_dir) (io_and (is_dir blobs_dir) (io_and (is_dir index_dir) (is_file marker_path)))"
  have "calm ?c" unfolding is_dir_def is_file_def by (intro calm_and calm_path_is)
  note this [unfolded calm_def, rule_format, OF assms(1)]
  then obtain b where b: "backing_present w = (Done (Inr b), w)"
    by (elim disjE exE conjE) (auto simp: backing_present_def catch_os_def io_return_def)
  with backing_cases [OF b] assms(2) show ?thesis by auto
qed

subsection \<open>Initialising an empty volume\<close>

text \<open>A volume that was just mounted, or whose mount point does not exist yet.\<close>

definition empty_volume :: "fs \<Rightarrow> bool" where
  "empty_volume m \<longleftrightarrow> m = (\<lambda>_. None) \<or> m = [root_dir \<mapsto> Dir]"

definition fresh_layout :: "bytes \<Rightarrow> fs" where
  "fresh_layout marker = [root_dir \<mapsto> Dir, blobs_dir \<mapsto> Dir, index_dir \<mapsto> Dir, marker_path \<mapsto> File marker]"

lemma fresh_layout_ok: "tree (fresh_layout b)" "layout (fresh_layout b)"
  by (auto simp: tree_def fresh_layout_def layout_def root_dir_def blobs_dir_def index_dir_def marker_path_def
      strict_prefix_def prefix_Cons)

lemma empty_volume_facts:
  assumes "empty_volume m"
  shows "tree m" "\<not> layout m"
  using assms by (auto simp: empty_volume_def tree_def layout_def root_dir_def blobs_dir_def split: if_splits)

lemma mkdir_works:
  assumes "script w = []" "\<And>q. q \<in> set (prefixes p) \<Longrightarrow> file_at (files w) q = None"
  shows "mkdir_parents p w = (Done (Inr ()), w\<lparr>files := make_dirs (prefixes p) (files w)\<rparr>)"
proof -
  have "\<not> (case files w q of Some (File _) \<Rightarrow> True | _ \<Rightarrow> False)" if "q \<in> set (prefixes p)" for q
    using assms(2) [OF that] by (auto simp: file_at_None)
  then have "\<not> list_ex (\<lambda>q. case files w q of Some (File _) \<Rightarrow> True | _ \<Rightarrow> False) (prefixes p)"
    unfolding list_ex_iff by blast
  with assms(1) show ?thesis by (simp add: mkdir_parents_def sys_works)
qed

lemma initialise_works:
  assumes "script w = []" "empty_volume (files w)" "marker_tmp ch \<noteq> []" "isoformat_utc (now ch) = Inr t"
    and "short_name (last (tmp_path marker_path (hd (marker_tmp ch))))"
  shows "initialise ch w = (Done (Inr ()), w\<lparr>files := fresh_layout (marker_text t), initialised := True\<rparr>)"
proof -
  let ?m = "[root_dir \<mapsto> Dir, blobs_dir \<mapsto> Dir, index_dir \<mapsto> Dir]"
  have e: "file_at (files w) q = None" "files w q \<noteq> None \<Longrightarrow> q = []" for q
    using assms(2) by (auto simp: empty_volume_def file_at_def root_dir_def split: if_splits)
  have 1: "mkdir_parents root_dir w = (Done (Inr ()), w\<lparr>files := [root_dir \<mapsto> Dir]\<rparr>)"
  proof -
    have "make_dirs (prefixes root_dir) (files w) = [root_dir \<mapsto> Dir]"
      using assms(2) by (auto simp: empty_volume_def make_dirs_def root_dir_def fun_eq_iff)
    then show ?thesis using mkdir_works [OF assms(1), of root_dir] e by simp
  qed
  have 2: "mkdir_parents blobs_dir (w\<lparr>files := [root_dir \<mapsto> Dir]\<rparr>) =
      (Done (Inr ()), w\<lparr>files := [root_dir \<mapsto> Dir, blobs_dir \<mapsto> Dir]\<rparr>)"
  proof -
    have "make_dirs (prefixes blobs_dir) [root_dir \<mapsto> Dir] = [root_dir \<mapsto> Dir, blobs_dir \<mapsto> Dir]"
      by (auto simp: make_dirs_def root_dir_def blobs_dir_def fun_eq_iff)
    then show ?thesis using mkdir_works [of "w\<lparr>files := [root_dir \<mapsto> Dir]\<rparr>" blobs_dir] assms(1)
      by (simp add: file_at_def root_dir_def blobs_dir_def)
  qed
  have 3: "mkdir_parents index_dir (w\<lparr>files := [root_dir \<mapsto> Dir, blobs_dir \<mapsto> Dir]\<rparr>) = (Done (Inr ()), w\<lparr>files := ?m\<rparr>)"
  proof -
    have "make_dirs (prefixes index_dir) [root_dir \<mapsto> Dir, blobs_dir \<mapsto> Dir] = ?m"
      by (auto simp: make_dirs_def root_dir_def blobs_dir_def index_dir_def fun_eq_iff)
    then show ?thesis using mkdir_works [of "w\<lparr>files := [root_dir \<mapsto> Dir, blobs_dir \<mapsto> Dir]\<rparr>" index_dir] assms(1)
      by (simp add: file_at_def root_dir_def blobs_dir_def index_dir_def)
  qed
  have t: "tree ?m"
    by (auto simp: tree_def root_dir_def blobs_dir_def index_dir_def strict_prefix_def prefix_Cons split: if_splits)
  have 4: "path_exists_io marker_path (w\<lparr>files := ?m\<rparr>) = (Done (Inr False), w\<lparr>files := ?m\<rparr>)"
    using exists_works [of "w\<lparr>files := ?m\<rparr>", OF _ _ layout_short(3) marker_clean] assms(1) t
    by (simp add: root_dir_def blobs_dir_def index_dir_def marker_path_def)
  have "room ?m marker_path (marker_tmp ch)"
    using assms(3,5) layout_short(3)
    by (auto simp: room_def file_at_def marker_path_def root_dir_def blobs_dir_def index_dir_def tmp_path_def)
  then have 5: "atomic_write (marker_tmp ch) marker_path (marker_text t) (w\<lparr>files := ?m\<rparr>) =
      (Done (Inr ()), w\<lparr>files := fresh_layout (marker_text t)\<rparr>)"
    using atomic_write_works [of "w\<lparr>files := ?m\<rparr>" marker_path "marker_tmp ch" "marker_text t"] assms(1) t
    by (auto simp: fresh_layout_def make_dirs_def marker_path_def root_dir_def fun_eq_iff)
  show ?thesis using assms(4)
    by (simp add: initialise_def io_bind_def catch_os_def 1 2 3 4 5 io_lift_def set_initialised_def)
qed


lemma health_absent:
  "script w = [] \<Longrightarrow> \<not> layout (files w) \<Longrightarrow> health ch w = (Done (Inl (new_exn ArtifactStoreError None)), w)"
  by (simp add: health_def io_bind_def backing_absent raise_store_def io_raise_def)

lemma open_absent:
  "script w = [] \<Longrightarrow> \<not> layout (files w) \<Longrightarrow> 0 < max_bytes C \<Longrightarrow>
     open_store C w = (Done (Inr ()), w\<lparr>initialised := False\<rparr>)"
  by (simp add: open_store_def io_bind_def backing_absent set_initialised_def)

text \<open>The first \<open>put\<close> of an instance that never saw its store initialises it.\<close>

lemma put_lazy:
  assumes "script w = []" "\<not> layout (files w)" "\<not> initialised w" "put_checks C data ct fn declared = Inr ()"
    and "initialise ch w = (Done (Inr ()), w1)" "script w1 = []" "tree (files w1)" "layout (files w1)" "initialised w1"
  shows "put C ch data ct fn declared w = put C ch data ct fn declared w1"
proof -
  have "w1\<lparr>initialised := True\<rparr> = w1" using assms(9) by (cases w1) simp
  then show ?thesis
    using backing_absent [OF assms(1,2)] backing_works [OF assms(6-8)] assms(3-5)
    by (simp add: put_def io_bind_def io_lift_def require_live_backing_def io_return_def set_initialised_def)
qed

subsection \<open>Properties\<close>

text \<open>C5 A service that starts on a lost artifact volume, while its database still holds artifact records,
  creates nothing and, once it is up, stays unready and acknowledges no upload, whatever the faults; without
  faults it does come up.\<close>

theorem lost_volume_refused_at_startup:
  assumes "wf_db L d" "d artifacts \<noteq> []" "healthy v" "\<not> layout (files w)" "build_artifact_store C ch v d w = (r, w1)"
  shows "files w1 = files w \<and>
    (r = Done (Inr ()) \<longrightarrow>
      (\<forall>ch' data ct fn declared s w2. put C ch' data ct fn declared w1 = (s, w2) \<longrightarrow>
         files w2 = files w \<and> (\<forall>a. s \<noteq> Done (Inr a))) \<and>
      (\<forall>m ch' s w2. readiness m ch' w1 = (s, w2) \<longrightarrow> files w2 = files w \<and> s \<noteq> Done (Inr (200, None)))) \<and>
    (script w = [] \<and> 0 < max_bytes C \<longrightarrow> r = Done (Inr ()))"
proof -
  obtain r1 wa where 1: "open_store C w = (r1, wa)" by fastforce
  obtain r2 wb where 2: "health ch wa = (r2, wb)" by fastforce
  have fa: "files wa = files w" using open_cases [OF 1] by simp
  have fb: "files wb = files wa" "r2 = Crash \<or> r2 = Done (Inl (new_exn ArtifactStoreError None))"
    using health_cases [OF 2] assms(4) fa by simp_all
  have w1: "files w1 = files w \<and> (r = Done (Inr ()) \<longrightarrow> initialised w1)"
    using assms(5) open_cases [OF 1] fa fb holds_records [OF assms(1,3)] assms(2)
    by (auto simp: build_artifact_store_def io_bind_def 1 2 initialise_artifact_store_if_safe_def
        mark_previously_initialised_def set_initialised_def)
  have "files w2 = files w \<and> (\<forall>a. s \<noteq> Done (Inr a))"
    if "r = Done (Inr ())" "put C ch' data ct fn declared w1 = (s, w2)" for ch' data ct fn declared s w2
    using put_vanished [OF _ _ that(2)] w1 that(1) assms(4) by (auto split: sum.splits)
  moreover have "files w2 = files w \<and> s \<noteq> Done (Inr (200, None))" if "readiness m ch' w1 = (s, w2)" for m ch' s w2
  proof -
    obtain r3 w3 where 3: "health ch' w1 = (r3, w3)" by fastforce
    show ?thesis using that health_cases [OF 3] w1 assms(4)
      by (auto simp: readiness_def 3 split: sum.splits)
  qed
  moreover have "r = Done (Inr ())" if "script w = [] \<and> 0 < max_bytes C"
    using assms(2-5) that holds_records [OF assms(1,3)] open_absent [of w C] health_absent [of "w\<lparr>initialised := False\<rparr>" ch]
    by (auto simp: build_artifact_store_def io_bind_def initialise_artifact_store_if_safe_def
        mark_previously_initialised_def set_initialised_def)
  ultimately show ?thesis using w1 by blast
qed

theorem lost_volume_refused_at_startup_witness:
  "\<exists>w1. build_artifact_store plain_cfg chances_1 all_up db_art store_lost = (Done (Inr ()), w1) \<and> files w1 = (\<lambda>_. None)"
proof -
  obtain r w1 where r: "build_artifact_store plain_cfg chances_1 all_up db_art store_lost = (r, w1)" by fastforce
  have "\<not> layout (files store_lost)" "db_art artifacts \<noteq> []" by (simp_all add: store_lost_def layout_def db_art_def)
  from lost_volume_refused_at_startup [OF wf_db_art this(2) healthy_all_up this(1) r] r
  show ?thesis by (simp add: store_lost_def plain_cfg_def)
qed

text \<open>C29 A first deployment comes up: on an empty volume, with no artifact ever registered, the start creates
  the layout with its marker, and the store is ready.\<close>

theorem first_deployment_initialises:
  assumes "wf_db L d" "d artifacts = []" "healthy v" "script w = []" "empty_volume (files w)" "0 < max_bytes C"
    and "marker_tmp ch \<noteq> []" "isoformat_utc (now ch) = Inr t" "short_name (last (tmp_path marker_path (hd (marker_tmp ch))))"
    and "short_name (hd (probe_path ch'))" "marker_path \<noteq> probe_path ch'"
  shows "build_artifact_store C ch v d w =
      (Done (Inr ()), w\<lparr>files := fresh_layout (marker_text t), initialised := True\<rparr>) \<and>
    readiness (Inr ()) ch' (w\<lparr>files := fresh_layout (marker_text t), initialised := True\<rparr>) =
      (Done (Inr (200, None)), w\<lparr>files := fresh_layout (marker_text t), initialised := True\<rparr>)"
proof -
  let ?w = "w\<lparr>initialised := False\<rparr>" and ?w1 = "w\<lparr>files := fresh_layout (marker_text t), initialised := True\<rparr>"
  note absent = empty_volume_facts(2) [OF assms(5)]
  have "initialise ch ?w = (Done (Inr ()), ?w1)"
    using initialise_works [of ?w ch t] assms(4,5,7-9) by simp
  moreover have "health ch ?w = (Done (Inl (new_exn ArtifactStoreError None)), ?w)"
    using health_absent [of ?w] assms(4) absent by simp
  ultimately have "build_artifact_store C ch v d w = (Done (Inr ()), ?w1)"
    using holds_records [OF assms(1,3)] assms(2) open_absent [OF assms(4) absent assms(6)]
    by (simp add: build_artifact_store_def io_bind_def initialise_artifact_store_if_safe_def)
  moreover have "files ?w1 (probe_path ch') = None"
    using assms(11) by (auto simp: fresh_layout_def probe_path_def root_dir_def blobs_dir_def index_dir_def)
  then have "readiness (Inr ()) ch' ?w1 = (Done (Inr (200, None)), ?w1)"
    using health_works [of ?w1 ch'] assms(4,10) fresh_layout_ok by (simp add: readiness_def)
  ultimately show ?thesis by simp
qed

lemma iso_noon: "\<exists>t. isoformat_utc noon = Inr t"
proof -
  have "to_utc noon = Inr noon" by (simp add: utc_fixed)
  then show ?thesis by (simp add: isoformat_utc_def Let_def)
qed

lemma names_1 [simp]:
  "marker_tmp chances_1 \<noteq> []" "short_name (last (tmp_path marker_path (hd (marker_tmp chances_1))))"
  "short_name (hd (probe_path chances_1))" "marker_path \<noteq> probe_path chances_1" "now chances_1 = noon"
  by (simp_all add: chances_1_def tmp_path_def marker_path_def short_name_def utf8_length_def probe_path_def)

lemma empty_lost [simp]: "empty_volume (files store_lost)" "script store_lost = []"
  by (simp_all add: empty_volume_def store_lost_def)

theorem first_deployment_initialises_witness:
  "\<exists>t. build_artifact_store plain_cfg chances_1 all_up empty_db store_lost =
      (Done (Inr ()), store_lost\<lparr>files := fresh_layout (marker_text t), initialised := True\<rparr>)"
proof -
  obtain t where t: "isoformat_utc (now chances_1) = Inr t" using iso_noon by auto
  have "0 < max_bytes plain_cfg" by (simp add: plain_cfg_def)
  from first_deployment_initialises [OF wf_db_empty [of plain_libs] _ healthy_all_up empty_lost(2,1) this names_1(1) t names_1(2-4)]
  show ?thesis by auto
qed

text \<open>C40 When the database cannot be read at startup, the decision leaves the store alone but records
  nothing: the instance takes the lost volume for one that was never initialised, and its first upload
  silently re-creates an empty store over it and is acknowledged.\<close>

theorem undetermined_startup_recreates_store:
  assumes "\<not> connects v \<or> \<not> reads v" "script w = []" "empty_volume (files w)" "0 < max_bytes C" "libs_ok C"
    and "marker_tmp ch' \<noteq> []" "isoformat_utc (now ch') = Inr t" "short_name (last (tmp_path marker_path (hd (marker_tmp ch'))))"
    and "put_checks C data ct fn declared = Inr ()" "new_record C ch' data ct fn = Inr a" "id_ok (ar_artifact_id a)"
    and "room (fresh_layout (marker_text t)) (blob_path (sha256 C data)) (blob_tmp ch')"
    and "room (fresh_layout (marker_text t)) [''index'', ar_artifact_id a @ ''.json''] (sidecar_tmp ch')"
  shows "\<exists>w1 w2. build_artifact_store C ch v d w = (Done (Inr ()), w1) \<and> files w1 = files w \<and>
    put C ch' data ct fn declared w1 = (Done (Inr a), w2)"
proof -
  let ?w = "w\<lparr>initialised := False\<rparr>" and ?w1 = "w\<lparr>files := fresh_layout (marker_text t), initialised := True\<rparr>"
  note absent = empty_volume_facts(2) [OF assms(3)]
  have "build_artifact_store C ch v d w = (Done (Inr ()), ?w)"
    using open_absent [OF assms(2) absent assms(4)] health_absent [of ?w ch] assms(2) absent holds_unknown [OF assms(1)]
    by (simp add: build_artifact_store_def io_bind_def initialise_artifact_store_if_safe_def)
  moreover have "initialise ch' ?w = (Done (Inr ()), ?w1)"
    using initialise_works [of ?w ch' t] assms(2,3,6-8) by simp
  then have "put C ch' data ct fn declared ?w = put C ch' data ct fn declared ?w1"
    using put_lazy [of ?w C data ct fn declared ch' ?w1] assms(2,9) absent fresh_layout_ok by simp
  moreover have "fresh_layout b (blob_path h) = None" for b h
    by (auto simp: fresh_layout_def blob_path_def blobs_dir_def root_dir_def index_dir_def marker_path_def)
  then have "\<exists>w2. put C ch' data ct fn declared ?w1 = (Done (Inr a), w2)"
    using put_works(2) [of ?w1 C data ct fn declared ch' a] assms(2,5,9-13) fresh_layout_ok by auto
  ultimately show ?thesis by auto
qed


lemma room_fresh: "room (fresh_layout b) p rs = room fresh_files p rs"
proof -
  have "fresh_layout b q = (if q = marker_path then Some (File b) else fresh_files q)" for q
    by (simp add: fresh_layout_def fresh_files_def)
  moreover have "fresh_files marker_path = Some (File ''m'')" by (simp add: fresh_files_def)
  ultimately have "(file_at (fresh_layout b) q = None) = (file_at fresh_files q = None)"
      "(fresh_layout b q = Some Dir) = (fresh_files q = Some Dir)" "(fresh_layout b q = None) = (fresh_files q = None)" for q
    by (auto simp: file_at_def)
  then show ?thesis by (simp add: room_def)
qed

theorem undetermined_startup_recreates_store_witness:
  "\<exists>w1 w2. build_artifact_store plain_cfg chances_1 (all_up\<lparr>reads := False\<rparr>) db_art store_lost = (Done (Inr ()), w1) \<and>
     files w1 = files store_lost \<and>
     put plain_cfg chances_1 ''abc'' ''text/csv'' ''a.csv'' None w1 = (Done (Inr record_1), w2)"
proof -
  obtain t where t: "isoformat_utc (now chances_1) = Inr t" using iso_noon by auto
  have c: "0 < max_bytes plain_cfg" "sha256 plain_cfg = digest" by (simp_all add: plain_cfg_def)
  show ?thesis
    by (rule undetermined_startup_recreates_store [OF _ empty_lost(2,1) c(1) plain_cfg_ok names_1(1) t names_1(2) checks_1 new_record_1])
       (use room_1 id_ok_1 in \<open>simp_all add: room_fresh c(2)\<close>)
qed

end
