(* ===== verification/Config.thy ===== *)
theory Config
  imports PyText Identity
begin

text \<open>
  Runtime configuration from the process environment (\<open>src/cer/runtime/config.py\<close>). The environment is a
  map from names to texts; \<open>ConfigError\<close> carries the variable its message names.
\<close>

type_synonym environ = "string \<Rightarrow> string option"

datatype config_error = ConfigError string

definition DEFAULT_HOST :: string where "DEFAULT_HOST = ''0.0.0.0''"
definition DEFAULT_PORT :: int where "DEFAULT_PORT = 8000"
definition DEFAULT_LOG_LEVEL :: string where "DEFAULT_LOG_LEVEL = ''INFO''"
definition DEFAULT_ENVIRONMENT :: string where "DEFAULT_ENVIRONMENT = ''dev''"
definition DEFAULT_MAX_ARTIFACT_BYTES :: int where "DEFAULT_MAX_ARTIFACT_BYTES = 100 * 1024 * 1024"

definition ENV_METADATA_DB_PATH :: string where "ENV_METADATA_DB_PATH = ''CER_METADATA_DB_PATH''"
definition ENV_ARTIFACT_ROOT :: string where "ENV_ARTIFACT_ROOT = ''CER_ARTIFACT_ROOT''"
definition ENV_HOST :: string where "ENV_HOST = ''CER_HOST''"
definition ENV_PORT :: string where "ENV_PORT = ''CER_PORT''"
definition ENV_LOG_LEVEL :: string where "ENV_LOG_LEVEL = ''CER_LOG_LEVEL''"
definition ENV_ENVIRONMENT :: string where "ENV_ENVIRONMENT = ''CER_ENVIRONMENT''"
definition ENV_MAX_ARTIFACT_BYTES :: string where "ENV_MAX_ARTIFACT_BYTES = ''CER_MAX_ARTIFACT_BYTES''"

definition SECRET_MARKERS :: "string list" where
  "SECRET_MARKERS = [''SECRET'', ''PASSWORD'', ''TOKEN'', ''KEY'', ''CREDENTIAL'']"

definition REDACTED_VALUE :: string where "REDACTED_VALUE = ''***REDACTED***''"

record settings =
  metadata_db_path :: string
  artifact_root :: string
  host :: string
  port :: int
  log_level :: string
  environment :: string
  max_artifact_bytes :: int

subsection \<open>Reading\<close>

definition require_var :: "environ \<Rightarrow> string \<Rightarrow> config_error + string" where
  "require_var env x = (case env x of None \<Rightarrow> Inl (ConfigError x) | Some s \<Rightarrow> if s = [] then Inl (ConfigError x) else Inr s)"

definition get_int :: "environ \<Rightarrow> string \<Rightarrow> int \<Rightarrow> config_error + int" where
  "get_int env x fallback = (case env x of None \<Rightarrow> Inr fallback
     | Some s \<Rightarrow> if s = [] then Inr fallback else (case py_int s of None \<Rightarrow> Inl (ConfigError x) | Some n \<Rightarrow> Inr n))"

definition env_or :: "environ \<Rightarrow> string \<Rightarrow> string \<Rightarrow> string" where
  "env_or env x fallback = (case env x of None \<Rightarrow> fallback | Some s \<Rightarrow> if s = [] then fallback else s)"

definition load_settings :: "environ \<Rightarrow> config_error + settings" where
  "load_settings env =
     rbind (require_var env ENV_METADATA_DB_PATH) (\<lambda>db.
     rbind (require_var env ENV_ARTIFACT_ROOT) (\<lambda>root.
     rbind (get_int env ENV_PORT DEFAULT_PORT) (\<lambda>p.
     rbind (get_int env ENV_MAX_ARTIFACT_BYTES DEFAULT_MAX_ARTIFACT_BYTES) (\<lambda>n.
       Inr \<lparr>metadata_db_path = db, artifact_root = root, host = env_or env ENV_HOST DEFAULT_HOST, port = p,
         log_level = env_or env ENV_LOG_LEVEL DEFAULT_LOG_LEVEL,
         environment = env_or env ENV_ENVIRONMENT DEFAULT_ENVIRONMENT, max_artifact_bytes = n\<rparr>))))"

subsection \<open>What may be logged\<close>

text \<open>\<open>str.upper\<close>; the two letters whose capital lies beyond the model's range are left as they are, which
  no marker can tell.\<close>

definition py_upper_char :: "char \<Rightarrow> string" where
  "py_upper_char c = (let n = (of_char c :: nat) in
     if (97 \<le> n \<and> n \<le> 122) \<or> (224 \<le> n \<and> n \<le> 254 \<and> n \<noteq> 247) then [char_of (n - 32)]
     else if n = 223 then ''SS'' else [c])"

definition py_upper :: "string \<Rightarrow> string" where
  "py_upper s = concat (map py_upper_char s)"

definition looks_secret :: "string \<Rightarrow> bool" where
  "looks_secret name = list_ex (\<lambda>marker. contains marker (py_upper name)) SECRET_MARKERS"

text \<open>\<open>fields(self)\<close>, with the values.\<close>

definition setting_fields :: "settings \<Rightarrow> (string \<times> pyobj) list" where
  "setting_fields s = [(''metadata_db_path'', OStr (metadata_db_path s)), (''artifact_root'', OStr (artifact_root s)),
     (''host'', OStr (host s)), (''port'', OInt (port s)), (''log_level'', OStr (log_level s)),
     (''environment'', OStr (environment s)), (''max_artifact_bytes'', OInt (max_artifact_bytes s))]"

definition mask :: "string \<times> pyobj \<Rightarrow> string \<times> pyobj" where
  "mask f = (case f of (name, v) \<Rightarrow> (name, if looks_secret name then OStr REDACTED_VALUE else v))"

definition redacted :: "settings \<Rightarrow> (string \<times> pyobj) list" where
  "redacted s = map mask (setting_fields s)"

lemmas setting_names =
  ENV_METADATA_DB_PATH_def ENV_ARTIFACT_ROOT_def ENV_HOST_def ENV_PORT_def ENV_LOG_LEVEL_def ENV_ENVIRONMENT_def
  ENV_MAX_ARTIFACT_BYTES_def

text \<open>A variable that is unset or empty.\<close>

definition absent :: "environ \<Rightarrow> string \<Rightarrow> bool" where
  "absent env x \<longleftrightarrow> env x = None \<or> env x = Some []"

lemma require_var_eq: "require_var env x = (if absent env x then Inl (ConfigError x) else Inr (the (env x)))"
  by (auto simp: require_var_def absent_def split: option.split)

lemma get_int_eq: "get_int env x n = (if absent env x then Inr n
    else case py_int (the (env x)) of None \<Rightarrow> Inl (ConfigError x) | Some m \<Rightarrow> Inr m)"
  by (auto simp: get_int_def absent_def split: option.split)

lemma env_or_eq: "env_or env x s = (if absent env x then s else the (env x))"
  by (auto simp: env_or_def absent_def split: option.split)

lemma present: "require_var env x = Inr s \<Longrightarrow> env x = Some s \<and> s \<noteq> []"
  by (auto simp: require_var_def split: option.splits if_splits)

lemma get_int_Inr: "get_int env x n = Inr m \<Longrightarrow> if absent env x then m = n else py_int (the (env x)) = Some m"
  by (auto simp: get_int_eq split: if_splits option.splits)

lemma load_settings_Inr: "load_settings env = Inr s \<longleftrightarrow>
  require_var env ENV_METADATA_DB_PATH = Inr (metadata_db_path s) \<and> require_var env ENV_ARTIFACT_ROOT = Inr (artifact_root s) \<and>
  get_int env ENV_PORT DEFAULT_PORT = Inr (port s) \<and>
  get_int env ENV_MAX_ARTIFACT_BYTES DEFAULT_MAX_ARTIFACT_BYTES = Inr (max_artifact_bytes s) \<and>
  host s = env_or env ENV_HOST DEFAULT_HOST \<and> log_level s = env_or env ENV_LOG_LEVEL DEFAULT_LOG_LEVEL \<and>
  environment s = env_or env ENV_ENVIRONMENT DEFAULT_ENVIRONMENT"
  by (cases s) (auto simp: load_settings_def rbind_eq_Inr)

lemma load_settings_Inl: "load_settings env = Inl e \<Longrightarrow>
  (\<exists>x \<in> {ENV_METADATA_DB_PATH, ENV_ARTIFACT_ROOT}. require_var env x = Inl e) \<or>
  get_int env ENV_PORT DEFAULT_PORT = Inl e \<or> get_int env ENV_MAX_ARTIFACT_BYTES DEFAULT_MAX_ARTIFACT_BYTES = Inl e"
  by (auto simp: load_settings_def rbind_eq_Inl)

lemma plain_names: "list_all (\<lambda>name. \<not> looks_secret name) [''metadata_db_path'', ''artifact_root'', ''host'', ''port'',
    ''log_level'', ''environment'', ''max_artifact_bytes'']"
  by code_simp

lemma not_secret: "(name, v) \<in> set (setting_fields s) \<Longrightarrow> \<not> looks_secret name"
  using plain_names by (auto simp: setting_fields_def)

lemma nothing_masked: "redacted s = setting_fields s"
  unfolding redacted_def by (rule map_idI) (auto simp: mask_def dest: not_secret)

text \<open>C34 Settings are complete or refused by name. Loading fails exactly when a required variable is unset or empty, or a
  number that is given is malformed, and the error names such a variable; otherwise every setting is its variable's value
  and, when the variable is unset or empty, its documented default. The form for the log shows every setting: no
  field's name carries a secret marker.\<close>

theorem settings_complete_or_refused:
  "case load_settings env of
     Inl (ConfigError x) \<Rightarrow>
       x \<in> {''CER_METADATA_DB_PATH'', ''CER_ARTIFACT_ROOT''} \<and> absent env x \<or>
       x \<in> {''CER_PORT'', ''CER_MAX_ARTIFACT_BYTES''} \<and> \<not> absent env x \<and> py_int (the (env x)) = None
   | Inr s \<Rightarrow>
       env ''CER_METADATA_DB_PATH'' = Some (metadata_db_path s) \<and> metadata_db_path s \<noteq> [] \<and>
       env ''CER_ARTIFACT_ROOT'' = Some (artifact_root s) \<and> artifact_root s \<noteq> [] \<and>
       (if absent env ''CER_HOST'' then host s = ''0.0.0.0'' else env ''CER_HOST'' = Some (host s)) \<and>
       (if absent env ''CER_LOG_LEVEL'' then log_level s = ''INFO'' else env ''CER_LOG_LEVEL'' = Some (log_level s)) \<and>
       (if absent env ''CER_ENVIRONMENT'' then environment s = ''dev'' else env ''CER_ENVIRONMENT'' = Some (environment s)) \<and>
       (if absent env ''CER_PORT'' then port s = 8000 else py_int (the (env ''CER_PORT'')) = Some (port s)) \<and>
       (if absent env ''CER_MAX_ARTIFACT_BYTES'' then max_artifact_bytes s = 104857600
        else py_int (the (env ''CER_MAX_ARTIFACT_BYTES'')) = Some (max_artifact_bytes s)) \<and>
       redacted s = setting_fields s"
proof (cases "load_settings env")
  case (Inl e)
  obtain x where e: "e = ConfigError x" by (cases e)
  from load_settings_Inl [OF Inl] show ?thesis
    unfolding Inl e by (auto simp: require_var_eq get_int_eq setting_names split: if_splits option.splits)
next
  case (Inr s)
  then have l: "require_var env ENV_METADATA_DB_PATH = Inr (metadata_db_path s)" "require_var env ENV_ARTIFACT_ROOT = Inr (artifact_root s)"
      "get_int env ENV_PORT DEFAULT_PORT = Inr (port s)"
      "get_int env ENV_MAX_ARTIFACT_BYTES DEFAULT_MAX_ARTIFACT_BYTES = Inr (max_artifact_bytes s)"
      "host s = env_or env ENV_HOST DEFAULT_HOST" "log_level s = env_or env ENV_LOG_LEVEL DEFAULT_LOG_LEVEL"
      "environment s = env_or env ENV_ENVIRONMENT DEFAULT_ENVIRONMENT"
    unfolding load_settings_Inr by simp_all
  have "if absent env x then s = t else env x = Some s" if "s = env_or env x t" for s t x
    using that by (auto simp: env_or_eq absent_def)
  note facts = present [OF l(1)] present [OF l(2)] get_int_Inr [OF l(3)] get_int_Inr [OF l(4)]
    this [OF l(5)] this [OF l(6)] this [OF l(7)]
  have "DEFAULT_MAX_ARTIFACT_BYTES = 104857600" by (simp add: DEFAULT_MAX_ARTIFACT_BYTES_def)
  then show ?thesis
    unfolding Inr using facts [unfolded setting_names DEFAULT_HOST_def DEFAULT_PORT_def DEFAULT_LOG_LEVEL_def DEFAULT_ENVIRONMENT_def]
    by (simp add: nothing_masked)
qed

end
