(* ===== verification/Migrations.thy ===== *)
theory Migrations
  imports StoreOps
begin

text \<open>
  The migration runner of \<open>src/cer/metadata/migrations.py\<close>. What SQLite does with a script is an
  argument (\<open>engine\<close>), on a state of its own; the table \<open>schema_migrations\<close> is modelled. A schema
  directory is the list of its files with their texts, \<open>None\<close> when there is no such directory.
\<close>

type_synonym schema_dir = "(string \<times> string) list option"

record migration =
  mg_version :: nat
  mg_filename :: string
  mg_sql :: string
  mg_checksum :: string

subsection \<open>Loading\<close>

definition word_char :: "char \<Rightarrow> bool" where
  "word_char c = (is_ascii_digit c \<or> is_ascii_letter c \<or> c = CHR ''_'')"

text \<open>\<open>^(\d+)_[A-Za-z0-9_]+\.sql$\<close> on a name that ends in \<open>.sql\<close> (the glob's); the version it captures.\<close>

definition sql_suffix :: "string \<Rightarrow> bool" where
  "sql_suffix name = (length name \<ge> 4 \<and> drop (length name - 4) name = ''.sql'')"

definition migration_version :: "string \<Rightarrow> nat option" where
  "migration_version name =
     (let digits = takeWhile is_ascii_digit name;
          rest = drop (length digits) name;
          body = take (length rest - 5) (drop 1 rest) in
      if digits \<noteq> [] \<and> rest \<noteq> [] \<and> hd rest = CHR ''_'' \<and> length rest > 5 \<and> list_all word_char body \<and> sql_suffix name
      then Some (digits_val 0 digits) else None)"

definition load_file :: "(string \<Rightarrow> string) \<Rightarrow> string \<times> string \<Rightarrow> exn + migration" where
  "load_file hash f = (case migration_version (fst f) of
     None \<Rightarrow> raise_cer MetadataStoreError
   | Some n \<Rightarrow> Inr \<lparr>mg_version = n, mg_filename = fst f, mg_sql = snd f, mg_checksum = hash (snd f)\<rparr>)"

definition load_migrations :: "(string \<Rightarrow> string) \<Rightarrow> schema_dir \<Rightarrow> exn + migration list" where
  "load_migrations hash dir = (case dir of
     None \<Rightarrow> raise_cer MetadataStoreError
   | Some fs \<Rightarrow> rbind (map_result (load_file hash) (sort_key fst (filter (\<lambda>f. sql_suffix (fst f)) fs))) (\<lambda>ms.
       if distinct (map mg_version ms) then Inr (sort_key mg_version ms) else raise_cer MetadataStoreError))"

subsection \<open>Applying\<close>

text \<open>A row of \<open>schema_migrations\<close>, and the database around it.\<close>

record applied_row =
  ap_version :: nat
  ap_filename :: string
  ap_checksum :: string
  ap_at :: string

record 's schema =
  applied :: "applied_row list"
  tables :: 's

record 's engine =
  reads_table :: bool \<comment> \<open>\<open>CREATE TABLE IF NOT EXISTS schema_migrations\<close> and its \<open>SELECT\<close> succeed\<close>
  run_script :: "string \<Rightarrow> 's \<Rightarrow> bool \<times> 's" \<comment> \<open>\<open>executescript\<close>: success, and the state it leaves either way\<close>
  inserts :: "nat \<Rightarrow> bool" \<comment> \<open>the \<open>INSERT OR IGNORE\<close> of a version succeeds\<close>
  clock :: string

definition insert_or_ignore :: "applied_row \<Rightarrow> applied_row list \<Rightarrow> applied_row list" where
  "insert_or_ignore r rs = (if ap_version r \<in> ap_version ` set rs then rs else rs @ [r])"

text \<open>\<open>INTEGER PRIMARY KEY\<close>: a version beyond 64 bits cannot be bound.\<close>

definition run_migration :: "'s engine \<Rightarrow> migration \<Rightarrow> 's schema \<Rightarrow> (exn + unit) \<times> 's schema" where
  "run_migration E m s =
     (case run_script E (mg_sql m) (tables s) of (ok, t) \<Rightarrow>
        let s1 = s\<lparr>tables := t\<rparr> in
        if \<not> ok then (raise_cer MetadataStoreError, s1)
        else if \<not> int64 (Integer (int (mg_version m))) then (Inl PyOverflowError, s1)
        else if \<not> inserts E (mg_version m) then (raise_cer MetadataStoreError, s1)
        else (Inr (), s1\<lparr>applied := insert_or_ignore \<lparr>ap_version = mg_version m, ap_filename = mg_filename m,
               ap_checksum = mg_checksum m, ap_at = clock E\<rparr> (applied s1)\<rparr>))"

text \<open>\<open>before\<close> is the table as read once, before the loop.\<close>

fun apply_all :: "'s engine \<Rightarrow> (nat \<Rightarrow> string option) \<Rightarrow> migration list \<Rightarrow> 's schema \<Rightarrow> (exn + unit) \<times> 's schema" where
  "apply_all E before [] s = (Inr (), s)"
| "apply_all E before (m # ms) s =
     (case before (mg_version m) of
        Some c \<Rightarrow> if c \<noteq> mg_checksum m then (raise_cer MetadataStoreError, s) else apply_all E before ms s
      | None \<Rightarrow> (case run_migration E m s of
            (Inl e, s') \<Rightarrow> (Inl e, s')
          | (Inr _, s') \<Rightarrow> apply_all E before ms s'))"

definition recorded :: "applied_row list \<Rightarrow> nat \<Rightarrow> string option" where
  "recorded rs = map_of (map (\<lambda>r. (ap_version r, ap_checksum r)) rs)"

definition apply_migrations ::
    "'s engine \<Rightarrow> (string \<Rightarrow> string) \<Rightarrow> schema_dir \<Rightarrow> 's schema \<Rightarrow> (exn + nat option) \<times> 's schema" where
  "apply_migrations E hash dir s =
     (case load_migrations hash dir of
        Inl e \<Rightarrow> (Inl e, s)
      | Inr ms \<Rightarrow>
          if \<not> reads_table E then (Inl SqlError, s)
          else (case apply_all E (recorded (applied s)) ms s of
              (Inl e, s') \<Rightarrow> (Inl e, s')
            | (Inr _, s') \<Rightarrow> (Inr (if ms = [] then None else Some (mg_version (last ms))), s')))"

subsection \<open>Lemmas\<close>

lemma load_migrations_ok:
  assumes "load_migrations hash dir = Inr ms"
  shows "sorted (map mg_version ms)" "distinct (map mg_version ms)"
proof -
  obtain xs where "ms = sort_key mg_version xs" "distinct (map mg_version xs)"
    using assms by (auto simp: load_migrations_def rbind_eq_Inr raise_cer_def split: option.splits if_splits)
  then show "sorted (map mg_version ms)" "distinct (map mg_version ms)"
    by (simp_all add: distinct_map)
qed

lemma recorded_None: "recorded rs n = None \<longleftrightarrow> n \<notin> ap_version ` set rs"
  by (simp add: recorded_def map_of_eq_None_iff image_image)

lemma recorded_insert: "recorded (insert_or_ignore r rs) =
    (if ap_version r \<in> ap_version ` set rs then recorded rs else (recorded rs)(ap_version r \<mapsto> ap_checksum r))"
proof -
  have "recorded (rs @ [r]) n = ((recorded rs)(ap_version r \<mapsto> ap_checksum r)) n" if "ap_version r \<notin> ap_version ` set rs" for n
    using that recorded_None [of rs "ap_version r"] by (auto simp: recorded_def map_add_def split: option.split)
  then show ?thesis by (auto simp: insert_or_ignore_def)
qed

lemma run_migration_Inr:
  assumes "run_migration E m s = (Inr u, s')" "recorded (applied s) (mg_version m) = None"
  shows "recorded (applied s') = (recorded (applied s))(mg_version m \<mapsto> mg_checksum m)"
    and "tables s' = snd (run_script E (mg_sql m) (tables s))"
  using assms(1) assms(2) [unfolded recorded_None]
  by (auto simp: run_migration_def Let_def raise_cer_def recorded_insert split: prod.splits if_splits)

lemma run_migration_Inl: "run_migration E m s = (Inl e, s') \<Longrightarrow> applied s' = applied s"
  by (auto simp: run_migration_def Let_def raise_cer_def split: prod.splits if_splits)

text \<open>The migrations a pass has to run, and what a completed pass leaves.\<close>

definition pending :: "(nat \<Rightarrow> string option) \<Rightarrow> migration list \<Rightarrow> migration list" where
  "pending before ms = filter (\<lambda>m. before (mg_version m) = None) ms"

lemma apply_all_done:
  assumes "apply_all E before ms s = (Inr u, s')" "distinct (map mg_version ms)"
    and "\<And>m. m \<in> set ms \<Longrightarrow> recorded (applied s) (mg_version m) = before (mg_version m)"
  shows "tables s' = fold (\<lambda>m t. snd (run_script E (mg_sql m) t)) (pending before ms) (tables s) \<and>
    (\<forall>m \<in> set ms. recorded (applied s') (mg_version m) = Some (mg_checksum m)) \<and>
    (\<forall>n. n \<notin> mg_version ` set ms \<longrightarrow> recorded (applied s') n = recorded (applied s) n)"
  using assms
proof (induction ms arbitrary: s)
  case (Cons m ms)
  show ?case
  proof (cases "before (mg_version m)")
    case (Some c)
    with Cons.prems have c: "c = mg_checksum m" and rest: "apply_all E before ms s = (Inr u, s')"
      by (auto simp: raise_cer_def split: if_splits)
    note ih = Cons.IH [OF rest]
    have "recorded (applied s) (mg_version m) = Some c" using Cons.prems(3) Some by simp
    with ih Cons.prems Some c show ?thesis by (auto simp: pending_def)
  next
    case None
    then obtain v s1 where 1: "run_migration E m s = (Inr v, s1)" and rest: "apply_all E before ms s1 = (Inr u, s')"
      using Cons.prems(1) by (auto split: prod.splits sum.splits)
    have "recorded (applied s) (mg_version m) = None" using Cons.prems(3) None by simp
    note r = run_migration_Inr [OF 1 this]
    have fresh: "mg_version m \<notin> mg_version ` set ms" using Cons.prems(2) by simp
    have "recorded (applied s1) (mg_version k) = before (mg_version k)" if "k \<in> set ms" for k
    proof -
      have "mg_version k \<noteq> mg_version m" using fresh that by (metis image_eqI)
      then show ?thesis using r(1) Cons.prems(3) [of k] that by simp
    qed
    note ih = Cons.IH [OF rest _ this]
    with Cons.prems(2) fresh r None show ?thesis by (auto simp: pending_def)
  qed
qed (simp add: pending_def)

lemma apply_all_again:
  "(\<And>m. m \<in> set ms \<Longrightarrow> before (mg_version m) = Some (mg_checksum m)) \<Longrightarrow> apply_all E before ms s = (Inr (), s)"
  by (induction ms) auto

text \<open>A pass that meets an edited migration stops there.\<close>

lemma apply_all_edited:
  assumes "sorted (map mg_version ms)" "distinct (map mg_version ms)" "m \<in> set ms" "before (mg_version m) = Some c"
    and "c \<noteq> mg_checksum m" and "\<And>m. m \<in> set ms \<Longrightarrow> recorded (applied s) (mg_version m) = before (mg_version m)"
  shows "\<exists>e s'. apply_all E before ms s = (Inl e, s') \<and>
    (\<forall>n. n \<ge> mg_version m \<longrightarrow> recorded (applied s') n = recorded (applied s) n)"
  using assms
proof (induction ms arbitrary: s)
  case (Cons k ms)
  show ?case
  proof (cases "k = m")
    case True
    with Cons.prems(4,5) show ?thesis by (simp add: raise_cer_def)
  next
    case False
    with Cons.prems(1-3) have m: "m \<in> set ms" and less: "mg_version k < mg_version m"
      by (auto simp: order_less_le)
    show ?thesis
    proof (cases "before (mg_version k)")
      case (Some x)
      with Cons.IH [of s] Cons.prems m show ?thesis by (cases "x = mg_checksum k") (auto simp: raise_cer_def)
    next
      case None
      obtain r s1 where 1: "run_migration E k s = (r, s1)" by fastforce
      show ?thesis
      proof (cases r)
        case (Inl e)
        with None 1 run_migration_Inl [of E k s e s1] show ?thesis by auto
      next
        case (Inr u)
        have "recorded (applied s) (mg_version k) = None" using Cons.prems(6) None by simp
        note rr = run_migration_Inr(1) [OF 1 [unfolded Inr] this]
        have "recorded (applied s1) (mg_version j) = before (mg_version j)" if "j \<in> set ms" for j
          
        proof -
          have "mg_version j \<noteq> mg_version k" using Cons.prems(2) that by (auto simp: image_iff)
          then show ?thesis using rr Cons.prems(6) [of j] that by simp
        qed
        from Cons.IH [OF _ _ m Cons.prems(4,5) this] Cons.prems(1,2) show ?thesis
          using None 1 Inr rr less by auto
      qed
    qed
  qed
qed simp


lemma store_health_ok:
  "healthy v \<Longrightarrow> n \<in> set vs \<Longrightarrow> store_health v (Some vs) (Some n) = Inr ()"
  by (auto simp: store_health_def require_durable_backing_def healthy_def)

subsection \<open>Properties\<close>

text \<open>C31 A successful pass runs the script of every migration that was not recorded, once and in ascending
  order of the versions, and records each with its checksum; every later pass over the same files runs nothing,
  changes nothing and reports the same version, which is the one the readiness probe then finds.\<close>

theorem migrations_applied_once:
  assumes "apply_migrations E hash dir s = (Inr n, s')" "reads_table E'"
  shows "(\<exists>ms. load_migrations hash dir = Inr ms \<and> sorted (map mg_version ms) \<and>
      tables s' = fold (\<lambda>m t. snd (run_script E (mg_sql m) t)) (pending (recorded (applied s)) ms) (tables s) \<and>
      (\<forall>m \<in> set ms. recorded (applied s') (mg_version m) = Some (mg_checksum m))) \<and>
    apply_migrations E' hash dir s' = (Inr n, s') \<and>
    (\<forall>v k. healthy v \<and> n = Some k \<longrightarrow> store_health v (Some (map ap_version (applied s'))) n = Inr ())"
proof -
  obtain ms where ms: "load_migrations hash dir = Inr ms"
    using assms(1) by (cases "load_migrations hash dir") (simp_all add: apply_migrations_def)
  obtain r1 s1 where run1: "apply_all E (recorded (applied s)) ms s = (r1, s1)" by fastforce
  have "apply_migrations E hash dir s = (case r1 of Inl e \<Rightarrow> (Inl e, s1)
      | Inr _ \<Rightarrow> (Inr (if ms = [] then None else Some (mg_version (last ms))), s1)) \<or> (\<exists>e. apply_migrations E hash dir s = (Inl e, s))"
    by (simp add: apply_migrations_def ms run1)
  with assms(1) obtain u where run: "apply_all E (recorded (applied s)) ms s = (Inr u, s')"
      and n: "n = (if ms = [] then None else Some (mg_version (last ms)))"
    using run1 by (cases r1) auto
  note pass = apply_all_done [OF run load_migrations_ok(2) [OF ms] refl]
  then have all: "recorded (applied s') (mg_version m) = Some (mg_checksum m)" if "m \<in> set ms" for m using that by simp
  have "apply_all E' (recorded (applied s')) ms s' = (Inr (), s')" by (rule apply_all_again) (rule all)
  then have again: "apply_migrations E' hash dir s' = (Inr n, s')"
    using ms assms(2) n by (simp add: apply_migrations_def)
  have "store_health v (Some (map ap_version (applied s'))) n = Inr ()" if "healthy v" "n = Some k" for v k
  proof -
    have "ms \<noteq> []" "k = mg_version (last ms)" using that(2) n by (cases "ms = []"; simp)+
    then have "recorded (applied s') k = Some (mg_checksum (last ms))" using all [of "last ms"] by simp
    then have "k \<in> set (map ap_version (applied s'))" using recorded_None [of "applied s'" k] by (metis option.distinct(1) set_map)
    then show ?thesis unfolding that(2) by (rule store_health_ok [OF that(1)])
  qed
  then have "\<forall>v k. healthy v \<and> n = Some k \<longrightarrow> store_health v (Some (map ap_version (applied s'))) n = Inr ()" by blast
  moreover have "\<exists>ms. load_migrations hash dir = Inr ms \<and> sorted (map mg_version ms) \<and>
      tables s' = fold (\<lambda>m t. snd (run_script E (mg_sql m) t)) (pending (recorded (applied s)) ms) (tables s) \<and>
      (\<forall>m \<in> set ms. recorded (applied s') (mg_version m) = Some (mg_checksum m))"
    using pass by (intro exI [of _ ms] conjI ms load_migrations_ok(1) [OF ms]) simp_all
  ultimately show ?thesis using again by (intro conjI)
qed

text \<open>An engine for the witnesses: a script is the name of a column to add, which fails when it is there.\<close>

definition add_column :: "string \<Rightarrow> string list \<Rightarrow> bool \<times> string list" where
  "add_column c cols = (if c \<in> set cols then (False, cols) else (True, cols @ [c]))"

definition column_engine :: "string list engine" where
  "column_engine = \<lparr>reads_table = True, run_script = add_column, inserts = (\<lambda>_. True), clock = ''now''\<rparr>"

definition two_files :: schema_dir where
  "two_files = Some [(''002_b.sql'', ''key''), (''001_a.sql'', ''id''), (''notes.txt'', ''x'')]"

definition no_schema :: "string list schema" where
  "no_schema = \<lparr>applied = [], tables = []\<rparr>"

lemma two_files_loaded: "load_migrations (\<lambda>q. q) two_files =
    Inr [\<lparr>mg_version = 1, mg_filename = ''001_a.sql'', mg_sql = ''id'', mg_checksum = ''id''\<rparr>,
         \<lparr>mg_version = 2, mg_filename = ''002_b.sql'', mg_sql = ''key'', mg_checksum = ''key''\<rparr>]"
  by code_simp

lemma first_pass: "apply_migrations column_engine (\<lambda>q. q) two_files no_schema =
    (Inr (Some 2), \<lparr>applied = [\<lparr>ap_version = 1, ap_filename = ''001_a.sql'', ap_checksum = ''id'', ap_at = ''now''\<rparr>,
       \<lparr>ap_version = 2, ap_filename = ''002_b.sql'', ap_checksum = ''key'', ap_at = ''now''\<rparr>], tables = [''id'', ''key'']\<rparr>)"
  unfolding apply_migrations_def two_files_loaded by code_simp

theorem migrations_applied_once_witness:
  "apply_migrations column_engine (\<lambda>q. q) two_files (snd (apply_migrations column_engine (\<lambda>q. q) two_files no_schema)) =
     (Inr (Some 2), snd (apply_migrations column_engine (\<lambda>q. q) two_files no_schema))"
proof -
  have "reads_table column_engine" by (simp add: column_engine_def)
  from migrations_applied_once [OF first_pass this] show ?thesis by (simp add: first_pass)
qed

text \<open>C32 A migration file that was edited after it was applied is refused: the pass ends in an error, and
  nothing is recorded for that version or any later one, whatever was pending before it.\<close>

theorem edited_migration_refused:
  assumes "load_migrations hash dir = Inr ms" "m \<in> set ms" "recorded (applied s) (mg_version m) = Some c" "c \<noteq> mg_checksum m"
  shows "\<exists>e s'. apply_migrations E hash dir s = (Inl e, s') \<and>
    (\<forall>n. n \<ge> mg_version m \<longrightarrow> recorded (applied s') n = recorded (applied s) n)"
  using apply_all_edited [OF load_migrations_ok [OF assms(1)] assms(2,3,4) refl, of E] assms(1)
  by (auto simp: apply_migrations_def)

theorem edited_migration_refused_witness:
  "\<exists>e s'. apply_migrations column_engine (\<lambda>q. ''new'') two_files
      (snd (apply_migrations column_engine (\<lambda>q. q) two_files no_schema)) = (Inl e, s') \<and>
    (\<forall>n. n \<ge> 1 \<longrightarrow> recorded (applied s') n =
       recorded (applied (snd (apply_migrations column_engine (\<lambda>q. q) two_files no_schema))) n)"
proof -
  have ms: "load_migrations (\<lambda>q. ''new'') two_files =
    Inr [\<lparr>mg_version = 1, mg_filename = ''001_a.sql'', mg_sql = ''id'', mg_checksum = ''new''\<rparr>,
         \<lparr>mg_version = 2, mg_filename = ''002_b.sql'', mg_sql = ''key'', mg_checksum = ''new''\<rparr>]" by code_simp
  show ?thesis
    using edited_migration_refused [OF ms, of "\<lparr>mg_version = 1, mg_filename = ''001_a.sql'', mg_sql = ''id'', mg_checksum = ''new''\<rparr>"
        "snd (apply_migrations column_engine (\<lambda>q. q) two_files no_schema)" "''id''" column_engine]
    by (simp add: first_pass recorded_def)
qed

text \<open>A migration whose script cannot run twice (\<open>ALTER TABLE ... ADD COLUMN\<close>) and whose row was not
  written after it, because the insertion failed or the process died in between, can never be completed: every
  later pass, and with it every later start, fails.\<close>

theorem interrupted_migration_blocks_start:
  assumes "load_migrations hash dir = Inr ms" "m \<in> set ms" "recorded (applied s) (mg_version m) = None"
    and "\<And>k. k \<in> set ms \<Longrightarrow> mg_version k < mg_version m \<Longrightarrow> recorded (applied s) (mg_version k) = Some (mg_checksum k)"
    and "run_script E (mg_sql m) (tables s) = (True, t)" "run_script E (mg_sql m) t = (False, t)" "reads_table E"
    and "run_migration (E\<lparr>inserts := \<lambda>_. False\<rparr>) m s = (Inl e, s1)"
  shows "apply_migrations E hash dir s1 = (raise_cer MetadataStoreError, s1)"
proof -
  have s1: "s1 = s\<lparr>tables := t\<rparr>" using assms(5,8) by (auto simp: run_migration_def Let_def raise_cer_def split: if_splits)
  have skip: "apply_all E b ks r = (raise_cer MetadataStoreError, r)"
    if "sorted (map mg_version ks)" "distinct (map mg_version ks)" "m \<in> set ks" "b (mg_version m) = None" "tables r = t"
      and "\<And>k. k \<in> set ks \<Longrightarrow> mg_version k < mg_version m \<Longrightarrow> b (mg_version k) = Some (mg_checksum k)" for b ks r
    using that
  proof (induction ks)
    case (Cons k ks)
    show ?case
    proof (cases "k = m")
      case True
      have "r\<lparr>tables := t\<rparr> = r" using Cons.prems(5) by (cases r) simp
      then show ?thesis using True Cons.prems(4,5) assms(6) by (simp add: run_migration_def raise_cer_def)
    next
      case False
      with Cons.prems(1-3) have "m \<in> set ks" "mg_version k < mg_version m" by (auto simp: order_less_le)
      with Cons show ?thesis by simp
    qed
  qed simp
  show "apply_migrations E hash dir s1 = (raise_cer MetadataStoreError, s1)"
    using skip [OF load_migrations_ok [OF assms(1)] assms(2), of "recorded (applied s)" s1] assms(1,3,4,7) s1
    by (simp add: apply_migrations_def raise_cer_def)
qed


theorem interrupted_migration_blocks_start_witness:
  "apply_migrations column_engine (\<lambda>q. q) two_files (no_schema\<lparr>tables := [''id'']\<rparr>) =
     (raise_cer MetadataStoreError, no_schema\<lparr>tables := [''id'']\<rparr>)"
  by (rule interrupted_migration_blocks_start [OF two_files_loaded,
        where m = "\<lparr>mg_version = 1, mg_filename = ''001_a.sql'', mg_sql = ''id'', mg_checksum = ''id''\<rparr>" and s = no_schema])
     (auto simp: no_schema_def recorded_def column_engine_def add_column_def run_migration_def int64_def raise_cer_def Let_def)

end
