(* ===== verification/Logging.thy ===== *)
theory Logging
  imports PyJson PyTime Samples
begin

text \<open>
  Structured logging (\<open>src/cer/runtime/logging.py\<close>): how a record becomes one line of JSON, how the
  handler is installed, how bound context reaches a record. What the logging module does with a record is an
  argument: the attributes of a bare \<open>LogRecord\<close> (\<open>reserved\<close>), its message, the text of its exception.
\<close>

subsection \<open>Values\<close>

text \<open>A value of an \<open>extra\<close> field: JSON, with an object \<open>json.dumps\<close> does not know (its \<open>str()\<close>, \<open>None\<close> when
  that raises) or a structure it gives up on (a cycle, a dict with keys it cannot write) anywhere inside.\<close>

datatype logval =
    LNull | LBool bool | LInt int | LFloat string | LStr string
  | LList "logval list" | LDict "(string \<times> logval) list"
  | LObject "string option" | LBroken

definition json_default :: "string option \<Rightarrow> string" where
  "json_default text = (case text of Some s \<Rightarrow> s | None \<Rightarrow> ''<unserialisable>'')"

fun all_some :: "'a option list \<Rightarrow> 'a list option" where
  "all_some [] = Some []"
| "all_some (x # xs) = Option.bind x (\<lambda>y. map_option ((#) y) (all_some xs))"

fun log_json :: "logval \<Rightarrow> json option" where
  "log_json LNull = Some JNull"
| "log_json (LBool b) = Some (JBool b)"
| "log_json (LInt i) = Some (JInt i)"
| "log_json (LFloat s) = Some (JFloat s)"
| "log_json (LStr s) = Some (JStr s)"
| "log_json (LList vs) = map_option JList (all_some (map log_json vs))"
| "log_json (LDict kvs) = map_option (\<lambda>vs. JObj (zip (map fst kvs) vs)) (all_some (map (\<lambda>(k, v). log_json v) kvs))"
| "log_json (LObject text) = Some (JStr (json_default text))"
| "log_json LBroken = None"

text \<open>\<open>json.dumps\<close> with its default separators.\<close>

fun spaced :: "string list \<Rightarrow> string" where
  "spaced [] = []"
| "spaced [s] = s"
| "spaced (s # ss) = s @ '', '' @ spaced ss"

fun json_line :: "json \<Rightarrow> string" where
  "json_line JNull = ''null''"
| "json_line (JBool b) = (if b then ''true'' else ''false'')"
| "json_line (JInt i) = show_int i"
| "json_line (JFloat s) = s"
| "json_line (JStr s) = json_quote s"
| "json_line (JList xs) = CHR ''['' # spaced (map json_line xs) @ [CHR '']'']"
| "json_line (JObj kvs) = CHR ''{'' # spaced (map (\<lambda>(k, v). json_quote k @ '': '' @ json_line v) kvs) @ [CHR ''}'']"

subsection \<open>Formatting a record\<close>

record log_record =
  lr_created :: "exn + pydt" \<comment> \<open>\<open>datetime.fromtimestamp(record.created, tz=utc)\<close>\<close>
  lr_level :: string
  lr_name :: string
  lr_message :: "exn + string" \<comment> \<open>\<open>getMessage()\<close>\<close>
  lr_module :: string
  lr_line :: int
  lr_dict :: "(string \<times> logval) list" \<comment> \<open>\<open>record.__dict__\<close>\<close>
  lr_exc_info :: "(exn + string) option" \<comment> \<open>the formatted exception, if \<open>exc_info\<close> is set\<close>
  lr_exc_text :: "string option"

definition core_fields :: "string list" where
  "core_fields = [''ts'', ''level'', ''logger'', ''msg'', ''module'', ''line'']"

definition merge_extra :: "string list \<Rightarrow> (string \<times> logval) list \<Rightarrow> (string \<times> logval) list \<Rightarrow> (string \<times> logval) list" where
  "merge_extra reserved attrs core =
     fold (\<lambda>(k, v) p. if k \<in> set reserved \<or> k \<in> fst ` set p then p else p @ [(k, v)]) attrs core"

definition set_item :: "string \<Rightarrow> 'a \<Rightarrow> (string \<times> 'a) list \<Rightarrow> (string \<times> 'a) list" where
  "set_item k v p = (if k \<in> fst ` set p then map (\<lambda>(k', v'). if k' = k then (k, v) else (k', v')) p else p @ [(k, v)])"

definition build_payload :: "string list \<Rightarrow> log_record \<Rightarrow> exn + (string \<times> logval) list" where
  "build_payload reserved r =
     rbind (rbind (lr_created r) isoformat_utc) (\<lambda>ts.
     rbind (lr_message r) (\<lambda>msg.
       let merged = merge_extra reserved (lr_dict r)
             [(''ts'', LStr ts), (''level'', LStr (lr_level r)), (''logger'', LStr (lr_name r)), (''msg'', LStr msg),
              (''module'', LStr (lr_module r)), (''line'', LInt (lr_line r))]
       in (case lr_exc_info r of
             Some text \<Rightarrow> rbind text (\<lambda>t. Inr (set_item ''exception'' (LStr t) merged))
           | None \<Rightarrow> (case lr_exc_text r of
               None \<Rightarrow> Inr merged
             | Some t \<Rightarrow> Inr (if t = [] then merged else set_item ''exception'' (LStr t) merged)))))"

definition fallback_line :: "pydt \<Rightarrow> log_record \<Rightarrow> exn + string" where
  "fallback_line time_now r = rbind (isoformat_utc time_now) (\<lambda>ts. Inr (json_line (JObj
     [(''ts'', JStr ts), (''level'', JStr (lr_level r)), (''logger'', JStr (lr_name r)),
      (''msg'', JStr ''<log formatting failed>'')])))"

text \<open>\<open>JsonFormatter.format\<close>; \<open>time_now\<close> is the time of the fallback.\<close>

definition log_format :: "string list \<Rightarrow> pydt \<Rightarrow> log_record \<Rightarrow> exn + string" where
  "log_format reserved time_now r = (case build_payload reserved r of
     Inl _ \<Rightarrow> fallback_line time_now r
   | Inr p \<Rightarrow> (case log_json (LDict p) of None \<Rightarrow> fallback_line time_now r | Some j \<Rightarrow> Inr (json_line j)))"

subsection \<open>Installing the handler\<close>

record log_handler =
  lh_ours :: bool \<comment> \<open>the marker attribute\<close>
  lh_level :: string
  lh_stream :: nat
  lh_json :: bool

record log_root =
  lg_level :: string
  lg_handlers :: "log_handler list"

definition retarget :: "string \<Rightarrow> nat option \<Rightarrow> log_handler \<Rightarrow> log_handler" where
  "retarget level stream h = h\<lparr>lh_level := level, lh_stream := (case stream of None \<Rightarrow> lh_stream h | Some s \<Rightarrow> s)\<rparr>"

fun retarget_ours :: "string \<Rightarrow> nat option \<Rightarrow> log_handler list \<Rightarrow> log_handler list option" where
  "retarget_ours level stream [] = None"
| "retarget_ours level stream (h # hs) =
     (if lh_ours h then Some (retarget level stream h # hs) else map_option ((#) h) (retarget_ours level stream hs))"

text \<open>\<open>known\<close> says which names \<open>setLevel\<close> accepts; it raises \<open>ValueError\<close> for another.\<close>

definition configure_logging ::
    "(string \<Rightarrow> bool) \<Rightarrow> nat \<Rightarrow> string \<Rightarrow> nat option \<Rightarrow> log_root \<Rightarrow> (exn + unit) \<times> log_root" where
  "configure_logging known stderr level stream g =
     (if \<not> known level then (Inl PyValueError, g)
      else (Inr (), \<lparr>lg_level = level, lg_handlers =
        (case retarget_ours level stream (lg_handlers g) of
           Some hs \<Rightarrow> hs
         | None \<Rightarrow> lg_handlers g @ [\<lparr>lh_ours = True, lh_level = level,
             lh_stream = (case stream of None \<Rightarrow> stderr | Some s \<Rightarrow> s), lh_json = True\<rparr>])\<rparr>))"

subsection \<open>Bound context\<close>

text \<open>\<open>_ContextLoggerAdapter.process\<close>: the \<open>extra\<close> of a call on an adapter with bound fields.\<close>

definition process_extra :: "(string \<times> logval) list \<Rightarrow> (string \<times> logval) list option \<Rightarrow> (string \<times> logval) list" where
  "process_extra bound given = fold (\<lambda>(k, v). set_item k v) (case given of None \<Rightarrow> [] | Some kvs \<Rightarrow> kvs) bound"

subsection \<open>Lemmas\<close>

definition printable :: "char \<Rightarrow> bool" where
  "printable c = (32 \<le> (of_char c :: nat) \<and> (of_char c :: nat) \<le> 126)"

fun printable_floats :: "logval \<Rightarrow> bool" where
  "printable_floats (LFloat s) = list_all printable s"
| "printable_floats (LList vs) = list_all printable_floats vs"
| "printable_floats (LDict kvs) = list_all (\<lambda>(k, v). printable_floats v) kvs"
| "printable_floats _ = True"

fun printable_json :: "json \<Rightarrow> bool" where
  "printable_json (JFloat s) = list_all printable s"
| "printable_json (JList vs) = list_all printable_json vs"
| "printable_json (JObj kvs) = list_all (\<lambda>(k, v). printable_json v) kvs"
| "printable_json _ = True"

lemma printable_literals [simp]:
  "printable CHR ''{''" "printable CHR ''}''" "printable CHR ''[''" "printable CHR '']''" "printable CHR '',''" "printable CHR '' ''"
  "printable CHR '':''" "printable CHR 0x22" "printable CHR ''-''"
  by (simp_all add: printable_def)

lemma printable_hex: "d < 16 \<Longrightarrow> printable (hex_digit d)"
  by (simp add: printable_def hex_digit_code)

lemma printable_esc: "list_all printable (json_esc c)"
proof -
  have "(of_char c :: nat) div 16 < 16" by (rule less_mult_imp_div_less) simp
  then show ?thesis
    using printable_hex [of "of_char c div 16"] printable_hex [of "of_char c mod 16"]
    by (simp add: json_esc_def Let_def printable_def)
qed

lemma printable_quote [simp]: "list_all printable (json_quote s)"
  using printable_esc by (simp add: json_quote_def list_all_iff)

lemma printable_spaced: "list_all (list_all printable) ss \<Longrightarrow> list_all printable (spaced ss)"
  by (induction ss rule: spaced.induct) simp_all

lemma printable_digits: "list_all is_ascii_digit s \<Longrightarrow> list_all printable s"
  by (auto simp: list_all_iff is_ascii_digit_def printable_def Let_def)

lemma printable_int: "list_all printable (show_int i)"
  by (simp add: show_int_def printable_digits [OF show_nat_digits])

lemma printable_line: "printable_json j \<Longrightarrow> list_all printable (json_line j)"
proof (induction j rule: json_line.induct)
  case (6 xs)
  then have "list_all (list_all printable) (map json_line xs)" by (simp add: list_all_iff [of _ xs] list.pred_map)
  then show ?case by (simp add: printable_spaced)
next
  case (7 kvs)
  have "list_all printable (json_line v)" if "(k, v) \<in> set kvs" for k v
    using 7 that by (fastforce simp: list_all_iff [of _ kvs])
  then have "list_all (list_all printable) (map (\<lambda>(k, v). json_quote k @ '': '' @ json_line v) kvs)"
    by (auto simp: list_all_iff [of _ kvs] list.pred_map comp_def)
  then show ?case by (simp add: printable_spaced)
qed (simp_all add: printable_int printable_def)

lemma all_some_Some: "all_some xs = Some ys \<longleftrightarrow> xs = map Some ys"
  by (induction xs arbitrary: ys) (auto simp: bind_eq_Some_conv)

lemma printable_log_json: "log_json v = Some j \<Longrightarrow> printable_floats v \<Longrightarrow> printable_json j"
proof (induction v arbitrary: j rule: log_json.induct)
  case (6 vs)
  then obtain js where js: "map log_json vs = map Some js" "j = JList js" by (auto simp: all_some_Some)
  have n: "length vs = length js" using map_eq_imp_length_eq [OF js(1)] .
  have m: "log_json (vs ! i) = Some (js ! i)" if "i < length js" for i
    using arg_cong [OF js(1), of "\<lambda>xs. xs ! i"] n that by simp
  have "printable_json (js ! i)" if "i < length js" for i
  proof (rule 6(1))
    show "vs ! i \<in> set vs" "log_json (vs ! i) = Some (js ! i)" using n m that by simp_all
    then show "printable_floats (vs ! i)" using 6(3) by (simp add: list_all_iff)
  qed
  then have "list_all printable_json js" by (simp add: list_all_length)
  then show ?case by (simp add: js)
next
  case (7 kvs)
  then obtain js where js: "map (\<lambda>(k, v). log_json v) kvs = map Some js" "j = JObj (zip (map fst kvs) js)"
    by (auto simp: all_some_Some)
  have n: "length kvs = length js" using map_eq_imp_length_eq [OF js(1)] .
  have m: "log_json (snd (kvs ! i)) = Some (js ! i)" if "i < length js" for i
    using arg_cong [OF js(1), of "\<lambda>xs. xs ! i"] n that by (simp add: case_prod_unfold)
  have "printable_json (js ! i)" if i: "i < length js" for i
  proof (rule 7(1))
    show k: "kvs ! i \<in> set kvs" using n i by simp
    show "(fst (kvs ! i), snd (kvs ! i)) = kvs ! i" by simp
    show "log_json (snd (kvs ! i)) = Some (js ! i)" using m [OF i] .
    have "list_all (\<lambda>(k, v). printable_floats v) kvs" using 7(3) by simp
    then show "printable_floats (snd (kvs ! i))" using k by (auto simp: list_all_iff case_prod_unfold)
  qed
  then have "list_all (\<lambda>(k, v). printable_json v) (zip (map fst kvs) js)"
    using n by (simp add: list_all_length)
  then show ?case by (simp add: js)
qed auto

lemma map_of_replace:
  "map_of (map (\<lambda>(k', v'). if k' = k then (k, v) else (k', v')) p) m =
     (if m = k then (if k \<in> fst ` set p then Some v else None) else map_of p m)"
  by (induction p) (auto, metis fst_conv image_eqI)

lemma set_item_lookup: "map_of (set_item k v p) m = (if m = k then Some v else map_of p m)"
  using map_of_eq_None_iff [of p k] by (auto simp: set_item_def map_of_replace map_add_def split: option.split)

lemma merge_lookup:
  "map_of (merge_extra reserved attrs core) m =
     (case map_of core m of Some v \<Rightarrow> Some v | None \<Rightarrow> if m \<in> set reserved then None else map_of attrs m)"
proof (induction attrs arbitrary: core)
  case (Cons a attrs)
  obtain k v where a: "a = (k, v)" by fastforce
  show ?case
  proof (cases "k \<in> set reserved \<or> k \<in> fst ` set core")
    case True
    then have "merge_extra reserved (a # attrs) core = merge_extra reserved attrs core" by (simp add: merge_extra_def a)
    moreover have "map_of core k \<noteq> None \<or> k \<in> set reserved" using True by (auto simp: map_of_eq_None_iff)
    ultimately show ?thesis using Cons.IH [of core] by (auto simp: a split: option.split)
  next
    case False
    then have "merge_extra reserved (a # attrs) core = merge_extra reserved attrs (core @ [(k, v)])" by (simp add: merge_extra_def a)
    moreover have "map_of core k = None" using False by (simp add: map_of_eq_None_iff)
    ultimately show ?thesis using Cons.IH [of "core @ [(k, v)]"] False
      by (auto simp: a map_add_def split: option.splits)
  qed
qed (simp add: merge_extra_def split: option.split)

lemma printable_payload:
  assumes "list_all (\<lambda>(k, v). printable_floats v) core" "list_all (\<lambda>(k, v). printable_floats v) attrs"
  shows "list_all (\<lambda>(k, v). printable_floats v) (merge_extra reserved attrs core)"
  using assms
proof (induction attrs arbitrary: core)
  case (Cons a attrs)
  then show ?case by (cases a) (auto simp: merge_extra_def)
qed (simp add: merge_extra_def)

lemma printable_set_item:
  "list_all (\<lambda>(k, v). printable_floats v) p \<Longrightarrow> list_all (\<lambda>(k, v). printable_floats v) (set_item k (LStr t) p)"
  by (auto simp: set_item_def list_all_iff split: if_splits)

subsection \<open>Properties\<close>

text \<open>C35 Logging never fails the caller and never breaks a line: whatever is in the record, its message, its extra
  fields or its exception, formatting returns one line of printable ASCII. When the record can be built, an
  extra field cannot replace a core field, every other extra field is there with the value given, and only an exception
  takes the name \<open>exception\<close>.\<close>

theorem log_line_is_total:
  assumes "utc_pydt clock" "list_all (\<lambda>(k, v). printable_floats v) (lr_dict r)"
  shows "(\<exists>line. log_format reserved clock r = Inr line \<and> list_all printable line) \<and>
    (\<forall>p. build_payload reserved r = Inr p \<longrightarrow>
      (\<exists>ts msg. rbind (lr_created r) isoformat_utc = Inr ts \<and> lr_message r = Inr msg \<and>
        map_of p ''ts'' = Some (LStr ts) \<and> map_of p ''msg'' = Some (LStr msg)) \<and>
      map_of p ''level'' = Some (LStr (lr_level r)) \<and> map_of p ''logger'' = Some (LStr (lr_name r)) \<and>
      map_of p ''module'' = Some (LStr (lr_module r)) \<and> map_of p ''line'' = Some (LInt (lr_line r)) \<and>
      (\<forall>k. k \<notin> set core_fields \<and> k \<noteq> ''exception'' \<longrightarrow>
        map_of p k = (if k \<in> set reserved then None else map_of (lr_dict r) k)))"
proof -
  have fb: "\<exists>line. fallback_line clock r = Inr line \<and> list_all printable line"
    using assms(1) by (auto simp: fallback_line_def isoformat_utc_def intro!: printable_line)
  show ?thesis
  proof (cases "build_payload reserved r")
    case (Inl e)
    then show ?thesis using fb by (simp add: log_format_def)
  next
    case (Inr p)
    obtain ts msg where tm: "rbind (lr_created r) isoformat_utc = Inr ts" "lr_message r = Inr msg"
      using Inr by (auto simp: build_payload_def rbind_eq_Inr)
    let ?core = "[(''ts'', LStr ts), (''level'', LStr (lr_level r)), (''logger'', LStr (lr_name r)), (''msg'', LStr msg),
              (''module'', LStr (lr_module r)), (''line'', LInt (lr_line r))]"
    let ?m = "merge_extra reserved (lr_dict r) ?core"
    have p: "p = ?m \<or> (\<exists>t. p = set_item ''exception'' (LStr t) ?m)"
      using Inr tm by (auto simp: build_payload_def rbind_eq_Inr Let_def split: option.splits if_splits)
    have l: "k \<noteq> ''exception'' \<Longrightarrow> map_of p k = map_of ?m k" for k using p by (auto simp: set_item_lookup)
    have "list_all (\<lambda>(k, v). printable_floats v) p"
      using p printable_payload [of ?core, OF _ assms(2)] printable_set_item by auto
    then have "\<exists>line. log_format reserved clock r = Inr line \<and> list_all printable line"
      using fb Inr printable_log_json [of "LDict p"] printable_line
      by (auto simp: log_format_def simp del: log_json.simps split: option.splits)
    moreover have "k \<notin> set core_fields \<and> k \<noteq> ''exception'' \<Longrightarrow>
        map_of p k = (if k \<in> set reserved then None else map_of (lr_dict r) k)" for k
      by (auto simp: l merge_lookup core_fields_def)
    ultimately show ?thesis using Inr tm by (simp add: l merge_lookup)
  qed
qed

definition log_1 :: log_record where
  "log_1 = \<lparr>lr_created = Inr noon, lr_level = ''INFO'', lr_name = ''cer'', lr_message = Inr ''request'',
     lr_module = ''app'', lr_line = 65, lr_dict = [(''name'', LStr ''cer''), (''level'', LInt 5), (''path'', LObject None)],
     lr_exc_info = None, lr_exc_text = None\<rparr>"

theorem log_line_is_total_witness:
  "(\<exists>line. log_format [''name''] noon log_1 = Inr line \<and> list_all printable line) \<and>
   (\<exists>p. build_payload [''name''] log_1 = Inr p \<and> map_of p ''level'' = Some (LStr ''INFO'') \<and> map_of p ''path'' = Some (LObject None))"
proof -
  have t: "utc_pydt noon" by simp
  have v: "list_all (\<lambda>(k, v). printable_floats v) (lr_dict log_1)" by (simp add: log_1_def)
  note all = log_line_is_total [OF t v, of "[''name'']"]
  have "\<exists>p. build_payload [''name''] log_1 = Inr p"
    using t by (simp add: build_payload_def log_1_def isoformat_utc_def)
  then obtain p where p: "build_payload [''name''] log_1 = Inr p" by blast
  with all have "map_of p ''level'' = Some (LStr (lr_level log_1))" by blast
  moreover have "map_of p ''path'' = (if ''path'' \<in> set [''name''] then None else map_of (lr_dict log_1) ''path'')"
    using conjunct2 [OF all] p by (simp add: core_fields_def)
  ultimately show ?thesis using p conjunct1 [OF all] by (simp add: log_1_def)
qed

text \<open>Configuring logging again, at any level and stream, keeps exactly one handler of this module and leaves the
  handlers of others alone.\<close>

lemma retarget_ours_handlers:
  "retarget_ours level stream hs = Some hs' \<Longrightarrow>
     filter lh_ours hs \<noteq> [] \<and> length (filter lh_ours hs') = length (filter lh_ours hs) \<and>
     filter (Not \<circ> lh_ours) hs' = filter (Not \<circ> lh_ours) hs"
  by (induction hs arbitrary: hs') (auto simp: retarget_def split: if_splits)

lemma retarget_ours_None: "retarget_ours level stream hs = None \<longleftrightarrow> filter lh_ours hs = []"
  by (induction hs) auto

lemma one_handler_installed:
  assumes "configure_logging known stderr level stream g = (Inr (), g')" "length (filter lh_ours (lg_handlers g)) \<le> 1"
  shows "length (filter lh_ours (lg_handlers g')) = 1 \<and>
    filter (Not \<circ> lh_ours) (lg_handlers g') = filter (Not \<circ> lh_ours) (lg_handlers g)"
proof (cases "retarget_ours level stream (lg_handlers g)")
  case None
  then have "filter lh_ours (lg_handlers g) = []" by (simp add: retarget_ours_None)
  then show ?thesis using assms by (auto simp: configure_logging_def None split: if_splits)
next
  case (Some hs)
  then show ?thesis using assms retarget_ours_handlers [OF Some]
    by (cases "filter lh_ours (lg_handlers g)") (auto simp: configure_logging_def split: if_splits)
qed

text \<open>A field of the call takes precedence over a bound one.\<close>

lemma process_extra_lookup:
  "distinct (map fst kvs) \<Longrightarrow>
     map_of (process_extra bound (Some kvs)) k = (case map_of kvs k of Some v \<Rightarrow> Some v | None \<Rightarrow> map_of bound k)"
proof (induction kvs arbitrary: bound)
  case (Cons a kvs)
  obtain m v where a: "a = (m, v)" by fastforce
  have d: "distinct (map fst kvs)" "map_of kvs m = None" using Cons.prems by (auto simp: a map_of_eq_None_iff)
  have "process_extra bound (Some (a # kvs)) = process_extra (set_item m v bound) (Some kvs)"
    by (simp add: process_extra_def a)
  then show ?case using Cons.IH [OF d(1), of "set_item m v bound"] d(2)
    by (auto simp: a set_item_lookup split: option.split)
qed (simp add: process_extra_def)

end
