(* ===== verification/Launch.thy ===== *)
theory Launch
  imports Startup Config Migrations Logging
begin

text \<open>
  The whole start of the service (\<open>main\<close> of \<open>src/cer/api/main.py\<close>): settings, logging, the metadata store with
  its migrations (\<open>SQLiteMetadataStore.__init__\<close>), the artifact store, in this order. What the machine answers
  is a \<open>launcher\<close>; what a start reads and changes is a \<open>machine\<close>. Serving itself is uvicorn's.
\<close>

record 's launcher =
  la_parent :: bool \<comment> \<open>\<open>mkdir\<close> of the database's directory succeeds\<close>
  la_open :: bool \<comment> \<open>the bootstrap connection and its pragmas succeed\<close>
  la_engine :: "'s engine"
  la_hash :: "string \<Rightarrow> string"
  la_schema :: schema_dir
  la_rows :: "'s \<Rightarrow> db" \<comment> \<open>the rows of the migrated tables\<close>
  la_env :: env \<comment> \<open>the later connections\<close>
  la_fs :: fs_cfg \<comment> \<open>hash and codec of the artifact store\<close>
  la_uri :: "string \<Rightarrow> string" \<comment> \<open>\<open>Path(_).as_uri()\<close>\<close>
  la_chances :: chances
  la_level :: "string \<Rightarrow> bool" \<comment> \<open>the level names the logging module knows\<close>
  la_stderr :: nat

record 's machine =
  mc_schema :: "'s schema"
  mc_store :: fstore
  mc_log :: log_root

datatype launch =
    Exited int config_error \<comment> \<open>\<open>SystemExit\<close>, after one line on stderr\<close>
  | Uncaught exn
  | Killed
  | Serving settings "nat option" \<comment> \<open>\<open>uvicorn.run\<close>, with the schema version the probe expects\<close>

definition load_settings_or_exit :: "environ \<Rightarrow> (int \<times> config_error) + settings" where
  "load_settings_or_exit env = (case load_settings env of Inl e \<Rightarrow> Inl (1, e) | Inr s \<Rightarrow> Inr s)"

definition open_metadata_store :: "'s launcher \<Rightarrow> 's schema \<Rightarrow> (exn + nat option) \<times> 's schema" where
  "open_metadata_store L s =
     (if \<not> la_parent L then (raise_cer MetadataStoreError, s)
      else if \<not> la_open L then (raise_cer MetadataStoreError, s)
      else (case apply_migrations (la_engine L) (la_hash L) (la_schema L) s of
          (Inl e, s') \<Rightarrow> (if is_os_error e then raise_cer MetadataStoreError else Inl e, s')
        | (Inr n, s') \<Rightarrow> (Inr n, s')))"

definition store_cfg :: "'s launcher \<Rightarrow> settings \<Rightarrow> fs_cfg" where
  "store_cfg L s = (la_fs L)\<lparr>max_bytes := max_artifact_bytes s, root_uri := la_uri L (artifact_root s)\<rparr>"

definition build_stores :: "'s launcher \<Rightarrow> settings \<Rightarrow> 's machine \<Rightarrow> nat option ending \<times> 's machine" where
  "build_stores L s m =
     (case open_metadata_store L (mc_schema m) of
        (Inl e, db') \<Rightarrow> (Done (Inl e), m\<lparr>mc_schema := db'\<rparr>)
      | (Inr n, db') \<Rightarrow>
          (case build_artifact_store (store_cfg L s) (la_chances L) (la_env L) (la_rows L (tables db')) (mc_store m) of
             (r, w) \<Rightarrow>
               (case r of Crash \<Rightarrow> Crash | Done (Inl e) \<Rightarrow> Done (Inl e) | Done (Inr _) \<Rightarrow> Done (Inr n),
                m\<lparr>mc_schema := db', mc_store := w\<rparr>)))"

definition start_service :: "'s launcher \<Rightarrow> environ \<Rightarrow> 's machine \<Rightarrow> launch \<times> 's machine" where
  "start_service L env m =
     (case load_settings_or_exit env of
        Inl (code, e) \<Rightarrow> (Exited code e, m)
      | Inr s \<Rightarrow> (case configure_logging (la_level L) (la_stderr L) (log_level s) None (mc_log m) of
          (Inl e, g) \<Rightarrow> (Uncaught e, m\<lparr>mc_log := g\<rparr>)
        | (Inr _, g) \<Rightarrow> (case build_stores L s (m\<lparr>mc_log := g\<rparr>) of
            (Crash, m') \<Rightarrow> (Killed, m')
          | (Done (Inl e), m') \<Rightarrow> (Uncaught e, m')
          | (Done (Inr n), m') \<Rightarrow> (Serving s n, m'))))"

subsection \<open>Lemmas\<close>

lemma open_metadata_Inr:
  "open_metadata_store L s = (Inr n, s') \<longleftrightarrow> la_parent L \<and> la_open L \<and>
     apply_migrations (la_engine L) (la_hash L) (la_schema L) s = (Inr n, s')"
  by (auto simp: open_metadata_store_def raise_cer_def split: prod.splits sum.splits if_splits)

text \<open>What a start may do to the artifact volume: nothing, unless the layout is there or the database, which
  could be read, holds no artifact.\<close>

lemma build_artifact_cases:
  assumes "build_artifact_store C ch v d w = (r, w1)"
  shows "(files w1 = files w \<or> layout (files w) \<or> metadata_holds_artifact_records v d = Some False) \<and>
    (r = Done (Inr ()) \<longrightarrow> 0 < max_bytes C)"
proof -
  obtain r1 wa where 1: "open_store C w = (r1, wa)" by fastforce
  obtain r2 wb where 2: "health ch wa = (r2, wb)" by fastforce
  note o = open_cases [OF 1]
  have p: "max_bytes C \<le> 0 \<Longrightarrow> r1 = Done (Inl PyValueError)" using 1 by (simp add: open_store_def io_raise_def)
  note h = conjunct2 [OF health_cases [OF 2]]
  show ?thesis
  proof (cases "layout (files w) \<or> metadata_holds_artifact_records v d = Some False")
    case True
    then show ?thesis using assms p by (cases "max_bytes C \<le> 0") (auto simp: build_artifact_store_def io_bind_def 1)
  next
    case False
    then have "\<not> layout (files wa)" "metadata_holds_artifact_records v d \<noteq> Some False" using o by auto
    with h have "files wb = files wa" "r2 = Crash \<or> r2 = Done (Inl (new_exn ArtifactStoreError None))" by simp_all
    with assms o p \<open>metadata_holds_artifact_records v d \<noteq> Some False\<close> show ?thesis
      by (cases "max_bytes C \<le> 0")
         (auto simp: build_artifact_store_def io_bind_def 1 2 initialise_artifact_store_if_safe_def
           mark_previously_initialised_def set_initialised_def split: option.splits bool.splits)
  qed
qed

text \<open>How a start ends, read backwards.\<close>

lemma build_stores_cases:
  assumes "build_stores L s m = (r, m')"
  shows "mc_log m' = mc_log m \<and>
    (files (mc_store m') \<noteq> files (mc_store m) \<longrightarrow>
      (\<exists>n. open_metadata_store L (mc_schema m) = (Inr n, mc_schema m')) \<and>
      (layout (files (mc_store m)) \<or> metadata_holds_artifact_records (la_env L) (la_rows L (tables (mc_schema m'))) = Some False)) \<and>
    (\<forall>n. r = Done (Inr n) \<longrightarrow> open_metadata_store L (mc_schema m) = (Inr n, mc_schema m') \<and> 0 < max_artifact_bytes s)"
proof -
  obtain r1 db' where 1: "open_metadata_store L (mc_schema m) = (r1, db')" by fastforce
  show ?thesis
  proof (cases r1)
    case (Inl e)
    then show ?thesis using assms by (simp add: build_stores_def 1) auto
  next
    case (Inr n)
    obtain r2 w where 2: "build_artifact_store (store_cfg L s) (la_chances L) (la_env L) (la_rows L (tables db')) (mc_store m) = (r2, w)"
      by fastforce
    have "max_bytes (store_cfg L s) = max_artifact_bytes s" by (simp add: store_cfg_def)
    note c = build_artifact_cases [OF 2, unfolded this]
    have "(r, m') = (case r2 of Crash \<Rightarrow> Crash | Done (Inl e) \<Rightarrow> Done (Inl e) | Done (Inr _) \<Rightarrow> Done (Inr n),
        m\<lparr>mc_schema := db', mc_store := w\<rparr>)"
      using assms by (simp add: build_stores_def 1 Inr 2)
    with 1 Inr c show ?thesis by (auto split: ending.splits sum.splits)
  qed
qed

lemma configure_logging_cases:
  "configure_logging known stderr level None g = (r, g') \<Longrightarrow>
     (r = Inr () \<and> known level) \<or> (r = Inl PyValueError \<and> \<not> known level \<and> g' = g)"
  by (auto simp: configure_logging_def split: if_splits)

lemma version_recorded:
  assumes "apply_migrations E hash dir s = (Inr (Some k), s')"
  shows "k \<in> ap_version ` set (applied s')"
proof -
  obtain ms where ms: "load_migrations hash dir = Inr ms"
    using assms(1) by (cases "load_migrations hash dir") (simp_all add: apply_migrations_def)
  obtain r1 s1 where run1: "apply_all E (recorded (applied s)) ms s = (r1, s1)" by fastforce
  have u: "r1 = Inr () \<and> s1 = s' \<and> ms \<noteq> [] \<and> k = mg_version (last ms)"
    using assms ms run1 by (auto simp: apply_migrations_def split: if_splits sum.splits)
  note pass = apply_all_done [OF _ load_migrations_ok(2) [OF ms] refl, of E s "()" s']
  have "recorded (applied s') k = Some (mg_checksum (last ms))" using pass run1 u by simp
  then show ?thesis using recorded_None [of "applied s'" k] by (metis option.distinct(1))
qed

subsection \<open>Properties\<close>

text \<open>C6 A start stops before it can do harm: a configuration error exits with status 1 and touches nothing; an
  unknown log level touches neither store; and whatever the faults, the artifact volume is changed only after every
  migration has succeeded, and only if its layout was there or the migrated database says that no artifact was ever
  registered. A start that ends in serving has loaded its settings, has one log handler, and has migrated the
  database to the version its readiness probe then finds.\<close>

theorem start_stops_before_harm:
  assumes "start_service L env m = (r, m')" "length (filter lh_ours (lg_handlers (mc_log m))) \<le> 1"
  shows "(\<forall>e. load_settings env = Inl e \<longrightarrow> r = Exited 1 e \<and> m' = m) \<and>
    (\<forall>s. load_settings env = Inr s \<and> \<not> la_level L (log_level s) \<longrightarrow> r = Uncaught PyValueError \<and> m' = m) \<and>
    (files (mc_store m') \<noteq> files (mc_store m) \<longrightarrow>
      (\<exists>n. apply_migrations (la_engine L) (la_hash L) (la_schema L) (mc_schema m) = (Inr n, mc_schema m')) \<and>
      (layout (files (mc_store m)) \<or>
       metadata_holds_artifact_records (la_env L) (la_rows L (tables (mc_schema m'))) = Some False)) \<and>
    (\<forall>s n. r = Serving s n \<longrightarrow>
      load_settings env = Inr s \<and> 0 < max_artifact_bytes s \<and>
      length (filter lh_ours (lg_handlers (mc_log m'))) = 1 \<and>
      apply_migrations (la_engine L) (la_hash L) (la_schema L) (mc_schema m) = (Inr n, mc_schema m') \<and>
      (\<forall>v k. healthy v \<and> n = Some k \<longrightarrow> store_health v (Some (map ap_version (applied (mc_schema m')))) n = Inr ()))"
proof (cases "load_settings env")
  case (Inl e)
  then show ?thesis using assms(1) by (auto simp: start_service_def load_settings_or_exit_def)
next
  case (Inr s)
  obtain r1 g where 1: "configure_logging (la_level L) (la_stderr L) (log_level s) None (mc_log m) = (r1, g)" by fastforce
  show ?thesis
  proof (cases "la_level L (log_level s)")
    case False
    then show ?thesis using assms(1) configure_logging_cases [OF 1] 1
      by (auto simp: start_service_def load_settings_or_exit_def Inr)
  next
    case True
    with configure_logging_cases [OF 1] have r1: "r1 = Inr ()" by simp
    obtain r2 m2 where 2: "build_stores L s (m\<lparr>mc_log := g\<rparr>) = (r2, m2)" by fastforce
    note b = build_stores_cases [OF 2, simplified]
    note h = one_handler_installed [OF 1 [unfolded r1] assms(2)]
    have m': "m' = m2" "\<And>s' n. r = Serving s' n \<longleftrightarrow> s' = s \<and> r2 = Done (Inr n)" "\<And>e. r \<noteq> Exited 1 e"
      using assms(1) by (auto simp: start_service_def load_settings_or_exit_def Inr 1 r1 2 split: ending.splits sum.splits)
    have "store_health v (Some (map ap_version (applied (mc_schema m')))) n = Inr ()"
      if "apply_migrations (la_engine L) (la_hash L) (la_schema L) (mc_schema m) = (Inr n, mc_schema m')" "healthy v" "n = Some k" for v n k
      using version_recorded [OF that(1) [unfolded that(3)]] store_health_ok [OF that(2), of k] that(3) by simp
    with b h True Inr m' show ?thesis by (auto simp: open_metadata_Inr)
  qed
qed


definition launcher_1 :: "string list launcher" where
  "launcher_1 = \<lparr>la_parent = True, la_open = True, la_engine = column_engine, la_hash = (\<lambda>q. q), la_schema = two_files,
     la_rows = (\<lambda>_. db_art), la_env = all_up, la_fs = plain_cfg, la_uri = (\<lambda>p. ''file://'' @ p), la_chances = chances_1,
     la_level = (\<lambda>l. l = ''INFO''), la_stderr = 2\<rparr>"

definition machine_1 :: "string list machine" where
  "machine_1 = \<lparr>mc_schema = no_schema, mc_store = store_lost, mc_log = \<lparr>lg_level = ''WARNING'', lg_handlers = []\<rparr>\<rparr>"

definition environ_1 :: environ where
  "environ_1 = [ENV_METADATA_DB_PATH \<mapsto> ''/m/cer.db'', ENV_ARTIFACT_ROOT \<mapsto> ''/a'']"

lemma settings_1: "\<exists>s. load_settings environ_1 = Inr s \<and> log_level s = ''INFO'' \<and> max_artifact_bytes s = DEFAULT_MAX_ARTIFACT_BYTES"
  by (simp add: load_settings_def require_var_def get_int_def env_or_def environ_1_def setting_names DEFAULT_LOG_LEVEL_def)

text \<open>The lost volume: the service is up, and the volume untouched.\<close>

lemma start_1: "\<exists>s. fst (start_service launcher_1 environ_1 machine_1) = Serving s (Some 2)"
proof -
  obtain s where s: "load_settings environ_1 = Inr s" "log_level s = ''INFO''" "max_artifact_bytes s = DEFAULT_MAX_ARTIFACT_BYTES"
    using settings_1 by blast
  obtain r w where b: "build_artifact_store (store_cfg launcher_1 s) chances_1 all_up db_art store_lost = (r, w)" by fastforce
  have "\<not> layout (files store_lost)" "db_art artifacts \<noteq> []" by (simp_all add: store_lost_def layout_def db_art_def)
  from holds_records [OF wf_db_art healthy_all_up] this(2)
  have h: "metadata_holds_artifact_records all_up db_art = Some True" by simp
  have "0 < max_bytes (store_cfg launcher_1 s)" by (simp add: store_cfg_def s DEFAULT_MAX_ARTIFACT_BYTES_def)
  then have "r = Done (Inr ())"
    using b h open_absent [OF empty_lost(2) \<open>\<not> layout (files store_lost)\<close>] \<open>\<not> layout (files store_lost)\<close>
      health_absent [of "store_lost\<lparr>initialised := False\<rparr>" chances_1] empty_lost(2)
    by (simp add: build_artifact_store_def io_bind_def initialise_artifact_store_if_safe_def
        mark_previously_initialised_def set_initialised_def)
  then show ?thesis using b first_pass
    by (simp add: start_service_def load_settings_or_exit_def s configure_logging_def launcher_1_def machine_1_def
        build_stores_def open_metadata_store_def)
qed

theorem start_stops_before_harm_witness:
  "\<exists>s m'. start_service launcher_1 environ_1 machine_1 = (Serving s (Some 2), m') \<and>
     files (mc_store m') = (\<lambda>_. None) \<and> length (filter lh_ours (lg_handlers (mc_log m'))) = 1"
proof -
  obtain s m' where r: "start_service launcher_1 environ_1 machine_1 = (Serving s (Some 2), m')"
    using start_1 by (metis prod.collapse)
  have "length (filter lh_ours (lg_handlers (mc_log machine_1))) \<le> 1" by (simp add: machine_1_def)
  note all = start_stops_before_harm [OF r this]
  have "\<not> layout (files (mc_store machine_1))" by (simp add: machine_1_def store_lost_def layout_def)
  moreover have "metadata_holds_artifact_records (la_env launcher_1) (la_rows launcher_1 t) \<noteq> Some False" for t
    using holds_records [OF wf_db_art healthy_all_up] by (simp add: launcher_1_def db_art_def)
  ultimately have "files (mc_store m') = files (mc_store machine_1)" using all by blast
  moreover have "length (filter lh_ours (lg_handlers (mc_log m'))) = 1" using all by blast
  ultimately show ?thesis using r by (auto simp: machine_1_def store_lost_def)
qed

end
