(* ===== verification/Catalogue.thy ===== *)
theory Catalogue
  imports QueryProps "HOL-Library.Product_Lexorder"
begin

text \<open>
  What a metadata store promises (\<open>src/cer/contract/stores.py\<close>, the protocol \<open>MetadataStore\<close> and the semantics
  its module docstring demands), as operations on a catalogue of contract objects: no rows, no fingerprints, no SQL.
  An identical body is one with the same authored content (\<open>content_...\<close>). Where the protocol is silent (closing a
  closed run, moving a link, reusing the id of an experiment, a run, a promotion or a health record), the promise is the
  refusal the implementation documents. \<open>CatalogueProps\<close> shows which promises the SQLite store keeps: all but one, the
  promise to honour a new key for an object that exists.
\<close>

subsection \<open>Entries\<close>

text \<open>An object that was created: the producer and key it was submitted under, the object as submitted, the object as it
  reads now, and the keys it was submitted under again, each with what was submitted.\<close>

record 'x entry =
  en_key :: "(string \<times> string) option"
  en_sent :: 'x
  en_now :: 'x
  en_more :: "((string \<times> string) \<times> 'x) list"

record catalogue =
  ct_strategies :: "strategy entry list"
  ct_versions :: "strategy_version entry list"
  ct_experiments :: "experiment_record entry list"
  ct_runs :: "run entry list"
  ct_evidence :: "evidence entry list"
  ct_artifacts :: "artifact entry list"
  ct_promotions :: "promotion entry list"
  ct_health :: "health entry list"

definition empty_catalogue :: catalogue where
  "empty_catalogue = \<lparr>ct_strategies = [], ct_versions = [], ct_experiments = [], ct_runs = [], ct_evidence = [],
     ct_artifacts = [], ct_promotions = [], ct_health = []\<rparr>"

definition sent_under :: "string \<Rightarrow> string \<Rightarrow> 'x entry \<Rightarrow> 'x option" where
  "sent_under p k n = (if en_key n = Some (p, k) then Some (en_sent n) else map_of (en_more n) (p, k))"

definition keyed_entry :: "'x entry list \<Rightarrow> string \<Rightarrow> string \<Rightarrow> 'x entry option" where
  "keyed_entry es p k = List.find (\<lambda>n. sent_under p k n \<noteq> None) es"

definition named_entry :: "('x \<Rightarrow> 'i) \<Rightarrow> 'x entry list \<Rightarrow> 'i \<Rightarrow> 'x entry option" where
  "named_entry ident es i = List.find (\<lambda>n. ident (en_now n) = i) es"

subsection \<open>Idempotent, immutable creation\<close>

text \<open>
  A replay of a key with the \<open>same\<close> content returns the existing object, with different content it is a conflict; an
  id in use is refused unless it is the same object \<open>again\<close>, and then a key that comes with it is bound to the
  object: accepting a key and ignoring it is forbidden. Otherwise the object is new. \<open>read\<close> is how a new object reads
  back.
\<close>

definition bind_key :: "('x \<Rightarrow> 'i) \<Rightarrow> 'i \<Rightarrow> (string \<times> string) option \<Rightarrow> 'x \<Rightarrow> 'x entry list \<Rightarrow> 'x entry list" where
  "bind_key ident i key x es = (case key of None \<Rightarrow> es
     | Some pk \<Rightarrow> map (\<lambda>n. if ident (en_now n) = i then n\<lparr>en_more := en_more n @ [(pk, x)]\<rparr> else n) es)"

definition submit ::
    "('x \<Rightarrow> 'i) \<Rightarrow> ('x \<Rightarrow> 'x \<Rightarrow> bool) \<Rightarrow> ('x \<Rightarrow> 'x \<Rightarrow> bool) \<Rightarrow> ('x \<Rightarrow> 'x) \<Rightarrow> (string \<times> string) option \<Rightarrow> 'x \<Rightarrow>
     'x entry list \<Rightarrow> (exn + 'x) \<times> 'x entry list" where
  "submit ident same again read key x es =
     (case Option.bind key (\<lambda>(p, k). map_option (\<lambda>n. (n, the (sent_under p k n))) (keyed_entry es p k)) of
        Some (n, sent) \<Rightarrow> (if same sent x then Inr (en_now n) else raise_cer IdempotencyConflictError, es)
      | None \<Rightarrow> (case named_entry ident es (ident x) of
          Some n \<Rightarrow> (if again (en_now n) x then (Inr (en_now n), bind_key ident (ident x) key x es)
                     else (raise_cer ImmutabilityError, es))
        | None \<Rightarrow> (Inr x, es @ [\<lparr>en_key = key, en_sent = x, en_now = read x, en_more = []\<rparr>])))"

text \<open>A new key for an object that exists: its id is in use, by the same object again.\<close>

definition rekeyed :: "('x \<Rightarrow> 'i) \<Rightarrow> ('x \<Rightarrow> 'x \<Rightarrow> bool) \<Rightarrow> (string \<times> string) option \<Rightarrow> 'x \<Rightarrow> 'x entry list \<Rightarrow> bool" where
  "rekeyed ident again key x es = (case key of None \<Rightarrow> False
     | Some (p, k) \<Rightarrow> keyed_entry es p k = None \<and>
        (case named_entry ident es (ident x) of None \<Rightarrow> False | Some n \<Rightarrow> again (en_now n) x))"

text \<open>Whatever key an accepted submission brings, that key is answered by the object ever after: with the same content
  again, and by a conflict with any other.\<close>

lemma find_map_key: "List.find P (map f es) = map_option f (List.find (P \<circ> f) es)"
  by (induction es) simp_all

lemma submit_replay:
  fixes es :: "'x entry list"
  assumes "submit ident same again read (Some (p, k)) x es = (Inr y, es')" "keyed_entry es p k = None"
  obtains n :: "'x entry" where "en_now n = (if rekeyed ident again (Some (p, k)) x es then y else read x)"
    "submit ident same again read (Some (p, k)) z es' = (if same x z then Inr (en_now n) else raise_cer IdempotencyConflictError, es')"
proof (cases "named_entry ident es (ident x)")
  case None
  have n: "keyed_entry es p k = None" "es' = es @ [\<lparr>en_key = Some (p, k), en_sent = x, en_now = read x, en_more = []\<rparr>]"
    using assms None by (auto simp: submit_def split: option.splits)
  then have "keyed_entry es' p k = Some \<lparr>en_key = Some (p, k), en_sent = x, en_now = read x, en_more = []\<rparr>"
    by (simp add: keyed_entry_def find_append sent_under_def)
  then show ?thesis
    by (intro that [of "\<lparr>en_key = Some (p, k), en_sent = x, en_now = read x, en_more = []\<rparr>"])
       (simp_all add: submit_def sent_under_def rekeyed_def None)
next
  case (Some n)
  have k: "keyed_entry es p k = None" and a: "again (en_now n) x" "y = en_now n" and es': "es' = bind_key ident (ident x) (Some (p, k)) x es"
    using assms Some by (auto simp: submit_def raise_cer_def split: option.splits if_splits)
  let ?f = "\<lambda>m. if ident (en_now m) = ident x then m\<lparr>en_more := en_more m @ [((p, k), x)]\<rparr> else m"
  have miss: "en_key m \<noteq> Some (p, k) \<and> map_of (en_more m) (p, k) = None" if "m \<in> set es" for m
    using k that by (auto simp: keyed_entry_def find_None_iff sent_under_def split: if_splits)
  then have sent: "sent_under p k (?f m) = (if ident (en_now m) = ident x then Some x else None)" if "m \<in> set es" for m
    using miss [OF that] by (simp add: sent_under_def map_add_def)
  have "(((\<lambda>m. sent_under p k m \<noteq> None) \<circ> ?f) m) = (ident (en_now m) = ident x)" if "m \<in> set es" for m
    using sent [OF that] by (simp only: comp_def) simp
  then have "keyed_entry es' p k = map_option ?f (List.find (\<lambda>m. ident (en_now m) = ident x) es)"
    unfolding es' bind_key_def option.case keyed_entry_def find_map_key
    by (intro arg_cong [where f = "map_option ?f"] find_cong) simp_all
  then have "keyed_entry es' p k = Some (?f n)" using Some by (simp add: named_entry_def)
  moreover have "n \<in> set es" "ident (en_now n) = ident x" using Some by (auto simp: named_entry_def dest: find_Some_iff_in)
  ultimately show ?thesis using sent [of n] a k
    by (intro that [of "?f n"]) (simp_all add: submit_def rekeyed_def Some)
qed

definition under :: "string \<Rightarrow> string option \<Rightarrow> (string \<times> string) option" where
  "under producer key = map_option (Pair producer) key"

text \<open>An object a submission names must exist.\<close>

definition known :: "('x \<Rightarrow> string) \<Rightarrow> 'x entry list \<Rightarrow> string \<Rightarrow> exn + unit" where
  "known ident es i = (if named_entry ident es i = None then raise_cer NotFoundError else Inr ())"

definition known_if_given :: "('x \<Rightarrow> string) \<Rightarrow> 'x entry list \<Rightarrow> string option \<Rightarrow> exn + unit" where
  "known_if_given ident es v = (case v of None \<Rightarrow> Inr () | Some i \<Rightarrow> known ident es i)"

type_synonym 'x promised = "(exn + 'x) \<times> catalogue"

definition provided :: "exn + 'a \<Rightarrow> catalogue \<Rightarrow> ('a \<Rightarrow> 'x promised) \<Rightarrow> 'x promised" where
  "provided g K k = (case g of Inl e \<Rightarrow> (Inl e, K) | Inr x \<Rightarrow> k x)"

subsection \<open>The operations\<close>

definition promised_register_strategy :: "strategy \<Rightarrow> catalogue \<Rightarrow> strategy promised" where
  "promised_register_strategy s K =
     apsnd (\<lambda>es. K\<lparr>ct_strategies := es\<rparr>)
       (submit st_strategy_id (=) (\<lambda>a b. content_strategy a = content_strategy b) id None s (ct_strategies K))"

definition promised_register_strategy_version :: "strategy_version \<Rightarrow> catalogue \<Rightarrow> strategy_version promised" where
  "promised_register_strategy_version s K =
     provided (known st_strategy_id (ct_strategies K) (sv_strategy_id s)) K (\<lambda>_.
       apsnd (\<lambda>es. K\<lparr>ct_versions := es\<rparr>)
         (submit (\<lambda>s. (sv_strategy_id s, sv_strategy_version s)) (=)
           (\<lambda>a b. content_strategy_version a = content_strategy_version b) id None s (ct_versions K)))"

definition promised_create_experiment :: "string option \<Rightarrow> experiment_record \<Rightarrow> catalogue \<Rightarrow> experiment_record promised" where
  "promised_create_experiment key x K =
     apsnd (\<lambda>es. K\<lparr>ct_experiments := es\<rparr>)
       (submit ex_experiment_id (\<lambda>a b. content_experiment a = content_experiment b)
         (\<lambda>a b. content_experiment a = content_experiment b) id (under (ex_producer x) key) x (ct_experiments K))"

text \<open>A run that exists is never the same run again.\<close>

definition promised_create_run :: "string option \<Rightarrow> run \<Rightarrow> catalogue \<Rightarrow> run promised" where
  "promised_create_run key r K =
     provided (known ex_experiment_id (ct_experiments K) (rn_experiment_id r)) K (\<lambda>_.
       apsnd (\<lambda>es. K\<lparr>ct_runs := es\<rparr>)
         (submit rn_run_id (\<lambda>a b. content_run a = content_run b) (\<lambda>_ _. False) id
           (under (rn_producer r) key) r (ct_runs K)))"

text \<open>The entry of a name is replaced by what the operation makes of it.\<close>

definition revise :: "('x \<Rightarrow> 'i) \<Rightarrow> 'i \<Rightarrow> ('x \<Rightarrow> 'x) \<Rightarrow> 'x entry list \<Rightarrow> 'x entry list" where
  "revise ident i f es = map (\<lambda>n. if ident (en_now n) = i then n\<lparr>en_now := f (en_now n)\<rparr> else n) es"

definition closed_at :: "string \<Rightarrow> run_status \<Rightarrow> pydt \<Rightarrow> catalogue \<Rightarrow> run promised" where
  "closed_at i st t K =
     (case named_entry rn_run_id (ct_runs K) i of
        None \<Rightarrow> (raise_cer NotFoundError, K)
      | Some n \<Rightarrow>
          if rn_status (en_now n) \<noteq> OPEN then (raise_cer ImmutabilityError, K)
          else (let close = (\<lambda>r. r\<lparr>rn_status := st, rn_ended_at := Some t\<rparr>) in
            (Inr (close (en_now n)), K\<lparr>ct_runs := revise rn_run_id i close (ct_runs K)\<rparr>)))"

definition promised_close_run :: "string \<Rightarrow> run_status \<Rightarrow> pydt \<Rightarrow> catalogue \<Rightarrow> run promised" where
  "promised_close_run i st ended K = provided (to_utc ended) K (\<lambda>t. closed_at i st t K)"

definition promised_append_evidence :: "evidence \<Rightarrow> catalogue \<Rightarrow> evidence promised" where
  "promised_append_evidence e K =
     provided (known_if_given rn_run_id (ct_runs K) (ev_run_id e)) K (\<lambda>_.
     provided (known_if_given ex_experiment_id (ct_experiments K) (ev_experiment_id e)) K (\<lambda>_.
       apsnd (\<lambda>es. K\<lparr>ct_evidence := es\<rparr>)
         (submit ev_evidence_id (\<lambda>a b. content_evidence a = content_evidence b)
           (\<lambda>a b. content_evidence a = content_evidence b) canon_evidence
           (Some (ev_producer e, ev_idempotency_key e)) e (ct_evidence K))))"

text \<open>Two registrations of one id: the same blob under the same labels, registered at the same time.\<close>

definition content_blob :: "artifact \<Rightarrow> string \<times> int \<times> string \<times> string \<times> string \<times> pydt" where
  "content_blob a = (ar_sha256 a, ar_size_bytes a, ar_content_type a, ar_filename a, ar_uri a, ar_registered_at a)"

definition promised_register_artifact ::
    "string option \<Rightarrow> string option \<Rightarrow> artifact \<Rightarrow> catalogue \<Rightarrow> artifact promised" where
  "promised_register_artifact key producer a K =
     provided (known_if_given rn_run_id (ct_runs K) (ar_run_id a)) K (\<lambda>_.
     provided (known_if_given ev_evidence_id (ct_evidence K) (ar_evidence_id a)) K (\<lambda>_.
     provided (if key = None then Inr [] else require_producer_for_key producer) K (\<lambda>p.
       apsnd (\<lambda>es. K\<lparr>ct_artifacts := es\<rparr>)
         (submit ar_artifact_id (\<lambda>a b. content_artifact a = content_artifact b)
           (\<lambda>a b. content_blob a = content_blob b) id (under p key) a (ct_artifacts K)))))"

definition may_link :: "string option \<Rightarrow> string option \<Rightarrow> bool" where
  "may_link old new = (new = None \<or> old = None \<or> old = new)"

definition promised_attach_artifact ::
    "string \<Rightarrow> string option \<Rightarrow> string option \<Rightarrow> catalogue \<Rightarrow> artifact promised" where
  "promised_attach_artifact i evidence_id run_id K =
     (case named_entry ar_artifact_id (ct_artifacts K) i of
        None \<Rightarrow> (raise_cer NotFoundError, K)
      | Some n \<Rightarrow>
          provided (known_if_given ev_evidence_id (ct_evidence K) evidence_id) K (\<lambda>_.
          provided (known_if_given rn_run_id (ct_runs K) run_id) K (\<lambda>_.
            let a = en_now n in
            if may_link (ar_evidence_id a) evidence_id \<and> may_link (ar_run_id a) run_id
            then (let linked = (\<lambda>a. a\<lparr>ar_evidence_id := relink (ar_evidence_id a) evidence_id,
                                      ar_run_id := relink (ar_run_id a) run_id\<rparr>) in
              (Inr (linked a), K\<lparr>ct_artifacts := revise ar_artifact_id i linked (ct_artifacts K)\<rparr>))
            else (raise_cer ImmutabilityError, K))))"

text \<open>The same record again is the same dump, \<open>==\<close> of Python.\<close>

definition promised_record_promotion :: "libs \<Rightarrow> string option \<Rightarrow> promotion \<Rightarrow> catalogue \<Rightarrow> promotion promised" where
  "promised_record_promotion L key p K =
     apsnd (\<lambda>es. K\<lparr>ct_promotions := es\<rparr>)
       (submit pt_transition_id (\<lambda>a b. content_promotion a = content_promotion b)
         (\<lambda>a b. py_eq (JObj (promotion_dump L a)) (JObj (promotion_dump L b))) id
         (under (pt_producer p) key) p (ct_promotions K))"

definition promised_record_health :: "libs \<Rightarrow> string option \<Rightarrow> health \<Rightarrow> catalogue \<Rightarrow> health promised" where
  "promised_record_health L key h K =
     apsnd (\<lambda>es. K\<lparr>ct_health := es\<rparr>)
       (submit hr_health_id (\<lambda>a b. content_health a = content_health b)
         (\<lambda>a b. py_eq (JObj (health_dump L a)) (JObj (health_dump L b))) canon_health
         (under (hr_producer h) key) h (ct_health K))"

subsection \<open>New keys for old objects\<close>

text \<open>The calls that bring a new key for an object that exists. A run that exists is never the same run again, and
  evidence under another key is other evidence, because the key is part of its content.\<close>

definition rekeys_experiment :: "string option \<Rightarrow> experiment_record \<Rightarrow> catalogue \<Rightarrow> bool" where
  "rekeys_experiment key x K = rekeyed ex_experiment_id (\<lambda>a b. content_experiment a = content_experiment b)
     (under (ex_producer x) key) x (ct_experiments K)"

definition rekeys_artifact :: "string option \<Rightarrow> string option \<Rightarrow> artifact \<Rightarrow> catalogue \<Rightarrow> bool" where
  "rekeys_artifact key producer a K = (case producer of None \<Rightarrow> False
     | Some p \<Rightarrow> rekeyed ar_artifact_id (\<lambda>a b. content_blob a = content_blob b) (under p key) a (ct_artifacts K))"

definition rekeys_promotion :: "libs \<Rightarrow> string option \<Rightarrow> promotion \<Rightarrow> catalogue \<Rightarrow> bool" where
  "rekeys_promotion L key p K = rekeyed pt_transition_id (\<lambda>a b. py_eq (JObj (promotion_dump L a)) (JObj (promotion_dump L b)))
     (under (pt_producer p) key) p (ct_promotions K)"

definition rekeys_health :: "libs \<Rightarrow> string option \<Rightarrow> health \<Rightarrow> catalogue \<Rightarrow> bool" where
  "rekeys_health L key h K = rekeyed hr_health_id (\<lambda>a b. py_eq (JObj (health_dump L a)) (JObj (health_dump L b)))
     (under (hr_producer h) key) h (ct_health K)"

subsection \<open>Reading\<close>

definition promised_get :: "('x \<Rightarrow> string) \<Rightarrow> 'x entry list \<Rightarrow> string \<Rightarrow> exn + 'x" where
  "promised_get ident es i = (case named_entry ident es i of None \<Rightarrow> raise_cer NotFoundError | Some n \<Rightarrow> Inr (en_now n))"

definition promised_get_evidence :: "string \<Rightarrow> catalogue \<Rightarrow> exn + evidence" where
  "promised_get_evidence i K = promised_get ev_evidence_id (ct_evidence K) i"

definition promised_get_artifact :: "string \<Rightarrow> catalogue \<Rightarrow> exn + artifact" where
  "promised_get_artifact i K = promised_get ar_artifact_id (ct_artifacts K) i"

definition promised_find_artifact :: "string \<Rightarrow> string \<Rightarrow> catalogue \<Rightarrow> exn + artifact option" where
  "promised_find_artifact p k K =
     rbind (require_producer_for_key (Some p)) (\<lambda>_. Inr (map_option en_now (keyed_entry (ct_artifacts K) p k)))"

text \<open>Newest first, ties by the id.\<close>

definition latest :: "('x \<Rightarrow> pydt) \<Rightarrow> ('x \<Rightarrow> string) \<Rightarrow> 'x list \<Rightarrow> 'x list" where
  "latest at ident xs = rev (sort_key (\<lambda>x. (instant (at x), ident x)) xs)"

definition asked :: "string option \<Rightarrow> string option \<Rightarrow> bool" where
  "asked w v = (w = None \<or> v = w)"

definition promised_query_evidence :: "evidence_filter \<Rightarrow> int \<Rightarrow> int \<Rightarrow> catalogue \<Rightarrow> evidence list" where
  "promised_query_evidence f limit offset K =
     page limit offset (latest ev_created_at_utc ev_evidence_id (filter (passes f) (map en_now (ct_evidence K))))"

definition promised_query_artifacts :: "string option \<Rightarrow> string option \<Rightarrow> int \<Rightarrow> int \<Rightarrow> catalogue \<Rightarrow> artifact list" where
  "promised_query_artifacts evidence_id run_id limit offset K =
     page limit offset (latest ar_registered_at ar_artifact_id
       (filter (\<lambda>a. asked evidence_id (ar_evidence_id a) \<and> asked run_id (ar_run_id a)) (map en_now (ct_artifacts K))))"

definition promised_query_promotions :: "string option \<Rightarrow> string option \<Rightarrow> int \<Rightarrow> int \<Rightarrow> catalogue \<Rightarrow> promotion list" where
  "promised_query_promotions strategy_id strategy_version limit offset K =
     page limit offset (latest pt_at_utc pt_transition_id
       (filter (\<lambda>p. asked strategy_id (Some (pt_strategy_id p)) \<and> asked strategy_version (Some (pt_strategy_version p)))
         (map en_now (ct_promotions K))))"

definition promised_query_health :: "string option \<Rightarrow> string option \<Rightarrow> int \<Rightarrow> int \<Rightarrow> catalogue \<Rightarrow> health list" where
  "promised_query_health strategy_id strategy_version limit offset K =
     page limit offset (latest hr_observed_at_utc hr_health_id
       (filter (\<lambda>h. asked strategy_id (Some (hr_strategy_id h)) \<and> asked strategy_version (Some (hr_strategy_version h)))
         (map en_now (ct_health K))))"

end
