(* ===== verification/CatalogueRefine.thy ===== *)
theory CatalogueRefine
  imports Catalogue
begin

text \<open>
  The SQLite store and the promises of \<open>Catalogue\<close>. \<open>store_of\<close> is the content of the database a catalogue stands for;
  every operation of \<open>MetaStore\<close> on it gives the promised result and the content of the promised catalogue, less the
  keys the store forgets (\<open>settled\<close>).
  Content is compared by fingerprint in the store and by content in the catalogue: the two agree when the texts that
  are hashed, collected in a set, do not collide.
\<close>

subsection \<open>The content a catalogue stands for\<close>

abbreviation key_of :: "'x entry \<Rightarrow> string option" where
  "key_of n \<equiv> map_option snd (en_key n)"

definition strategy_entry :: "strategy entry \<Rightarrow> row" where
  "strategy_entry n = strategy_row (en_now n)"

definition version_entry :: "strategy_version entry \<Rightarrow> row" where
  "version_entry n = strategy_version_row (en_now n)"

definition experiment_entry :: "libs \<Rightarrow> experiment_record entry \<Rightarrow> row" where
  "experiment_entry L n = experiment_row (key_of n) (experiment_fp L (en_sent n)) (en_now n)"

definition run_entry :: "libs \<Rightarrow> run entry \<Rightarrow> row" where
  "run_entry L n = run_row (key_of n) (run_fp L (en_sent n)) (en_now n)"

definition evidence_entry :: "libs \<Rightarrow> evidence entry \<Rightarrow> row" where
  "evidence_entry L n = evidence_row (evidence_fp L (en_sent n)) (en_sent n)"

definition artifact_entry :: "libs \<Rightarrow> artifact entry \<Rightarrow> row" where
  "artifact_entry L n = artifact_row (map_option fst (en_key n)) (key_of n) (artifact_fp L (en_now n))
     (map_option (\<lambda>_. artifact_idem_fp L (en_sent n)) (en_key n)) (en_now n)"

definition promotion_entry :: "libs \<Rightarrow> promotion entry \<Rightarrow> row" where
  "promotion_entry L n = promotion_row (key_of n) (promotion_fp L (en_sent n)) (en_now n)"

definition health_entry :: "libs \<Rightarrow> health entry \<Rightarrow> row" where
  "health_entry L n = health_row (key_of n) (health_fp L (en_sent n)) (en_sent n)"

lemmas entry_rows = strategy_entry_def version_entry_def experiment_entry_def run_entry_def evidence_entry_def
  artifact_entry_def promotion_entry_def health_entry_def

fun store_of :: "libs \<Rightarrow> catalogue \<Rightarrow> db" where
  "store_of L K strategies = map strategy_entry (ct_strategies K)"
| "store_of L K strategy_versions = map version_entry (ct_versions K)"
| "store_of L K experiments = map (experiment_entry L) (ct_experiments K)"
| "store_of L K runs = map (run_entry L) (ct_runs K)"
| "store_of L K evidence_t = map (evidence_entry L) (ct_evidence K)"
| "store_of L K artifacts = map (artifact_entry L) (ct_artifacts K)"
| "store_of L K promotions = map (promotion_entry L) (ct_promotions K)"
| "store_of L K health_records = map (health_entry L) (ct_health K)"

lemma store_of_empty: "store_of L empty_catalogue = empty_db"
proof
  show "store_of L empty_catalogue t = empty_db t" for t by (cases t) (simp_all add: empty_catalogue_def empty_db_def)
qed

lemma store_of_update:
  "store_of L (K\<lparr>ct_strategies := a\<rparr>) = (store_of L K)(strategies := map strategy_entry a)"
  "store_of L (K\<lparr>ct_versions := b\<rparr>) = (store_of L K)(strategy_versions := map version_entry b)"
  "store_of L (K\<lparr>ct_experiments := c\<rparr>) = (store_of L K)(experiments := map (experiment_entry L) c)"
  "store_of L (K\<lparr>ct_runs := r\<rparr>) = (store_of L K)(runs := map (run_entry L) r)"
  "store_of L (K\<lparr>ct_evidence := e\<rparr>) = (store_of L K)(evidence_t := map (evidence_entry L) e)"
  "store_of L (K\<lparr>ct_artifacts := f\<rparr>) = (store_of L K)(artifacts := map (artifact_entry L) f)"
  "store_of L (K\<lparr>ct_promotions := p\<rparr>) = (store_of L K)(promotions := map (promotion_entry L) p)"
  "store_of L (K\<lparr>ct_health := h\<rparr>) = (store_of L K)(health_records := map (health_entry L) h)"
proof -
  have eq: "f = g" if "\<And>t. f t = g t" for f g :: db using that by blast
  show "store_of L (K\<lparr>ct_strategies := a\<rparr>) = (store_of L K)(strategies := map strategy_entry a)"
    by (rule eq, case_tac t) simp_all
  show "store_of L (K\<lparr>ct_versions := b\<rparr>) = (store_of L K)(strategy_versions := map version_entry b)"
    by (rule eq, case_tac t) simp_all
  show "store_of L (K\<lparr>ct_experiments := c\<rparr>) = (store_of L K)(experiments := map (experiment_entry L) c)"
    by (rule eq, case_tac t) simp_all
  show "store_of L (K\<lparr>ct_runs := r\<rparr>) = (store_of L K)(runs := map (run_entry L) r)"
    by (rule eq, case_tac t) simp_all
  show "store_of L (K\<lparr>ct_evidence := e\<rparr>) = (store_of L K)(evidence_t := map (evidence_entry L) e)"
    by (rule eq, case_tac t) simp_all
  show "store_of L (K\<lparr>ct_artifacts := f\<rparr>) = (store_of L K)(artifacts := map (artifact_entry L) f)"
    by (rule eq, case_tac t) simp_all
  show "store_of L (K\<lparr>ct_promotions := p\<rparr>) = (store_of L K)(promotions := map (promotion_entry L) p)"
    by (rule eq, case_tac t) simp_all
  show "store_of L (K\<lparr>ct_health := h\<rparr>) = (store_of L K)(health_records := map (health_entry L) h)"
    by (rule eq, case_tac t) simp_all
qed

subsection \<open>Entries that the operations make\<close>

text \<open>The texts the fingerprints of an object hash.\<close>

definition strategy_text :: "libs \<Rightarrow> strategy \<Rightarrow> string" where
  "strategy_text L s = payload_text (strategy_dump L s) STRATEGY_FP_EXCLUDE"
definition version_text :: "libs \<Rightarrow> strategy_version \<Rightarrow> string" where
  "version_text L s = payload_text (strategy_version_dump L s) STRATEGY_VERSION_FP_EXCLUDE"
definition experiment_text :: "libs \<Rightarrow> experiment_record \<Rightarrow> string" where
  "experiment_text L x = payload_text (experiment_dump L x) EXPERIMENT_FP_EXCLUDE"
definition run_text :: "libs \<Rightarrow> run \<Rightarrow> string" where
  "run_text L r = payload_text (run_dump L r) RUN_FP_EXCLUDE"
definition evidence_text :: "libs \<Rightarrow> evidence \<Rightarrow> string" where
  "evidence_text L e = payload_text (evidence_dump L e) EVIDENCE_FP_EXCLUDE"
definition blob_text :: "libs \<Rightarrow> artifact \<Rightarrow> string" where
  "blob_text L a = payload_text (artifact_dump L a) ARTIFACT_FP_EXCLUDE"
definition artifact_text :: "libs \<Rightarrow> artifact \<Rightarrow> string" where
  "artifact_text L a = payload_text (artifact_dump L a) ARTIFACT_IDEM_FP_EXCLUDE"
definition promotion_text :: "libs \<Rightarrow> promotion \<Rightarrow> string" where
  "promotion_text L p = payload_text (promotion_dump L p) PROMOTION_FP_EXCLUDE"
definition health_text :: "libs \<Rightarrow> health \<Rightarrow> string" where
  "health_text L h = payload_text (health_dump L h) HEALTH_FP_EXCLUDE"

lemmas text_defs = strategy_text_def version_text_def experiment_text_def run_text_def evidence_text_def blob_text_def
  artifact_text_def promotion_text_def health_text_def

definition made_by :: "('x \<Rightarrow> string) \<Rightarrow> 'x entry \<Rightarrow> bool" where
  "made_by producer n \<longleftrightarrow> (\<forall>p k. en_key n = Some (p, k) \<longrightarrow> p = producer (en_sent n))"

definition good_entries ::
    "string set \<Rightarrow> ('x \<Rightarrow> bool) \<Rightarrow> ('x \<Rightarrow> 'x \<Rightarrow> bool) \<Rightarrow> ('x \<Rightarrow> string) \<Rightarrow> ('x \<Rightarrow> string) \<Rightarrow> 'x entry list \<Rightarrow> bool" where
  "good_entries T valid shows_as producer text es \<longleftrightarrow>
     (\<forall>n \<in> set es. valid (en_sent n) \<and> valid (en_now n) \<and> shows_as (en_sent n) (en_now n) \<and> made_by producer n \<and>
        text (en_sent n) \<in> T \<and> en_more n = [])"

text \<open>How the object of an entry may have changed since it was sent.\<close>

definition progressed :: "run \<Rightarrow> run \<Rightarrow> bool" where
  "progressed r s \<longleftrightarrow> (\<exists>st en. s = r\<lparr>rn_status := st, rn_ended_at := en\<rparr>)"

definition linked :: "artifact \<Rightarrow> artifact \<Rightarrow> bool" where
  "linked a b \<longleftrightarrow> (\<exists>e n. b = a\<lparr>ar_evidence_id := e, ar_run_id := n\<rparr>)"

lemma progressed_refl [simp]: "progressed r r"
  unfolding progressed_def by (intro exI [of _ "rn_status r"] exI [of _ "rn_ended_at r"]) simp

lemma progressed_close: "progressed r s \<Longrightarrow> progressed r (s\<lparr>rn_status := st, rn_ended_at := en\<rparr>)"
  unfolding progressed_def by (elim exE, intro exI [of _ st] exI [of _ en]) simp

lemma linked_refl [simp]: "linked a a"
  unfolding linked_def by (intro exI [of _ "ar_evidence_id a"] exI [of _ "ar_run_id a"]) simp

lemma linked_link: "linked a b \<Longrightarrow> linked a (b\<lparr>ar_evidence_id := e, ar_run_id := n\<rparr>)"
  unfolding linked_def by (elim exE, intro exI [of _ e] exI [of _ n]) simp

definition good_catalogue :: "libs \<Rightarrow> string set \<Rightarrow> catalogue \<Rightarrow> bool" where
  "good_catalogue L T K \<longleftrightarrow>
     good_entries T valid_strategy (=) (\<lambda>_. []) (strategy_text L) (ct_strategies K) \<and>
     good_entries T valid_strategy_version (=) (\<lambda>_. []) (version_text L) (ct_versions K) \<and>
     good_entries T valid_experiment (=) ex_producer (experiment_text L) (ct_experiments K) \<and>
     good_entries T valid_run progressed rn_producer (run_text L) (ct_runs K) \<and>
     good_entries T (\<lambda>_. True) (\<lambda>e c. valid_evidence e \<and> c = canon_evidence e) ev_producer (evidence_text L) (ct_evidence K) \<and>
     (\<forall>n \<in> set (ct_evidence K). en_key n = Some (ev_producer (en_sent n), ev_idempotency_key (en_sent n))) \<and>
     (\<forall>n \<in> set (ct_artifacts K). valid_artifact (en_sent n) \<and> valid_artifact (en_now n) \<and> linked (en_sent n) (en_now n) \<and>
        artifact_text L (en_sent n) \<in> T \<and> blob_text L (en_sent n) \<in> T \<and> en_more n = []) \<and>
     good_entries T valid_promotion (=) pt_producer (promotion_text L) (ct_promotions K) \<and>
     good_entries T (\<lambda>_. True) (\<lambda>h c. valid_health h \<and> c = canon_health h) hr_producer (health_text L) (ct_health K)"

definition kept :: "libs \<Rightarrow> string set \<Rightarrow> catalogue \<Rightarrow> bool" where
  "kept L T K \<longleftrightarrow> wf_db L (store_of L K) \<and> good_catalogue L T K"

lemma kept_empty: "kept L T empty_catalogue"
  unfolding kept_def store_of_empty
  by (simp add: wf_db_empty good_catalogue_def good_entries_def) (simp add: empty_catalogue_def)

subsection \<open>Lookups\<close>

lemma select_entry:
  assumes "rows = map row es" "\<And>n. n \<in> set es \<Longrightarrow> matches cs (row n) \<longleftrightarrow> P n"
  shows "select_one cs rows = map_option row (List.find P es)"
  using assms(2) unfolding assms(1) by (induction es) (simp_all add: select_one_def)

text \<open>The entries of a catalogue the store keeps have no further keys: the store has one column for a key.\<close>

lemma sent_under_plain: "en_more n = [] \<Longrightarrow> sent_under p k n = (if en_key n = Some (p, k) then Some (en_sent n) else None)"
  by (simp add: sent_under_def)

lemma by_key_entry:
  assumes "d t = map row es" "\<And>n. n \<in> set es \<Longrightarrow> en_more n = []"
    and "\<And>n. n \<in> set es \<Longrightarrow> col (row n) ''producer'' = Text p \<and> col (row n) ''idempotency_key'' = Text k \<longleftrightarrow> en_key n = Some (p, k)"
  shows "by_key t p k d = map_option row (keyed_entry es p k)"
  unfolding by_key_def keyed_entry_def by (rule select_entry [OF assms(1)]) (simp add: assms(2,3) sent_under_plain)

lemma named_row:
  assumes "d t = map row es" "\<And>n. n \<in> set es \<Longrightarrow> col (row n) c = Text (ident (en_now n))"
  shows "select_one [Eq c (Text i)] (d t) = map_option row (named_entry ident es i)"
  unfolding named_entry_def by (rule select_entry [OF assms(1)]) (simp add: assms(2))

lemma named_entry_in: "named_entry ident es i = Some n \<Longrightarrow> n \<in> set es \<and> ident (en_now n) = i"
  by (auto simp: named_entry_def dest: find_Some_iff_in)

lemma keyed_entry_in:
  assumes "keyed_entry es p k = Some n"
  shows "n \<in> set es" "en_more n = [] \<Longrightarrow> en_key n = Some (p, k) \<and> sent_under p k n = Some (en_sent n)"
  using assms by (auto simp: keyed_entry_def sent_under_plain split: if_splits dest!: find_Some_iff_in)

subsection \<open>What the store makes of a promise\<close>

text \<open>The store answers a new key for an object that exists as promised, but does not record the key (\<open>forgets\<close>).\<close>

definition settled :: "bool \<Rightarrow> catalogue \<Rightarrow> 'x promised \<Rightarrow> 'x promised" where
  "settled forgets K P = (fst P, if forgets then K else snd P)"

lemma settled_False [simp]: "settled False K P = P"
  by (simp add: settled_def)

lemma settled_provided: "settled b K (provided g K k) = provided g K (\<lambda>x. settled b K (k x))"
  by (cases g) (simp_all add: provided_def settled_def)

lemma settled_update: "settled b K (apsnd g P) = (fst P, if b then K else g (snd P))"
  by (simp add: settled_def)

text \<open>A creation on the rows of a list of entries is the promised creation on the entries.\<close>

lemma creation_kept:
  fixes es :: "'x entry list" and p :: string
  assumes rows: "d t = map row es" and d: "d = f K" and plain: "\<And>n. n \<in> set es \<Longrightarrow> en_more n = []"
    and keys: "\<And>n k. n \<in> set es \<Longrightarrow> key = Some k \<Longrightarrow>
      col (row n) ''producer'' = Text p \<and> col (row n) ''idempotency_key'' = Text k \<longleftrightarrow> en_key n = Some (p, k)"
    and names: "\<And>n. n \<in> set es \<Longrightarrow> matches cs (row n) \<longleftrightarrow> ident (en_now n) = ident x"
    and hit: "\<And>n. n \<in> set es \<Longrightarrow> key \<noteq> None \<Longrightarrow> en_key n \<noteq> None \<Longrightarrow>
      hit (row n) = (if same (en_sent n) x then Inr (en_now n) else raise_cer IdempotencyConflictError, d)"
    and again: "\<And>n. n \<in> set es \<Longrightarrow> ident (en_now n) = ident x \<Longrightarrow>
      other (row n) = (if again (en_now n) x then Inr (en_now n) else raise_cer ImmutabilityError, d)"
    and new: "by_opt_key t p key d = None \<Longrightarrow> select_one cs (d t) = None \<Longrightarrow>
      insert_into t r x d = (Inr x, d(t := d t @ [row \<lparr>en_key = under p key, en_sent = x, en_now = rd x, en_more = []\<rparr>]))"
    and upd: "\<And>es. f (g es) = d(t := map row es)"
  shows "(case by_opt_key t p key d of
      Some w \<Rightarrow> hit w
    | None \<Rightarrow> (case select_one cs (d t) of Some w \<Rightarrow> other w | None \<Rightarrow> insert_into t r x d)) =
    apsnd f (settled (rekeyed ident again (under p key) x es) K (apsnd g (submit ident same again rd (under p key) x es)))"
proof -
  let ?found = "case key of None \<Rightarrow> None | Some k \<Rightarrow> keyed_entry es p k"
  have k: "by_opt_key t p key d = map_option row ?found"
    using by_key_entry [where d = d and t = t and p = p, OF rows plain] keys by (cases key) (simp_all add: by_opt_key_def)
  have n: "select_one cs (d t) = map_option row (named_entry ident es (ident x))"
    unfolding named_entry_def by (rule select_entry [OF rows names])
  have same: "f (g es) = d" by (simp add: upd flip: rows)
  note S = submit_def settled_update under_def rekeyed_def
  show ?thesis
  proof (cases ?found)
    case (Some m)
    then obtain j where j: "key = Some j" "keyed_entry es p j = Some m" by (cases key) auto
    note m = keyed_entry_in [OF j(2)]
    show ?thesis unfolding k using hit [OF m(1)] m(2) [OF plain [OF m(1)]] by (simp add: j S same flip: d)
  next
    case None
    show ?thesis
    proof (cases "named_entry ident es (ident x)")
      case (Some m)
      note m = named_entry_in [OF Some]
      have "other (row m) = (if again (en_now m) x then Inr (en_now m) else raise_cer ImmutabilityError, d)"
        using again [of m] m by simp
      then show ?thesis unfolding k n using None Some by (cases key) (auto simp: S same bind_key_def simp flip: d)
    next
      case N: None
      have "by_opt_key t p key d = None" "select_one cs (d t) = None" by (simp_all only: k n None N option.map)
      with new [OF this] show ?thesis unfolding k n using None N by (cases key) (auto simp: S upd rows [symmetric])
    qed
  qed
qed

text \<open>The same without keys.\<close>

lemma named_creation_kept:
  fixes f :: "catalogue \<Rightarrow> db"
  assumes "d t = map row es" "d = f K" "\<And>n. n \<in> set es \<Longrightarrow> en_more n = []"
    and "\<And>n. n \<in> set es \<Longrightarrow> matches cs (row n) \<longleftrightarrow> ident (en_now n) = ident x"
    and "\<And>n. n \<in> set es \<Longrightarrow> ident (en_now n) = ident x \<Longrightarrow>
      other (row n) = (if again (en_now n) x then Inr (en_now n) else raise_cer ImmutabilityError, d)"
    and "select_one cs (d t) = None \<Longrightarrow>
      insert_into t r x d = (Inr x, d(t := d t @ [row \<lparr>en_key = None, en_sent = x, en_now = rd x, en_more = []\<rparr>]))"
    and "\<And>es. f (g es) = d(t := map row es)"
  shows "(case select_one cs (d t) of Some w \<Rightarrow> other w | None \<Rightarrow> insert_into t r x d) =
    apsnd f (apsnd g (submit ident same again rd None x es))"
  using creation_kept [where d = d and t = t and row = row and es = es and key = None and p = "[]" and cs = cs and ident = ident
      and x = x and again = again and other = other and r = r and rd = rd and f = f and K = K and g = g and same = same
      and hit = undefined] assms
  by (simp add: by_opt_key_def under_def rekeyed_def)

lemma submit_grows:
  assumes "submit ident same again rd key x es = (r, es')" "\<not> rekeyed ident again key x es"
  shows "es' = es \<or> es' = es @ [\<lparr>en_key = key, en_sent = x, en_now = rd x, en_more = []\<rparr>]"
  using assms by (auto simp: submit_def rekeyed_def bind_key_def split: option.splits if_splits)

subsection \<open>Fingerprints tell content apart\<close>

definition faithful :: "libs \<Rightarrow> string set \<Rightarrow> bool" where
  "faithful L T \<longleftrightarrow> inj_on (sha256_hex L) T \<and> times_distinct L"

lemma faithful_texts: "faithful L T \<Longrightarrow> s \<in> T \<Longrightarrow> t \<in> T \<Longrightarrow> no_collision L s t"
  by (auto simp: faithful_def no_collision_def dest: inj_onD)

lemma artifact_fp_eq_iff:
  assumes v: "valid_artifact a" "valid_artifact b" and f: "faithful L T" and t: "blob_text L a \<in> T" "blob_text L b \<in> T"
  shows "artifact_fp L a = artifact_fp L b \<longleftrightarrow> content_blob a = content_blob b"
proof -
  have e: "json_time L (ar_registered_at a) = json_time L (ar_registered_at b) \<longleftrightarrow> ar_registered_at a = ar_registered_at b"
    using v [THEN valid_artifact_utc] f by (simp add: faithful_def json_time_eq)
  show ?thesis
    unfolding artifact_fp_def
    by (subst fingerprint_eq_iff [OF _ _ _ faithful_texts [OF f t, unfolded text_defs]])
       (use e in \<open>cases a; cases b; auto simp: payload_simps artifact_dump_def content_blob_def\<close>)+
qed

lemma content_evidence_canon: "content_evidence (canon_evidence e) = content_evidence e"
  by (simp add: content_evidence_def canon_evidence_def canon_idem)

end
