(* ===== verification/CatalogueOps.thy ===== *)
theory CatalogueOps
  imports CatalogueRefine
begin

text \<open>
  Every transaction body of \<open>MetaStore\<close>, on the content a catalogue stands for, gives the promised result and the
  content of the promised catalogue, except that a new key for an object that exists is not recorded (\<open>settled\<close>).
\<close>

lemma good_entriesD:
  assumes "good_entries T valid shows_as producer text es" "n \<in> set es"
  shows "valid (en_sent n)" "valid (en_now n)" "shows_as (en_sent n) (en_now n)" "text (en_sent n) \<in> T"
    "en_key n = Some (p, k) \<Longrightarrow> p = producer (en_sent n)" "en_more n = []"
  using assms by (auto simp: good_entries_def made_by_def)

lemma keptD:
  assumes "kept L T K"
  shows "wf_db L (store_of L K)"
    "good_entries T valid_strategy (=) (\<lambda>_. []) (strategy_text L) (ct_strategies K)"
    "good_entries T valid_strategy_version (=) (\<lambda>_. []) (version_text L) (ct_versions K)"
    "good_entries T valid_experiment (=) ex_producer (experiment_text L) (ct_experiments K)"
    "good_entries T valid_run progressed rn_producer (run_text L) (ct_runs K)"
    "good_entries T (\<lambda>_. True) (\<lambda>e c. valid_evidence e \<and> c = canon_evidence e) ev_producer (evidence_text L) (ct_evidence K)"
    "good_entries T valid_promotion (=) pt_producer (promotion_text L) (ct_promotions K)"
    "good_entries T (\<lambda>_. True) (\<lambda>h c. valid_health h \<and> c = canon_health h) hr_producer (health_text L) (ct_health K)"
  using assms by (auto simp: kept_def good_catalogue_def)

lemma rekeyed_never: "rekeyed ident (\<lambda>_ _. False) key x es = False"
  by (auto simp: rekeyed_def split: option.splits)

subsection \<open>Guards\<close>

lemma known_kept:
  assumes "d t = map row es" "\<And>n. n \<in> set es \<Longrightarrow> col (row n) c = Text (ident (en_now n))"
  shows "require_row t c i d = known ident es i"
  using named_row [where d = d and t = t and row = row, OF assms] by (simp add: require_row_def known_def split: option.split)

lemma try_provided:
  assumes "\<And>x. g = Inr x \<Longrightarrow> k' x = apsnd f (k x)"
  shows "try_tx g (f K) k' = apsnd f (provided g K k)"
  using assms by (cases g) (simp_all add: provided_def)

lemma require_strategy_kept: "require_strategy i (store_of L K) = known st_strategy_id (ct_strategies K) i"
  unfolding require_strategy_def
  by (rule known_kept [where row = strategy_entry]) (simp_all add: strategy_entry_def strategy_row_def)

lemma require_experiment_kept: "require_experiment i (store_of L K) = known ex_experiment_id (ct_experiments K) i"
  unfolding require_experiment_def
  by (rule known_kept [where row = "experiment_entry L"]) (simp_all add: experiment_entry_def experiment_row_def)

lemma run_name_kept: "col (run_entry L n) ''run_id'' = Text (rn_run_id (en_now n))"
  by (simp add: run_entry_def run_row_def)

lemma evidence_name_kept:
  "kept L T K \<Longrightarrow> n \<in> set (ct_evidence K) \<Longrightarrow> col (evidence_entry L n) ''evidence_id'' = Text (ev_evidence_id (en_now n))"
  using keptD(6) [THEN good_entriesD(3), of L T K n] by (simp add: evidence_entry_def evidence_row_def canon_evidence_def)

lemma require_run_kept: "if_given require_run v (store_of L K) = known_if_given rn_run_id (ct_runs K) v"
  unfolding if_given_def known_if_given_def require_run_def
  by (cases v) (simp_all add: known_kept [where row = "run_entry L" and es = "ct_runs K" and ident = rn_run_id] run_name_kept)

lemma if_given_experiment_kept: "if_given require_experiment v (store_of L K) = known_if_given ex_experiment_id (ct_experiments K) v"
  unfolding if_given_def known_if_given_def by (cases v) (simp_all add: require_experiment_kept)

lemma require_evidence_kept:
  "kept L T K \<Longrightarrow> if_given require_evidence v (store_of L K) = known_if_given ev_evidence_id (ct_evidence K) v"
  unfolding if_given_def known_if_given_def require_evidence_def
  by (cases v) (simp_all add: known_kept [where row = "evidence_entry L" and es = "ct_evidence K" and ident = ev_evidence_id] evidence_name_kept)

subsection \<open>Strategies and versions\<close>

lemma register_strategy_kept:
  assumes k: "kept L T K" and f: "faithful L T" and v: "valid_strategy s" "strategy_text L s \<in> T"
  shows "register_strategy_tx L s (store_of L K) = apsnd (store_of L) (promised_register_strategy s K)"
  unfolding register_strategy_tx_def promised_register_strategy_def
proof (rule named_creation_kept [where row = strategy_entry])
  show "en_more n = []" if "n \<in> set (ct_strategies K)" for n using good_entriesD(6) [OF keptD(2) [OF k] that] .
  note g = good_entriesD [OF keptD(2) [OF k]]
  fix n assume n: "n \<in> set (ct_strategies K)" and i: "st_strategy_id (en_now n) = st_strategy_id s"
  show "try_tx (row_to_strategy (st_strategy_id s) (strategy_entry n)) (store_of L K) (\<lambda>existing.
      if strategy_fp L existing \<noteq> strategy_fp L s then (raise_cer ImmutabilityError, store_of L K)
      else (Inr existing, store_of L K)) =
    (if content_strategy (en_now n) = content_strategy s then Inr (en_now n) else raise_cer ImmutabilityError, store_of L K)"
    using row_to_strategy_row [OF g(2) [OF n]] g(3,4) [OF n]
      strategy_fp_eq_iff [OF faithful_texts [OF f _ v(2), unfolded text_defs], of "en_now n"]
    by (simp add: strategy_entry_def text_defs flip: i)
next
  assume "select_one [Eq ''strategy_id'' (Text (st_strategy_id s))] (store_of L K strategies) = None"
  from insert_ok_strategy [where d = "store_of L K", OF this]
  show "insert_into strategies (strategy_row s) s (store_of L K) = (Inr s, (store_of L K)(strategies := store_of L K strategies @
      [strategy_entry \<lparr>en_key = None, en_sent = s, en_now = id s, en_more = []\<rparr>]))"
    by (simp add: insert_into_def strategy_entry_def) (simp add: strategy_row_def)
qed (simp_all add: strategy_entry_def strategy_row_def store_of_update)

lemma register_strategy_version_kept:
  assumes k: "kept L T K" and f: "faithful L T" and v: "valid_strategy_version s" "version_text L s \<in> T"
  shows "register_strategy_version_tx L s (store_of L K) = apsnd (store_of L) (promised_register_strategy_version s K)"
  unfolding register_strategy_version_tx_def promised_register_strategy_version_def require_strategy_kept
proof (rule try_provided, rule named_creation_kept [where row = version_entry])
  show "en_more n = []" if "n \<in> set (ct_versions K)" for n using good_entriesD(6) [OF keptD(3) [OF k] that] .
  note g = good_entriesD [OF keptD(3) [OF k]]
  fix n assume n: "n \<in> set (ct_versions K)"
    and i: "(sv_strategy_id (en_now n), sv_strategy_version (en_now n)) = (sv_strategy_id s, sv_strategy_version s)"
  show "try_tx (row_to_strategy_version (sv_strategy_id s) (sv_strategy_version s) (version_entry n)) (store_of L K) (\<lambda>existing.
      if strategy_version_fp L existing \<noteq> strategy_version_fp L s then (raise_cer ImmutabilityError, store_of L K)
      else (Inr existing, store_of L K)) =
    (if content_strategy_version (en_now n) = content_strategy_version s then Inr (en_now n) else raise_cer ImmutabilityError, store_of L K)"
    using row_to_strategy_version_row [OF g(2) [OF n]] g(3,4) [OF n] i
      strategy_version_fp_eq_iff [OF faithful_texts [OF f _ v(2), unfolded text_defs], of "en_now n"]
    by (simp add: version_entry_def text_defs)
next
  fix u assume "known st_strategy_id (ct_strategies K) (sv_strategy_id s) = Inr u"
  then have r: "require_strategy (sv_strategy_id s) (store_of L K) = Inr u" by (simp only: require_strategy_kept)
  assume "select_one [Eq ''strategy_id'' (Text (sv_strategy_id s)), Eq ''strategy_version'' (Text (sv_strategy_version s))]
    (store_of L K strategy_versions) = None"
  from insert_ok_strategy_version [where d = "store_of L K", OF r this]
  show "insert_into strategy_versions (strategy_version_row s) s (store_of L K) =
      (Inr s, (store_of L K)(strategy_versions := store_of L K strategy_versions @
        [version_entry \<lparr>en_key = None, en_sent = s, en_now = id s, en_more = []\<rparr>]))"
    by (simp add: insert_into_def version_entry_def) (simp add: strategy_version_row_def)
qed (simp_all add: version_entry_def strategy_version_row_def store_of_update fun_upd_def)

subsection \<open>Experiments\<close>

lemma create_experiment_kept:
  assumes k: "kept L T K" and f: "faithful L T" and v: "valid_experiment x" "experiment_text L x \<in> T"
  shows "create_experiment_tx L key x (store_of L K) =
    apsnd (store_of L) (settled (rekeys_experiment key x K) K (promised_create_experiment key x K))"
  unfolding create_experiment_tx_def promised_create_experiment_def rekeys_experiment_def Let_def
proof (rule creation_kept [where row = "experiment_entry L"])
  show "en_more n = []" if "n \<in> set (ct_experiments K)" for n using good_entriesD(6) [OF keptD(4) [OF k] that] .
  note g = good_entriesD [OF keptD(4) [OF k]]
  fix n assume n: "n \<in> set (ct_experiments K)"
  have dec: "row_to_experiment (experiment_entry L n) = Inr (en_now n)"
    unfolding experiment_entry_def by (rule row_to_experiment_row [OF g(2) [OF n]])
  have fp: "experiment_fp L (en_now n) = experiment_fp L x \<longleftrightarrow> content_experiment (en_now n) = content_experiment x"
    using g(3,4) [OF n] experiment_fp_eq_iff [OF faithful_texts [OF f _ v(2), unfolded text_defs], of "en_now n"]
    by (simp add: text_defs)
  show "try_tx (row_to_experiment (experiment_entry L n)) (store_of L K) (\<lambda>existing.
      if experiment_fp L existing \<noteq> experiment_fp L x then (raise_cer ImmutabilityError, store_of L K) else (Inr existing, store_of L K)) =
    (if content_experiment (en_now n) = content_experiment x then Inr (en_now n) else raise_cer ImmutabilityError, store_of L K)"
    by (simp add: dec fp)
  have "col (experiment_entry L n) ''content_fingerprint'' = Text (experiment_fp L (en_now n))"
    using g(3) [OF n] by (simp add: experiment_entry_def row_keys)
  then show "(if col (experiment_entry L n) ''content_fingerprint'' \<noteq> Text (experiment_fp L x)
      then (raise_cer IdempotencyConflictError, store_of L K) else (row_to_experiment (experiment_entry L n), store_of L K)) =
    (if content_experiment (en_sent n) = content_experiment x then Inr (en_now n) else raise_cer IdempotencyConflictError, store_of L K)"
    using g(3) [OF n] by (simp add: dec fp)
  show "col (experiment_entry L n) ''producer'' = Text (ex_producer x) \<and> col (experiment_entry L n) ''idempotency_key'' = Text i \<longleftrightarrow>
      en_key n = Some (ex_producer x, i)" for i
    using g(3,5) [OF n] by (cases "en_key n") (auto simp: experiment_entry_def row_keys opt_text_def)
  show "matches [Eq ''experiment_id'' (Text (ex_experiment_id x))] (experiment_entry L n) \<longleftrightarrow>
      ex_experiment_id (en_now n) = ex_experiment_id x"
    by (simp add: experiment_entry_def experiment_row_def)
next
  let ?d = "store_of L K"
  assume "by_opt_key experiments (ex_producer x) key ?d = None"
    "select_one [Eq ''experiment_id'' (Text (ex_experiment_id x))] (?d experiments) = None"
  from insert_ok_experiment [where d = ?d, OF this, of "experiment_fp L x"]
  show "insert_into experiments (experiment_row key (experiment_fp L x) x) x ?d = (Inr x, ?d(experiments := ?d experiments @
      [experiment_entry L \<lparr>en_key = under (ex_producer x) key, en_sent = x, en_now = id x, en_more = []\<rparr>]))"
    by (simp add: insert_into_def experiment_entry_def under_def option.map_comp comp_def option.map_ident)
       (simp add: experiment_row_def)
qed (simp_all add: store_of_update)

subsection \<open>Runs\<close>

lemma create_run_kept:
  assumes k: "kept L T K" and f: "faithful L T" and v: "valid_run r" "run_text L r \<in> T"
  shows "create_run_tx L key r (store_of L K) = apsnd (store_of L) (promised_create_run key r K)"
  unfolding create_run_tx_def promised_create_run_def Let_def require_experiment_kept
proof (rule try_provided, rule creation_kept [where row = "run_entry L" and again = "\<lambda>_ _. False", unfolded rekeyed_never settled_False])
  show "en_more n = []" if "n \<in> set (ct_runs K)" for n using good_entriesD(6) [OF keptD(5) [OF k] that] .
  note g = good_entriesD [OF keptD(5) [OF k]] and wf = keptD(1) [OF k]
  fix n assume n: "n \<in> set (ct_runs K)"
  then have "run_entry L n \<in> set (store_of L K runs)" by simp
  from fetch_run_found [OF wf this] have dec: "fetch_run (text_col (run_entry L n) ''run_id'') (store_of L K) = Inr (en_now n)"
    using row_to_run_row [OF g(2) [OF n]] by (simp add: run_entry_def)
  have fp: "run_fp L (en_sent n) = run_fp L r \<longleftrightarrow> content_run (en_sent n) = content_run r"
    using f run_fp_eq_iff [OF g(1) [OF n] v(1) _ faithful_texts [OF f g(4) [OF n] v(2), unfolded text_defs]]
    by (simp add: faithful_def)
  have "col (run_entry L n) ''content_fingerprint'' = Text (run_fp L (en_sent n))"
    by (simp add: run_entry_def row_keys)
  then show "(if col (run_entry L n) ''content_fingerprint'' \<noteq> Text (run_fp L r)
      then (raise_cer IdempotencyConflictError, store_of L K)
      else (fetch_run (text_col (run_entry L n) ''run_id'') (store_of L K), store_of L K)) =
    (if content_run (en_sent n) = content_run r then Inr (en_now n) else raise_cer IdempotencyConflictError, store_of L K)"
    by (simp add: dec fp)
  show "col (run_entry L n) ''producer'' = Text (rn_producer r) \<and> col (run_entry L n) ''idempotency_key'' = Text i \<longleftrightarrow>
      en_key n = Some (rn_producer r, i)" for i
    using g(3,5) [OF n] by (cases "en_key n") (auto simp: progressed_def run_entry_def row_keys opt_text_def)
  show "matches [Eq ''run_id'' (Text (rn_run_id r))] (run_entry L n) \<longleftrightarrow> rn_run_id (en_now n) = rn_run_id r"
    by (simp add: run_name_kept)
next
  fix u assume "known ex_experiment_id (ct_experiments K) (rn_experiment_id r) = Inr u"
  then have e: "require_experiment (rn_experiment_id r) (store_of L K) = Inr u" by (simp only: require_experiment_kept)
  let ?d = "store_of L K"
  assume "by_opt_key runs (rn_producer r) key ?d = None" "select_one [Eq ''run_id'' (Text (rn_run_id r))] (?d runs) = None"
  from insert_ok_run [where d = ?d, OF e this, of "run_fp L r"]
  show "insert_into runs (run_row key (run_fp L r) r) r ?d = (Inr r, ?d(runs := ?d runs @
      [run_entry L \<lparr>en_key = under (rn_producer r) key, en_sent = r, en_now = id r, en_more = []\<rparr>]))"
    by (simp add: insert_into_def run_entry_def under_def option.map_comp comp_def option.map_ident)
       (simp add: run_row_def)
qed (simp_all add: store_of_update fun_upd_def)

subsection \<open>Evidence\<close>

lemma append_evidence_body:
  fixes L :: libs and K :: catalogue
  defines "d \<equiv> store_of L K"
  assumes k: "kept L T K" and f: "faithful L T" and v: "valid_evidence e" "evidence_text L e \<in> T"
    and b: "int64 (Integer (ev_schema_version e))" and gd: "evidence_guard e d = Inr ()"
  shows "(case by_opt_key evidence_t (ev_producer e) (Some (ev_idempotency_key e)) d of
      Some row \<Rightarrow> if col row ''content_fingerprint'' \<noteq> Text (evidence_fp L e) then (raise_cer IdempotencyConflictError, d)
        else (fetch_evidence (text_col row ''evidence_id'') d, d)
    | None \<Rightarrow> (case select_one [Eq ''evidence_id'' (Text (ev_evidence_id e))] (d evidence_t) of
        Some row \<Rightarrow> if col row ''content_fingerprint'' \<noteq> Text (evidence_fp L e) then (raise_cer ImmutabilityError, d)
          else (fetch_evidence (ev_evidence_id e) d, d)
      | None \<Rightarrow> insert_into evidence_t (evidence_row (evidence_fp L e) e) e d)) =
    apsnd (store_of L) (settled (rekeyed ev_evidence_id (\<lambda>a b. content_evidence a = content_evidence b)
        (under (ev_producer e) (Some (ev_idempotency_key e))) e (ct_evidence K)) K (apsnd (\<lambda>es. K\<lparr>ct_evidence := es\<rparr>)
      (submit ev_evidence_id (\<lambda>a b. content_evidence a = content_evidence b) (\<lambda>a b. content_evidence a = content_evidence b)
        canon_evidence (under (ev_producer e) (Some (ev_idempotency_key e))) e (ct_evidence K))))"
proof (rule creation_kept [where row = "evidence_entry L"])
  show "en_more n = []" if "n \<in> set (ct_evidence K)" for n using good_entriesD(6) [OF keptD(6) [OF k] that] .
  note g = good_entriesD [OF keptD(6) [OF k]] and wf = keptD(1) [OF k]
  fix n assume n: "n \<in> set (ct_evidence K)"
  then have row: "evidence_entry L n \<in> set (store_of L K evidence_t)" by simp
  have now: "valid_evidence (en_sent n)" "en_now n = canon_evidence (en_sent n)" using g(3) [OF n] by simp_all
  have dec: "fetch_evidence (text_col (evidence_entry L n) ''evidence_id'') d = Inr (en_now n)"
    using fetch_evidence_found [OF wf row] evidence_row_read [OF now(1)] by (simp add: evidence_entry_def now(2) d_def)
  have fp: "evidence_fp L (en_sent n) = evidence_fp L e \<longleftrightarrow> content_evidence (en_sent n) = content_evidence e"
    using f evidence_fp_eq_iff [OF now(1) v(1) _ faithful_texts [OF f g(4) [OF n] v(2), unfolded text_defs]]
    by (simp add: faithful_def)
  have c: "col (evidence_entry L n) ''content_fingerprint'' = Text (evidence_fp L (en_sent n))"
    by (simp add: evidence_entry_def row_keys)
  show "(if col (evidence_entry L n) ''content_fingerprint'' \<noteq> Text (evidence_fp L e)
      then (raise_cer IdempotencyConflictError, d)
      else (fetch_evidence (text_col (evidence_entry L n) ''evidence_id'') d, d)) =
    (if content_evidence (en_sent n) = content_evidence e then Inr (en_now n) else raise_cer IdempotencyConflictError, d)"
    by (simp add: c dec fp)
  show "(if col (evidence_entry L n) ''content_fingerprint'' \<noteq> Text (evidence_fp L e)
      then (raise_cer ImmutabilityError, d) else (fetch_evidence (ev_evidence_id e) d, d)) =
    (if content_evidence (en_now n) = content_evidence e then Inr (en_now n) else raise_cer ImmutabilityError, d)"
    if "ev_evidence_id (en_now n) = ev_evidence_id e"
    using dec evidence_name_kept [OF k n] that by (simp add: c fp now(2) content_evidence_canon text_col_def)
  show "col (evidence_entry L n) ''producer'' = Text (ev_producer e) \<and> col (evidence_entry L n) ''idempotency_key'' = Text i \<longleftrightarrow>
      en_key n = Some (ev_producer e, i)" for i
    using k n by (auto simp: kept_def good_catalogue_def evidence_entry_def row_keys)
  show "matches [Eq ''evidence_id'' (Text (ev_evidence_id e))] (evidence_entry L n) \<longleftrightarrow> ev_evidence_id (en_now n) = ev_evidence_id e"
    by (simp add: evidence_name_kept [OF k n])
next
  assume "by_opt_key evidence_t (ev_producer e) (Some (ev_idempotency_key e)) d = None"
    "select_one [Eq ''evidence_id'' (Text (ev_evidence_id e))] (d evidence_t) = None"
  then have "insert_ok evidence_t (evidence_row (evidence_fp L e) e) d"
    by (intro insert_ok_evidence [OF gd]) simp_all
  then show "insert_into evidence_t (evidence_row (evidence_fp L e) e) e d = (Inr e, d(evidence_t := d evidence_t @
      [evidence_entry L \<lparr>en_key = under (ev_producer e) (Some (ev_idempotency_key e)), en_sent = e, en_now = canon_evidence e, en_more = []\<rparr>]))"
    using b by (simp add: insert_into_def evidence_entry_def) (simp add: evidence_row_def)
qed (simp_all add: store_of_update d_def)

lemma never_rekeyed_evidence:
  assumes k: "kept L T K"
  shows "rekeyed ev_evidence_id (\<lambda>a b. content_evidence a = content_evidence b)
    (under (ev_producer e) (Some (ev_idempotency_key e))) e (ct_evidence K) = False"
proof -
  have "keyed_entry (ct_evidence K) (ev_producer e) (ev_idempotency_key e) \<noteq> None"
    if n: "n \<in> set (ct_evidence K)" and c: "content_evidence (en_now n) = content_evidence e" for n
  proof -
    have "en_now n = canon_evidence (en_sent n)" "en_key n = Some (ev_producer (en_sent n), ev_idempotency_key (en_sent n))"
      using k n good_entriesD(3) [OF keptD(6) [OF k] n] by (simp_all add: kept_def good_catalogue_def)
    moreover from this c have "ev_producer (en_sent n) = ev_producer e" "ev_idempotency_key (en_sent n) = ev_idempotency_key e"
      by (auto simp: content_evidence_def canon_evidence_def dest: arg_cong [where f = ev_producer] arg_cong [where f = ev_idempotency_key])
    ultimately show ?thesis using n by (auto simp: keyed_entry_def find_None_iff sent_under_def)
  qed
  then show ?thesis
    by (auto simp: rekeyed_def under_def split: option.splits dest!: named_entry_in)
qed

lemma append_evidence_kept:
  assumes "kept L T K" "faithful L T" "valid_evidence e" "evidence_text L e \<in> T" "int64 (Integer (ev_schema_version e))"
  shows "append_evidence_tx L e (store_of L K) = 
    apsnd (store_of L) (promised_append_evidence e K)"
  unfolding append_evidence_tx_def promised_append_evidence_def Let_def require_run_kept if_given_experiment_kept
  by (rule try_provided, rule try_provided)
     (use append_evidence_body [OF assms, unfolded never_rekeyed_evidence [OF assms(1)] settled_False] in
       \<open>simp add: evidence_guard_def require_run_kept if_given_experiment_kept under_def\<close>)

subsection \<open>Promotions and health records\<close>

lemma record_promotion_kept:
  assumes k: "kept L T K" and f: "faithful L T" and v: "valid_promotion p" "promotion_text L p \<in> T"
  shows "record_promotion_tx L key p (store_of L K) =
    apsnd (store_of L) (settled (rekeys_promotion L key p K) K (promised_record_promotion L key p K))"
  unfolding record_promotion_tx_def promised_record_promotion_def rekeys_promotion_def Let_def
proof (rule creation_kept [where row = "promotion_entry L"])
  show "en_more n = []" if "n \<in> set (ct_promotions K)" for n using good_entriesD(6) [OF keptD(7) [OF k] that] .
  note g = good_entriesD [OF keptD(7) [OF k]]
  fix n assume n: "n \<in> set (ct_promotions K)"
  have dec: "row_to_promotion (promotion_entry L n) = Inr (en_now n)"
    unfolding promotion_entry_def by (rule row_to_promotion_row [OF g(2) [OF n]])
  show "try_tx (row_to_promotion (promotion_entry L n)) (store_of L K) (\<lambda>existing.
      if \<not> py_eq (JObj (promotion_dump L existing)) (JObj (promotion_dump L p))
      then (raise_cer ImmutabilityError, store_of L K) else (Inr existing, store_of L K)) =
    (if py_eq (JObj (promotion_dump L (en_now n))) (JObj (promotion_dump L p)) then Inr (en_now n) else raise_cer ImmutabilityError,
      store_of L K)"
    by (simp only: dec try_tx_simps if_not_P not_not split: if_split) simp
  have fp: "promotion_fp L (en_sent n) = promotion_fp L p \<longleftrightarrow> content_promotion (en_sent n) = content_promotion p"
    using promotion_fp_eq_iff [OF faithful_texts [OF f g(4) [OF n] v(2), unfolded text_defs]] .
  have "col (promotion_entry L n) ''content_fingerprint'' = Text (promotion_fp L (en_sent n))"
    by (simp add: promotion_entry_def row_keys)
  then show "(if col (promotion_entry L n) ''content_fingerprint'' \<noteq> Text (promotion_fp L p)
      then (raise_cer IdempotencyConflictError, store_of L K) else (row_to_promotion (promotion_entry L n), store_of L K)) =
    (if content_promotion (en_sent n) = content_promotion p then Inr (en_now n) else raise_cer IdempotencyConflictError, store_of L K)"
    by (simp add: dec fp)
  show "col (promotion_entry L n) ''producer'' = Text (pt_producer p) \<and> col (promotion_entry L n) ''idempotency_key'' = Text i \<longleftrightarrow>
      en_key n = Some (pt_producer p, i)" for i
    using g(3,5) [OF n] by (cases "en_key n") (auto simp: promotion_entry_def row_keys opt_text_def)
  show "matches [Eq ''transition_id'' (Text (pt_transition_id p))] (promotion_entry L n) \<longleftrightarrow>
      pt_transition_id (en_now n) = pt_transition_id p"
    by (simp add: promotion_entry_def promotion_row_def)
next
  let ?d = "store_of L K"
  assume "by_opt_key promotions (pt_producer p) key ?d = None"
    "select_one [Eq ''transition_id'' (Text (pt_transition_id p))] (?d promotions) = None"
  from insert_ok_promotion [where d = ?d, OF this, of "promotion_fp L p"]
  show "insert_into promotions (promotion_row key (promotion_fp L p) p) p ?d = (Inr p, ?d(promotions := ?d promotions @
      [promotion_entry L \<lparr>en_key = under (pt_producer p) key, en_sent = p, en_now = id p, en_more = []\<rparr>]))"
    by (simp add: insert_into_def promotion_entry_def under_def option.map_comp comp_def option.map_ident)
       (simp add: promotion_row_def)
qed (simp_all add: store_of_update)

lemma record_health_kept:
  assumes k: "kept L T K" and f: "faithful L T" and v: "valid_health h" "health_text L h \<in> T"
  shows "record_health_tx L key h (store_of L K) =
    apsnd (store_of L) (settled (rekeys_health L key h K) K (promised_record_health L key h K))"
  unfolding record_health_tx_def promised_record_health_def rekeys_health_def Let_def
proof (rule creation_kept [where row = "health_entry L"])
  show "en_more n = []" if "n \<in> set (ct_health K)" for n using good_entriesD(6) [OF keptD(8) [OF k] that] .
  note g = good_entriesD [OF keptD(8) [OF k]]
  fix n assume n: "n \<in> set (ct_health K)"
  have now: "valid_health (en_sent n)" "en_now n = canon_health (en_sent n)" using g(3) [OF n] by simp_all
  have dec: "row_to_health (health_entry L n) = Inr (en_now n)"
    unfolding health_entry_def now(2) by (rule row_to_health_row [OF now(1)])
  show "try_tx (row_to_health (health_entry L n)) (store_of L K) (\<lambda>existing.
      if \<not> py_eq (JObj (health_dump L existing)) (JObj (health_dump L h))
      then (raise_cer ImmutabilityError, store_of L K) else (Inr existing, store_of L K)) =
    (if py_eq (JObj (health_dump L (en_now n))) (JObj (health_dump L h)) then Inr (en_now n) else raise_cer ImmutabilityError,
      store_of L K)"
    by (simp only: dec try_tx_simps if_not_P not_not split: if_split) simp
  have fp: "health_fp L (en_sent n) = health_fp L h \<longleftrightarrow> content_health (en_sent n) = content_health h"
    using health_fp_eq_iff [OF now(1) v(1) faithful_texts [OF f g(4) [OF n] v(2), unfolded text_defs]] .
  have "col (health_entry L n) ''content_fingerprint'' = Text (health_fp L (en_sent n))"
    by (simp add: health_entry_def row_keys)
  then show "(if col (health_entry L n) ''content_fingerprint'' \<noteq> Text (health_fp L h)
      then (raise_cer IdempotencyConflictError, store_of L K) else (row_to_health (health_entry L n), store_of L K)) =
    (if content_health (en_sent n) = content_health h then Inr (en_now n) else raise_cer IdempotencyConflictError, store_of L K)"
    by (simp add: dec fp)
  show "col (health_entry L n) ''producer'' = Text (hr_producer h) \<and> col (health_entry L n) ''idempotency_key'' = Text i \<longleftrightarrow>
      en_key n = Some (hr_producer h, i)" for i
    using g(5) [OF n] by (cases "en_key n") (auto simp: health_entry_def row_keys opt_text_def)
  show "matches [Eq ''health_id'' (Text (hr_health_id h))] (health_entry L n) \<longleftrightarrow> hr_health_id (en_now n) = hr_health_id h"
    by (simp add: health_entry_def health_row_def now(2) canon_health_def)
next
  let ?d = "store_of L K"
  assume "by_opt_key health_records (hr_producer h) key ?d = None"
    "select_one [Eq ''health_id'' (Text (hr_health_id h))] (?d health_records) = None"
  from insert_ok_health [where d = ?d, OF this, of "health_fp L h"]
  show "insert_into health_records (health_row key (health_fp L h) h) h ?d = (Inr h, ?d(health_records := ?d health_records @
      [health_entry L \<lparr>en_key = under (hr_producer h) key, en_sent = h, en_now = canon_health h, en_more = []\<rparr>]))"
    by (simp add: insert_into_def health_entry_def under_def option.map_comp comp_def option.map_ident)
       (simp add: health_row_def)
qed (simp_all add: store_of_update)

subsection \<open>Artifacts\<close>

lemma artifact_keptD:
  assumes "kept L T K" "n \<in> set (ct_artifacts K)"
  shows "valid_artifact (en_sent n)" "valid_artifact (en_now n)" "linked (en_sent n) (en_now n)"
    "artifact_text L (en_sent n) \<in> T" "blob_text L (en_sent n) \<in> T" "en_more n = []"
  using assms by (auto simp: kept_def good_catalogue_def)

lemma linked_same:
  assumes "linked a b"
  shows "artifact_fp L b = artifact_fp L a" "content_blob b = content_blob a"
  using assms by (auto simp: linked_def content_blob_def)

lemma artifact_entry_cols:
  "col (artifact_entry L n) ''artifact_id'' = Text (ar_artifact_id (en_now n))"
  "col (artifact_entry L n) ''content_fingerprint'' = Text (artifact_fp L (en_now n))"
  "col (artifact_entry L n) ''evidence_id'' = opt_text (ar_evidence_id (en_now n))"
  "col (artifact_entry L n) ''run_id'' = opt_text (ar_run_id (en_now n))"
  by (simp_all add: artifact_entry_def artifact_row_def)

lemma artifact_entry_key:
  "col (artifact_entry L n) ''producer'' = Text p \<and> col (artifact_entry L n) ''idempotency_key'' = Text i \<longleftrightarrow> en_key n = Some (p, i)"
  by (cases "en_key n") (auto simp: artifact_entry_def row_keys opt_text_def)

lemma artifact_entry_decodes: "kept L T K \<Longrightarrow> n \<in> set (ct_artifacts K) \<Longrightarrow> row_to_artifact (artifact_entry L n) = Inr (en_now n)"
  unfolding artifact_entry_def by (rule row_to_artifact_row [OF artifact_keptD(2)])

lemma register_artifact_body:
  fixes L :: libs and K :: catalogue
  defines "d \<equiv> store_of L K"
  assumes k: "kept L T K" and f: "faithful L T" and v: "valid_artifact a" "artifact_text L a \<in> T" "blob_text L a \<in> T"
    and b: "int64 (Integer (ar_size_bytes a))"
    and gd: "if_given require_run (ar_run_id a) d = Inr ()" "if_given require_evidence (ar_evidence_id a) d = Inr ()"
    and p: "key \<noteq> None \<Longrightarrow> producer = Some p"
  shows "(case by_opt_key artifacts p key d of
      Some row \<Rightarrow> if col row ''idempotency_fingerprint'' \<noteq> Text (artifact_idem_fp L a)
        then (raise_cer IdempotencyConflictError, d) else (row_to_artifact row, d)
    | None \<Rightarrow> register_new_artifact L key producer a d) =
    apsnd (store_of L) (settled (rekeyed ar_artifact_id (\<lambda>a b. content_blob a = content_blob b) (under p key) a (ct_artifacts K)) K
      (apsnd (\<lambda>es. K\<lparr>ct_artifacts := es\<rparr>)
        (submit ar_artifact_id (\<lambda>a b. content_artifact a = content_artifact b) (\<lambda>a b. content_blob a = content_blob b)
          id (under p key) a (ct_artifacts K))))"
  unfolding register_new_artifact_def Let_def
proof (rule creation_kept [where row = "artifact_entry L"])
  show "en_more n = []" if "n \<in> set (ct_artifacts K)" for n using artifact_keptD(6) [OF k that] .
  fix n assume n: "n \<in> set (ct_artifacts K)"
  note g = artifact_keptD [OF k n] and dec = artifact_entry_decodes [OF k n]
  have "blob_text L (en_now n) = blob_text L (en_sent n)"
    using g(3) by (auto simp: linked_def blob_text_def payload_text_def payload_simps artifact_dump_def)
  then have fp: "artifact_fp L (en_now n) = artifact_fp L a \<longleftrightarrow> content_blob (en_now n) = content_blob a"
    using artifact_fp_eq_iff [OF g(2) v(1) f _ v(3)] g(5) by simp
  show "(if col (artifact_entry L n) ''content_fingerprint'' \<noteq> Text (artifact_fp L a)
      then (raise_cer ImmutabilityError, d) else (row_to_artifact (artifact_entry L n), d)) =
    (if content_blob (en_now n) = content_blob a then Inr (en_now n) else raise_cer ImmutabilityError, d)"
    by (simp add: artifact_entry_cols dec fp)
  have idem: "artifact_idem_fp L (en_sent n) = artifact_idem_fp L a \<longleftrightarrow> content_artifact (en_sent n) = content_artifact a"
    using artifact_idem_fp_eq_iff [OF faithful_texts [OF f g(4) v(2), unfolded text_defs]] .
  show "col (artifact_entry L n) ''producer'' = Text p \<and> col (artifact_entry L n) ''idempotency_key'' = Text i \<longleftrightarrow>
      en_key n = Some (p, i)" for i
    by (rule artifact_entry_key)
  show "matches [Eq ''artifact_id'' (Text (ar_artifact_id a))] (artifact_entry L n) \<longleftrightarrow> ar_artifact_id (en_now n) = ar_artifact_id a"
    by (simp add: artifact_entry_cols)
  show "(if col (artifact_entry L n) ''idempotency_fingerprint'' \<noteq> Text (artifact_idem_fp L a)
      then (raise_cer IdempotencyConflictError, d) else (row_to_artifact (artifact_entry L n), d)) =
    (if content_artifact (en_sent n) = content_artifact a then Inr (en_now n) else raise_cer IdempotencyConflictError, d)"
    if "en_key n \<noteq> None"
    using that by (auto simp: artifact_entry_def row_keys opt_text_def idem dec [unfolded artifact_entry_def])
next
  assume new: "by_opt_key artifacts p key d = None"
    "select_one [Eq ''artifact_id'' (Text (ar_artifact_id a))] (d artifacts) = None"
  let ?r = "artifact_row (if key \<noteq> None then producer else None) key (artifact_fp L a)
    (if key \<noteq> None then Some (artifact_idem_fp L a) else None) a"
  have "insert_ok artifacts ?r d"
    by (rule insert_ok_artifact [OF gd _ new(2)]) (use p new(1) in auto)
  moreover have "?r = artifact_entry L \<lparr>en_key = under p key, en_sent = a, en_now = id a, en_more = []\<rparr>"
    using p by (cases key) (simp_all add: artifact_entry_def under_def)
  ultimately show "insert_into artifacts ?r a d = (Inr a, d(artifacts := d artifacts @
      [artifact_entry L \<lparr>en_key = under p key, en_sent = a, en_now = id a, en_more = []\<rparr>]))"
    using b by (simp add: insert_into_def) (simp add: artifact_entry_def artifact_row_def)
qed (simp_all add: store_of_update d_def)

lemma register_artifact_kept:
  assumes k: "kept L T K" and r: "faithful L T" "valid_artifact a" "artifact_text L a \<in> T" "blob_text L a \<in> T"
      "int64 (Integer (ar_size_bytes a))"
  shows "register_artifact_tx L key producer a (store_of L K) =
    apsnd (store_of L) (settled (rekeys_artifact key producer a K) K (promised_register_artifact key producer a K))"
  unfolding register_artifact_tx_def promised_register_artifact_def require_run_kept require_evidence_kept [OF k] settled_provided
proof (rule try_provided, rule try_provided)
  fix u w assume "known_if_given rn_run_id (ct_runs K) (ar_run_id a) = Inr u"
    "known_if_given ev_evidence_id (ct_evidence K) (ar_evidence_id a) = Inr w"
  then have gd: "if_given require_run (ar_run_id a) (store_of L K) = Inr ()"
      "if_given require_evidence (ar_evidence_id a) (store_of L K) = Inr ()"
    by (simp_all add: require_run_kept require_evidence_kept [OF k])
  note body = register_artifact_body [OF k r gd]
  show "(case key of None \<Rightarrow> register_new_artifact L key producer a (store_of L K)
    | Some k \<Rightarrow> try_tx (require_producer_for_key producer) (store_of L K) (\<lambda>p. case by_key artifacts p k (store_of L K) of
        Some row \<Rightarrow> if col row ''idempotency_fingerprint'' \<noteq> Text (artifact_idem_fp L a)
          then (raise_cer IdempotencyConflictError, store_of L K) else (row_to_artifact row, store_of L K)
      | None \<Rightarrow> register_new_artifact L key producer a (store_of L K))) =
    apsnd (store_of L) (provided (if key = None then Inr [] else require_producer_for_key producer) K (\<lambda>p.
      settled (rekeys_artifact key producer a K) K (apsnd (\<lambda>es. K\<lparr>ct_artifacts := es\<rparr>)
        (submit ar_artifact_id (\<lambda>a b. content_artifact a = content_artifact b) (\<lambda>a b. content_blob a = content_blob b)
          id (under p key) a (ct_artifacts K)))))"
  proof (cases key)
    case None
    then show ?thesis using body [of None producer "[]"]
      by (simp add: by_opt_key_def provided_def rekeys_artifact_def rekeyed_def under_def split: option.split)
  next
    case (Some i)
    have "producer = Some p" if "require_producer_for_key producer = Inr p" for p
      using that by (auto simp: require_producer_for_key_def split: option.splits if_splits)
    then show ?thesis unfolding Some
      using body [of "Some i" producer, unfolded by_opt_key_Some]
      by simp (rule try_provided, simp add: rekeys_artifact_def)
  qed
qed

subsection \<open>Closing a run, linking an artifact\<close>

lemma named_run: fixes K :: catalogue shows
  "select_one [Eq ''run_id'' (Text i)] (map (run_entry L) (ct_runs K)) = map_option (run_entry L) (named_entry rn_run_id (ct_runs K) i)"
  using named_row [where d = "store_of L K" and t = runs and row = "run_entry L" and es = "ct_runs K" and c = "''run_id''"
      and ident = rn_run_id and i = i] by (simp add: run_name_kept)

lemma named_artifact: fixes K :: catalogue shows
  "select_one [Eq ''artifact_id'' (Text i)] (map (artifact_entry L) (ct_artifacts K)) =
     map_option (artifact_entry L) (named_entry ar_artifact_id (ct_artifacts K) i)"
  using named_row [where d = "store_of L K" and t = artifacts and row = "artifact_entry L" and es = "ct_artifacts K"
      and c = "''artifact_id''" and ident = ar_artifact_id and i = i] by (simp add: artifact_entry_cols)

lemma close_run_kept:
  assumes k: "kept L T K" and t: "utc_pydt t"
  shows "close_run_tx i st t (store_of L K) = apsnd (store_of L) (closed_at i st t K)"
proof (cases "named_entry rn_run_id (ct_runs K) i")
  case None
  then show ?thesis by (simp add: close_run_tx_def closed_at_def named_run)
next
  case (Some n)
  let ?d = "store_of L K" and ?r = "en_now n"
  have n: "n \<in> set (ct_runs K)" using named_entry_in [OF Some] by simp
  have f: "fetch_run i ?d = Inr ?r"
    using row_to_run_row [OF good_entriesD(2) [OF keptD(5) [OF k] n]] by (simp add: fetch_run_def named_run Some run_entry_def)
  show ?thesis
  proof (cases "rn_status ?r = OPEN")
    case False
    then show ?thesis using close_run_tx_not_open [OF keptD(1) [OF k] f] by (simp add: closed_at_def Some)
  next
    case True
    let ?f = "\<lambda>row. if matches [Eq ''run_id'' (Text i)] row
      then set_cols [(''status'', Text (run_status_value st)), (''ended_at'', Text (dt_to_str t))] row else row"
    let ?close = "\<lambda>r. r\<lparr>rn_status := st, rn_ended_at := Some t\<rparr>"
    obtain d' where d': "close_run_tx i st t ?d = (Inr (?close ?r), d')"
      using close_run_tx_open [OF keptD(1) [OF k] f True t, of st] by blast
    have "col (run_entry L n) ''status'' = Text (run_status_value OPEN)"
      using True by (simp add: run_entry_def run_row_def)
    with d' have "d' = ?d(runs := map ?f (?d runs))"
      by (auto simp: close_run_tx_def named_run Some update_where_def Let_def split: prod.splits sum.splits if_splits)
    moreover have "run_entry L (if rn_run_id (en_now m) = i then m\<lparr>en_now := ?close (en_now m)\<rparr> else m) = ?f (run_entry L m)" for m
      by (simp add: run_name_kept) (simp add: run_entry_def close_row)
    then have "map (run_entry L) (revise rn_run_id i ?close (ct_runs K)) = map ?f (?d runs)"
      by (simp add: revise_def)
    ultimately show ?thesis using d' True by (simp add: closed_at_def Some store_of_update)
  qed
qed

text \<open>What \<open>attach_artifact\<close> makes of the entry and of the row of its artifact.\<close>

abbreviation link_both :: "string option \<Rightarrow> string option \<Rightarrow> artifact \<Rightarrow> artifact" where
  "link_both e n a \<equiv> a\<lparr>ar_evidence_id := relink (ar_evidence_id a) e, ar_run_id := relink (ar_run_id a) n\<rparr>"

definition linked_row :: "string \<Rightarrow> string option \<Rightarrow> string option \<Rightarrow> artifact \<Rightarrow> row \<Rightarrow> row" where
  "linked_row i e n a r = (if matches [Eq ''artifact_id'' (Text i)] r
     then set_cols [(''evidence_id'', opt_text (relink (ar_evidence_id a) e)), (''run_id'', opt_text (relink (ar_run_id a) n))] r
     else r)"

lemma same_artifact:
  assumes k: "kept L T K" and m: "named_entry ar_artifact_id (ct_artifacts K) i = Some m"
    and q: "q \<in> set (ct_artifacts K)" "ar_artifact_id (en_now q) = i"
  shows "en_now q = en_now m"
proof -
  note m' = named_entry_in [OF m]
  have "artifact_entry L q = artifact_entry L m"
    using pinned [where d = "store_of L K" and t = artifacts and c = "''artifact_id''" and L = L and i = i and
        row = "artifact_entry L m" and r = "artifact_entry L q"] keptD(1) [OF k] q m' by (simp add: artifact_entry_cols)
  then show ?thesis
    using artifact_entry_decodes [OF k q(1)] artifact_entry_decodes [OF k, of m] m' by simp
qed

lemma attach_rows:
  assumes k: "kept L T K" and m: "named_entry ar_artifact_id (ct_artifacts K) i = Some m"
  shows "map (artifact_entry L) (revise ar_artifact_id i (link_both e n) (ct_artifacts K)) =
    map (linked_row i e n (en_now m)) (store_of L K artifacts)"
proof -
  have "artifact_entry L (if ar_artifact_id (en_now q) = i then q\<lparr>en_now := link_both e n (en_now q)\<rparr> else q) =
      linked_row i e n (en_now m) (artifact_entry L q)" if q: "q \<in> set (ct_artifacts K)" for q
  proof (cases "ar_artifact_id (en_now q) = i")
    case True
    then show ?thesis using same_artifact [OF k m q]
      by (simp add: linked_row_def artifact_entry_cols) (simp add: artifact_entry_def link_row)
  qed (simp add: linked_row_def artifact_entry_cols)
  then show ?thesis by (simp add: revise_def)
qed

lemma attach_content:
  assumes k: "kept L T K" and m: "named_entry ar_artifact_id (ct_artifacts K) i = Some m"
    and g: "if_given require_evidence e (store_of L K) = Inr ()" "if_given require_run n (store_of L K) = Inr ()"
    and l: "may_link (ar_evidence_id (en_now m)) e" "may_link (ar_run_id (en_now m)) n"
    and d': "attach_artifact_tx i e n (store_of L K) = (Inr a, d')"
  shows "d' = (store_of L K)(artifacts := map (linked_row i e n (en_now m)) (store_of L K artifacts))"
proof -
  let ?d = "store_of L K" and ?row = "artifact_entry L m"
    and ?e = "relink (ar_evidence_id (en_now m)) e" and ?n = "relink (ar_run_id (en_now m)) n"
  have links: "link (col ?row ''evidence_id'') e = Inr (opt_text ?e)" "link (col ?row ''run_id'') n = Inr (opt_text ?n)"
    unfolding artifact_entry_cols link_opt_text using l by (simp_all add: may_link_def)
  show ?thesis
  proof (cases "opt_text ?e \<noteq> col ?row ''evidence_id'' \<or> opt_text ?n \<noteq> col ?row ''run_id''")
    case True
    have "linked_row i e n (en_now m) = (\<lambda>r. if matches [Eq ''artifact_id'' (Text i)] r
        then set_cols [(''evidence_id'', opt_text ?e), (''run_id'', opt_text ?n)] r else r)"
      by (simp add: linked_row_def fun_eq_iff)
    then show ?thesis using True d'
      by (auto simp: attach_artifact_tx_def named_artifact m g links update_where_def Let_def split: prod.splits sum.splits if_splits)
  next
    case False
    then have same: "?e = ar_evidence_id (en_now m)" "?n = ar_run_id (en_now m)"
      unfolding artifact_entry_cols by (metis opt_of_opt_text)+
    have "map (linked_row i e n (en_now m)) (?d artifacts) = ?d artifacts"
    proof (rule map_idI)
      fix r assume "r \<in> set (?d artifacts)"
      then obtain q where q: "q \<in> set (ct_artifacts K)" "r = artifact_entry L q" by auto
      show "linked_row i e n (en_now m) r = r"
        using same_artifact [OF k m q(1)] same
        by (cases "ar_artifact_id (en_now q) = i")
           (simp_all add: linked_row_def q(2) artifact_entry_cols, simp add: artifact_entry_def link_row)
    qed
    moreover have "d' = ?d" using False d' by (auto simp: attach_artifact_tx_def named_artifact m g links)
    ultimately show ?thesis by (simp only: fun_upd_triv)
  qed
qed

lemma attach_artifact_body:
  assumes k: "kept L T K" and m: "named_entry ar_artifact_id (ct_artifacts K) i = Some m"
    and g: "if_given require_evidence e (store_of L K) = Inr ()" "if_given require_run n (store_of L K) = Inr ()"
  shows "attach_artifact_tx i e n (store_of L K) = apsnd (store_of L)
    (if may_link (ar_evidence_id (en_now m)) e \<and> may_link (ar_run_id (en_now m)) n
     then (Inr (link_both e n (en_now m)), K\<lparr>ct_artifacts := revise ar_artifact_id i (link_both e n) (ct_artifacts K)\<rparr>)
     else (raise_cer ImmutabilityError, K))"
proof -
  have f: "fetch_artifact i (store_of L K) = Inr (en_now m)"
    using artifact_entry_decodes [OF k, of m] named_entry_in [OF m] by (simp add: fetch_artifact_def named_artifact m)
  show ?thesis
  proof (cases "may_link (ar_evidence_id (en_now m)) e \<and> may_link (ar_run_id (en_now m)) n")
    case False
    then show ?thesis using attach_artifact_tx_relink [OF keptD(1) [OF k] f g] by (simp add: may_link_def)
  next
    case True
    then have l: "may_link (ar_evidence_id (en_now m)) e" "may_link (ar_run_id (en_now m)) n" by simp_all
    obtain d' where d': "attach_artifact_tx i e n (store_of L K) = (Inr (link_both e n (en_now m)), d')"
      using attach_artifact_tx_ok [OF keptD(1) [OF k] f g l [unfolded may_link_def]] by blast
    from attach_content [OF k m g l d'] d' l attach_rows [OF k m, of n e] show ?thesis by (simp add: store_of_update)
  qed
qed

lemma attach_artifact_kept:
  assumes k: "kept L T K"
  shows "attach_artifact_tx i e n (store_of L K) = apsnd (store_of L) (promised_attach_artifact i e n K)"
proof (cases "named_entry ar_artifact_id (ct_artifacts K) i")
  case None
  then show ?thesis by (simp add: attach_artifact_tx_def promised_attach_artifact_def named_artifact)
next
  case (Some m)
  show ?thesis
  proof (cases "if_given require_evidence e (store_of L K) = Inr () \<and> if_given require_run n (store_of L K) = Inr ()")
    case False
    then show ?thesis
      unfolding attach_artifact_tx_def promised_attach_artifact_def store_of.simps named_artifact Some require_run_kept
        require_evidence_kept [OF k]
      by (cases "known_if_given ev_evidence_id (ct_evidence K) e"; cases "known_if_given rn_run_id (ct_runs K) n")
         (simp_all add: provided_def)
  next
    case True
    then have "known_if_given ev_evidence_id (ct_evidence K) e = Inr ()" "known_if_given rn_run_id (ct_runs K) n = Inr ()"
      by (simp_all add: require_run_kept require_evidence_kept [OF k])
    then show ?thesis using attach_artifact_body [OF k Some, of e n] True
      by (simp add: promised_attach_artifact_def Some provided_def Let_def)
  qed
qed

end
