(* ===== verification/CatalogueReads.thy ===== *)
theory CatalogueReads
  imports CatalogueOps
begin

text \<open>
  Reading the content a catalogue stands for reads the catalogue. A query orders by the text of a datetime, the
  catalogue by the instant: both give the same list.
\<close>

subsection \<open>Sorting\<close>

lemma insort_key_cong:
  "(\<And>y. y \<in> set ys \<Longrightarrow> f x \<le> f y \<longleftrightarrow> g x \<le> g y) \<Longrightarrow> insort_key f x ys = insort_key g x ys"
  by (induction ys) auto

lemma sort_key_cong:
  assumes "\<And>x y. x \<in> set xs \<Longrightarrow> y \<in> set xs \<Longrightarrow> f x \<le> f y \<longleftrightarrow> g x \<le> g y"
  shows "sort_key f xs = sort_key g xs"
  using assms by (induction xs) (auto intro!: insort_key_cong)

lemma insort_key_map: "insort_key f (h x) (map h ys) = map h (insort_key (f \<circ> h) x ys)"
  by (induction ys) auto

lemma sort_key_map: "sort_key f (map h xs) = map h (sort_key (f \<circ> h) xs)"
  by (induction xs) (simp_all add: insort_key_map comp_def)

lemma time_order:
  "utc_pydt s \<Longrightarrow> utc_pydt t \<Longrightarrow> [dt_to_str s, i] \<le> [dt_to_str t, j] \<longleftrightarrow> (instant s, i) \<le> (instant t, j)"
  using dt_to_str_le_iff [of s t] dt_to_str_eq_iff [of s t] by (auto simp: le_less)

subsection \<open>A query over entries\<close>

lemma query_kept:
  assumes rows: "d t = map row es" and v: "healthy v" "int64 (Integer limit)" "int64 (Integer offset)"
    and dec: "\<And>n. n \<in> set es \<Longrightarrow> decode (row n) = Inr (en_now n)"
    and at: "\<And>n. n \<in> set es \<Longrightarrow> utc_pydt (at (en_now n)) \<and> col (row n) c = Text (dt_to_str (at (en_now n)))"
    and names: "\<And>n. n \<in> set es \<Longrightarrow> col (row n) i = Text (ident (en_now n))"
    and m: "\<And>n. n \<in> set es \<Longrightarrow> matches cs (row n) \<longleftrightarrow> P (en_now n)"
  shows "run_query v t cs c i limit offset decode d = Inr (page limit offset (latest at ident (filter P (map en_now es))))"
proof -
  let ?dec = "\<lambda>r. projr (decode r)" and ?es = "filter (\<lambda>n. P (en_now n)) es"
  let ?key = "(\<lambda>r. [text_of (col r c), text_of (col r i)]) \<circ> row" and ?at = "(\<lambda>x. (instant (at x), ident x)) \<circ> en_now"
  have "decode r = Inr (?dec r)" if "r \<in> set (d t)" for r using that dec by (auto simp: rows)
  then have "run_query v t cs c i limit offset decode d = Inr (page limit offset (map ?dec (order_desc c i (select_all cs (map row es)))))"
    using run_query_page [of d t decode ?dec v limit offset cs c i] v by (simp add: rows)
  also have "select_all cs (map row es) = map row ?es"
    unfolding select_all_def filter_map comp_def using m by (simp cong: filter_cong)
  also have "map ?dec (order_desc c i (map row ?es)) = rev (map en_now (sort_key ?key ?es))"
    using dec by (simp add: order_desc_def sort_key_map rev_map)
  also have "sort_key ?key ?es = sort_key ?at ?es"
    by (rule sort_key_cong) (use at names time_order in \<open>simp del: less_eq_prod_simp\<close>)
  also have "rev (map en_now (sort_key ?at ?es)) = latest at ident (filter P (map en_now es))"
    by (simp add: latest_def filter_map sort_key_map comp_def)
  finally show ?thesis .
qed

lemma asked_clause: "col r c = opt_text v \<Longrightarrow> matches (opt_clause c w) r \<longleftrightarrow> asked w v"
  unfolding asked_def by (rule matches_opt_clause)

lemma asked_text_clause: "col r c = Text s \<Longrightarrow> matches (opt_clause c w) r \<longleftrightarrow> asked w (Some s)"
  by (rule asked_clause) (simp add: opt_text_def)

lemma query_evidence_kept:
  assumes k: "kept L T K" and v: "healthy v" "int64 (Integer limit)" "int64 (Integer offset)"
    and f: "aware (f_since f)" "aware (f_until f)"
  shows "query_evidence v f limit offset (store_of L K) = Inr (promised_query_evidence f limit offset K)"
proof -
  obtain cs where cs: "evidence_clauses f = Inr cs" "\<And>r. stored L evidence_t r \<Longrightarrow> matches cs r = passes f (the_evidence r)"
    using evidence_clauses_ok [OF f, of L] by blast
  have e: "row_to_evidence (evidence_entry L n) = Inr (en_now n)" "stored L evidence_t (evidence_entry L n)"
    if "n \<in> set (ct_evidence K)" for n
    using good_entriesD(3) [OF keptD(6) [OF k] that] wf_db_stored [OF keptD(1) [OF k], of _ evidence_t] that
    by (simp_all add: evidence_entry_def evidence_row_read)
  then have "the_evidence (evidence_entry L n) = en_now n" if "n \<in> set (ct_evidence K)" for n
    using that by (simp add: the_evidence_def)
  note t = this the_evidence_stored(2,3) [OF e(2)]
  show ?thesis
    unfolding query_evidence_def promised_query_evidence_def cs(1) rbind_simps
    by (rule query_kept [where row = "evidence_entry L", OF _ v]) (use e t cs(2) evidence_name_kept [OF k] in simp_all)
qed

lemma query_artifacts_kept:
  assumes k: "kept L T K" and v: "healthy v" "int64 (Integer limit)" "int64 (Integer offset)"
  shows "query_artifacts v evidence_id run_id limit offset (store_of L K) = Inr (promised_query_artifacts evidence_id run_id limit offset K)"
  unfolding query_artifacts_def promised_query_artifacts_def
proof (rule query_kept [where row = "artifact_entry L", OF _ v])
  fix n assume n: "n \<in> set (ct_artifacts K)"
  show "row_to_artifact (artifact_entry L n) = Inr (en_now n)" by (rule artifact_entry_decodes [OF k n])
  show "utc_pydt (ar_registered_at (en_now n)) \<and>
      col (artifact_entry L n) ''registered_at'' = Text (dt_to_str (ar_registered_at (en_now n)))"
    using valid_artifact_utc [OF artifact_keptD(2) [OF k n]] by (simp add: artifact_entry_def artifact_row_def)
qed (simp_all add: artifact_entry_cols asked_clause)

lemma query_promotions_kept:
  assumes k: "kept L T K" and v: "healthy v" "int64 (Integer limit)" "int64 (Integer offset)"
  shows "query_promotions v strategy_id strategy_version limit offset (store_of L K) =
    Inr (promised_query_promotions strategy_id strategy_version limit offset K)"
  unfolding query_promotions_def promised_query_promotions_def
proof (rule query_kept [where row = "promotion_entry L", OF _ v])
  fix n assume n: "n \<in> set (ct_promotions K)"
  note g = good_entriesD(2) [OF keptD(7) [OF k] n]
  show "row_to_promotion (promotion_entry L n) = Inr (en_now n)"
    unfolding promotion_entry_def by (rule row_to_promotion_row [OF g])
  show "utc_pydt (pt_at_utc (en_now n)) \<and> col (promotion_entry L n) ''at_utc'' = Text (dt_to_str (pt_at_utc (en_now n)))"
    using valid_promotion_utc [OF g] by (simp add: promotion_entry_def promotion_row_def)
  show "matches (opt_clause ''strategy_id'' strategy_id @ opt_clause ''strategy_version'' strategy_version) (promotion_entry L n) \<longleftrightarrow>
      asked strategy_id (Some (pt_strategy_id (en_now n))) \<and> asked strategy_version (Some (pt_strategy_version (en_now n)))"
    using asked_text_clause [of "promotion_entry L n"] by (simp add: promotion_entry_def promotion_row_def)
qed (simp_all add: promotion_entry_def promotion_row_def)

lemma query_health_kept:
  assumes k: "kept L T K" and v: "healthy v" "int64 (Integer limit)" "int64 (Integer offset)"
  shows "query_health v strategy_id strategy_version limit offset (store_of L K) =
    Inr (promised_query_health strategy_id strategy_version limit offset K)"
  unfolding query_health_def promised_query_health_def
proof (rule query_kept [where row = "health_entry L", OF _ v])
  fix n assume n: "n \<in> set (ct_health K)"
  have now: "valid_health (en_sent n)" "en_now n = canon_health (en_sent n)"
    using good_entriesD(3) [OF keptD(8) [OF k] n] by simp_all
  show "row_to_health (health_entry L n) = Inr (en_now n)"
    unfolding health_entry_def now(2) by (rule row_to_health_row [OF now(1)])
  show "utc_pydt (hr_observed_at_utc (en_now n)) \<and>
      col (health_entry L n) ''observed_at_utc'' = Text (dt_to_str (hr_observed_at_utc (en_now n)))"
    using valid_health_utc [OF now(1)] by (simp add: health_entry_def health_row_def now(2) canon_health_def)
  show "matches (opt_clause ''strategy_id'' strategy_id @ opt_clause ''strategy_version'' strategy_version) (health_entry L n) \<longleftrightarrow>
      asked strategy_id (Some (hr_strategy_id (en_now n))) \<and> asked strategy_version (Some (hr_strategy_version (en_now n)))"
    using asked_text_clause [of "health_entry L n"] by (simp add: health_entry_def health_row_def now(2) canon_health_def)
  show "col (health_entry L n) ''health_id'' = Text (hr_health_id (en_now n))"
    by (simp add: health_entry_def health_row_def now(2) canon_health_def)
qed simp

subsection \<open>Single reads\<close>

lemma get_evidence_kept:
  assumes k: "kept L T K" and v: "healthy v"
  shows "get_evidence v i (store_of L K) = promised_get_evidence i K"
proof -
  have "select_one [Eq ''evidence_id'' (Text i)] (store_of L K evidence_t) =
      map_option (evidence_entry L) (named_entry ev_evidence_id (ct_evidence K) i)"
    by (rule named_row) (simp_all add: evidence_name_kept [OF k])
  moreover have "row_to_evidence (evidence_entry L n) = Inr (en_now n)" if "n \<in> set (ct_evidence K)" for n
    using good_entriesD(3) [OF keptD(6) [OF k] that] by (simp add: evidence_entry_def evidence_row_read)
  ultimately show ?thesis using v named_entry_in [of ev_evidence_id "ct_evidence K" i]
    by (auto simp: get_evidence_def reading_def healthy_def fetch_evidence_def promised_get_evidence_def promised_get_def
      split: option.split)
qed

lemma get_artifact_kept:
  assumes k: "kept L T K" and v: "healthy v"
  shows "get_artifact v i (store_of L K) = promised_get_artifact i K"
  using v named_entry_in [of ar_artifact_id "ct_artifacts K" i] artifact_entry_decodes [OF k]
  by (auto simp: get_artifact_def reading_def healthy_def named_artifact promised_get_artifact_def promised_get_def
    split: option.split)

lemma find_artifact_kept:
  assumes k: "kept L T K" and v: "healthy v"
  shows "find_artifact_by_idempotency_key v p i (store_of L K) = promised_find_artifact p i K"
proof -
  have "by_key artifacts p i (store_of L K) = map_option (artifact_entry L) (keyed_entry (ct_artifacts K) p i)"
  proof (rule by_key_entry)
    show "en_more n = []" if "n \<in> set (ct_artifacts K)" for n using artifact_keptD(6) [OF k that] .
    fix n assume "n \<in> set (ct_artifacts K)"
    show "col (artifact_entry L n) ''producer'' = Text p \<and> col (artifact_entry L n) ''idempotency_key'' = Text i \<longleftrightarrow> en_key n = Some (p, i)"
      by (cases "en_key n") (auto simp: artifact_entry_def row_keys opt_text_def)
  qed simp
  then show ?thesis using v keyed_entry_in [of "ct_artifacts K" p i] artifact_entry_decodes [OF k]
    by (cases "require_producer_for_key (Some p)")
       (auto simp: find_artifact_by_idempotency_key_def reading_def healthy_def promised_find_artifact_def split: option.split)
qed

end
