(* ===== verification/CatalogueProps.thy ===== *)
theory CatalogueProps
  imports CatalogueReads
begin

text \<open>
  The SQLite store and the catalogue. As long as no call brings a new key for an object that exists, the content of the
  store after any history of calls is the content of the catalogue the same calls promise, and every further call
  answers as promised. A new key for an object that exists is answered as promised but forgotten, which the protocol
  forbids. The reads answer from what the store has recorded.
\<close>

subsection \<open>Calls with their answers\<close>

datatype answer =
    AStrategy strategy
  | AVersion strategy_version
  | AExperiment experiment_record
  | ARun run
  | AEvidence evidence
  | AArtifact artifact
  | APromotion promotion
  | AHealth health

fun call_op :: "libs \<Rightarrow> env \<Rightarrow> op \<Rightarrow> db \<Rightarrow> answer outcome" where
  "call_op L v (RegisterStrategy s) d = apfst (map_sum id AStrategy) (register_strategy L v s d)"
| "call_op L v (RegisterStrategyVersion s) d = apfst (map_sum id AVersion) (register_strategy_version L v s d)"
| "call_op L v (CreateExperiment key x) d = apfst (map_sum id AExperiment) (create_experiment L v key x d)"
| "call_op L v (CreateRun key r) d = apfst (map_sum id ARun) (create_run L v key r d)"
| "call_op L v (CloseRun i st t) d = apfst (map_sum id ARun) (close_run v i st t d)"
| "call_op L v (AppendEvidence e) d = apfst (map_sum id AEvidence) (append_evidence L v e d)"
| "call_op L v (RegisterArtifact key producer a) d = apfst (map_sum id AArtifact) (register_artifact L v key producer a d)"
| "call_op L v (AttachArtifact i e n) d = apfst (map_sum id AArtifact) (attach_artifact v i e n d)"
| "call_op L v (RecordPromotion key p) d = apfst (map_sum id APromotion) (record_promotion L v key p d)"
| "call_op L v (RecordHealth key h) d = apfst (map_sum id AHealth) (record_health L v key h d)"

fun promise :: "libs \<Rightarrow> op \<Rightarrow> catalogue \<Rightarrow> answer promised" where
  "promise L (RegisterStrategy s) K = apfst (map_sum id AStrategy) (promised_register_strategy s K)"
| "promise L (RegisterStrategyVersion s) K = apfst (map_sum id AVersion) (promised_register_strategy_version s K)"
| "promise L (CreateExperiment key x) K = apfst (map_sum id AExperiment) (promised_create_experiment key x K)"
| "promise L (CreateRun key r) K = apfst (map_sum id ARun) (promised_create_run key r K)"
| "promise L (CloseRun i st t) K = apfst (map_sum id ARun) (promised_close_run i st t K)"
| "promise L (AppendEvidence e) K = apfst (map_sum id AEvidence) (promised_append_evidence e K)"
| "promise L (RegisterArtifact key producer a) K = apfst (map_sum id AArtifact) (promised_register_artifact key producer a K)"
| "promise L (AttachArtifact i e n) K = apfst (map_sum id AArtifact) (promised_attach_artifact i e n K)"
| "promise L (RecordPromotion key p) K = apfst (map_sum id APromotion) (promised_record_promotion L key p K)"
| "promise L (RecordHealth key h) K = apfst (map_sum id AHealth) (promised_record_health L key h K)"

text \<open>The integers of a call fit SQLite's 64 bits; the texts its fingerprints hash.\<close>

fun storable :: "op \<Rightarrow> bool" where
  "storable (AppendEvidence e) = int64 (Integer (ev_schema_version e))"
| "storable (RegisterArtifact key producer a) = int64 (Integer (ar_size_bytes a))"
| "storable _ = True"

fun hashed :: "libs \<Rightarrow> op \<Rightarrow> string list" where
  "hashed L (RegisterStrategy s) = [strategy_text L s]"
| "hashed L (RegisterStrategyVersion s) = [version_text L s]"
| "hashed L (CreateExperiment key x) = [experiment_text L x]"
| "hashed L (CreateRun key r) = [run_text L r]"
| "hashed L (CloseRun i st t) = []"
| "hashed L (AppendEvidence e) = [evidence_text L e]"
| "hashed L (RegisterArtifact key producer a) = [artifact_text L a, blob_text L a]"
| "hashed L (AttachArtifact i e n) = []"
| "hashed L (RecordPromotion key p) = [promotion_text L p]"
| "hashed L (RecordHealth key h) = [health_text L h]"

text \<open>The store can be reached and commits; otherwise a call fails and nothing is promised of it.\<close>

definition working :: "env \<Rightarrow> bool" where
  "working v = (path_exists v \<and> connects v \<and> begins v \<and> commits v)"

fun promises :: "libs \<Rightarrow> (env \<times> op) list \<Rightarrow> catalogue \<Rightarrow> catalogue" where
  "promises L [] K = K"
| "promises L ((v, p) # ps) K = promises L ps (if working v then snd (promise L p K) else K)"

text \<open>The calls that bring a new key for an object that exists, and the histories without one.\<close>

fun rekeys :: "libs \<Rightarrow> op \<Rightarrow> catalogue \<Rightarrow> bool" where
  "rekeys L (CreateExperiment key x) K = rekeys_experiment key x K"
| "rekeys L (RegisterArtifact key producer a) K = rekeys_artifact key producer a K"
| "rekeys L (RecordPromotion key p) K = rekeys_promotion L key p K"
| "rekeys L (RecordHealth key h) K = rekeys_health L key h K"
| "rekeys L _ K = False"

fun honoured :: "libs \<Rightarrow> (env \<times> op) list \<Rightarrow> catalogue \<Rightarrow> bool" where
  "honoured L [] K = True"
| "honoured L ((v, p) # ps) K =
     (if working v then \<not> rekeys L p K \<and> honoured L ps (snd (promise L p K)) else honoured L ps K)"

text \<open>What the store records of its calls: the catalogue they promise, without the keys it forgets.\<close>

definition recorded :: "libs \<Rightarrow> op \<Rightarrow> catalogue \<Rightarrow> answer promised" where
  "recorded L p K = settled (rekeys L p K) K (promise L p K)"

fun records :: "libs \<Rightarrow> (env \<times> op) list \<Rightarrow> catalogue \<Rightarrow> catalogue" where
  "records L [] K = K"
| "records L ((v, p) # ps) K = records L ps (if working v then snd (recorded L p K) else K)"

lemma recorded_honoured: "\<not> rekeys L p K \<Longrightarrow> recorded L p K = promise L p K"
  by (simp add: recorded_def)

lemma records_honoured: "honoured L ps K \<Longrightarrow> records L ps K = promises L ps K"
  by (induction L ps K rule: honoured.induct) (auto simp: recorded_honoured split: if_splits)

lemma honoured_append:
  "honoured L (ps @ qs) K \<longleftrightarrow> honoured L ps K \<and> honoured L qs (promises L ps K)"
  by (induction L ps K rule: honoured.induct) auto

subsection \<open>An error changes nothing\<close>

lemma provided_error:
  assumes "fst (provided g K k) = Inl e" "\<And>x e. g = Inr x \<Longrightarrow> fst (k x) = Inl e \<Longrightarrow> snd (k x) = K"
  shows "snd (provided g K k) = K"
  using assms by (cases g) (auto simp: provided_def)

lemma submit_error: "fst (submit ident same again rd key x es) = Inl e \<Longrightarrow> snd (submit ident same again rd key x es) = es"
  by (auto simp: submit_def split: option.splits if_splits)

lemma map_sum_Inl [simp]: "map_sum id f r = Inl e \<longleftrightarrow> r = Inl e"
  by (cases r) simp_all

lemma promise_error: "fst (promise L p K) = Inl e \<Longrightarrow> snd (promise L p K) = K"
proof (cases p)
  case (CloseRun i st t)
  assume "fst (promise L p K) = Inl e"
  then show ?thesis unfolding CloseRun promise.simps promised_close_run_def
    by (auto simp: closed_at_def Let_def split: option.splits if_splits intro!: provided_error)
next
  case (AttachArtifact i e' n)
  assume "fst (promise L p K) = Inl e"
  then show ?thesis unfolding AttachArtifact promise.simps promised_attach_artifact_def
    by (auto simp: Let_def split: option.splits if_splits intro!: provided_error)
qed (auto simp: promised_register_strategy_def promised_register_strategy_version_def promised_create_experiment_def
  promised_create_run_def promised_append_evidence_def promised_register_artifact_def
  promised_record_promotion_def promised_record_health_def submit_error intro!: provided_error)

subsection \<open>One call\<close>

lemma transaction_kept:
  assumes w: "working v" and b: "body (store_of L K) = apsnd (store_of L) (settled (rekeys L p K) K P)"
    and p: "promise L p K = apfst (map_sum id c) P"
  shows "apfst (map_sum id c) (transaction v body (store_of L K)) = apsnd (store_of L) (recorded L p K)"
proof (cases P)
  case (Pair r K')
  have "K' = K" if "r = Inl e" for e using promise_error [of L p K e] that by (simp add: p Pair)
  then show ?thesis
    using w by (cases r) (simp_all add: transaction_def require_durable_backing_def working_def b p Pair recorded_def settled_def)
qed

lemma call_kept:
  assumes k: "kept L T K" and f: "faithful L T" and v: "valid_op p" "storable p" "set (hashed L p) \<subseteq> T" and w: "working v"
  shows "call_op L v p (store_of L K) = apsnd (store_of L) (recorded L p K)"
proof (cases p)
  case (CloseRun i st t)
  show ?thesis
  proof (cases "to_utc t")
    case (Inl e)
    then show ?thesis by (simp add: CloseRun close_run_def promised_close_run_def provided_def recorded_def)
  next
    case (Inr u)
    have "utc_pydt u" using to_utc_spec [OF _ Inr] v(1) CloseRun by simp
    from close_run_kept [OF k this] have "close_run_tx i st u (store_of L K) =
        apsnd (store_of L) (settled (rekeys L (CloseRun i st t) K) K (closed_at i st u K))" by simp
    then show ?thesis
      unfolding CloseRun call_op.simps close_run_def Inr sum.case
      by (rule transaction_kept [OF w]) (simp add: promised_close_run_def provided_def Inr)
  qed
next
  case (RegisterStrategy s)
  show ?thesis unfolding RegisterStrategy call_op.simps register_strategy_def
    by (rule transaction_kept [OF w], subst rekeys.simps, subst settled_False, rule register_strategy_kept [OF k f]) (use v RegisterStrategy in simp_all)
next
  case (RegisterStrategyVersion s)
  show ?thesis unfolding RegisterStrategyVersion call_op.simps register_strategy_version_def
    by (rule transaction_kept [OF w], subst rekeys.simps, subst settled_False, rule register_strategy_version_kept [OF k f]) (use v RegisterStrategyVersion in simp_all)
next
  case (CreateExperiment key x)
  show ?thesis unfolding CreateExperiment call_op.simps create_experiment_def
    by (rule transaction_kept [OF w], subst rekeys.simps, rule create_experiment_kept [OF k f]) (use v CreateExperiment in simp_all)
next
  case (CreateRun key r)
  show ?thesis unfolding CreateRun call_op.simps create_run_def
    by (rule transaction_kept [OF w], subst rekeys.simps, subst settled_False, rule create_run_kept [OF k f]) (use v CreateRun in simp_all)
next
  case (AppendEvidence e)
  show ?thesis unfolding AppendEvidence call_op.simps append_evidence_def
    by (rule transaction_kept [OF w], subst rekeys.simps, subst settled_False, rule append_evidence_kept [OF k f]) (use v AppendEvidence in simp_all)
next
  case (RegisterArtifact key producer a)
  show ?thesis unfolding RegisterArtifact call_op.simps register_artifact_def
    by (rule transaction_kept [OF w], subst rekeys.simps, rule register_artifact_kept [OF k f]) (use v RegisterArtifact in simp_all)
next
  case (AttachArtifact i e n)
  show ?thesis unfolding AttachArtifact call_op.simps attach_artifact_def
    by (rule transaction_kept [OF w], subst rekeys.simps, subst settled_False, rule attach_artifact_kept [OF k]) simp
next
  case (RecordPromotion key x)
  show ?thesis unfolding RecordPromotion call_op.simps record_promotion_def
    by (rule transaction_kept [OF w], subst rekeys.simps, rule record_promotion_kept [OF k f]) (use v RecordPromotion in simp_all)
next
  case (RecordHealth key h)
  show ?thesis unfolding RecordHealth call_op.simps record_health_def
    by (rule transaction_kept [OF w], subst rekeys.simps, rule record_health_kept [OF k f]) (use v RecordHealth in simp_all)
qed

lemma transaction_broken: "\<not> working v \<Longrightarrow> \<exists>e. apfst (map_sum id c) (transaction v body d) = (Inl e, d)"
  by (auto simp: transaction_def require_durable_backing_def working_def raise_cer_def split: prod.split sum.split)

lemma call_broken:
  assumes "\<not> working v"
  shows "\<exists>e. call_op L v p d = (Inl e, d)"
proof (cases p)
  case (CloseRun i st t)
  show ?thesis by (cases "to_utc t") (simp_all add: CloseRun close_run_def transaction_broken [OF assms])
qed (simp_all only: call_op.simps register_strategy_def register_strategy_version_def create_experiment_def create_run_def
    append_evidence_def register_artifact_def attach_artifact_def record_promotion_def record_health_def
    transaction_broken [OF assms])

lemma call_exec: "snd (exec_op L v p d) = snd (call_op L v p d)"
  by (cases p) simp_all

subsection \<open>Good catalogues stay good\<close>

lemma good_entries_submit:
  assumes "good_entries T valid shows_as producer text es"
    and "valid x" "valid (rd x)" "shows_as x (rd x)" "text x \<in> T" "\<And>p k. key = Some (p, k) \<Longrightarrow> p = producer x" "\<not> rekeyed ident again key x es"
  shows "good_entries T valid shows_as producer text (snd (submit ident same again rd key x es))"
proof -
  obtain r es' where "submit ident same again rd key x es = (r, es')" by fastforce
  with submit_grows [OF this assms(7)] assms(1-6) show ?thesis by (auto simp: good_entries_def made_by_def)
qed

lemma submit_set:
  "n \<in> set (snd (submit ident same again rd key x es)) \<Longrightarrow>
     n \<in> set es \<or> n = \<lparr>en_key = key, en_sent = x, en_now = rd x, en_more = []\<rparr> \<or> rekeyed ident again key x es"
  using submit_grows [of ident same again rd key x es] by (cases "submit ident same again rd key x es") auto

lemma rekeyed_None: "rekeyed ident again None x es = False"
  by (simp add: rekeyed_def)

lemma good_entries_revise:
  assumes "good_entries T valid shows_as producer text es"
    and "\<And>n. n \<in> set es \<Longrightarrow> valid (f (en_now n)) \<and> shows_as (en_sent n) (f (en_now n))"
  shows "good_entries T valid shows_as producer text (revise ident i f es)"
  using assms by (auto simp: good_entries_def made_by_def revise_def)

lemma artifact_row_valid:
  assumes "stored L artifacts (artifact_row p k fp idem a)" "utc_pydt (ar_registered_at a)"
  shows "valid_artifact a"
proof -
  obtain p' k' fp' idem' b where b: "valid_artifact b" "artifact_row p k fp idem a = artifact_row p' k' fp' idem' b"
    using assms(1) by (auto simp: stored.simps)
  have "opt_of (opt_text v) = v" for v by simp
  then have o: "opt_text v = opt_text w \<longleftrightarrow> v = w" for v w by metis
  have "a = b"
    using b(2) dt_to_str_inj [OF assms(2) valid_artifact_utc [OF b(1)]] by (cases a; cases b) (simp add: artifact_row_def o)
  then show ?thesis using b(1) by simp
qed

lemma provided_good:
  assumes "good_catalogue L T K" "\<And>x. g = Inr x \<Longrightarrow> good_catalogue L T (snd (k x))"
  shows "good_catalogue L T (snd (provided g K k))"
  using assms by (cases g) (simp_all add: provided_def)

lemma under_producer: "under p key = Some (q, k) \<Longrightarrow> q = p"
  by (auto simp: under_def)

lemma attach_good:
  assumes k: "kept L T K" and wf: "wf_db L (store_of L (snd (promised_attach_artifact i e n K)))"
  shows "good_catalogue L T (snd (promised_attach_artifact i e n K))"
proof (cases "snd (promised_attach_artifact i e n K) = K")
  case False
  let ?link = "\<lambda>a. a\<lparr>ar_evidence_id := relink (ar_evidence_id a) e, ar_run_id := relink (ar_run_id a) n\<rparr>"
  have K': "snd (promised_attach_artifact i e n K) = K\<lparr>ct_artifacts := revise ar_artifact_id i ?link (ct_artifacts K)\<rparr>"
    using False by (auto simp: promised_attach_artifact_def provided_def Let_def split: option.splits sum.splits if_splits)
  have "valid_artifact (en_sent m) \<and> valid_artifact (en_now m) \<and> linked (en_sent m) (en_now m) \<and>
      artifact_text L (en_sent m) \<in> T \<and> blob_text L (en_sent m) \<in> T \<and> en_more m = []"
    if mem: "m \<in> set (revise ar_artifact_id i ?link (ct_artifacts K))" for m
  proof -
    obtain q where q: "q \<in> set (ct_artifacts K)"
      and m: "m = (if ar_artifact_id (en_now q) = i then q\<lparr>en_now := ?link (en_now q)\<rparr> else q)"
      using mem unfolding revise_def by (auto simp: image_iff)
    note g = artifact_keptD [OF k q]
    have "artifact_entry L m \<in> set (store_of L (snd (promised_attach_artifact i e n K)) artifacts)"
      using mem by (simp add: K')
    from wf_db_stored [OF wf this] have "stored L artifacts (artifact_entry L m)" .
    moreover have "utc_pydt (ar_registered_at (en_now m))" using valid_artifact_utc [OF g(2)] by (simp add: m)
    ultimately have "valid_artifact (en_now m)" unfolding artifact_entry_def by (rule artifact_row_valid)
    moreover have "en_sent m = en_sent q" by (simp add: m)
    moreover have "linked (en_sent m) (en_now m)" using g(3) by (simp add: m linked_link)
    ultimately show ?thesis using g by (simp add: m)
  qed
  then show ?thesis using k unfolding K' by (simp add: kept_def good_catalogue_def)
qed (use k in \<open>simp add: kept_def\<close>)

lemma close_good:
  assumes k: "kept L T K" and t: "utc_pydt t"
  shows "good_catalogue L T (snd (closed_at i st t K))"
proof (cases "snd (closed_at i st t K) = K")
  case False
  let ?close = "\<lambda>r. r\<lparr>rn_status := st, rn_ended_at := Some t\<rparr>"
  have K': "snd (closed_at i st t K) = K\<lparr>ct_runs := revise rn_run_id i ?close (ct_runs K)\<rparr>"
    using False by (auto simp: closed_at_def Let_def split: option.splits if_splits)
  have "good_entries T valid_run progressed rn_producer (run_text L) (revise rn_run_id i ?close (ct_runs K))"
  proof (rule good_entries_revise [OF keptD(5) [OF k]])
    fix n assume n: "n \<in> set (ct_runs K)"
    note g = good_entriesD [OF keptD(5) [OF k] n]
    show "valid_run (?close (en_now n)) \<and> progressed (en_sent n) (?close (en_now n))"
      using valid_run_closed [OF g(2) t] g(3) by (simp add: progressed_close)
  qed
  then show ?thesis using k unfolding K' by (simp add: kept_def good_catalogue_def)
qed (use k in \<open>simp add: kept_def\<close>)

lemma register_artifact_good:
  assumes k: "kept L T K" and v: "valid_artifact a" "artifact_text L a \<in> T" "blob_text L a \<in> T"
    and h: "\<not> rekeys_artifact key producer a K"
  shows "good_catalogue L T (snd (promised_register_artifact key producer a K))"
  unfolding promised_register_artifact_def
proof (intro provided_good)
  fix p assume p: "(if key = None then Inr [] else require_producer_for_key producer) = Inr p"
  have "\<not> rekeyed ar_artifact_id (\<lambda>a b. content_blob a = content_blob b) (under p key) a (ct_artifacts K)"
    using p h by (auto simp: rekeys_artifact_def require_producer_for_key_def under_def rekeyed_def split: option.splits if_splits)
  note grows = submit_grows [OF _ this]
  let ?s = "submit ar_artifact_id (\<lambda>a b. content_artifact a = content_artifact b) (\<lambda>a b. content_blob a = content_blob b)
    id (under p key) a (ct_artifacts K)"
  obtain r es where "?s = (r, es)" by fastforce
  then show "good_catalogue L T (snd (apsnd (\<lambda>es. K\<lparr>ct_artifacts := es\<rparr>) ?s))"
    using grows [of _ _ r es] k v by (fastforce simp: kept_def good_catalogue_def)
qed (use k in \<open>simp_all add: kept_def\<close>)

lemma call_good:
  assumes k: "kept L T K" and v: "valid_op p" "set (hashed L p) \<subseteq> T" and wf: "wf_db L (store_of L (snd (promise L p K)))"
    and h: "\<not> rekeys L p K"
  shows "good_catalogue L T (snd (promise L p K))"
proof (cases p)
  case (CloseRun i st t)
  have "good_catalogue L T (snd (promised_close_run i st t K))" unfolding promised_close_run_def
  proof (rule provided_good)
    fix u assume "to_utc t = Inr u"
    then show "good_catalogue L T (snd (closed_at i st u K))"
      using to_utc_spec [of t u] v(1) CloseRun by (intro close_good [OF k]) simp
  qed (use k in \<open>simp add: kept_def\<close>)
  then show ?thesis by (simp add: CloseRun)
next
  case (AttachArtifact i e n)
  with attach_good [OF k, of i e n] wf show ?thesis by simp
next
  case (RegisterArtifact key producer a)
  with register_artifact_good [OF k, of a key producer] v h show ?thesis by simp
qed (use k v h never_rekeyed_evidence [OF k, unfolded under_def option.map] in \<open>auto simp: rekeyed_None rekeyed_never rekeys_experiment_def rekeys_promotion_def
  rekeys_health_def kept_def good_catalogue_def promised_register_strategy_def promised_register_strategy_version_def
  promised_create_experiment_def promised_create_run_def promised_append_evidence_def promised_record_promotion_def
  promised_record_health_def under_producer dest!: submit_set intro!: provided_good [unfolded good_catalogue_def] good_entries_submit\<close>)

lemma recorded_kept:
  assumes k: "kept L T K" and f: "faithful L T" and v: "valid_op p" "storable p" "set (hashed L p) \<subseteq> T"
  shows "kept L T (snd (recorded L p K))"
proof (cases "rekeys L p K")
  case True
  then show ?thesis using k by (simp add: recorded_def settled_def)
next
  case False
  define w where "w = \<lparr>path_exists = True, connects = True, begins = True, commits = True, reads = True\<rparr>"
  have "working w" by (simp add: working_def w_def)
  from call_kept [OF k f v this] have "snd (exec_op L w p (store_of L K)) = store_of L (snd (promise L p K))"
    by (simp add: call_exec recorded_honoured [OF False])
  then have "wf_db L (store_of L (snd (promise L p K)))"
    using db_step_wf [OF exec_op_step [OF v(1), of L "store_of L K" w] keptD(1) [OF k]] by simp
  with call_good [OF k v(1,3) _ False] show ?thesis by (simp add: kept_def recorded_honoured [OF False])
qed

subsection \<open>Any store that records its calls one by one\<close>

fun after_calls :: "(env \<Rightarrow> op \<Rightarrow> 'd \<Rightarrow> (exn + answer) \<times> 'd) \<Rightarrow> (env \<times> op) list \<Rightarrow> 'd \<Rightarrow> 'd" where
  "after_calls call [] d = d"
| "after_calls call ((v, p) # ps) d = after_calls call ps (snd (call v p d))"

locale catalogue_store =
  fixes call :: "env \<Rightarrow> op \<Rightarrow> 'd \<Rightarrow> (exn + answer) \<times> 'd" and L :: libs
    and content :: "catalogue \<Rightarrow> 'd" and good :: "catalogue \<Rightarrow> bool" and admissible :: "op \<Rightarrow> bool"
  assumes answers: "good K \<Longrightarrow> admissible p \<Longrightarrow> working v \<Longrightarrow> call v p (content K) = apsnd content (recorded L p K)"
    and keeps: "good K \<Longrightarrow> admissible p \<Longrightarrow> good (snd (recorded L p K))"
    and fails: "\<not> working v \<Longrightarrow> \<exists>e. call v p d = (Inl e, d)"
begin

lemma after_call:
  "good K \<Longrightarrow> admissible p \<Longrightarrow> snd (call v p (content K)) = content (if working v then snd (recorded L p K) else K)"
  using answers [of K p v] fails [of v p "content K"] by (cases "working v") auto

lemma history:
  assumes "good K" "\<forall>(v, p) \<in> set ps. admissible p"
  shows "after_calls call ps (content K) = content (records L ps K) \<and> good (records L ps K)"
  using assms
proof (induction ps arbitrary: K)
  case (Cons q ps)
  obtain v p where q: "q = (v, p)" by fastforce
  have "good (if working v then snd (recorded L p K) else K)"
    using Cons.prems keeps [of K p] by (simp add: q)
  from Cons.IH [OF this] show ?case using Cons.prems after_call [of K p v] by (simp add: q)
qed simp

lemma next_call:
  assumes "good K" "\<forall>(v, p) \<in> set ps. admissible p" "admissible p"
  shows "if working v then call v p (after_calls call ps (content K)) = apsnd content (recorded L p (records L ps K))
    else \<exists>e. call v p (after_calls call ps (content K)) = (Inl e, after_calls call ps (content K))"
  using history [OF assms(1,2)] answers [OF _ assms(3), of "records L ps K" v] fails [of v p] by simp

end

text \<open>The SQLite store is such a store, for libraries that are faithful on the texts \<open>T\<close>.\<close>

definition admitted :: "libs \<Rightarrow> string set \<Rightarrow> op \<Rightarrow> bool" where
  "admitted L T p \<longleftrightarrow> valid_op p \<and> storable p \<and> set (hashed L p) \<subseteq> T"

interpretation sq: catalogue_store "call_op L" L "store_of L" "\<lambda>K. faithful L T \<and> kept L T K" "admitted L T" for L T
  by unfold_locales (auto simp: admitted_def intro: call_kept recorded_kept call_broken)

lemma exec_ops_after: "exec_ops L ps d = after_calls (call_op L) ps d"
  by (induction ps arbitrary: d) (auto simp: call_exec)

subsection \<open>The properties\<close>

text \<open>C2 The SQLite store keeps the protocol \<open>MetadataStore\<close> of \<open>contract/stores.py\<close> on every history without a new key
  for an object that exists: after any such history of valid calls, some of which may have found the store broken, its
  content is the content of the catalogue that the calls which found it working promise; the next call on a working
  store answers exactly as promised and leaves the promised content, and on a broken one it fails and changes nothing.
  The catalogue compares objects by content, the store by fingerprint. What the store does with a new key for an
  object that exists is \<open>new_key_for_old_object_is_forgotten\<close>.\<close>

theorem store_refines_catalogue:
  assumes "\<forall>(v, p) \<in> set ps. admitted L T p" "admitted L T p" "faithful L T"
    and "honoured L (ps @ [(v, p)]) empty_catalogue"
  shows "exec_ops L ps empty_db = store_of L (promises L ps empty_catalogue) \<and>
    (if working v then call_op L v p (exec_ops L ps empty_db) = apsnd (store_of L) (promise L p (promises L ps empty_catalogue))
     else \<exists>e. call_op L v p (exec_ops L ps empty_db) = (Inl e, exec_ops L ps empty_db))"
proof -
  have h: "records L ps empty_catalogue = promises L ps empty_catalogue"
    "working v \<Longrightarrow> recorded L p (promises L ps empty_catalogue) = promise L p (promises L ps empty_catalogue)"
    using assms(4) by (simp_all add: honoured_append records_honoured recorded_honoured)
  show ?thesis
    using sq.history [of L T empty_catalogue ps, unfolded store_of_empty]
      sq.next_call [of L T empty_catalogue ps p v, unfolded store_of_empty] assms(1-3)
    unfolding exec_ops_after h(1) by (cases "working v") (simp_all add: kept_empty h(2))
qed

lemma admitted_samples:
  "admitted plain_libs UNIV (CreateExperiment (Some ''k'') experiment_1)"
  "admitted plain_libs UNIV (CreateRun (Some ''k'') run_1)"
  "admitted plain_libs UNIV (AppendEvidence evidence_1)"
  "admitted plain_libs UNIV (CloseRun ''run_1'' FAILED noon)"
  "admitted plain_libs UNIV (RegisterArtifact (Some ''k'') (Some ''hsa'') artifact_1)"
  by (simp_all add: admitted_def) (simp_all add: evidence_1_def evidence_after_eq raw_evidence_def artifact_1_def int64_def)

lemma faithful_plain: "faithful plain_libs UNIV"
  by (simp add: faithful_def plain_libs_def) (simp add: plain_libs_def [symmetric])

definition some_calls :: "(env \<times> op) list" where
  "some_calls = [(all_up, CreateExperiment (Some ''k'') experiment_1), (all_up\<lparr>commits := False\<rparr>, AppendEvidence evidence_1),
     (all_up, CreateRun (Some ''k'') run_1), (all_up, AppendEvidence evidence_1)]"

lemma honoured_calls: "honoured plain_libs (some_calls @ [(all_up, CloseRun i st t)]) empty_catalogue"
  by (simp add: some_calls_def rekeys_experiment_def rekeyed_def named_entry_def under_def empty_catalogue_def)

theorem store_refines_catalogue_witness:
  "exec_ops plain_libs some_calls empty_db = store_of plain_libs (promises plain_libs some_calls empty_catalogue) \<and>
    (if working all_up
     then call_op plain_libs all_up (CloseRun ''run_1'' FAILED noon) (exec_ops plain_libs some_calls empty_db) =
       apsnd (store_of plain_libs) (promise plain_libs (CloseRun ''run_1'' FAILED noon) (promises plain_libs some_calls empty_catalogue))
     else \<exists>e. call_op plain_libs all_up (CloseRun ''run_1'' FAILED noon) (exec_ops plain_libs some_calls empty_db) =
       (Inl e, exec_ops plain_libs some_calls empty_db))"
  by (rule store_refines_catalogue [OF _ _ faithful_plain honoured_calls]) (simp_all add: some_calls_def admitted_samples)

text \<open>C26 A new key for an experiment that exists is accepted and ignored, which \<open>contract/stores.py\<close> forbids: the second
  creation, with the same id and content under a key of its own, is answered with the stored experiment and nothing is
  recorded; a later creation of another experiment under that key is stored as new, where the protocol demands a
  conflict.\<close>

theorem new_key_for_old_experiment_is_forgotten:
  assumes "\<forall>(v, p) \<in> set ps. admitted L T p" "honoured L ps empty_catalogue" "faithful L T" "working v" "working w"
    and "admitted L T (CreateExperiment (Some k) x)" "admitted L T (CreateExperiment (Some k) x')"
    and "rekeys_experiment (Some k) x (promises L ps empty_catalogue)"
    and "promise L (CreateExperiment (Some k) x) (promises L ps empty_catalogue) = (r, K)"
    and "ex_producer x' = ex_producer x" "content_experiment x' \<noteq> content_experiment x"
    and "named_entry ex_experiment_id (ct_experiments (promises L ps empty_catalogue)) (ex_experiment_id x') = None"
  shows "call_op L v (CreateExperiment (Some k) x) (exec_ops L ps empty_db) = (r, exec_ops L ps empty_db) \<and> (\<exists>y. r = Inr y) \<and>
    fst (call_op L w (CreateExperiment (Some k) x') (exec_ops L ps empty_db)) = Inr (AExperiment x') \<and>
    fst (promise L (CreateExperiment (Some k) x') K) = raise_cer IdempotencyConflictError"
proof -
  let ?K = "promises L ps empty_catalogue" and ?d = "exec_ops L ps empty_db" and ?p = "ex_producer x"
  let ?submit = "submit ex_experiment_id (\<lambda>a b. content_experiment a = content_experiment b)
    (\<lambda>a b. content_experiment a = content_experiment b) id (Some (?p, k))"
  have d: "?d = store_of L ?K"
    using sq.history [of L T empty_catalogue ps] assms(1,3)
    unfolding exec_ops_after store_of_empty records_honoured [OF assms(2)] by (simp add: kept_empty)
  have calls: "call_op L u q ?d = apsnd (store_of L) (recorded L q ?K)" if "admitted L T q" "working u" for u q
    using sq.next_call [of L T empty_catalogue ps q u] assms(1,3) that
    unfolding exec_ops_after store_of_empty records_honoured [OF assms(2)] by (simp add: kept_empty)
  have "recorded L (CreateExperiment (Some k) x) ?K = (r, ?K)"
    using assms(8,9) by (simp add: recorded_def settled_def del: promise.simps)
  then have first: "call_op L v (CreateExperiment (Some k) x) ?d = (r, ?d)"
    using calls [OF assms(6,4)] d by (simp del: call_op.simps)
  have miss: "keyed_entry (ct_experiments ?K) ?p k = None"
    using assms(8) by (simp add: rekeys_experiment_def rekeyed_def under_def)
  obtain y es where s: "?submit x (ct_experiments ?K) = (Inr y, es)"
    using assms(8) by (auto simp: rekeys_experiment_def rekeyed_def under_def submit_def split: option.splits)
  then have K: "K = ?K\<lparr>ct_experiments := es\<rparr>" "r = Inr (AExperiment y)"
    using assms(9) by (auto simp: promised_create_experiment_def under_def)
  obtain n :: "experiment_record entry" where "?submit x' es = (if content_experiment x = content_experiment x' then Inr (en_now n)
      else raise_cer IdempotencyConflictError, es)"
    by (rule submit_replay [OF s miss, of x'])
  then have "fst (promise L (CreateExperiment (Some k) x') K) = raise_cer IdempotencyConflictError"
    using assms(10,11) by (simp add: promised_create_experiment_def under_def K(1) raise_cer_def)
  moreover have "fst (promise L (CreateExperiment (Some k) x') ?K) = Inr (AExperiment x')"
    using assms(10,12) miss by (simp add: promised_create_experiment_def under_def submit_def)
  then have "fst (call_op L w (CreateExperiment (Some k) x') ?d) = Inr (AExperiment x')"
    using calls [OF assms(7,5)] by (simp add: recorded_def settled_def del: promise.simps call_op.simps)
  ultimately show ?thesis using first K(2) by simp
qed

definition experiment_2 :: experiment_record where
  "experiment_2 = experiment_1\<lparr>ex_experiment_id := ''exp_2'', ex_objective := ''another''\<rparr>"

lemma valid_experiment_2: "valid_experiment experiment_2"
  by (simp add: valid_experiment_def typed_experiment_def mk_experiment_def construct_ok experiment_2_def experiment_1_def text_eval)

theorem new_key_for_old_experiment_is_forgotten_witness:
  "fst (call_op plain_libs all_up (CreateExperiment (Some ''k2'') experiment_2)
     (exec_ops plain_libs [(all_up, CreateExperiment (Some ''k'') experiment_1)] empty_db)) = Inr (AExperiment experiment_2)"
proof -
  let ?ps = "[(all_up, CreateExperiment (Some ''k'') experiment_1)]"
  have w: "working all_up" by (simp add: working_def all_up_def)
  have K: "promises plain_libs ?ps empty_catalogue = empty_catalogue\<lparr>ct_experiments :=
      [\<lparr>en_key = Some (ex_producer experiment_1, ''k''), en_sent = experiment_1, en_now = experiment_1, en_more = []\<rparr>]\<rparr>"
    using w by (simp add: promised_create_experiment_def submit_def under_def keyed_entry_def named_entry_def empty_catalogue_def)
  have a: "admitted plain_libs UNIV (CreateExperiment key experiment_1)" "admitted plain_libs UNIV (CreateExperiment key experiment_2)" for key
    using valid_experiment_2 by (simp_all add: admitted_def)
  obtain r K' where p: "promise plain_libs (CreateExperiment (Some ''k2'') experiment_1) (promises plain_libs ?ps empty_catalogue) = (r, K')"
    by (metis prod.collapse)
  have h: "\<forall>(v, p) \<in> set ?ps. admitted plain_libs UNIV p" "honoured plain_libs ?ps empty_catalogue"
    using a by (simp_all add: w rekeys_experiment_def rekeyed_def named_entry_def under_def empty_catalogue_def)
  have c: "rekeys_experiment (Some ''k2'') experiment_1 (promises plain_libs ?ps empty_catalogue)"
      "named_entry ex_experiment_id (ct_experiments (promises plain_libs ?ps empty_catalogue)) (ex_experiment_id experiment_2) = None"
    unfolding K by (simp_all add: rekeys_experiment_def rekeyed_def keyed_entry_def sent_under_def named_entry_def under_def
        experiment_2_def) (simp add: experiment_1_def)
  have e: "ex_producer experiment_2 = ex_producer experiment_1" "content_experiment experiment_2 \<noteq> content_experiment experiment_1"
    by (simp_all add: experiment_2_def content_experiment_def experiment_1_def)
  from new_key_for_old_experiment_is_forgotten [OF h faithful_plain w w a c(1) p e c(2)] show ?thesis by simp
qed

text \<open>C10 Every read of a working store after any history answers as the catalogue of the recorded calls promises (the
  catalogue all calls promise, on a history without a new key for an object that exists): an object is found by its id
  or by its producer and key and reads as it stands in the catalogue, and a query returns the page of the objects that
  pass its filters, newest first by the instant, ties by the id, whatever text the database orders by.\<close>

theorem reads_refine_catalogue:
  assumes "\<forall>(v, p) \<in> set ps. admitted L T p" "faithful L T" "healthy v" "aware (f_since f)" "aware (f_until f)"
    and "int64 (Integer limit)" "int64 (Integer offset)"
  shows "get_evidence v i (exec_ops L ps empty_db) = promised_get_evidence i (records L ps empty_catalogue) \<and>
    get_artifact v i (exec_ops L ps empty_db) = promised_get_artifact i (records L ps empty_catalogue) \<and>
    find_artifact_by_idempotency_key v p k (exec_ops L ps empty_db) = promised_find_artifact p k (records L ps empty_catalogue) \<and>
    query_evidence v f limit offset (exec_ops L ps empty_db) =
      Inr (promised_query_evidence f limit offset (records L ps empty_catalogue)) \<and>
    query_artifacts v a b limit offset (exec_ops L ps empty_db) =
      Inr (promised_query_artifacts a b limit offset (records L ps empty_catalogue)) \<and>
    query_promotions v a b limit offset (exec_ops L ps empty_db) =
      Inr (promised_query_promotions a b limit offset (records L ps empty_catalogue)) \<and>
    query_health v a b limit offset (exec_ops L ps empty_db) =
      Inr (promised_query_health a b limit offset (records L ps empty_catalogue))"
proof -
  have "exec_ops L ps empty_db = store_of L (records L ps empty_catalogue)" "kept L T (records L ps empty_catalogue)"
    using sq.history [of L T empty_catalogue ps] assms(1,2) by (simp_all add: exec_ops_after store_of_empty kept_empty)
  then show ?thesis
    using assms(3-7) get_evidence_kept get_artifact_kept find_artifact_kept query_evidence_kept query_artifacts_kept
      query_promotions_kept query_health_kept by simp
qed

theorem reads_refine_catalogue_witness:
  "get_evidence all_up ''ev_1'' (exec_ops plain_libs some_calls empty_db) =
      promised_get_evidence ''ev_1'' (records plain_libs some_calls empty_catalogue) \<and>
    get_artifact all_up ''ev_1'' (exec_ops plain_libs some_calls empty_db) =
      promised_get_artifact ''ev_1'' (records plain_libs some_calls empty_catalogue) \<and>
    find_artifact_by_idempotency_key all_up ''hsa'' ''k'' (exec_ops plain_libs some_calls empty_db) =
      promised_find_artifact ''hsa'' ''k'' (records plain_libs some_calls empty_catalogue) \<and>
    query_evidence all_up (no_filter\<lparr>f_since := Some noon\<rparr>) 100 0 (exec_ops plain_libs some_calls empty_db) =
      Inr (promised_query_evidence (no_filter\<lparr>f_since := Some noon\<rparr>) 100 0 (records plain_libs some_calls empty_catalogue)) \<and>
    query_artifacts all_up None (Some ''run_1'') 100 0 (exec_ops plain_libs some_calls empty_db) =
      Inr (promised_query_artifacts None (Some ''run_1'') 100 0 (records plain_libs some_calls empty_catalogue)) \<and>
    query_promotions all_up None (Some ''run_1'') 100 0 (exec_ops plain_libs some_calls empty_db) =
      Inr (promised_query_promotions None (Some ''run_1'') 100 0 (records plain_libs some_calls empty_catalogue)) \<and>
    query_health all_up None (Some ''run_1'') 100 0 (exec_ops plain_libs some_calls empty_db) =
      Inr (promised_query_health None (Some ''run_1'') 100 0 (records plain_libs some_calls empty_catalogue))"
  by (rule reads_refine_catalogue [OF _ faithful_plain])
     (simp_all add: some_calls_def admitted_samples no_filter_def aware_def unless_def int64_def)

end
