(* ===== verification/RegistryContract.thy ===== *)
theory RegistryContract
  imports FsProps
begin

text \<open>
  What an artifact store promises (\<open>ArtifactStore\<close> in \<open>src/cer/contract/stores.py\<close>) as operations on a registry of
  records with their bytes, and that the file system store keeps it: a put under every fault, the reads on a store
  that is there.
\<close>

type_synonym registrations = "string \<Rightarrow> (artifact \<times> bytes) option"

text \<open>The record of a new registration, its id, its uri and its time, is the store's choice.\<close>

definition promised_put ::
    "(bytes \<Rightarrow> string) \<Rightarrow> string option \<Rightarrow> artifact \<Rightarrow> bytes \<Rightarrow> registrations \<Rightarrow> (exn + artifact) \<times> registrations" where
  "promised_put digest_of declared a data R =
     (case declared of
        Some s \<Rightarrow> if py_lower s \<noteq> digest_of data then (raise_cer ChecksumMismatchError, R)
          else (Inr a, R(ar_artifact_id a \<mapsto> (a, data)))
      | None \<Rightarrow> (Inr a, R(ar_artifact_id a \<mapsto> (a, data))))"

definition promised_bytes :: "string \<Rightarrow> registrations \<Rightarrow> exn + bytes" where
  "promised_bytes i R = (case R i of None \<Rightarrow> raise_cer NotFoundError | Some (a, b) \<Rightarrow> Inr b)"

definition promised_stat :: "string \<Rightarrow> registrations \<Rightarrow> exn + artifact" where
  "promised_stat i R = (case R i of None \<Rightarrow> raise_cer NotFoundError | Some (a, b) \<Rightarrow> Inr a)"

definition promised_exists :: "string \<Rightarrow> registrations \<Rightarrow> bool" where
  "promised_exists i R = (R i \<noteq> None)"

lemma put_checked_digest: "put_checks C data ct fn (Some s) = Inr () \<Longrightarrow> py_lower s = sha256 C data"
  by (auto simp: put_checks_def raise_cer_def split: if_splits)

lemma put_as_promised:
  assumes "libs_ok C" "sound_store C w" "utc_pydt (now ch)"
    and "\<And>i. new_artifact_id (uuid_hex ch) = Inr i \<Longrightarrow> visible (files w) [''index'', i @ ''.json''] = None"
    and p: "put C ch data ct fn declared w = (Done r, w')"
  shows "case r of
      Inr a \<Rightarrow> new_record C ch data ct fn = Inr a \<and>
        (r, the_registry C w') = promised_put (sha256 C) declared a data (the_registry C w)
    | Inl e \<Rightarrow> the_registry C w' = the_registry C w \<or> (\<exists>a. new_record C ch data ct fn = Inr a \<and>
        the_registry C w' = snd (promised_put (sha256 C) None a data (the_registry C w)))"
proof (cases r)
  case (Inl e)
  with put_end [OF assms] show ?thesis by (auto simp: promised_put_def)
next
  case (Inr a)
  with p have c: "put_checks C data ct fn declared = Inr ()"
    by (auto simp: put_def io_bind_def io_lift_def split: sum.splits)
  from put_end [OF assms] Inr show ?thesis
    using put_checked_digest [of C data ct fn] c by (auto simp: promised_put_def split: option.split)
qed

lemma unregistered_file:
  assumes "sound_store C w" "safe_artifact_id i = Inr i" "the_registry C w i = None"
    and "files w [''index'', i @ ''.json''] \<noteq> Some Dir"
  shows "files w [''index'', i @ ''.json''] = None"
proof -
  have "visible (files w) [''index'', i @ ''.json''] = None"
    using assms(1-3) sound_sidecar [of C "visible (files w)" i]
    by (cases "visible (files w) [''index'', i @ ''.json'']")
       (auto simp: sound_store_def the_registry_def registry_def good_sidecar_def)
  then show ?thesis using assms(4)
    by (simp add: visible_def sidecar_not_scratch file_at_def split: option.splits node.splits)
qed

lemma reads_as_promised:
  assumes s: "sound_store C w" and w: "script w = []" "layout (files w)" and i: "id_ok i"
    and dir: "files w [''index'', i @ ''.json''] \<noteq> Some Dir"
  shows "stat C i w = (Done (promised_stat i (the_registry C w)), w) \<and>
    get C i w = (Done (promised_bytes i (the_registry C w)), w) \<and>
    exists_artifact i w = (Done (Inr (promised_exists i (the_registry C w))), w)"
proof -
  have t: "tree (files w)" using s by (simp add: sound_store_def)
  have safe: "safe_artifact_id i = Inr i" using i by (simp add: id_ok_def)
  have ex: "exists_artifact i w = (Done (Inr (files w [''index'', i @ ''.json''] \<noteq> None)), w)"
    using path_is_works [OF w(1) t index_short [OF i], of "\<lambda>n. n \<noteq> Dir"] w(2) dir
    by (auto simp: exists_artifact_def sidecar_path_def safe index_dir_def is_file_def catch_os_def layout_def split: option.splits)
  show ?thesis
  proof (cases "the_registry C w i")
    case None
    note f = unregistered_file [OF s safe None dir]
    have "stat C i w = (Done (raise_cer NotFoundError), w)"
      using stat_unknown [OF w(1) t w(2) i f] by (simp add: raise_cer_def)
    moreover from this have "get C i w = (Done (raise_cer NotFoundError), w)"
      by (simp add: get_def io_bind_def raise_cer_def)
    ultimately show ?thesis using ex f None by (simp add: promised_stat_def promised_bytes_def promised_exists_def)
  next
    case (Some x)
    obtain a b where x: "x = (a, b)" by fastforce
    have "visible (files w) [''index'', i @ ''.json''] \<noteq> None"
      using Some by (auto simp: the_registry_def registry_def split: if_splits option.splits)
    then have "files w [''index'', i @ ''.json''] \<noteq> None"
      by (auto simp: visible_def file_at_def split: if_splits option.splits)
    then show ?thesis using stat_works [OF s Some [unfolded x] w(1) i] ex Some
      by (simp add: x promised_stat_def promised_bytes_def promised_exists_def)
  qed
qed

text \<open>C11 The file system store keeps the promises of the protocol \<open>ArtifactStore\<close>. Whatever faults a put meets, an
  acknowledged put is the promised registration, with a declared digest that matches; one that fails registers
  nothing or, unacknowledged, the new artifact whole. After any further calls, restarts, faults and process deaths, a
  store that is there and works again answers every lookup of an id as the registry promises, a miss included.\<close>

theorem artifact_store_keeps_protocol:
  assumes "libs_ok C" "sound_store C w" "utc_pydt (now ch)"
    and "\<And>i. new_artifact_id (uuid_hex ch) = Inr i \<Longrightarrow> visible (files w) [''index'', i @ ''.json''] = None"
    and "put C ch data ct fn declared w = (Done r, w1)" "(fs_step C)\<^sup>*\<^sup>* w1 w2"
    and "script w2 = []" "layout (files w2)" "id_ok i" "files w2 [''index'', i @ ''.json''] \<noteq> Some Dir"
  shows "(case r of
      Inr a \<Rightarrow> new_record C ch data ct fn = Inr a \<and>
        (r, the_registry C w1) = promised_put (sha256 C) declared a data (the_registry C w)
    | Inl e \<Rightarrow> the_registry C w1 = the_registry C w \<or> (\<exists>a. new_record C ch data ct fn = Inr a \<and>
        the_registry C w1 = snd (promised_put (sha256 C) None a data (the_registry C w)))) \<and>
    stat C i w2 = (Done (promised_stat i (the_registry C w2)), w2) \<and>
    get C i w2 = (Done (promised_bytes i (the_registry C w2)), w2) \<and>
    exists_artifact i w2 = (Done (Inr (promised_exists i (the_registry C w2))), w2)"
proof -
  have "sound_store C w1" using put_end [OF assms(1-5)] by blast
  then have "sound_store C w2" using fs_history_sound [OF assms(6,1)] by blast
  from put_as_promised [OF assms(1-5)] reads_as_promised [OF this assms(7-10)] show ?thesis by blast
qed

lemma store_1_there:
  "files store_1 = (blob_done (blob_path (digest ''abc'')) ''abc'' fresh_files)
     ([''index'', ''art_01.json''] \<mapsto> File (to_json plain_cfg record_1))"
proof -
  have "sha256 plain_cfg = digest" by (simp add: plain_cfg_def)
  with put_works(2) [of store_0 plain_cfg "''abc''" "''text/csv''" "''a.csv''" None chances_1 record_1, OF _ _ _ plain_cfg_ok checks_1]
    room_1 new_record_1 id_ok_1 blob_free
  show ?thesis by (simp add: store_0_def store_1_def record_1_def)
qed

lemma layout_store_1: "layout (files store_1)"
proof -
  have "blob_done (blob_path h) b fresh_files q = fresh_files q"
    if "fresh_files q \<noteq> None" "q \<noteq> blob_path h" for q h b
    using that by (auto simp: blob_done_def make_dirs_def)
  moreover have "q \<noteq> blob_path h" if "q \<in> {[], [''blobs''], [''index''], [''store.json'']}" for q h
    using that by (auto simp: blob_path_def blobs_dir_def)
  ultimately have "blob_done (blob_path h) b fresh_files q = fresh_files q"
    if "q \<in> {[], [''blobs''], [''index''], [''store.json'']}" for q h b
    using that by (auto simp: fresh_files_def root_dir_def blobs_dir_def index_dir_def marker_path_def)
  then show ?thesis using layout_fresh
    by (simp add: store_1_there layout_def root_dir_def blobs_dir_def index_dir_def marker_path_def)
qed

theorem artifact_store_keeps_protocol_witness:
  "(Inr record_1, the_registry plain_cfg store_1) =
     promised_put digest None record_1 ''abc'' (the_registry plain_cfg store_0) \<and>
   stat plain_cfg ''art_01'' store_1 = (Done (promised_stat ''art_01'' (the_registry plain_cfg store_1)), store_1)"
  using artifact_store_keeps_protocol [OF plain_cfg_ok sound_store_0 utc_chances_1 _ conjunct1 [OF put_1] rtranclp.rtrancl_refl
      conjunct2 [OF put_1] layout_store_1 id_ok_1]
  by (simp add: store_1_there store_0_def visible_fresh marker_path_def) (simp add: plain_cfg_def)

end
