(* ===== verification/Spec2Isabelle.thy ===== *)
theory Spec2Isabelle
  imports HistoryProps QueryProps RouteProps Application Launch CatalogueProps RegistryContract
begin

text \<open>
  The Canonical Evidence Registry (CER): a service that records empirical evidence about trading
  strategies (experiments, runs, evidence records, artifacts, promotions, health observations) once and
  for ever. The implementation is the Python package \<open>src/cer/\<close>; this library models it as functions of
  explicit state and proves what makes it an authoritative registry.

  \<^bold>\<open>The program.\<close> The API (\<open>api/routes.py\<close> with \<open>api/schemas.py\<close>) parses a request, builds contract objects
  (\<open>contract/models.py\<close>, over \<open>contract/enums.py\<close>, \<open>contract/identity.py\<close>, \<open>contract/version.py\<close> and
  \<open>runtime/clock.py\<close>) and calls two stores: the SQLite metadata store (\<open>metadata/sqlite_store.py\<close>, its schema
  set up by \<open>metadata/migrations.py\<close>) and the file system artifact store (\<open>artifacts/fs_store.py\<close>). Exceptions
  of \<open>contract/errors.py\<close> become HTTP responses in \<open>api/errors.py\<close> and exceptions again in \<open>client.py\<close>.
  \<open>api/main.py\<close> reads the configuration (\<open>runtime/config.py\<close>), installs logging (\<open>runtime/logging.py\<close>), opens both
  stores, decides whether the artifact store may be created, and serves \<open>create_app\<close> of \<open>api/app.py\<close>.

  \<^bold>\<open>The theories.\<close>
  \<^item> \<open>Prelude\<close>, \<open>PyText\<close>, \<open>PyTime\<close>, \<open>PyJson\<close>: results of fallible calls (\<open>Inl\<close> is a raise), \<open>str\<close> methods on
    Latin-1 text, \<open>datetime\<close> with \<open>to_utc\<close> and the stored text form, canonical JSON with its reader. \<open>PyTime\<close> shows
    that stored timestamps read back exactly and sort chronologically, \<open>PyJson\<close> that canonical text determines a
    value.
  \<^item> \<open>Errors\<close>, \<open>Enums\<close>, \<open>Version\<close>, \<open>Identity\<close>, \<open>Models\<close>: the contract layer, one record and one validating constructor
    (\<open>mk_...\<close>) per pydantic class. \<open>Valid\<close> says what a constructed object satisfies.
  \<^item> \<open>Sql\<close>, \<open>Rows\<close>, \<open>Fingerprint\<close>, \<open>MetaStore\<close>: the database as a map from tables to lists of rows with the schema's
    constraints; the encoding of each object as a row; the content fingerprint; every operation of
    \<open>SQLiteMetadataStore\<close>, the body of its transaction as \<open>..._tx\<close>. \<open>env\<close> is what the file system and SQLite do
    during a call.
  \<^item> \<open>StoreInv\<close>, \<open>StoreFacts\<close>, \<open>StoreOps\<close>, \<open>Idempotency\<close>, \<open>StoreErrors\<close>: the invariant \<open>wf_db\<close> (keys unique, references
    intact, every row the row of a valid object with the right fingerprint) and that each operation is a step that
    keeps it; histories of calls (\<open>exec_ops\<close>); the locale \<open>keyed_create\<close>, the contract the six keyed
    operations share, interpreted for each. \<open>StoreProps\<close>, \<open>HistoryProps\<close>, \<open>QueryProps\<close> hold the properties.
  \<^item> \<open>Catalogue\<close>: what \<open>contract/stores.py\<close> promises of a metadata store, as operations on a catalogue of contract
    objects: one \<open>promised_...\<close> per method of the protocol, the five semantics of its docstring in \<open>submit\<close>, \<open>known\<close> and
    \<open>promised_get\<close>. \<open>CatalogueRefine\<close> gives the database content a catalogue stands for (\<open>store_of\<close>), \<open>CatalogueOps\<close>
    and \<open>CatalogueReads\<close> one simulation lemma per operation of \<open>MetaStore\<close>, and \<open>CatalogueProps\<close> the locale
    \<open>catalogue_store\<close> (a store that records its calls one by one records every history), interpreted on the SQLite
    store. The store breaks one promise: a new key for an object that exists (\<open>rekeys\<close>) is answered but not recorded.
    Histories without one are \<open>honoured\<close>: on them the store refines the catalogue (writes); a property of its own shows
    what is lost otherwise; the reads are those of the recorded calls (\<open>records\<close>).
  \<^item> \<open>FsDisk\<close>, \<open>FsStore\<close>: the file system below the store's root with the calls of \<open>os\<close> and \<open>pathlib\<close> the store
    makes, each with a fate (works, raises, the process dies in it) from a script; every method of
    \<open>FilesystemArtifactStore\<close>. \<open>FsInv\<close> and \<open>FsRefine\<close> prove, for every script, that the store implements an
    abstract registry of (record, bytes) pairs; \<open>FsFacts\<close> says what it does on a disk that works or is gone;
    \<open>ArtifactContract\<close> states the interface of \<open>contract/stores.py\<close> as the locale \<open>artifact_store\<close> and interprets it.
    \<open>FsProps\<close> holds the properties; \<open>RegistryContract\<close> states the four operations of the protocol \<open>ArtifactStore\<close> on that
    registry (\<open>promised_put\<close> and the three reads) and proves that the store keeps them.
  \<^item> \<open>Routes\<close>, \<open>HttpErrors\<close>, \<open>RouteFacts\<close>, \<open>RouteProps\<close>: the handlers over both stores (\<open>post_...\<close>, \<open>get_...\<close>), the
    mapping of exceptions to responses and back, and what a producer observes end to end.
  \<^item> \<open>Schemas\<close>, \<open>Server\<close>: the request bodies as readers of a JSON object; the routing table, what each route reads of
    a request, the contract-version dependency, and one request from its path to its reply (\<open>serve\<close>).
  \<^item> \<open>Client\<close>: the request each method of \<open>CERClient\<close> sends and what it makes of the reply. \<open>ClientFacts\<close> names the
    operation a call stands for (\<open>perform\<close>) and shows that the server reads back what the client wrote, field by field;
    \<open>Answers\<close> that every answer is a valid object; \<open>ClientProps\<close> holds the properties: client and server together are
    the operation. \<open>Application\<close> adds the middleware: the request id of a response and what is logged for it.
  \<^item> \<open>Startup\<close>, \<open>Migrations\<close>, \<open>Config\<close>, \<open>Logging\<close>: the decision about the artifact store, the migration runner,
    \<open>load_settings\<close>, log records and the handler, each with its properties. \<open>Launch\<close> composes them into the
    whole start of a process.
  \<^item> \<open>Samples\<close>, \<open>FsSamples\<close>, \<open>RouteSamples\<close>: concrete objects for the witnesses.

  \<^bold>\<open>Parameters.\<close> Code outside the repository is an argument: SHA-256 and the text pydantic gives a datetime (\<open>libs\<close>,
  \<open>fs_cfg\<close>), \<open>uuid5\<close> and \<open>uuid4\<close> (\<open>api_cfg\<close>, \<open>moment\<close>, \<open>chances\<close>), the clock, SQLite's success or failure (\<open>env\<close>, \<open>engine\<close>),
  the fates of system calls (\<open>script\<close>), pydantic's lax conversions and what HTTP does to a header and a path
  (\<open>framework\<close>), the machine a process starts on (\<open>launcher\<close>). Named hypotheses state documented behaviour of them:
  \<open>no_collision\<close> (two given texts do not collide under SHA-256; \<open>faithful\<close> for the texts a history hashes), \<open>times_distinct\<close> (different UTC datetimes have
  different texts), \<open>libs_ok\<close> (a hex digest has 64 lower-case hex digits, and an artifact's JSON reads back),
  \<open>arrives\<close> (the path and the header values of a request reach the server unchanged), \<open>deliverable\<close> (the datetimes and
  numbers of a call are read back from their text).
  A call of the metadata store is one step: \<open>BEGIN IMMEDIATE\<close> serialises writers. A digest in the file system
  store is taken as the identity of a blob's path, and equal digests of different bytes are an outcome of the model
  (an immutability error), not excluded.

  \<^bold>\<open>Bounds.\<close> \<open>json_loads\<close> stands for Python's reader on the texts the store writes, the only ones it reads: it has fuel, the length
  of its input plus one, enough for each of them (\<open>json_loads_show\<close>); whitespace, \<open>NaN\<close> and Python's limit on nesting
  are not in the model. Integers bound to SQL parameters are checked against 64 bits where the code binds them.
  Texts are Latin-1; a code point beyond it has no counterpart.

  \<^bold>\<open>What is not modelled.\<close> Starlette's matching is the one line \<open>find_route\<close>; the decoding of a body that is no JSON (refused with 422 before any dependency, the version gate included),
  the order in which FastAPI reports several faults of one request, and the JSON text of an answer are the framework's
  (a refused request is \<open>RequestValidationError\<close>, an answer is its object). Messages of exceptions; the lines that the start
  of the service logs (a line itself is in \<open>Logging\<close>); uvicorn; opening and closing the client's connection; the text of the
  migration scripts; threads within one call; symbolic links and foreign writers below the artifact root. The
  protocols of \<open>contract/stores.py\<close> have no bodies; what they promise is \<open>Catalogue\<close>, \<open>RegistryContract\<close> and the locales
  \<open>keyed_create\<close>, \<open>artifact_store\<close> and \<open>catalogue_store\<close>.
\<close>

end
